(* ===== verification/F3_Prelude.thy ===== *)
theory F3_Prelude
  imports Complex_Main "HOL-Library.Word" "HOL-Library.Monad_Syntax"
begin

text \<open>
  The vocabulary the components share: the C integer types, the constants of the Linux headers
  the sources use (\<^verbatim>\<open>errno.h\<close>, \<^verbatim>\<open>fcntl.h\<close>, \<^verbatim>\<open>sys/stat.h\<close>), the C string functions of the
  standard library the sources call, and the generic facts on options, lists and words that the
  component proofs use.
\<close>

unbundle bit_operations_syntax

section \<open>Machine types\<close>

text \<open>
  \<open>u64\<close> is \<open>size_t\<close>, \<open>uint64_t\<close>, \<open>ino_t\<close> and \<open>dev_t\<close>; \<open>off_t\<close> and \<open>long\<close> are the same 64 bits read
  with \<^const>\<open>sint\<close>. \<open>u32\<close> is \<open>unsigned\<close>, \<open>mode_t\<close>, \<open>uid_t\<close> and flag words. A file descriptor and
  an \<open>errno\<close> value are C \<open>int\<close>s that never leave their range, so they are \<^typ>\<open>int\<close>. Strings and
  memory are bytes, i.e. \<^typ>\<open>char\<close>.
\<close>

type_synonym u64 = "64 word"
type_synonym u32 = "32 word"
type_synonym fdesc = int
type_synonym errno = int
type_synonym addr = nat

named_theorems frame_simps \<open>which parts of the state an operation leaves alone\<close>
named_theorems const_defs \<open>values of the constants of the Linux headers\<close>

section \<open>Constants of the Linux headers\<close>

definition ENOENT :: errno where [const_defs]: "ENOENT = 2"
definition EINTR :: errno where [const_defs]: "EINTR = 4"
definition EIO :: errno where [const_defs]: "EIO = 5"
definition EAGAIN :: errno where [const_defs]: "EAGAIN = 11"
definition ENOMEM :: errno where [const_defs]: "ENOMEM = 12"
definition EACCES :: errno where [const_defs]: "EACCES = 13"
definition ENODEV :: errno where [const_defs]: "ENODEV = 19"
definition EINVAL :: errno where [const_defs]: "EINVAL = 22"
definition ENFILE :: errno where [const_defs]: "ENFILE = 23"
definition EMFILE :: errno where [const_defs]: "EMFILE = 24"
definition ENOTTY :: errno where [const_defs]: "ENOTTY = 25"
definition ERANGE :: errno where [const_defs]: "ERANGE = 34"
definition ENAMETOOLONG :: errno where [const_defs]: "ENAMETOOLONG = 36"
definition ENOSYS :: errno where [const_defs]: "ENOSYS = 38"
definition ENODATA :: errno where [const_defs]: "ENODATA = 61"
definition EPROTO :: errno where [const_defs]: "EPROTO = 71"
definition EOPNOTSUPP :: errno where [const_defs]: "EOPNOTSUPP = 95"
definition ENOTSUP :: errno where [const_defs]: "ENOTSUP = 95"
definition ENOTCONN :: errno where [const_defs]: "ENOTCONN = 107"
definition ECONNREFUSED :: errno where [const_defs]: "ECONNREFUSED = 111"

definition O_RDONLY :: u32 where [const_defs]: "O_RDONLY = 0"
definition O_WRONLY :: u32 where [const_defs]: "O_WRONLY = 1"
definition O_RDWR :: u32 where [const_defs]: "O_RDWR = 2"
definition O_ACCMODE :: u32 where [const_defs]: "O_ACCMODE = 3"
definition O_CREAT :: u32 where [const_defs]: "O_CREAT = 0x40"
definition O_APPEND :: u32 where [const_defs]: "O_APPEND = 0x400"
definition O_NOFOLLOW :: u32 where [const_defs]: "O_NOFOLLOW = 0x20000"
definition O_PATH :: u32 where [const_defs]: "O_PATH = 0x200000"

definition AT_SYMLINK_NOFOLLOW :: u32 where [const_defs]: "AT_SYMLINK_NOFOLLOW = 0x100"
definition AT_REMOVEDIR :: u32 where [const_defs]: "AT_REMOVEDIR = 0x200"
definition AT_SYMLINK_FOLLOW :: u32 where [const_defs]: "AT_SYMLINK_FOLLOW = 0x400"
definition AT_EMPTY_PATH :: u32 where [const_defs]: "AT_EMPTY_PATH = 0x1000"

definition S_IFMT :: u32 where [const_defs]: "S_IFMT = 0xF000"
definition S_IFDIR :: u32 where [const_defs]: "S_IFDIR = 0x4000"
definition S_IFLNK :: u32 where [const_defs]: "S_IFLNK = 0xA000"

definition S_ISDIR :: "u32 \<Rightarrow> bool" where
  "S_ISDIR m \<longleftrightarrow> m AND S_IFMT = S_IFDIR"

definition S_ISLNK :: "u32 \<Rightarrow> bool" where
  "S_ISLNK m \<longleftrightarrow> m AND S_IFMT = S_IFLNK"

definition PATH_MAX :: nat where [const_defs]: "PATH_MAX = 4096"
definition UTIME_NOW :: int where [const_defs]: "UTIME_NOW = 0x3FFFFFFF"
definition UTIME_OMIT :: int where [const_defs]: "UTIME_OMIT = 0x3FFFFFFE"

section \<open>C strings\<close>

text \<open>
  A C string is the bytes before the first NUL. \<open>cstr\<close> reads one out of an array; an array with
  no NUL has no string in it (reading on would leave the array), hence the option.
\<close>

definition NUL :: char where
  "NUL = CHR 0x00"

definition cstr :: "char list \<Rightarrow> string option" where
  "cstr bs = (if NUL \<in> set bs then Some (takeWhile (\<lambda>c. c \<noteq> NUL) bs) else None)"

text \<open>The C string at the start of an array that is known to have a zero at its end.\<close>

definition cut_nul :: "string \<Rightarrow> string" where
  "cut_nul = takeWhile (\<lambda>c. c \<noteq> NUL)"

text \<open>An array of \<open>n\<close> bytes set to zero and then filled from its start with \<open>bs\<close>.\<close>

definition zero_padded :: "nat \<Rightarrow> char list \<Rightarrow> char list" where
  "zero_padded n bs = take n bs @ replicate (n - length bs) NUL"

text \<open>\<open>strrchr s c\<close>, from the found character on: the suffix of \<open>s\<close> that starts at the last \<open>c\<close>.\<close>

fun strrchr :: "string \<Rightarrow> char \<Rightarrow> string option" where
  "strrchr [] c = None"
| "strrchr (x # xs) c =
     (case strrchr xs c of Some r \<Rightarrow> Some r | None \<Rightarrow> if x = c then Some (x # xs) else None)"

text \<open>
  \<open>strncmp s t n = 0\<close> for NUL-free strings: the two agree on the first \<open>n\<close> bytes, the terminating
  NUL counted as a byte of each.
\<close>

definition strncmp_eq :: "string \<Rightarrow> string \<Rightarrow> nat \<Rightarrow> bool" where
  "strncmp_eq s t n \<longleftrightarrow> take n (s @ [NUL]) = take n (t @ [NUL])"

subsection \<open>Decimal numbers: \<open>%lu\<close> and \<open>strtol\<close>\<close>

definition digit_char :: "nat \<Rightarrow> char" where
  "digit_char d = char_of (48 + d)"

definition is_digit_char :: "char \<Rightarrow> bool" where
  "is_digit_char c \<longleftrightarrow> 48 \<le> (of_char c :: nat) \<and> (of_char c :: nat) \<le> 57"

fun show_nat :: "nat \<Rightarrow> string" where
  "show_nat n = (if n < 10 then [digit_char n] else show_nat (n div 10) @ [digit_char (n mod 10)])"

declare show_nat.simps [simp del]

definition show_int :: "int \<Rightarrow> string" where
  "show_int i = (if i < 0 then CHR ''-'' # show_nat (nat (- i)) else show_nat (nat i))"

fun read_digits :: "nat \<Rightarrow> string \<Rightarrow> nat" where
  "read_digits acc [] = acc"
| "read_digits acc (c # cs) =
     (if is_digit_char c then read_digits (10 * acc + (of_char c - 48)) cs else acc)"

text \<open>
  \<open>strtol(s, NULL, 10)\<close>: leading white space, an optional sign, digits; no digits is 0, and a value
  outside \<open>long\<close> is clamped to \<open>LONG_MAX\<close> or \<open>LONG_MIN\<close>.
\<close>

definition is_space_char :: "char \<Rightarrow> bool" where
  "is_space_char c \<longleftrightarrow> c = CHR '' '' \<or> (9 \<le> (of_char c :: nat) \<and> (of_char c :: nat) \<le> 13)"

definition strtol :: "string \<Rightarrow> int" where
  "strtol s = (case dropWhile is_space_char s of
       [] \<Rightarrow> 0
     | c # cs \<Rightarrow>
         if c = CHR ''-'' then max (- (2 ^ 63)) (- int (read_digits 0 cs))
         else if c = CHR ''+'' then min (2 ^ 63 - 1) (int (read_digits 0 cs))
         else min (2 ^ 63 - 1) (int (read_digits 0 (c # cs))))"

text \<open>
  \<open>snprintf(buf, n, ...)\<close> with the formatted text \<open>t\<close>: the array keeps at most \<open>n - 1\<close> bytes of \<open>t\<close>
  and a NUL (the rest of the array is what it was: zero where the source cleared it first), while
  the call returns the length \<open>t\<close> would have needed.
\<close>

definition snprintf_buf :: "nat \<Rightarrow> string \<Rightarrow> char list" where
  "snprintf_buf n t = zero_padded n (take (n - 1) t)"

definition snprintf_len :: "string \<Rightarrow> int" where
  "snprintf_len t = int (length t)"

section \<open>Facts on C strings\<close>

lemma length_zero_padded [simp]: "length (zero_padded n bs) = n"
  by (simp add: zero_padded_def)

lemma length_snprintf_buf [simp]: "length (snprintf_buf n t) = n"
  by (simp add: snprintf_buf_def)

lemma strrchr_None_iff: "strrchr s c = None \<longleftrightarrow> c \<notin> set s"
  by (induction s) (auto split: option.splits)

lemma strrchr_last: "c \<notin> set q \<Longrightarrow> strrchr (p @ c # q) c = Some (c # q)"
proof (induction p)
  case Nil
  then show ?case using strrchr_None_iff [of q c] by simp
qed simp

lemma strrchr_SomeD: "strrchr s c = Some r \<Longrightarrow> \<exists>p q. s = p @ r \<and> r = c # q \<and> c \<notin> set q"
proof (induction s)
  case (Cons x xs)
  show ?case
  proof (cases "strrchr xs c")
    case None
    with Cons.prems have "r = x # xs" and "x = c"
      by (auto split: if_splits)
    moreover from None have "c \<notin> set xs" by (simp add: strrchr_None_iff)
    ultimately show ?thesis by auto
  next
    case (Some r')
    with Cons obtain p q where "xs = p @ r" "r = c # q" "c \<notin> set q" by auto
    then have "x # xs = (x # p) @ r" by simp
    with \<open>r = c # q\<close> \<open>c \<notin> set q\<close> show ?thesis by blast
  qed
qed simp

section \<open>Taking a run apart\<close>

text \<open>
  A run of a model function is an equation \<open>f x = Some y\<close> in the option monad. The rules \<open>stepE\<close> walk
  through the function's body along such an equation, one statement at a time, and leave one goal
  for every path.
\<close>

named_theorems stepE

lemma bind_SomeE [stepE]:
  "Option.bind x f = Some y \<Longrightarrow> (\<And>a. x = Some a \<Longrightarrow> f a = Some y \<Longrightarrow> P) \<Longrightarrow> P"
  by (auto simp: bind_eq_Some_conv)

lemma map_option_SomeE [stepE]:
  "map_option f x = Some y \<Longrightarrow> (\<And>a. x = Some a \<Longrightarrow> y = f a \<Longrightarrow> P) \<Longrightarrow> P"
  by auto

lemma Let_SomeE [stepE]:
  "Let x f = Some y \<Longrightarrow> (f x = Some y \<Longrightarrow> P) \<Longrightarrow> P"
  by (auto simp: Let_def)

lemma case_prod_SomeE [stepE]:
  "case_prod f p = Some y \<Longrightarrow> (\<And>a b. p = (a, b) \<Longrightarrow> f a b = Some y \<Longrightarrow> P) \<Longrightarrow> P"
  by (cases p) auto

lemma case_sum_SomeE [stepE]:
  "case_sum f g x = Some y \<Longrightarrow> (\<And>a. x = Inl a \<Longrightarrow> f a = Some y \<Longrightarrow> P) \<Longrightarrow>
   (\<And>b. x = Inr b \<Longrightarrow> g b = Some y \<Longrightarrow> P) \<Longrightarrow> P"
  by (cases x) auto

lemma case_option_SomeE [stepE]:
  "case_option u f x = Some y \<Longrightarrow> (x = None \<Longrightarrow> u = Some y \<Longrightarrow> P) \<Longrightarrow>
   (\<And>a. x = Some a \<Longrightarrow> f a = Some y \<Longrightarrow> P) \<Longrightarrow> P"
  by (cases x) auto

lemma if_SomeE [stepE]:
  "(if c then u else v) = Some y \<Longrightarrow> (c \<Longrightarrow> u = Some y \<Longrightarrow> P) \<Longrightarrow> (\<not> c \<Longrightarrow> v = Some y \<Longrightarrow> P) \<Longrightarrow> P"
  by (cases c) auto

lemmas asm_splits = prod.split_asm sum.split_asm if_split_asm option.split_asm

end
