(* ===== verification/Fuse_Types.thy ===== *)
theory Fuse_Types
  imports F3_Prelude
begin

text \<open>
  The structures that cross the boundary between the file system (\<^verbatim>\<open>f3.cc\<close>) and libfuse:
  \<^verbatim>\<open>struct stat\<close> and its relatives of the C library, and \<^verbatim>\<open>fuse_entry_param\<close>, \<^verbatim>\<open>fuse_file_info\<close>,
  \<^verbatim>\<open>fuse_buf\<close>, \<^verbatim>\<open>fuse_bufvec\<close> of \<^verbatim>\<open>libfuse/include\<close>. A \<open>double\<close> is the rational it denotes. A pointer
  into the process's memory is a natural number, with 0 for \<open>NULL\<close>.
\<close>

section \<open>Structures of the C library\<close>

record timespec =
  tv_sec :: int
  tv_nsec :: int

record stat =
  st_dev :: u64
  st_ino :: u64
  st_mode :: u32
  st_nlink :: u64
  st_uid :: u32
  st_gid :: u32
  st_rdev :: u64
  st_size :: u64
  st_blksize :: u64
  st_blocks :: u64
  st_atim :: timespec
  st_mtim :: timespec
  st_ctim :: timespec

record statvfs =
  vf_bsize :: u64
  vf_frsize :: u64
  vf_blocks :: u64
  vf_bfree :: u64
  vf_bavail :: u64
  vf_files :: u64
  vf_ffree :: u64
  vf_namemax :: u64

record dirent =
  d_ino :: u64
  d_off :: u64
  d_type :: "8 word"
  d_name :: string

definition zero_time :: timespec where
  "zero_time = \<lparr>tv_sec = 0, tv_nsec = 0\<rparr>"

definition zero_stat :: stat where
  "zero_stat = \<lparr>st_dev = 0, st_ino = 0, st_mode = 0, st_nlink = 0, st_uid = 0, st_gid = 0,
     st_rdev = 0, st_size = 0, st_blksize = 0, st_blocks = 0,
     st_atim = zero_time, st_mtim = zero_time, st_ctim = zero_time\<rparr>"

section \<open>Structures of libfuse\<close>

definition FUSE_ROOT_ID :: nat where [const_defs]: "FUSE_ROOT_ID = 1"

record fuse_entry_param =
  e_ino :: addr
  e_generation :: u64
  e_attr :: stat
  e_attr_timeout :: rat
  e_entry_timeout :: rat

definition zero_entry :: fuse_entry_param where
  "zero_entry = \<lparr>e_ino = 0, e_generation = 0, e_attr = zero_stat,
     e_attr_timeout = 0, e_entry_timeout = 0\<rparr>"

text \<open>
  \<^verbatim>\<open>struct fuse_file_info\<close> without its padding and its unused bits. The
  handle \<open>fi_fh\<close> holds a file descriptor for files and the address of a \<open>DirHandle\<close> for
  directories.
\<close>

record fuse_file_info =
  fi_flags :: u32
  fi_direct_io :: bool
  fi_keep_cache :: bool
  fi_nonseekable :: bool
  fi_cache_readdir :: bool
  fi_fh :: int
  fi_writepage :: bool
  fi_flush :: bool
  fi_flock_release :: bool
  fi_lock_owner :: u64
  fi_poll_events :: u32

definition zero_fi :: fuse_file_info where
  "zero_fi = \<lparr>fi_flags = 0, fi_direct_io = False, fi_keep_cache = False, fi_nonseekable = False,
     fi_cache_readdir = False, fi_fh = 0, fi_writepage = False, fi_flush = False,
     fi_flock_release = False, fi_lock_owner = 0, fi_poll_events = 0\<rparr>"

text \<open>The attributes a request to set attributes names.\<close>

definition FUSE_SET_ATTR_MODE :: u32 where [const_defs]: "FUSE_SET_ATTR_MODE = 1"
definition FUSE_SET_ATTR_UID :: u32 where [const_defs]: "FUSE_SET_ATTR_UID = 2"
definition FUSE_SET_ATTR_GID :: u32 where [const_defs]: "FUSE_SET_ATTR_GID = 4"
definition FUSE_SET_ATTR_SIZE :: u32 where [const_defs]: "FUSE_SET_ATTR_SIZE = 8"
definition FUSE_SET_ATTR_ATIME :: u32 where [const_defs]: "FUSE_SET_ATTR_ATIME = 16"
definition FUSE_SET_ATTR_MTIME :: u32 where [const_defs]: "FUSE_SET_ATTR_MTIME = 32"
definition FUSE_SET_ATTR_ATIME_NOW :: u32 where [const_defs]: "FUSE_SET_ATTR_ATIME_NOW = 128"
definition FUSE_SET_ATTR_MTIME_NOW :: u32 where [const_defs]: "FUSE_SET_ATTR_MTIME_NOW = 256"
definition FUSE_SET_ATTR_CTIME :: u32 where [const_defs]: "FUSE_SET_ATTR_CTIME = 1024"

definition FUSE_BUF_IS_FD :: u32 where [const_defs]: "FUSE_BUF_IS_FD = 2"
definition FUSE_BUF_FD_SEEK :: u32 where [const_defs]: "FUSE_BUF_FD_SEEK = 4"
definition FUSE_BUF_FD_RETRY :: u32 where [const_defs]: "FUSE_BUF_FD_RETRY = 8"

definition FUSE_BUF_NO_SPLICE :: u32 where [const_defs]: "FUSE_BUF_NO_SPLICE = 2"
definition FUSE_BUF_FORCE_SPLICE :: u32 where [const_defs]: "FUSE_BUF_FORCE_SPLICE = 4"
definition FUSE_BUF_SPLICE_MOVE :: u32 where [const_defs]: "FUSE_BUF_SPLICE_MOVE = 8"
definition FUSE_BUF_SPLICE_NONBLOCK :: u32 where [const_defs]: "FUSE_BUF_SPLICE_NONBLOCK = 16"

record fuse_buf =
  b_size :: u64
  b_flags :: u32
  b_mem :: addr
  b_fd :: fdesc
  b_pos :: u64

text \<open>
  The array \<open>buf[]\<close> of a vector is the list \<open>v_buf\<close>, and \<open>count\<close> its length.
\<close>

record fuse_bufvec =
  v_idx :: nat
  v_off :: u64
  v_buf :: "fuse_buf list"

definition FUSE_BUFVEC_INIT :: "u64 \<Rightarrow> fuse_bufvec" where
  "FUSE_BUFVEC_INIT n = \<lparr>v_idx = 0, v_off = 0,
     v_buf = [\<lparr>b_size = n, b_flags = 0, b_mem = 0, b_fd = -1, b_pos = 0\<rparr>]\<rparr>"

section \<open>Replies\<close>

text \<open>
  One constructor per function of the \<^verbatim>\<open>fuse_reply_*\<close> family that \<^verbatim>\<open>f3.cc\<close> calls, with what is
  passed to it.
\<close>

datatype (plugins only: size code) reply =
    ReplyErr errno
  | ReplyNone
  | ReplyEntry fuse_entry_param
  | ReplyCreate fuse_entry_param fuse_file_info
  | ReplyAttr stat rat
  | ReplyReadlink string
  | ReplyOpen fuse_file_info
  | ReplyWrite u64
  | ReplyBuf string
  | ReplyData fuse_bufvec u32
  | ReplyStatfs statvfs
  | ReplyXattr nat

text \<open>A reply that tells the kernel the request failed.\<close>

definition is_error_reply :: "reply \<Rightarrow> bool" where
  "is_error_reply r = (case r of ReplyErr e \<Rightarrow> e \<noteq> 0 | _ \<Rightarrow> False)"

lemma is_error_reply_simps [simp]:
  "is_error_reply (ReplyErr e) \<longleftrightarrow> e \<noteq> 0"
  "\<not> is_error_reply ReplyNone"
  "\<not> is_error_reply (ReplyEntry p)"
  "\<not> is_error_reply (ReplyCreate p fi)"
  "\<not> is_error_reply (ReplyAttr st t)"
  "\<not> is_error_reply (ReplyReadlink l)"
  "\<not> is_error_reply (ReplyOpen fi)"
  "\<not> is_error_reply (ReplyWrite n)"
  "\<not> is_error_reply (ReplyBuf b)"
  "\<not> is_error_reply (ReplyData v fl)"
  "\<not> is_error_reply (ReplyStatfs sv)"
  "\<not> is_error_reply (ReplyXattr k)"
  by (simp_all add: is_error_reply_def)

end
