(* ===== verification/Posix.thy ===== *)
theory Posix
  imports Fuse_Types
begin

text \<open>
  The boundary to the operating system. The kernel is not part of the repository, so it is a
  parameter: a record \<open>'w os\<close> of functions that take a call and the state \<open>'w\<close> of the outside world
  and return the result and the world afterwards. A failing call returns its \<open>errno\<close> (\<open>Inl\<close>), which
  is how the sources' "\<open>-1\<close> and \<open>errno\<close>" is read. What a program does is recorded in a trace of
  events: system calls with their results, mutex operations, and replies to the FUSE kernel
  module. Every property of the components is stated for all kernels unless it names a law of the
  kernel as a hypothesis.
\<close>

section \<open>Calls\<close>

text \<open>Calls whose result is a C integer.\<close>

datatype (plugins only: size code) call =
    Open string u32
  | Openat fdesc string u32 u32
  | Close fdesc
  | Dup fdesc
  | Mkdirat fdesc string u32
  | Symlinkat string fdesc string
  | Mknodat fdesc string u32 u64
  | Linkat string fdesc string u32
  | Unlinkat fdesc string u32
  | Renameat fdesc string fdesc string
  | Fchmod fdesc u32
  | Chmod string u32
  | Fchownat fdesc u32 u32
  | Ftruncate fdesc u64
  | Truncate string u64
  | Futimens fdesc timespec timespec
  | Fsync fdesc
  | Fdatasync fdesc
  | FcntlGetfl fdesc
  | Flock fdesc u32
  | PosixFallocate fdesc u64 u64
  | Fsetxattr fdesc string string
  | Setxattr string string string u32
  | Removexattr string string
  | Sendfile fdesc fdesc u64 u64
  | Fdopendir fdesc
  | Closedir int
  | Seekdir int u64
  | Dirfd int
  | Pwrite fdesc string u64
  | WriteFd fdesc string
  | Splice fdesc "u64 option" fdesc "u64 option" u64 u32
  | Writev fdesc "string list"
  | Vmsplice fdesc "nat list" u32
  | SpliceMsg fdesc fdesc u64 u32 "string list"
  | FcntlSetPipeSz fdesc u64
  | FcntlGetfd fdesc
  | Socket
  | Connect fdesc string
  | Usleep nat
  | Sleep nat
  | PthreadCreate
  | Getrlimit
  | Setrlimit u64

text \<open>Calls that fill a buffer with file attributes, and calls that return bytes.\<close>

datatype stat_call =
    Fstatat fdesc
  | Lstat string

datatype (plugins only: size code) data_call =
    Readlink string nat
  | Readlinkat fdesc nat
  | Fgetxattr fdesc string nat
  | Getxattr string string nat
  | Listxattr string nat
  | Pread fdesc nat u64
  | ReadFd fdesc nat
  | Realpath string

record 'w os =
  os_call :: "call \<Rightarrow> 'w \<Rightarrow> (errno + int) \<times> 'w"
  os_stat :: "stat_call \<Rightarrow> 'w \<Rightarrow> (errno + stat) \<times> 'w"
  os_data :: "data_call \<Rightarrow> 'w \<Rightarrow> (errno + string) \<times> 'w"
  os_readdir :: "int \<Rightarrow> 'w \<Rightarrow> (errno + dirent option) \<times> 'w"
  os_statvfs :: "fdesc \<Rightarrow> 'w \<Rightarrow> (errno + statvfs) \<times> 'w"
  os_alloc :: "'w \<Rightarrow> bool \<times> 'w"
  os_pipe :: "'w \<Rightarrow> (errno + fdesc \<times> fdesc) \<times> 'w"

section \<open>The machine\<close>

datatype mutex = FsMutex | InodeMutex addr | SessionMutex | ReqMutex addr

datatype (plugins only: size code) event =
    Call call "errno + int"
  | StatCall stat_call "errno + stat"
  | DataCall data_call "errno + string"
  | ReaddirCall int "errno + dirent option"
  | StatvfsCall fdesc "errno + statvfs"
  | Alloc bool
  | PipeCall "errno + fdesc \<times> fdesc"
  | Lock mutex
  | Unlock mutex
  | Reply reply

record 'w machine =
  world :: 'w
  mem :: "addr \<Rightarrow> char"
  brk :: addr
  trace :: "event list"

definition emit :: "event \<Rightarrow> ('w, 'x) machine_scheme \<Rightarrow> ('w, 'x) machine_scheme" where
  "emit ev s = s\<lparr>trace := trace s @ [ev]\<rparr>"

definition invoke :: "('w \<Rightarrow> 'r \<times> 'w) \<Rightarrow> ('r \<Rightarrow> event) \<Rightarrow> ('w, 'x) machine_scheme \<Rightarrow>
    'r \<times> ('w, 'x) machine_scheme" where
  "invoke f ev s = (let (r, w) = f (world s) in (r, emit (ev r) (s\<lparr>world := w\<rparr>)))"

definition sys :: "'w os \<Rightarrow> call \<Rightarrow> ('w, 'x) machine_scheme \<Rightarrow>
    (errno + int) \<times> ('w, 'x) machine_scheme" where
  "sys os c = invoke (os_call os c) (Call c)"

definition sys_stat :: "'w os \<Rightarrow> stat_call \<Rightarrow> ('w, 'x) machine_scheme \<Rightarrow>
    (errno + stat) \<times> ('w, 'x) machine_scheme" where
  "sys_stat os c = invoke (os_stat os c) (StatCall c)"

definition sys_data :: "'w os \<Rightarrow> data_call \<Rightarrow> ('w, 'x) machine_scheme \<Rightarrow>
    (errno + string) \<times> ('w, 'x) machine_scheme" where
  "sys_data os c = invoke (os_data os c) (DataCall c)"

definition sys_readdir :: "'w os \<Rightarrow> int \<Rightarrow> ('w, 'x) machine_scheme \<Rightarrow>
    (errno + dirent option) \<times> ('w, 'x) machine_scheme" where
  "sys_readdir os d = invoke (os_readdir os d) (ReaddirCall d)"

definition sys_statvfs :: "'w os \<Rightarrow> fdesc \<Rightarrow> ('w, 'x) machine_scheme \<Rightarrow>
    (errno + statvfs) \<times> ('w, 'x) machine_scheme" where
  "sys_statvfs os d = invoke (os_statvfs os d) (StatvfsCall d)"

text \<open>\<open>malloc\<close> and \<open>new\<close>: whether the allocation succeeds is up to the world.\<close>

definition alloc :: "'w os \<Rightarrow> ('w, 'x) machine_scheme \<Rightarrow> bool \<times> ('w, 'x) machine_scheme" where
  "alloc os = invoke (os_alloc os) Alloc"

definition sys_pipe :: "'w os \<Rightarrow> ('w, 'x) machine_scheme \<Rightarrow>
    (errno + fdesc \<times> fdesc) \<times> ('w, 'x) machine_scheme" where
  "sys_pipe os = invoke (os_pipe os) PipeCall"

text \<open>Taking and giving back a mutex.\<close>

definition lock :: "mutex \<Rightarrow> ('w, 'x) machine_scheme \<Rightarrow> ('w, 'x) machine_scheme" where
  "lock m = emit (Lock m)"

definition unlock :: "mutex \<Rightarrow> ('w, 'x) machine_scheme \<Rightarrow> ('w, 'x) machine_scheme" where
  "unlock m = emit (Unlock m)"

text \<open>A call whose result the source ignores, and the integer a C caller sees (\<open>-1\<close> on failure).\<close>

definition sys_ignore :: "'w os \<Rightarrow> call \<Rightarrow> ('w, 'x) machine_scheme \<Rightarrow> ('w, 'x) machine_scheme" where
  "sys_ignore os c s = snd (sys os c s)"

definition c_int :: "errno + int \<Rightarrow> int" where
  "c_int r = (case r of Inl _ \<Rightarrow> -1 | Inr n \<Rightarrow> n)"

text \<open>The value \<open>res == -1 ? errno : 0\<close> that many handlers reply with.\<close>

definition errno_of :: "errno + 'a \<Rightarrow> errno" where
  "errno_of r = (case r of Inl e \<Rightarrow> e | Inr _ \<Rightarrow> 0)"

lemma c_int_simps [simp]: "c_int (Inl e) = -1" "c_int (Inr n) = n"
  by (simp_all add: c_int_def)

lemma errno_of_simps [simp]: "errno_of (Inl e) = e" "errno_of (Inr x) = 0"
  by (simp_all add: errno_of_def)

section \<open>Memory\<close>

text \<open>Reading and writing runs of bytes of the process's memory.\<close>

definition read_mem :: "('w, 'x) machine_scheme \<Rightarrow> addr \<Rightarrow> nat \<Rightarrow> char list" where
  "read_mem s a n = map (mem s) [a..<a + n]"

definition write_mem :: "addr \<Rightarrow> char list \<Rightarrow> ('w, 'x) machine_scheme \<Rightarrow> ('w, 'x) machine_scheme" where
  "write_mem a bs s = s\<lparr>mem := (\<lambda>p. if a \<le> p \<and> p < a + length bs then bs ! (p - a) else mem s p)\<rparr>"

text \<open>
  \<open>malloc\<close> of a block of bytes: the memory from \<open>brk\<close> on is unused. Where the source does not check
  the result of \<open>malloc\<close> or \<open>strdup\<close>, the allocation is taken to succeed.
\<close>

definition malloc :: "nat \<Rightarrow> ('w, 'x) machine_scheme \<Rightarrow> addr \<times> ('w, 'x) machine_scheme" where
  "malloc n s = (brk s, s\<lparr>brk := brk s + n\<rparr>)"

lemma length_read_mem [simp]: "length (read_mem s a n) = n"
  by (simp add: read_mem_def)

lemma read_write_mem [simp]: "read_mem (write_mem a bs s) a (length bs) = bs"
  by (rule nth_equalityI) (simp_all add: read_mem_def write_mem_def)

lemma read_write_mem_other:
  "a + length bs \<le> p \<or> p + n \<le> a \<Longrightarrow> read_mem (write_mem a bs s) p n = read_mem s p n"
  by (auto simp: read_mem_def write_mem_def)

section \<open>Projections of the trace\<close>

definition replies :: "event list \<Rightarrow> reply list" where
  "replies t = List.map_filter (\<lambda>ev. case ev of Reply r \<Rightarrow> Some r | _ \<Rightarrow> None) t"

definition calls :: "event list \<Rightarrow> call list" where
  "calls t = List.map_filter (\<lambda>ev. case ev of Call c _ \<Rightarrow> Some c | _ \<Rightarrow> None) t"

lemma replies_simps [simp]:
  "replies [] = []"
  "replies (t @ u) = replies t @ replies u"
  "replies (Reply r # t) = r # replies t"
  "replies (Call c x # t) = replies t"
  "replies (StatCall sc y # t) = replies t"
  "replies (DataCall dc z # t) = replies t"
  "replies (ReaddirCall d v # t) = replies t"
  "replies (StatvfsCall q sv # t) = replies t"
  "replies (Alloc b # t) = replies t"
  "replies (PipeCall pp # t) = replies t"
  "replies (Lock m # t) = replies t"
  "replies (Unlock m # t) = replies t"
  by (simp_all add: replies_def map_filter_def)

lemma calls_simps [simp]:
  "calls [] = []"
  "calls (t @ u) = calls t @ calls u"
  "calls (Reply r # t) = calls t"
  "calls (Call c x # t) = c # calls t"
  "calls (StatCall sc y # t) = calls t"
  "calls (DataCall dc z # t) = calls t"
  "calls (ReaddirCall d v # t) = calls t"
  "calls (StatvfsCall q sv # t) = calls t"
  "calls (Alloc b # t) = calls t"
  "calls (PipeCall pp # t) = calls t"
  "calls (Lock m # t) = calls t"
  "calls (Unlock m # t) = calls t"
  by (simp_all add: calls_def map_filter_def)

section \<open>What a run leaves alone\<close>

text \<open>
  System calls change the world, the memory and the trace; they lock nothing, reply nothing and leave
  the driver's own state (the record extension) alone. \<open>core\<close> is what is left unchanged: the locks
  and replies of the trace, and the extension. The rules \<open>core_dest\<close> say so for every function that
  only makes system calls, and \<open>reply_dest\<close> for every function that sends no reply.
\<close>

named_theorems core_dest

named_theorems reply_dest

definition visible :: "event \<Rightarrow> bool" where
  "visible ev = (case ev of Lock _ \<Rightarrow> True | Unlock _ \<Rightarrow> True | Reply _ \<Rightarrow> True | _ \<Rightarrow> False)"

lemma visible_simps [simp]:
  "visible (Lock m)" "visible (Unlock m)" "visible (Reply r)"
  "\<not> visible (Call c x)" "\<not> visible (StatCall sc y)" "\<not> visible (DataCall dc z)"
  "\<not> visible (ReaddirCall d v)" "\<not> visible (StatvfsCall q sv)" "\<not> visible (Alloc b)"
  "\<not> visible (PipeCall pp)"
  by (simp_all add: visible_def)

definition core :: "('w, 'x) machine_scheme \<Rightarrow> event list \<times> 'x" where
  "core s = (filter visible (trace s), machine.more s)"

lemma core_invoke: "invoke f ev s = (r, s') \<Longrightarrow> (\<And>x. \<not> visible (ev x)) \<Longrightarrow> core s' = core s"
  by (auto simp: invoke_def core_def emit_def Let_def split: prod.splits)

lemma core_sys [core_dest]: "sys os c s = (r, s') \<Longrightarrow> core s' = core s"
  unfolding sys_def by (erule core_invoke) simp

lemma core_snd_sys [simp]: "core (snd (sys os c s)) = core s"
  by (metis core_sys prod.collapse)

lemma core_sys_stat [core_dest]: "sys_stat os c1 s = (r, s') \<Longrightarrow> core s' = core s"
  unfolding sys_stat_def by (erule core_invoke) simp

lemma core_sys_data [core_dest]: "sys_data os c2 s = (r, s') \<Longrightarrow> core s' = core s"
  unfolding sys_data_def by (erule core_invoke) simp

lemma core_sys_readdir [core_dest]: "sys_readdir os d s = (r, s') \<Longrightarrow> core s' = core s"
  unfolding sys_readdir_def by (erule core_invoke) simp

lemma core_sys_statvfs [core_dest]: "sys_statvfs os d s = (r, s') \<Longrightarrow> core s' = core s"
  unfolding sys_statvfs_def by (erule core_invoke) simp

lemma core_alloc [core_dest]: "alloc os s = (r, s') \<Longrightarrow> core s' = core s"
  unfolding alloc_def by (erule core_invoke) simp

lemma core_sys_pipe [core_dest]: "sys_pipe os s = (r, s') \<Longrightarrow> core s' = core s"
  unfolding sys_pipe_def by (erule core_invoke) simp

lemma core_sys_ignore [simp]: "core (sys_ignore os c s) = core s"
  unfolding sys_ignore_def by (metis core_sys prod.collapse)

lemma core_write_mem [simp]: "core (write_mem a bs s) = core s"
  by (simp add: core_def write_mem_def)

lemma core_malloc [core_dest]: "malloc n s = (a, s') \<Longrightarrow> core s' = core s"
  by (auto simp: core_def malloc_def)

lemma replies_visible: "replies t = replies (filter visible t)"
  by (induction t) (auto simp: replies_def map_filter_def visible_def split: event.splits)

lemma core_replies: "core s' = core s \<Longrightarrow> replies (trace s') = replies (trace s)"
  using replies_visible [of "trace s"] replies_visible [of "trace s'"] by (simp add: core_def)

end
