(* ===== verification/Fuse_Wire.thy ===== *)
theory Fuse_Wire
  imports Posix
begin

text \<open>
  The wire format of libfuse's answers, \<^verbatim>\<open>libfuse/lib/fuse_lowlevel.c\<close>: conversion of attributes,
  the timeouts, directory entries with and without attributes, and the messages written for each
  function of the \<^verbatim>\<open>fuse_reply_*\<close> family. The structures are those of \<^verbatim>\<open>libfuse/include/fuse_kernel.h\<close>;
  their bytes are little-endian, as on the x86-64 machines the driver runs on.
\<close>

section \<open>Little-endian integers\<close>

fun le :: "nat \<Rightarrow> nat \<Rightarrow> char list" where
  "le 0 x = []"
| "le (Suc n) x = char_of x # le n (x div 256)"

fun of_le :: "char list \<Rightarrow> nat" where
  "of_le [] = 0"
| "of_le (c # cs) = of_char c + 256 * of_le cs"

definition le64 :: "u64 \<Rightarrow> char list" where
  "le64 w = le 8 (unat w)"

definition le32 :: "u32 \<Rightarrow> char list" where
  "le32 w = le 4 (unat w)"

lemma length_le [simp]: "length (le n x) = n"
  by (induction n arbitrary: x) auto

lemma length_le64 [simp]: "length (le64 w) = 8"
  by (simp add: le64_def)

lemma length_le32 [simp]: "length (le32 w) = 4"
  by (simp add: le32_def)

lemma of_le_le: "of_le (le n x) = x mod 256 ^ n"
proof (induction n arbitrary: x)
  case (Suc n)
  have "of_le (le (Suc n) x) = x mod 256 + 256 * ((x div 256) mod 256 ^ n)"
    by (simp add: Suc)
  also have "\<dots> = x mod (256 * 256 ^ n)"
    by (simp add: mod_mult2_eq)
  finally show ?case by simp
qed simp

lemma of_le_le64 [simp]: "of_le (le64 w) = unat w"
proof -
  have "unat w < 256 ^ 8" using unsigned_less [of w] by simp
  then show ?thesis by (simp add: le64_def of_le_le)
qed

lemma of_le_le32 [simp]: "of_le (le32 w) = unat w"
proof -
  have "unat w < 256 ^ 4" using unsigned_less [of w] by simp
  then show ?thesis by (simp add: le32_def of_le_le)
qed

section \<open>Attributes and entries\<close>

record fuse_attr =
  a_ino :: u64
  a_size :: u64
  a_blocks :: u64
  a_atime :: u64
  a_mtime :: u64
  a_ctime :: u64
  a_atimensec :: u32
  a_mtimensec :: u32
  a_ctimensec :: u32
  a_mode :: u32
  a_nlink :: u32
  a_uid :: u32
  a_gid :: u32
  a_rdev :: u32
  a_blksize :: u32

definition convert_stat :: "stat \<Rightarrow> fuse_attr" where
  "convert_stat st = \<lparr>a_ino = st_ino st, a_size = st_size st, a_blocks = st_blocks st,
     a_atime = word_of_int (tv_sec (st_atim st)), a_mtime = word_of_int (tv_sec (st_mtim st)),
     a_ctime = word_of_int (tv_sec (st_ctim st)),
     a_atimensec = word_of_int (tv_nsec (st_atim st)),
     a_mtimensec = word_of_int (tv_nsec (st_mtim st)),
     a_ctimensec = word_of_int (tv_nsec (st_ctim st)),
     a_mode = st_mode st, a_nlink = ucast (st_nlink st), a_uid = st_uid st, a_gid = st_gid st,
     a_rdev = ucast (st_rdev st), a_blksize = ucast (st_blksize st)\<rparr>"

definition attr_bytes :: "fuse_attr \<Rightarrow> char list" where
  "attr_bytes a = le64 (a_ino a) @ le64 (a_size a) @ le64 (a_blocks a) @ le64 (a_atime a) @
     le64 (a_mtime a) @ le64 (a_ctime a) @ le32 (a_atimensec a) @ le32 (a_mtimensec a) @
     le32 (a_ctimensec a) @ le32 (a_mode a) @ le32 (a_nlink a) @ le32 (a_uid a) @ le32 (a_gid a) @
     le32 (a_rdev a) @ le32 (a_blksize a) @ le32 0"

text \<open>Timeouts: whole seconds and nanoseconds of a \<open>double\<close>, computed exactly.\<close>

definition calc_timeout_sec :: "rat \<Rightarrow> u64" where
  "calc_timeout_sec t =
     (if t > 2 ^ 64 then -1 else if t < 0 then 0 else word_of_int \<lfloor>t\<rfloor>)"

definition calc_timeout_nsec :: "rat \<Rightarrow> u32" where
  "calc_timeout_nsec t =
     (let f = t - of_nat (unat (calc_timeout_sec t)) in
      if f < 0 then 0 else if f \<ge> 999999999 / 1000000000 then 999999999
      else word_of_int \<lfloor>f * 1000000000\<rfloor>)"

record fuse_entry_out =
  o_nodeid :: u64
  o_generation :: u64
  o_entry_valid :: u64
  o_attr_valid :: u64
  o_entry_valid_nsec :: u32
  o_attr_valid_nsec :: u32
  o_attr :: fuse_attr

definition fill_entry :: "fuse_entry_param \<Rightarrow> fuse_entry_out" where
  "fill_entry e = \<lparr>o_nodeid = of_nat (e_ino e), o_generation = e_generation e,
     o_entry_valid = calc_timeout_sec (e_entry_timeout e),
     o_attr_valid = calc_timeout_sec (e_attr_timeout e),
     o_entry_valid_nsec = calc_timeout_nsec (e_entry_timeout e),
     o_attr_valid_nsec = calc_timeout_nsec (e_attr_timeout e),
     o_attr = convert_stat (e_attr e)\<rparr>"

definition entry_bytes :: "fuse_entry_out \<Rightarrow> char list" where
  "entry_bytes o' = le64 (o_nodeid o') @ le64 (o_generation o') @ le64 (o_entry_valid o') @
     le64 (o_attr_valid o') @ le32 (o_entry_valid_nsec o') @ le32 (o_attr_valid_nsec o') @
     attr_bytes (o_attr o')"

lemma length_attr_bytes [simp]: "length (attr_bytes a) = 88"
  by (simp add: attr_bytes_def)

lemma length_entry_bytes [simp]: "length (entry_bytes o') = 128"
  by (simp add: entry_bytes_def)

section \<open>Directory entries\<close>

definition FUSE_NAME_OFFSET :: u64 where [const_defs]: "FUSE_NAME_OFFSET = 24"
definition FUSE_NAME_OFFSET_DIRENTPLUS :: u64 where [const_defs]: "FUSE_NAME_OFFSET_DIRENTPLUS = 152"

definition FUSE_DIRENT_ALIGN :: "u64 \<Rightarrow> u64" where
  "FUSE_DIRENT_ALIGN x = (x + 8 - 1) AND NOT (8 - 1)"

definition dirent_type :: "u32 \<Rightarrow> u32" where
  "dirent_type mode = drop_bit 12 (mode AND S_IFMT)"

text \<open>The fields of \<open>struct fuse_dirent\<close>, the name, and zeros up to the padded length.\<close>

definition dirent_bytes :: "string \<Rightarrow> u64 \<Rightarrow> u32 \<Rightarrow> u64 \<Rightarrow> nat \<Rightarrow> char list" where
  "dirent_bytes name ino mode off pad =
     le64 ino @ le64 off @ le32 (of_nat (length name)) @ le32 (dirent_type mode) @ name @
     replicate pad NUL"

text \<open>
  The result is the padded length and, if the entry fits, the bytes written to the buffer; an entry
  that does not fit leaves the buffer alone.
\<close>

definition fuse_add_direntry :: "u64 \<Rightarrow> string \<Rightarrow> stat \<Rightarrow> u64 \<Rightarrow> u64 \<times> char list" where
  "fuse_add_direntry bufsize name st off =
     (let namelen = of_nat (length name);
          entlen = FUSE_NAME_OFFSET + namelen;
          entlen_padded = FUSE_DIRENT_ALIGN entlen in
      if entlen_padded > bufsize then (entlen_padded, [])
      else (entlen_padded,
            dirent_bytes name (st_ino st) (st_mode st) off (unat (entlen_padded - entlen))))"

definition fuse_add_direntry_plus :: "u64 \<Rightarrow> string \<Rightarrow> fuse_entry_param \<Rightarrow> u64 \<Rightarrow>
    u64 \<times> char list" where
  "fuse_add_direntry_plus bufsize name e off =
     (let namelen = of_nat (length name);
          entlen = FUSE_NAME_OFFSET_DIRENTPLUS + namelen;
          entlen_padded = FUSE_DIRENT_ALIGN entlen in
      if entlen_padded > bufsize then (entlen_padded, [])
      else (entlen_padded,
            entry_bytes (fill_entry e) @
            dirent_bytes name (st_ino (e_attr e)) (st_mode (e_attr e)) off
              (unat (entlen_padded - entlen))))"

end
