(* ===== verification/Fuse_Kernel.thy ===== *)
theory Fuse_Kernel
  imports Fuse_Wire
begin

text \<open>
  The kernel protocol, \<^verbatim>\<open>libfuse/include/fuse_kernel.h\<close>: versions, operation codes and flags; the capabilities and
  \<^verbatim>\<open>struct fuse_conn_info\<close> of \<^verbatim>\<open>libfuse/include/fuse_common.h\<close>; and reading the fields of a message. A message is a list
  of bytes, and reading a field that is not in it is undefined.
\<close>

section \<open>Constants\<close>

text \<open>Protocol version.\<close>

definition FUSE_KERNEL_VERSION :: u32 where [const_defs]: "FUSE_KERNEL_VERSION = 7"
definition FUSE_KERNEL_MINOR_VERSION :: u32 where [const_defs]: "FUSE_KERNEL_MINOR_VERSION = 31"

text \<open>Flags of requests and answers.\<close>

definition FATTR_FH :: u32 where [const_defs]: "FATTR_FH = 64"
definition FOPEN_DIRECT_IO :: u32 where [const_defs]: "FOPEN_DIRECT_IO = 1"
definition FOPEN_KEEP_CACHE :: u32 where [const_defs]: "FOPEN_KEEP_CACHE = 2"
definition FOPEN_NONSEEKABLE :: u32 where [const_defs]: "FOPEN_NONSEEKABLE = 4"
definition FOPEN_CACHE_DIR :: u32 where [const_defs]: "FOPEN_CACHE_DIR = 8"
definition FUSE_ASYNC_READ :: u32 where [const_defs]: "FUSE_ASYNC_READ = 1"
definition FUSE_POSIX_LOCKS :: u32 where [const_defs]: "FUSE_POSIX_LOCKS = 2"
definition FUSE_ATOMIC_O_TRUNC :: u32 where [const_defs]: "FUSE_ATOMIC_O_TRUNC = 8"
definition FUSE_EXPORT_SUPPORT :: u32 where [const_defs]: "FUSE_EXPORT_SUPPORT = 16"
definition FUSE_BIG_WRITES :: u32 where [const_defs]: "FUSE_BIG_WRITES = 32"
definition FUSE_DONT_MASK :: u32 where [const_defs]: "FUSE_DONT_MASK = 64"
definition FUSE_FLOCK_LOCKS :: u32 where [const_defs]: "FUSE_FLOCK_LOCKS = 1024"
definition FUSE_AUTO_INVAL_DATA :: u32 where [const_defs]: "FUSE_AUTO_INVAL_DATA = 4096"
definition FUSE_DO_READDIRPLUS :: u32 where [const_defs]: "FUSE_DO_READDIRPLUS = 0x2000"
definition FUSE_READDIRPLUS_AUTO :: u32 where [const_defs]: "FUSE_READDIRPLUS_AUTO = 0x4000"
definition FUSE_ASYNC_DIO :: u32 where [const_defs]: "FUSE_ASYNC_DIO = 0x8000"
definition FUSE_WRITEBACK_CACHE :: u32 where [const_defs]: "FUSE_WRITEBACK_CACHE = 0x10000"
definition FUSE_NO_OPEN_SUPPORT :: u32 where [const_defs]: "FUSE_NO_OPEN_SUPPORT = 0x20000"
definition FUSE_PARALLEL_DIROPS :: u32 where [const_defs]: "FUSE_PARALLEL_DIROPS = 0x40000"
definition FUSE_HANDLE_KILLPRIV :: u32 where [const_defs]: "FUSE_HANDLE_KILLPRIV = 0x80000"
definition FUSE_POSIX_ACL :: u32 where [const_defs]: "FUSE_POSIX_ACL = 0x100000"
definition FUSE_MAX_PAGES :: u32 where [const_defs]: "FUSE_MAX_PAGES = 0x400000"
definition FUSE_CACHE_SYMLINKS :: u32 where [const_defs]: "FUSE_CACHE_SYMLINKS = 0x800000"
definition FUSE_NO_OPENDIR_SUPPORT :: u32 where [const_defs]: "FUSE_NO_OPENDIR_SUPPORT = 0x1000000"
definition FUSE_EXPLICIT_INVAL_DATA :: u32 where [const_defs]: "FUSE_EXPLICIT_INVAL_DATA = 0x2000000"
definition FUSE_RELEASE_FLUSH :: u32 where [const_defs]: "FUSE_RELEASE_FLUSH = 1"
definition FUSE_RELEASE_FLOCK_UNLOCK :: u32 where [const_defs]: "FUSE_RELEASE_FLOCK_UNLOCK = 2"
definition FUSE_GETATTR_FH :: u32 where [const_defs]: "FUSE_GETATTR_FH = 1"
definition FUSE_LK_FLOCK :: u32 where [const_defs]: "FUSE_LK_FLOCK = 1"
definition FUSE_WRITE_CACHE :: u32 where [const_defs]: "FUSE_WRITE_CACHE = 1"
definition FUSE_IOCTL_RETRY :: u32 where [const_defs]: "FUSE_IOCTL_RETRY = 4"
definition FUSE_IOCTL_32BIT :: u32 where [const_defs]: "FUSE_IOCTL_32BIT = 8"
definition FUSE_IOCTL_DIR :: u32 where [const_defs]: "FUSE_IOCTL_DIR = 16"
definition FUSE_POLL_SCHEDULE_NOTIFY :: u32 where [const_defs]: "FUSE_POLL_SCHEDULE_NOTIFY = 1"

text \<open>Operation codes.\<close>

definition FUSE_LOOKUP :: u32 where [const_defs]: "FUSE_LOOKUP = 1"
definition FUSE_FORGET :: u32 where [const_defs]: "FUSE_FORGET = 2"
definition FUSE_GETATTR :: u32 where [const_defs]: "FUSE_GETATTR = 3"
definition FUSE_SETATTR :: u32 where [const_defs]: "FUSE_SETATTR = 4"
definition FUSE_READLINK :: u32 where [const_defs]: "FUSE_READLINK = 5"
definition FUSE_SYMLINK :: u32 where [const_defs]: "FUSE_SYMLINK = 6"
definition FUSE_MKNOD :: u32 where [const_defs]: "FUSE_MKNOD = 8"
definition FUSE_MKDIR :: u32 where [const_defs]: "FUSE_MKDIR = 9"
definition FUSE_UNLINK :: u32 where [const_defs]: "FUSE_UNLINK = 10"
definition FUSE_RMDIR :: u32 where [const_defs]: "FUSE_RMDIR = 11"
definition FUSE_RENAME :: u32 where [const_defs]: "FUSE_RENAME = 12"
definition FUSE_LINK :: u32 where [const_defs]: "FUSE_LINK = 13"
definition FUSE_OPEN :: u32 where [const_defs]: "FUSE_OPEN = 14"
definition FUSE_READ :: u32 where [const_defs]: "FUSE_READ = 15"
definition FUSE_WRITE :: u32 where [const_defs]: "FUSE_WRITE = 16"
definition FUSE_STATFS :: u32 where [const_defs]: "FUSE_STATFS = 17"
definition FUSE_RELEASE :: u32 where [const_defs]: "FUSE_RELEASE = 18"
definition FUSE_FSYNC :: u32 where [const_defs]: "FUSE_FSYNC = 20"
definition FUSE_SETXATTR :: u32 where [const_defs]: "FUSE_SETXATTR = 21"
definition FUSE_GETXATTR :: u32 where [const_defs]: "FUSE_GETXATTR = 22"
definition FUSE_LISTXATTR :: u32 where [const_defs]: "FUSE_LISTXATTR = 23"
definition FUSE_REMOVEXATTR :: u32 where [const_defs]: "FUSE_REMOVEXATTR = 24"
definition FUSE_FLUSH :: u32 where [const_defs]: "FUSE_FLUSH = 25"
definition FUSE_INIT :: u32 where [const_defs]: "FUSE_INIT = 26"
definition FUSE_OPENDIR :: u32 where [const_defs]: "FUSE_OPENDIR = 27"
definition FUSE_READDIR :: u32 where [const_defs]: "FUSE_READDIR = 28"
definition FUSE_RELEASEDIR :: u32 where [const_defs]: "FUSE_RELEASEDIR = 29"
definition FUSE_FSYNCDIR :: u32 where [const_defs]: "FUSE_FSYNCDIR = 30"
definition FUSE_GETLK :: u32 where [const_defs]: "FUSE_GETLK = 31"
definition FUSE_SETLK :: u32 where [const_defs]: "FUSE_SETLK = 32"
definition FUSE_SETLKW :: u32 where [const_defs]: "FUSE_SETLKW = 33"
definition FUSE_ACCESS :: u32 where [const_defs]: "FUSE_ACCESS = 34"
definition FUSE_CREATE :: u32 where [const_defs]: "FUSE_CREATE = 35"
definition FUSE_INTERRUPT :: u32 where [const_defs]: "FUSE_INTERRUPT = 36"
definition FUSE_BMAP :: u32 where [const_defs]: "FUSE_BMAP = 37"
definition FUSE_DESTROY :: u32 where [const_defs]: "FUSE_DESTROY = 38"
definition FUSE_IOCTL :: u32 where [const_defs]: "FUSE_IOCTL = 39"
definition FUSE_POLL :: u32 where [const_defs]: "FUSE_POLL = 40"
definition FUSE_NOTIFY_REPLY :: u32 where [const_defs]: "FUSE_NOTIFY_REPLY = 41"
definition FUSE_BATCH_FORGET :: u32 where [const_defs]: "FUSE_BATCH_FORGET = 42"
definition FUSE_FALLOCATE :: u32 where [const_defs]: "FUSE_FALLOCATE = 43"
definition FUSE_READDIRPLUS :: u32 where [const_defs]: "FUSE_READDIRPLUS = 44"
definition FUSE_RENAME2 :: u32 where [const_defs]: "FUSE_RENAME2 = 45"
definition FUSE_LSEEK :: u32 where [const_defs]: "FUSE_LSEEK = 46"
definition FUSE_COPY_FILE_RANGE :: u32 where [const_defs]: "FUSE_COPY_FILE_RANGE = 47"
definition CUSE_INIT :: u32 where [const_defs]: "CUSE_INIT = 4096"

text \<open>Notification codes, sizes of messages in older protocol versions, and the least read buffer.\<close>

definition FUSE_NOTIFY_POLL :: u32 where [const_defs]: "FUSE_NOTIFY_POLL = 1"
definition FUSE_NOTIFY_INVAL_INODE :: u32 where [const_defs]: "FUSE_NOTIFY_INVAL_INODE = 2"
definition FUSE_NOTIFY_INVAL_ENTRY :: u32 where [const_defs]: "FUSE_NOTIFY_INVAL_ENTRY = 3"
definition FUSE_NOTIFY_STORE :: u32 where [const_defs]: "FUSE_NOTIFY_STORE = 4"
definition FUSE_NOTIFY_RETRIEVE :: u32 where [const_defs]: "FUSE_NOTIFY_RETRIEVE = 5"
definition FUSE_NOTIFY_DELETE :: u32 where [const_defs]: "FUSE_NOTIFY_DELETE = 6"
definition FUSE_MIN_READ_BUFFER :: u64 where [const_defs]: "FUSE_MIN_READ_BUFFER = 0x2000"
definition FUSE_COMPAT_ENTRY_OUT_SIZE :: nat where [const_defs]: "FUSE_COMPAT_ENTRY_OUT_SIZE = 120"
definition FUSE_COMPAT_ATTR_OUT_SIZE :: nat where [const_defs]: "FUSE_COMPAT_ATTR_OUT_SIZE = 96"
definition FUSE_COMPAT_MKNOD_IN_SIZE :: nat where [const_defs]: "FUSE_COMPAT_MKNOD_IN_SIZE = 8"
definition FUSE_COMPAT_WRITE_IN_SIZE :: nat where [const_defs]: "FUSE_COMPAT_WRITE_IN_SIZE = 24"
definition FUSE_COMPAT_STATFS_SIZE :: nat where [const_defs]: "FUSE_COMPAT_STATFS_SIZE = 48"
definition FUSE_COMPAT_INIT_OUT_SIZE :: nat where [const_defs]: "FUSE_COMPAT_INIT_OUT_SIZE = 8"
definition FUSE_COMPAT_22_INIT_OUT_SIZE :: nat where [const_defs]: "FUSE_COMPAT_22_INIT_OUT_SIZE = 24"

text \<open>Capabilities of \<^verbatim>\<open>fuse_common.h\<close>.\<close>

definition FUSE_CAP_ASYNC_READ :: u32 where [const_defs]: "FUSE_CAP_ASYNC_READ = 1"
definition FUSE_CAP_POSIX_LOCKS :: u32 where [const_defs]: "FUSE_CAP_POSIX_LOCKS = 2"
definition FUSE_CAP_ATOMIC_O_TRUNC :: u32 where [const_defs]: "FUSE_CAP_ATOMIC_O_TRUNC = 8"
definition FUSE_CAP_EXPORT_SUPPORT :: u32 where [const_defs]: "FUSE_CAP_EXPORT_SUPPORT = 16"
definition FUSE_CAP_DONT_MASK :: u32 where [const_defs]: "FUSE_CAP_DONT_MASK = 64"
definition FUSE_CAP_SPLICE_WRITE :: u32 where [const_defs]: "FUSE_CAP_SPLICE_WRITE = 128"
definition FUSE_CAP_SPLICE_MOVE :: u32 where [const_defs]: "FUSE_CAP_SPLICE_MOVE = 256"
definition FUSE_CAP_SPLICE_READ :: u32 where [const_defs]: "FUSE_CAP_SPLICE_READ = 512"
definition FUSE_CAP_FLOCK_LOCKS :: u32 where [const_defs]: "FUSE_CAP_FLOCK_LOCKS = 1024"
definition FUSE_CAP_IOCTL_DIR :: u32 where [const_defs]: "FUSE_CAP_IOCTL_DIR = 2048"
definition FUSE_CAP_AUTO_INVAL_DATA :: u32 where [const_defs]: "FUSE_CAP_AUTO_INVAL_DATA = 4096"
definition FUSE_CAP_READDIRPLUS :: u32 where [const_defs]: "FUSE_CAP_READDIRPLUS = 0x2000"
definition FUSE_CAP_READDIRPLUS_AUTO :: u32 where [const_defs]: "FUSE_CAP_READDIRPLUS_AUTO = 0x4000"
definition FUSE_CAP_ASYNC_DIO :: u32 where [const_defs]: "FUSE_CAP_ASYNC_DIO = 0x8000"
definition FUSE_CAP_WRITEBACK_CACHE :: u32 where [const_defs]: "FUSE_CAP_WRITEBACK_CACHE = 0x10000"
definition FUSE_CAP_NO_OPEN_SUPPORT :: u32 where [const_defs]: "FUSE_CAP_NO_OPEN_SUPPORT = 0x20000"
definition FUSE_CAP_PARALLEL_DIROPS :: u32 where [const_defs]: "FUSE_CAP_PARALLEL_DIROPS = 0x40000"
definition FUSE_CAP_POSIX_ACL :: u32 where [const_defs]: "FUSE_CAP_POSIX_ACL = 0x80000"
definition FUSE_CAP_HANDLE_KILLPRIV :: u32 where [const_defs]: "FUSE_CAP_HANDLE_KILLPRIV = 0x100000"
definition FUSE_CAP_CACHE_SYMLINKS :: u32 where [const_defs]: "FUSE_CAP_CACHE_SYMLINKS = 0x800000"
definition FUSE_CAP_NO_OPENDIR_SUPPORT :: u32 where [const_defs]: "FUSE_CAP_NO_OPENDIR_SUPPORT = 0x1000000"
definition FUSE_CAP_EXPLICIT_INVAL_DATA :: u32 where [const_defs]: "FUSE_CAP_EXPLICIT_INVAL_DATA = 0x2000000"

section \<open>The connection\<close>

record fuse_conn_info =
  conn_proto_major :: u32
  conn_proto_minor :: u32
  conn_max_write :: u32
  conn_max_read :: u32
  conn_max_readahead :: u32
  conn_capable :: u32
  conn_want :: u32
  conn_max_background :: u32
  conn_congestion_threshold :: u32
  conn_time_gran :: u32

section \<open>Reading messages\<close>

definition get32 :: "char list \<Rightarrow> nat \<Rightarrow> u32 option" where
  "get32 bs off = (if off + 4 \<le> length bs then Some (word_of_nat (of_le (take 4 (drop off bs)))) else None)"

definition get64 :: "char list \<Rightarrow> nat \<Rightarrow> u64 option" where
  "get64 bs off = (if off + 8 \<le> length bs then Some (word_of_nat (of_le (take 8 (drop off bs)))) else None)"

definition get_cstr :: "char list \<Rightarrow> nat \<Rightarrow> string option" where
  "get_cstr bs off = cstr (drop off bs)"

definition get_bytes :: "char list \<Rightarrow> nat \<Rightarrow> nat \<Rightarrow> string option" where
  "get_bytes bs off n = (if off + n \<le> length bs then Some (take n (drop off bs)) else None)"

text \<open>What has been written is read back.\<close>

lemma get32_le32 [simp]: "length xs = off \<Longrightarrow> get32 (xs @ le32 w @ ys) off = Some w"
  by (simp add: get32_def)

lemma get64_le64 [simp]: "length xs = off \<Longrightarrow> get64 (xs @ le64 w @ ys) off = Some w"
  by (simp add: get64_def)

end
