(* ===== verification/Fuse_Ring.thy ===== *)
theory Fuse_Ring
  imports F3_Prelude
begin

text \<open>
  Circular doubly linked lists with a head element, as libfuse uses them for the requests in progress,
  the pending interrupts (\<^verbatim>\<open>struct fuse_req\<close>) and the notifications that await a reply
  (\<^verbatim>\<open>struct fuse_notify_req\<close>). The locale states what the two kinds of nodes have in common; inserting before
  the head appends to the list the ring stands for, and unlinking removes one element of it.
\<close>

fun path :: "(addr \<Rightarrow> addr option) \<Rightarrow> (addr \<Rightarrow> addr option) \<Rightarrow> addr list \<Rightarrow> bool" where
  "path nx pv (a # b # r) \<longleftrightarrow> nx a = Some b \<and> pv b = Some a \<and> path nx pv (b # r)"
| "path nx pv _ \<longleftrightarrow> True"

definition ring :: "(addr \<Rightarrow> addr option) \<Rightarrow> (addr \<Rightarrow> addr option) \<Rightarrow> addr \<Rightarrow> addr list \<Rightarrow> bool" where
  "ring nx pv hp xs \<longleftrightarrow> distinct (hp # xs) \<and> path nx pv (hp # xs @ [hp])"

lemma path_append: "path nx pv (xs @ a # ys) \<longleftrightarrow> path nx pv (xs @ [a]) \<and> path nx pv (a # ys)"
  by (induction xs rule: induct_list012) (cases ys, auto)

lemma path_cong:
  "(\<And>a. a \<in> set (butlast xs) \<Longrightarrow> nx' a = nx a) \<Longrightarrow> (\<And>a. a \<in> set (tl xs) \<Longrightarrow> pv' a = pv a) \<Longrightarrow>
   path nx' pv' xs = path nx pv xs"
proof (induction xs rule: induct_list012)
  case (3 x y zs)
  then show ?case by (cases zs) auto
qed auto

lemma path_live: "path nx pv (a # xs) \<Longrightarrow> b \<in> set xs \<Longrightarrow> pv b \<noteq> None"
  by (induction xs arbitrary: a) auto

lemma ring_live: "ring nx pv hp xs \<Longrightarrow> a \<in> set (hp # xs) \<Longrightarrow> pv a \<noteq> None"
  by (rule path_live [of nx pv hp "xs @ [hp]"]) (auto simp: ring_def)

lemma ring_frame:
  assumes "ring nx pv hp xs" "\<And>a. a \<in> set (hp # xs) \<Longrightarrow> nx' a = nx a \<and> pv' a = pv a"
  shows "ring nx' pv' hp xs"
proof -
  have "path nx' pv' (hp # xs @ [hp]) = path nx pv (hp # xs @ [hp])"
    using assms(2) by (intro path_cong) (auto simp: butlast_append)
  with assms(1) show ?thesis by (simp add: ring_def)
qed

text \<open>
  The ring with one more element before the head, and without one of its elements. The last element,
  or the head of an empty ring, is \<open>b\<close>, and \<open>n\<close> is the element after \<open>p\<close>.
\<close>

lemma snoc_facts:
  assumes "hp # xs = zs @ [b]" "distinct (hp # xs)"
  shows "set (zs @ [b]) = set (hp # xs)" "tl (zs @ [b]) = xs" "b \<notin> set zs"
  using assms by (metis, metis list.sel(3), metis distinct_append distinct.simps(2) not_distinct_conv_prefix)

lemma ring_last:
  assumes "ring nx pv hp xs" "hp # xs = zs @ [b]"
  shows "path nx pv (zs @ [b])" "nx b = Some hp" "pv hp = Some b"
proof -
  have "path nx pv (zs @ b # [hp])"
    using assms unfolding ring_def by (metis append_Cons append_assoc append_Nil)
  then show "path nx pv (zs @ [b])" "nx b = Some hp" "pv hp = Some b"
    unfolding path_append [of _ _ zs b "[hp]"] by simp_all
qed

lemma ring_insert:
  assumes "ring nx pv hp xs" "p \<notin> set (hp # xs)" "hp # xs = zs @ [b]"
  shows "ring (nx(p \<mapsto> hp, b \<mapsto> p)) (pv(p \<mapsto> b, hp \<mapsto> p)) hp (xs @ [p])"
proof -
  let ?nx = "nx(p \<mapsto> hp, b \<mapsto> p)" and ?pv = "pv(p \<mapsto> b, hp \<mapsto> p)"
  have d: "distinct (hp # xs)" using assms(1) by (simp add: ring_def)
  note f = snoc_facts [OF assms(3) d]
  have p: "p \<notin> set zs" "p \<noteq> b" "p \<notin> set xs" "p \<noteq> hp" using f(1) assms(2) by auto
  have "path ?nx ?pv (zs @ [b]) = path nx pv (zs @ [b])"
    by (rule path_cong) (use f p d in auto)
  moreover have "path ?nx ?pv (b # [p, hp])" using p by simp
  ultimately have "path ?nx ?pv (zs @ b # [p, hp])"
    using ring_last(1) [OF assms(1,3)] unfolding path_append [of _ _ zs b "[p, hp]"] by simp
  moreover have "zs @ b # [p, hp] = hp # (xs @ [p]) @ [hp]"
    using assms(3) by (metis append_Cons append_assoc append_Nil)
  ultimately show ?thesis using assms(1,2) by (simp add: ring_def)
qed

lemma ring_remove:
  assumes "ring nx pv hp (xs @ p # ys)" "hp # xs = zs @ [b]" "ys @ [hp] = n # r"
  shows "pv p = Some b" "nx p = Some n" "ring (nx(b \<mapsto> n)) (pv(n \<mapsto> b)) hp (xs @ ys)"
proof -
  let ?nx = "nx(b \<mapsto> n)" and ?pv = "pv(n \<mapsto> b)"
  have d: "distinct (hp # xs @ p # ys)" using assms(1) by (simp add: ring_def)
  note f = snoc_facts [OF assms(2)]
  have dist: "distinct (ys @ [hp])" using d by simp
  then have n: "n \<in> set (hp # ys)" "n \<notin> set r" "tl (ys @ [hp]) = r"
    unfolding assms(3) using arg_cong [OF assms(3), of set] by auto
  have e: "hp # (xs @ p # ys) @ [hp] = zs @ b # p # n # r"
    using assms(2,3) by (metis append_Cons append_assoc append_Nil)
  have "path nx pv (zs @ b # p # n # r)" using assms(1) e by (simp only: ring_def)
  then have 1: "path nx pv (zs @ [b])" and 2: "path nx pv (b # p # n # r)"
    unfolding path_append [of _ _ zs b "p # n # r"] by simp_all
  then show "pv p = Some b" "nx p = Some n" by simp_all
  have "path ?nx ?pv (zs @ [b]) = path nx pv (zs @ [b])"
    by (rule path_cong) (use f d n in auto)
  moreover have "path ?nx ?pv (ys @ [hp]) = path nx pv (ys @ [hp])"
    by (rule path_cong) (use f d n in auto)
  ultimately have "path ?nx ?pv (zs @ b # ys @ [hp])"
    using 1 2 unfolding assms(3) path_append [of _ _ zs b "n # r"] by simp
  moreover have "zs @ b # ys @ [hp] = hp # (xs @ ys) @ [hp]"
    using assms(2) by (metis append_Cons append_assoc append_Nil)
  ultimately show "ring ?nx ?pv hp (xs @ ys)" using d by (simp add: ring_def)
qed

locale linked_nodes =
  fixes nxt :: "'h \<Rightarrow> addr \<Rightarrow> addr option"
    and prv :: "'h \<Rightarrow> addr \<Rightarrow> addr option"
    and set_nxt :: "addr \<Rightarrow> addr \<Rightarrow> 'h \<Rightarrow> 'h option"
    and set_prv :: "addr \<Rightarrow> addr \<Rightarrow> 'h \<Rightarrow> 'h option"
    and add :: "addr \<Rightarrow> addr \<Rightarrow> 'h \<Rightarrow> 'h option"
    and del :: "addr \<Rightarrow> 'h \<Rightarrow> 'h option"
  assumes live: "nxt h p = None \<longleftrightarrow> prv h p = None"
    and set_nxt_live: "nxt h p \<noteq> None \<Longrightarrow> \<exists>h'. set_nxt p q h = Some h'"
    and nxt_set_nxt: "set_nxt p q h = Some h' \<Longrightarrow> nxt h' = (nxt h)(p \<mapsto> q) \<and> prv h' = prv h"
    and set_prv_live: "prv h p \<noteq> None \<Longrightarrow> \<exists>h'. set_prv p q h = Some h'"
    and prv_set_prv: "set_prv p q h = Some h' \<Longrightarrow> prv h' = (prv h)(p \<mapsto> q) \<and> nxt h' = nxt h"
    and add_steps: "add p n h = do {
        b \<leftarrow> prv h n; h \<leftarrow> set_nxt p n h; h \<leftarrow> set_prv p b h; h \<leftarrow> set_nxt b p h; set_prv n p h }"
    and del_steps: "del p h = do {
        b \<leftarrow> prv h p; n \<leftarrow> nxt h p; h \<leftarrow> set_nxt b n h; set_prv n b h }"
begin

lemma add_ring:
  assumes "ring (nxt h) (prv h) hp xs" "p \<notin> set (hp # xs)" "nxt h p \<noteq> None"
  shows "\<exists>h'. add p hp h = Some h' \<and> ring (nxt h') (prv h') hp (xs @ [p]) \<and>
    (\<forall>a. a \<notin> set (hp # xs) \<and> a \<noteq> p \<longrightarrow> nxt h' a = nxt h a \<and> prv h' a = prv h a)"
proof -
  obtain zs b where zs: "hp # xs = zs @ [b]" by (metis list.distinct(1) rev_exhaust)
  note l = ring_last [OF assms(1) zs]
  have b: "b \<in> set (hp # xs)" "nxt h b \<noteq> None" "prv h hp \<noteq> None" "prv h p \<noteq> None"
    using l zs assms(3) live by (simp_all add: zs)
  obtain h1 where 1: "set_nxt p hp h = Some h1" using set_nxt_live [OF assms(3)] by blast
  note e1 = nxt_set_nxt [OF 1]
  obtain h2 where 2: "set_prv p b h1 = Some h2" using set_prv_live [of h1 p] e1 b by auto
  note e2 = prv_set_prv [OF 2]
  have "nxt h2 b \<noteq> None" using e1 e2 b(2) by simp
  then obtain h3 where 3: "set_nxt b p h2 = Some h3" using set_nxt_live by blast
  note e3 = nxt_set_nxt [OF 3]
  have "prv h3 hp \<noteq> None" using e1 e2 e3 b(3) by simp
  then obtain h4 where 4: "set_prv hp p h3 = Some h4" using set_prv_live by blast
  note e4 = prv_set_prv [OF 4]
  have "nxt h4 = (nxt h)(p \<mapsto> hp, b \<mapsto> p)" "prv h4 = (prv h)(p \<mapsto> b, hp \<mapsto> p)"
    using e1 e2 e3 e4 by simp_all
  moreover have "add p hp h = Some h4" using l(3) 1 2 3 4 by (simp add: add_steps)
  ultimately show ?thesis
    using ring_insert [OF assms(1,2) zs] b(1) by auto
qed

lemma del_ring:
  assumes "ring (nxt h) (prv h) hp (xs @ p # ys)"
  shows "\<exists>h'. del p h = Some h' \<and> ring (nxt h') (prv h') hp (xs @ ys) \<and>
    (\<forall>a. a \<notin> set (hp # xs @ ys) \<longrightarrow> nxt h' a = nxt h a \<and> prv h' a = prv h a)"
proof -
  obtain zs b where zs: "hp # xs = zs @ [b]" by (metis list.distinct(1) rev_exhaust)
  obtain n r where n: "ys @ [hp] = n # r" by (cases "ys @ [hp]") auto
  note r = ring_remove [OF assms zs n]
  have "b \<in> set (hp # xs)" "n \<in> set (ys @ [hp])" by (simp_all add: zs n)
  then have m: "b \<in> set (hp # xs @ ys)" "n \<in> set (hp # xs @ ys)" by auto
  then have l: "nxt h b \<noteq> None" "prv h n \<noteq> None"
    using ring_live [OF assms, of b] ring_live [OF assms, of n] live by auto
  obtain h1 where 1: "set_nxt b n h = Some h1" using set_nxt_live [OF l(1)] by blast
  note e1 = nxt_set_nxt [OF 1]
  obtain h2 where 2: "set_prv n b h1 = Some h2" using set_prv_live [of h1 n] e1 l by auto
  note e2 = prv_set_prv [OF 2]
  have "nxt h2 = (nxt h)(b \<mapsto> n)" "prv h2 = (prv h)(n \<mapsto> b)" using e1 e2 by simp_all
  moreover have "del p h = Some h2" using r(1,2) 1 2 by (simp add: del_steps)
  ultimately show ?thesis using r(3) m by auto
qed

end

end
