(* ===== verification/Fuse_Request.thy ===== *)
theory Fuse_Request
  imports Fuse_Kernel Fuse_Ring
begin

text \<open>
  Sessions and requests of libfuse, \<^verbatim>\<open>libfuse/lib/fuse_i.h\<close> and the first part of
  \<^verbatim>\<open>libfuse/lib/fuse_lowlevel.c\<close>: request objects in their circular lists, their reference counts, and the messages
  written to the device for the simple members of the \<^verbatim>\<open>fuse_reply_*\<close> family.

  Request objects live at addresses; using one that has been freed is undefined (\<open>None\<close>). The file
  system uses no cloned descriptors (\<^verbatim>\<open>clone_fd = 0\<close> in \<^verbatim>\<open>f3.cc\<close>), so a request's channel is the null pointer
  and messages go to the session's descriptor. Logging is left out.
\<close>

section \<open>Data\<close>

text \<open>
  The first word of the union \<open>u\<close> is \<open>i.unique\<close> for an interrupt request and the function pointer
  \<open>ni.func\<close> (0 for none) for any other.
\<close>

record fuse_req =
  r_unique :: u64
  r_ctr :: int
  r_uid :: u32
  r_gid :: u32
  r_pid :: u32
  r_umask :: u32
  r_interrupted :: bool
  r_u :: u64
  r_u_data :: u64
  r_next :: addr
  r_prev :: addr

text \<open>A notification request with the cookie of the \<^verbatim>\<open>fuse_retrieve_req\<close> it is embedded in.\<close>

record fuse_notify_req =
  n_unique :: u64
  n_cookie :: u64
  n_next :: addr
  n_prev :: addr

record fuse_ll_pipe =
  lp_size :: u64
  lp_can_grow :: bool
  lp_read :: fdesc
  lp_write :: fdesc

text \<open>
  \<open>se_pipe\<close> is the thread's value under \<open>pipe_key\<close>, \<open>se_max_read_mo\<close> the result of \<open>get_max_read\<close> on the
  mount options, \<open>se_brk\<close> the next unused address for request objects, and \<open>se_pagesize\<close> the static \<open>pagesize\<close>.
\<close>

record fuse_session =
  se_exited :: bool
  se_fd :: fdesc
  se_mountpoint :: "string option"
  se_deny_others :: bool
  se_got_init :: bool
  se_got_destroy :: bool
  se_cuse_data :: bool
  se_owner :: u32
  se_conn :: fuse_conn_info
  se_reqs :: "addr \<rightharpoonup> fuse_req"
  se_nreqs :: "addr \<rightharpoonup> fuse_notify_req"
  se_brk :: addr
  se_pipe :: "fuse_ll_pipe option"
  se_broken_splice_nonblock :: bool
  se_notify_ctr :: u64
  se_bufsize :: u64
  se_error :: int
  se_max_read_mo :: u32
  se_pagesize :: u64

type_synonym ('w, 'x) ll = "fuse_session \<times> ('w, 'x) machine_scheme"

text \<open>The addresses of the list heads embedded in the session.\<close>

definition SE_LIST :: addr where "SE_LIST = 1"
definition SE_INTERRUPTS :: addr where "SE_INTERRUPTS = 2"
definition SE_NOTIFY_LIST :: addr where "SE_NOTIFY_LIST = 3"

section \<open>Lists of requests\<close>

definition set_next :: "addr \<Rightarrow> addr \<Rightarrow> (addr \<rightharpoonup> fuse_req) \<Rightarrow> (addr \<rightharpoonup> fuse_req) option" where
  "set_next p q h = map_option (\<lambda>r. h(p \<mapsto> r\<lparr>r_next := q\<rparr>)) (h p)"

definition set_prev :: "addr \<Rightarrow> addr \<Rightarrow> (addr \<rightharpoonup> fuse_req) \<Rightarrow> (addr \<rightharpoonup> fuse_req) option" where
  "set_prev p q h = map_option (\<lambda>r. h(p \<mapsto> r\<lparr>r_prev := q\<rparr>)) (h p)"

definition list_init_req :: "addr \<Rightarrow> (addr \<rightharpoonup> fuse_req) \<Rightarrow> (addr \<rightharpoonup> fuse_req) option" where
  "list_init_req req h = do { h \<leftarrow> set_next req req h; set_prev req req h }"

definition list_del_req :: "addr \<Rightarrow> (addr \<rightharpoonup> fuse_req) \<Rightarrow> (addr \<rightharpoonup> fuse_req) option" where
  "list_del_req req h = do {
     r \<leftarrow> h req;
     h \<leftarrow> set_next (r_prev r) (r_next r) h;
     set_prev (r_next r) (r_prev r) h }"

definition list_add_req :: "addr \<Rightarrow> addr \<Rightarrow> (addr \<rightharpoonup> fuse_req) \<Rightarrow> (addr \<rightharpoonup> fuse_req) option" where
  "list_add_req req n h = do {
     rn \<leftarrow> h n;
     h \<leftarrow> set_next req n h;
     h \<leftarrow> set_prev req (r_prev rn) h;
     h \<leftarrow> set_next (r_prev rn) req h;
     set_prev n req h }"

definition set_nnext :: "addr \<Rightarrow> addr \<Rightarrow> (addr \<rightharpoonup> fuse_notify_req) \<Rightarrow> (addr \<rightharpoonup> fuse_notify_req) option" where
  "set_nnext p q h = map_option (\<lambda>r. h(p \<mapsto> r\<lparr>n_next := q\<rparr>)) (h p)"

definition set_nprev :: "addr \<Rightarrow> addr \<Rightarrow> (addr \<rightharpoonup> fuse_notify_req) \<Rightarrow> (addr \<rightharpoonup> fuse_notify_req) option" where
  "set_nprev p q h = map_option (\<lambda>r. h(p \<mapsto> r\<lparr>n_prev := q\<rparr>)) (h p)"

definition list_init_nreq :: "addr \<Rightarrow> (addr \<rightharpoonup> fuse_notify_req) \<Rightarrow> (addr \<rightharpoonup> fuse_notify_req) option" where
  "list_init_nreq nreq h = do { h \<leftarrow> set_nnext nreq nreq h; set_nprev nreq nreq h }"

definition list_del_nreq :: "addr \<Rightarrow> (addr \<rightharpoonup> fuse_notify_req) \<Rightarrow> (addr \<rightharpoonup> fuse_notify_req) option" where
  "list_del_nreq nreq h = do {
     r \<leftarrow> h nreq;
     h \<leftarrow> set_nnext (n_prev r) (n_next r) h;
     set_nprev (n_next r) (n_prev r) h }"

definition list_add_nreq :: "addr \<Rightarrow> addr \<Rightarrow> (addr \<rightharpoonup> fuse_notify_req) \<Rightarrow>
    (addr \<rightharpoonup> fuse_notify_req) option" where
  "list_add_nreq nreq n h = do {
     rn \<leftarrow> h n;
     h \<leftarrow> set_nnext nreq n h;
     h \<leftarrow> set_nprev nreq (n_prev rn) h;
     h \<leftarrow> set_nnext (n_prev rn) nreq h;
     set_nprev n nreq h }"

text \<open>Both kinds of nodes are linked in the same way.\<close>

lemma bind_twice: "Option.bind x (\<lambda>a. Option.bind x (f a)) = Option.bind x (\<lambda>a. f a a)"
  by (cases x) auto

abbreviation rnext :: "(addr \<rightharpoonup> fuse_req) \<Rightarrow> addr \<Rightarrow> addr option" where
  "rnext h p \<equiv> map_option r_next (h p)"

abbreviation rprev :: "(addr \<rightharpoonup> fuse_req) \<Rightarrow> addr \<Rightarrow> addr option" where
  "rprev h p \<equiv> map_option r_prev (h p)"

abbreviation nnext :: "(addr \<rightharpoonup> fuse_notify_req) \<Rightarrow> addr \<Rightarrow> addr option" where
  "nnext h p \<equiv> map_option n_next (h p)"

abbreviation nprev :: "(addr \<rightharpoonup> fuse_notify_req) \<Rightarrow> addr \<Rightarrow> addr option" where
  "nprev h p \<equiv> map_option n_prev (h p)"

interpretation rl: linked_nodes rnext rprev set_next set_prev list_add_req list_del_req
  by unfold_locales
    (auto simp: set_next_def set_prev_def list_add_req_def list_del_req_def
      bind_map_option bind_twice comp_def intro!: ext)

interpretation nl: linked_nodes nnext nprev set_nnext set_nprev list_add_nreq list_del_nreq
  by unfold_locales
    (auto simp: set_nnext_def set_nprev_def list_add_nreq_def list_del_nreq_def
      bind_map_option bind_twice comp_def intro!: ext)

section \<open>Life of a request\<close>

definition destroy_req :: "addr \<Rightarrow> fuse_session \<Rightarrow> fuse_session option" where
  "destroy_req req se =
     (if se_reqs se req = None then None else Some (se\<lparr>se_reqs := (se_reqs se)(req := None)\<rparr>))"

definition fuse_free_req :: "addr \<Rightarrow> ('w, 'x) ll \<Rightarrow> ('w, 'x) ll option" where
  "fuse_free_req req = (\<lambda>(se, s). do {
     let s = lock SessionMutex s;
     r \<leftarrow> se_reqs se req;
     h \<leftarrow> list_del_req req ((se_reqs se)(req \<mapsto> r\<lparr>r_u := 0, r_u_data := 0\<rparr>));
     r \<leftarrow> h req;
     let ctr = r_ctr r - 1;
     let se = se\<lparr>se_reqs := h(req \<mapsto> r\<lparr>r_ctr := ctr\<rparr>)\<rparr>;
     let s = unlock SessionMutex s;
     se \<leftarrow> (if ctr = 0 then destroy_req req se else Some se);
     Some (se, s) })"

definition zero_req :: fuse_req where
  "zero_req = \<lparr>r_unique = 0, r_ctr = 0, r_uid = 0, r_gid = 0, r_pid = 0, r_umask = 0,
     r_interrupted = False, r_u = 0, r_u_data = 0, r_next = 0, r_prev = 0\<rparr>"

definition fuse_ll_alloc_req :: "'w os \<Rightarrow> ('w, 'x) ll \<Rightarrow> (addr option \<times> ('w, 'x) ll) option" where
  "fuse_ll_alloc_req os = (\<lambda>(se, s). do {
     let (ok, s) = alloc os s;
     if \<not> ok then Some (None, se, s)
     else do {
       let req = se_brk se;
       h \<leftarrow> list_init_req req ((se_reqs se)(req \<mapsto> zero_req\<lparr>r_ctr := 1\<rparr>));
       Some (Some req, se\<lparr>se_reqs := h, se_brk := req + 1\<rparr>, s) } })"

section \<open>Sending\<close>

fun iov_length :: "string list \<Rightarrow> u64" where
  "iov_length [] = 0"
| "iov_length (v # iov) = of_nat (length v) + iov_length iov"

text \<open>\<^verbatim>\<open>struct fuse_out_header\<close>: length, error, unique number.\<close>

definition fuse_out_header :: "u32 \<Rightarrow> int \<Rightarrow> u64 \<Rightarrow> char list" where
  "fuse_out_header len err uniq = le32 len @ le32 (word_of_int err) @ le64 uniq"

definition OUT_HEADER_SIZE :: nat where [const_defs]: "OUT_HEADER_SIZE = 16"

text \<open>
  The header in \<open>iov[0]\<close> is given by its fields \<open>error\<close> and \<open>unique\<close>; the other buffers follow. The
  length is truncated to the 32 bits of the field.
\<close>

definition fuse_send_msg :: "'w os \<Rightarrow> int \<Rightarrow> u64 \<Rightarrow> string list \<Rightarrow> ('w, 'x) ll \<Rightarrow> int \<times> ('w, 'x) ll" where
  "fuse_send_msg os err uniq iov = (\<lambda>(se, s).
     let len = ucast (of_nat OUT_HEADER_SIZE + iov_length iov);
         (res, s) = sys os (Writev (se_fd se) (fuse_out_header len err uniq # iov)) s
     in (case res of Inl e \<Rightarrow> - e | Inr _ \<Rightarrow> 0, se, s))"

definition fuse_send_reply_iov_nofree :: "'w os \<Rightarrow> addr \<Rightarrow> int \<Rightarrow> string list \<Rightarrow> ('w, 'x) ll \<Rightarrow>
    (int \<times> ('w, 'x) ll) option" where
  "fuse_send_reply_iov_nofree os req err iov = (\<lambda>(se, s). do {
     let err = (if err \<le> -1000 \<or> err > 0 then - ERANGE else err);
     r \<leftarrow> se_reqs se req;
     Some (fuse_send_msg os err (r_unique r) iov (se, s)) })"

definition send_reply_iov :: "'w os \<Rightarrow> addr \<Rightarrow> int \<Rightarrow> string list \<Rightarrow> ('w, 'x) ll \<Rightarrow>
    (int \<times> ('w, 'x) ll) option" where
  "send_reply_iov os req err iov st = do {
     (res, st) \<leftarrow> fuse_send_reply_iov_nofree os req err iov st;
     st \<leftarrow> fuse_free_req req st;
     Some (res, st) }"

definition send_reply :: "'w os \<Rightarrow> addr \<Rightarrow> int \<Rightarrow> string \<Rightarrow> ('w, 'x) ll \<Rightarrow>
    (int \<times> ('w, 'x) ll) option" where
  "send_reply os req err arg = send_reply_iov os req err (if arg \<noteq> [] then [arg] else [])"

definition send_reply_ok :: "'w os \<Rightarrow> addr \<Rightarrow> string \<Rightarrow> ('w, 'x) ll \<Rightarrow> (int \<times> ('w, 'x) ll) option" where
  "send_reply_ok os req arg = send_reply os req 0 arg"

definition fuse_reply_err :: "'w os \<Rightarrow> addr \<Rightarrow> errno \<Rightarrow> ('w, 'x) ll \<Rightarrow> (int \<times> ('w, 'x) ll) option" where
  "fuse_reply_err os req err = send_reply os req (- err) []"

definition fuse_reply_none :: "addr \<Rightarrow> ('w, 'x) ll \<Rightarrow> ('w, 'x) ll option" where
  "fuse_reply_none req = fuse_free_req req"

definition fuse_reply_iov :: "'w os \<Rightarrow> addr \<Rightarrow> string list \<Rightarrow> ('w, 'x) ll \<Rightarrow>
    (int \<times> ('w, 'x) ll) option" where
  "fuse_reply_iov os req iov = (\<lambda>(se, s).
     let (ok, s) = alloc os s in
     if \<not> ok then fuse_reply_err os req ENOMEM (se, s)
     else send_reply_iov os req 0 iov (se, s))"

end
