(* ===== verification/Fuse_Buf.thy ===== *)
theory Fuse_Buf
  imports Posix
begin

text \<open>
  Buffer vectors, \<^verbatim>\<open>libfuse/lib/buffer.c\<close>: copying between memory and file descriptors, which is how
  \<^verbatim>\<open>f3.cc\<close> moves the data of reads and writes. The kernel may transfer any part of what it is asked
  to, and \<open>FUSE_BUF_FD_RETRY\<close> makes the loops go on until it has transferred all, so the loops are
  partial functions: \<open>None\<close> is a loop that does not end, or a failed \<open>assert\<close>. The sources are built
  with \<open>HAVE_SPLICE\<close>.
\<close>

section \<open>Sizes\<close>

definition SIZE_MAX :: u64 where [const_defs]: "SIZE_MAX = -1"

fun buf_size_from :: "u64 \<Rightarrow> fuse_buf list \<Rightarrow> u64" where
  "buf_size_from n [] = n"
| "buf_size_from n (b # bs) =
     buf_size_from (if b_size b = SIZE_MAX then SIZE_MAX else n + b_size b) bs"

definition fuse_buf_size :: "fuse_bufvec \<Rightarrow> u64" where
  "fuse_buf_size bufv = buf_size_from 0 (v_buf bufv)"

definition min_size :: "u64 \<Rightarrow> u64 \<Rightarrow> u64" where
  "min_size s1 s2 = (if s1 < s2 then s1 else s2)"

section \<open>Memory to descriptor and back\<close>

partial_function (option) fuse_buf_write_loop :: "'w os \<Rightarrow> fuse_buf \<Rightarrow> u64 \<Rightarrow> fuse_buf \<Rightarrow> u64 \<Rightarrow>
    u64 \<Rightarrow> u64 \<Rightarrow> ('w, 'x) machine_scheme \<Rightarrow> (int \<times> ('w, 'x) machine_scheme) option" where
  "fuse_buf_write_loop os dst dst_off src src_off len copied s =
     (if len = 0 then Some (sint copied, s)
      else
        let bytes = read_mem s (b_mem src + unat src_off) (unat len) in
        case (if b_flags dst AND FUSE_BUF_FD_SEEK \<noteq> 0
              then sys os (Pwrite (b_fd dst) bytes (b_pos dst + dst_off)) s
              else sys os (WriteFd (b_fd dst) bytes) s) of
          (Inl e, s') \<Rightarrow> Some (if copied = 0 then - e else sint copied, s')
        | (Inr res, s') \<Rightarrow>
            if res = 0 then Some (sint copied, s')
            else
              let copied' = copied + word_of_int res in
              if b_flags dst AND FUSE_BUF_FD_RETRY = 0 then Some (sint copied', s')
              else fuse_buf_write_loop os dst (dst_off + word_of_int res) src
                     (src_off + word_of_int res) (len - word_of_int res) copied' s')"

definition fuse_buf_write :: "'w os \<Rightarrow> fuse_buf \<Rightarrow> u64 \<Rightarrow> fuse_buf \<Rightarrow> u64 \<Rightarrow> u64 \<Rightarrow>
    ('w, 'x) machine_scheme \<Rightarrow> (int \<times> ('w, 'x) machine_scheme) option" where
  "fuse_buf_write os dst dst_off src src_off len = fuse_buf_write_loop os dst dst_off src src_off len 0"

partial_function (option) fuse_buf_read_loop :: "'w os \<Rightarrow> fuse_buf \<Rightarrow> u64 \<Rightarrow> fuse_buf \<Rightarrow> u64 \<Rightarrow>
    u64 \<Rightarrow> u64 \<Rightarrow> ('w, 'x) machine_scheme \<Rightarrow> (int \<times> ('w, 'x) machine_scheme) option" where
  "fuse_buf_read_loop os dst dst_off src src_off len copied s =
     (if len = 0 then Some (sint copied, s)
      else
        case (if b_flags src AND FUSE_BUF_FD_SEEK \<noteq> 0
              then sys_data os (Pread (b_fd src) (unat len) (b_pos src + src_off)) s
              else sys_data os (ReadFd (b_fd src) (unat len)) s) of
          (Inl e, s') \<Rightarrow> Some (if copied = 0 then - e else sint copied, s')
        | (Inr bytes, s') \<Rightarrow>
            let res = of_nat (length bytes);
                s'' = write_mem (b_mem dst + unat dst_off) bytes s' in
            if bytes = [] then Some (sint copied, s'')
            else
              let copied' = copied + res in
              if b_flags src AND FUSE_BUF_FD_RETRY = 0 then Some (sint copied', s'')
              else fuse_buf_read_loop os dst (dst_off + res) src (src_off + res) (len - res)
                     copied' s'')"

definition fuse_buf_read :: "'w os \<Rightarrow> fuse_buf \<Rightarrow> u64 \<Rightarrow> fuse_buf \<Rightarrow> u64 \<Rightarrow> u64 \<Rightarrow>
    ('w, 'x) machine_scheme \<Rightarrow> (int \<times> ('w, 'x) machine_scheme) option" where
  "fuse_buf_read os dst dst_off src src_off len = fuse_buf_read_loop os dst dst_off src src_off len 0"

section \<open>Descriptor to descriptor\<close>

definition FD_TO_FD_BUF :: nat where [const_defs]: "FD_TO_FD_BUF = 131072"

partial_function (option) fd_to_fd_loop :: "'w os \<Rightarrow> fuse_buf \<Rightarrow> u64 \<Rightarrow> fuse_buf \<Rightarrow> u64 \<Rightarrow> fuse_buf \<Rightarrow>
    u64 \<Rightarrow> u64 \<Rightarrow> ('w, 'x) machine_scheme \<Rightarrow> (int \<times> ('w, 'x) machine_scheme) option" where
  "fd_to_fd_loop os dst dst_off src src_off tmp len copied s =
     (if len = 0 then Some (sint copied, s)
      else do {
        let this_len = min_size (b_size tmp) len;
        (res, s1) \<leftarrow> fuse_buf_read os tmp 0 src src_off this_len s;
        if res < 0 then Some (if copied = 0 then res else sint copied, s1)
        else if res = 0 then Some (sint copied, s1)
        else do {
          (res, s2) \<leftarrow> fuse_buf_write os dst dst_off tmp 0 (word_of_int res) s1;
          if res < 0 then Some (if copied = 0 then res else sint copied, s2)
          else if res = 0 then Some (sint copied, s2)
          else do {
            let copied' = copied + word_of_int res;
            if (word_of_int res :: u64) < this_len then Some (sint copied', s2)
            else fd_to_fd_loop os dst (dst_off + word_of_int res) src (src_off + word_of_int res)
                   tmp (len - word_of_int res) copied' s2 } } })"

definition fuse_buf_fd_to_fd :: "'w os \<Rightarrow> fuse_buf \<Rightarrow> u64 \<Rightarrow> fuse_buf \<Rightarrow> u64 \<Rightarrow> u64 \<Rightarrow>
    ('w, 'x) machine_scheme \<Rightarrow> (int \<times> ('w, 'x) machine_scheme) option" where
  "fuse_buf_fd_to_fd os dst dst_off src src_off len s = do {
     let (buf, s) = malloc FD_TO_FD_BUF s;
     let tmp = \<lparr>b_size = of_nat FD_TO_FD_BUF, b_flags = 0, b_mem = buf, b_fd = 0, b_pos = 0\<rparr>;
     fd_to_fd_loop os dst dst_off src src_off tmp len 0 s }"

definition SPLICE_F_MOVE :: u32 where [const_defs]: "SPLICE_F_MOVE = 1"
definition SPLICE_F_NONBLOCK :: u32 where [const_defs]: "SPLICE_F_NONBLOCK = 2"

text \<open>\<open>splice\<close> itself advances the positions it is given by pointer.\<close>

partial_function (option) splice_loop :: "'w os \<Rightarrow> fuse_buf \<Rightarrow> u64 \<Rightarrow> fuse_buf \<Rightarrow> u64 \<Rightarrow> u32 \<Rightarrow> u32 \<Rightarrow>
    u64 option \<Rightarrow> u64 option \<Rightarrow> u64 \<Rightarrow> u64 \<Rightarrow> ('w, 'x) machine_scheme \<Rightarrow>
    (int \<times> ('w, 'x) machine_scheme) option" where
  "splice_loop os dst dst_off src src_off flags splice_flags srcpos dstpos len copied s =
     (if len = 0 then Some (sint copied, s)
      else
        case sys os (Splice (b_fd src) srcpos (b_fd dst) dstpos len splice_flags) s of
          (Inl e, s') \<Rightarrow>
            if copied \<noteq> 0 then Some (sint copied, s')
            else if e \<noteq> EINVAL \<or> flags AND FUSE_BUF_FORCE_SPLICE \<noteq> 0 then Some (- e, s')
            else fuse_buf_fd_to_fd os dst dst_off src src_off len s'
        | (Inr res, s') \<Rightarrow>
            if res = 0 then Some (sint copied, s')
            else
              let copied' = copied + word_of_int res in
              if b_flags src AND FUSE_BUF_FD_RETRY = 0 \<and> b_flags dst AND FUSE_BUF_FD_RETRY = 0
              then Some (sint copied', s')
              else splice_loop os dst dst_off src src_off flags splice_flags
                     (map_option (\<lambda>p. p + word_of_int res) srcpos)
                     (map_option (\<lambda>p. p + word_of_int res) dstpos)
                     (len - word_of_int res) copied' s')"

definition fuse_buf_splice :: "'w os \<Rightarrow> fuse_buf \<Rightarrow> u64 \<Rightarrow> fuse_buf \<Rightarrow> u64 \<Rightarrow> u64 \<Rightarrow> u32 \<Rightarrow>
    ('w, 'x) machine_scheme \<Rightarrow> (int \<times> ('w, 'x) machine_scheme) option" where
  "fuse_buf_splice os dst dst_off src src_off len flags s =
     (let splice_flags = (if flags AND FUSE_BUF_SPLICE_MOVE \<noteq> 0 then SPLICE_F_MOVE else 0) OR
                         (if flags AND FUSE_BUF_SPLICE_NONBLOCK \<noteq> 0 then SPLICE_F_NONBLOCK else 0);
          srcpos = (if b_flags src AND FUSE_BUF_FD_SEEK \<noteq> 0 then Some (b_pos src + src_off) else None);
          dstpos = (if b_flags dst AND FUSE_BUF_FD_SEEK \<noteq> 0 then Some (b_pos dst + dst_off) else None)
      in splice_loop os dst dst_off src src_off flags splice_flags srcpos dstpos len 0 s)"

section \<open>Copying one buffer\<close>

definition memmove :: "addr \<Rightarrow> addr \<Rightarrow> nat \<Rightarrow> ('w, 'x) machine_scheme \<Rightarrow> ('w, 'x) machine_scheme" where
  "memmove d a n s = write_mem d (read_mem s a n) s"

text \<open>\<open>memcpy\<close> of overlapping blocks is undefined.\<close>

definition memcpy :: "addr \<Rightarrow> addr \<Rightarrow> nat \<Rightarrow> ('w, 'x) machine_scheme \<Rightarrow>
    ('w, 'x) machine_scheme option" where
  "memcpy d a n s = (if d + n \<le> a \<or> a + n \<le> d then Some (memmove d a n s) else None)"

definition fuse_buf_copy_one :: "'w os \<Rightarrow> fuse_buf \<Rightarrow> u64 \<Rightarrow> fuse_buf \<Rightarrow> u64 \<Rightarrow> u64 \<Rightarrow> u32 \<Rightarrow>
    ('w, 'x) machine_scheme \<Rightarrow> (int \<times> ('w, 'x) machine_scheme) option" where
  "fuse_buf_copy_one os dst dst_off src src_off len flags s =
     (let src_is_fd = (b_flags src AND FUSE_BUF_IS_FD \<noteq> 0);
          dst_is_fd = (b_flags dst AND FUSE_BUF_IS_FD \<noteq> 0) in
      if \<not> src_is_fd \<and> \<not> dst_is_fd then do {
        let dstmem = b_mem dst + unat dst_off;
        let srcmem = b_mem src + unat src_off;
        let n = unat len;
        s \<leftarrow> (if dstmem \<noteq> srcmem then
               if dstmem + n \<le> srcmem \<or> srcmem + n \<le> dstmem then memcpy dstmem srcmem n s
               else Some (memmove dstmem srcmem n s)
             else Some s);
        Some (sint len, s) }
      else if \<not> src_is_fd then fuse_buf_write os dst dst_off src src_off len s
      else if \<not> dst_is_fd then fuse_buf_read os dst dst_off src src_off len s
      else if flags AND FUSE_BUF_NO_SPLICE \<noteq> 0 then fuse_buf_fd_to_fd os dst dst_off src src_off len s
      else fuse_buf_splice os dst dst_off src src_off len flags s)"

section \<open>Copying vectors\<close>

definition fuse_bufvec_current :: "fuse_bufvec \<Rightarrow> fuse_buf option" where
  "fuse_bufvec_current bufv =
     (if v_idx bufv < length (v_buf bufv) then Some (v_buf bufv ! v_idx bufv) else None)"

text \<open>Whether there is a buffer left to go on with; \<open>None\<close> when an assertion fails.\<close>

definition fuse_bufvec_advance :: "fuse_bufvec \<Rightarrow> u64 \<Rightarrow> (bool \<times> fuse_bufvec) option" where
  "fuse_bufvec_advance bufv len =
     (case fuse_bufvec_current bufv of
        None \<Rightarrow> Some (False, bufv)
      | Some buf \<Rightarrow>
          let off = v_off bufv + len in
          if off > b_size buf then None
          else if off = b_size buf then
            if Suc (v_idx bufv) = length (v_buf bufv)
            then Some (False, bufv\<lparr>v_off := off, v_idx := Suc (v_idx bufv)\<rparr>)
            else Some (True, bufv\<lparr>v_off := 0, v_idx := Suc (v_idx bufv)\<rparr>)
          else Some (True, bufv\<lparr>v_off := off\<rparr>))"

partial_function (option) buf_copy_loop :: "'w os \<Rightarrow> fuse_bufvec \<Rightarrow> fuse_bufvec \<Rightarrow> u32 \<Rightarrow> u64 \<Rightarrow>
    ('w, 'x) machine_scheme \<Rightarrow>
    (int \<times> fuse_bufvec \<times> fuse_bufvec \<times> ('w, 'x) machine_scheme) option" where
  "buf_copy_loop os dstv srcv flags copied s =
     (case fuse_bufvec_current srcv of
        None \<Rightarrow> Some (sint copied, dstv, srcv, s)
      | Some src \<Rightarrow>
          (case fuse_bufvec_current dstv of
             None \<Rightarrow> Some (sint copied, dstv, srcv, s)
           | Some dst \<Rightarrow> do {
               let src_len = b_size src - v_off srcv;
               let dst_len = b_size dst - v_off dstv;
               let len = min_size src_len dst_len;
               (res, s1) \<leftarrow> fuse_buf_copy_one os dst (v_off dstv) src (v_off srcv) len flags s;
               if res < 0 then Some (if copied = 0 then res else sint copied, dstv, srcv, s1)
               else do {
                 let copied' = copied + word_of_int res;
                 (more, srcv') \<leftarrow> fuse_bufvec_advance srcv (word_of_int res);
                 if \<not> more then Some (sint copied', dstv, srcv', s1)
                 else do {
                   (more, dstv') \<leftarrow> fuse_bufvec_advance dstv (word_of_int res);
                   if \<not> more then Some (sint copied', dstv', srcv', s1)
                   else if (word_of_int res :: u64) < len then Some (sint copied', dstv', srcv', s1)
                   else buf_copy_loop os dstv' srcv' flags copied' s1 } } }))"

text \<open>For two different vectors (\<^verbatim>\<open>f3.cc\<close> and the reply functions never pass the same one twice).\<close>

definition fuse_buf_copy :: "'w os \<Rightarrow> fuse_bufvec \<Rightarrow> fuse_bufvec \<Rightarrow> u32 \<Rightarrow> ('w, 'x) machine_scheme \<Rightarrow>
    (int \<times> fuse_bufvec \<times> fuse_bufvec \<times> ('w, 'x) machine_scheme) option" where
  "fuse_buf_copy os dstv srcv flags s = buf_copy_loop os dstv srcv flags 0 s"

section \<open>Frame\<close>

lemma core_fuse_buf_write_loop_snd:
  assumes "fuse_buf_write_loop os dst doff src soff len c s = Some y"
  shows "core (snd y) = core s"
  using assms
proof (induction rule: fuse_buf_write_loop.raw_induct [rotated, consumes 1, case_names step])
  case (step f os dst doff src soff len c s y)
  from step(2) show ?case
    by (elim stepE) (auto dest!: core_dest step(1) split: asm_splits)
qed

lemma core_fuse_buf_write [core_dest]: "fuse_buf_write os dst doff src soff len s = Some (r, s') \<Longrightarrow> core s' = core s"
  unfolding fuse_buf_write_def by (drule core_fuse_buf_write_loop_snd) simp

lemma core_fuse_buf_read_loop_snd:
  assumes "fuse_buf_read_loop os dst doff src soff len c s = Some y"
  shows "core (snd y) = core s"
  using assms
proof (induction rule: fuse_buf_read_loop.raw_induct [rotated, consumes 1, case_names step])
  case (step f os dst doff src soff len c s y)
  from step(2) show ?case
    by (elim stepE) (auto dest!: core_dest step(1) split: asm_splits)
qed

lemma core_fuse_buf_read [core_dest]: "fuse_buf_read os dst doff src soff len s = Some (r, s') \<Longrightarrow> core s' = core s"
  unfolding fuse_buf_read_def by (drule core_fuse_buf_read_loop_snd) simp

lemma core_fd_to_fd_loop_snd:
  assumes "fd_to_fd_loop os dst doff src soff tmp len c s = Some y"
  shows "core (snd y) = core s"
  using assms
proof (induction rule: fd_to_fd_loop.raw_induct [rotated, consumes 1, case_names step])
  case (step f os dst doff src soff tmp len c s y)
  from step(2) show ?case
    by (elim stepE) (auto dest!: core_dest step(1))
qed

lemma core_fuse_buf_fd_to_fd [core_dest]:
  "fuse_buf_fd_to_fd os dst doff src soff len s = Some (r, s') \<Longrightarrow> core s' = core s"
  unfolding fuse_buf_fd_to_fd_def by (elim stepE) (auto dest!: core_dest core_fd_to_fd_loop_snd)

lemma core_splice_loop_snd:
  assumes "splice_loop os dst doff src soff fl sfl sp dp len c s = Some y"
  shows "core (snd y) = core s"
  using assms
proof (induction rule: splice_loop.raw_induct [rotated, consumes 1, case_names step])
  case (step f os dst doff src soff fl sfl sp dp len c s y)
  from step(2) show ?case
    by (cases y; elim stepE) (auto dest!: core_dest step(1))
qed

lemma core_fuse_buf_copy_one [core_dest]:
  "fuse_buf_copy_one os dst doff src soff len fl s = Some (r, s') \<Longrightarrow> core s' = core s"
  unfolding fuse_buf_copy_one_def fuse_buf_splice_def memcpy_def memmove_def
  by (elim stepE) (auto dest!: core_dest core_splice_loop_snd)

lemma core_buf_copy_loop_snd:
  assumes "buf_copy_loop os dv sv fl c s = Some y"
  shows "core (snd (snd (snd y))) = core s"
  using assms
proof (induction rule: buf_copy_loop.raw_induct [rotated, consumes 1, case_names step])
  case (step f os dv sv fl c s y)
  from step(2) show ?case
    by (elim stepE) (auto dest!: core_dest step(1))
qed

lemma core_fuse_buf_copy [core_dest]:
  "fuse_buf_copy os dv sv fl s = Some (r, dv', sv', s') \<Longrightarrow> core s' = core s"
  unfolding fuse_buf_copy_def by (drule core_buf_copy_loop_snd) simp

declare core_fuse_buf_copy [THEN core_replies, reply_dest]

end
