(* ===== verification/Fuse_Reply.thy ===== *)
theory Fuse_Reply
  imports Fuse_Request Fuse_Buf
begin

text \<open>
  The answers of libfuse, \<^verbatim>\<open>libfuse/lib/fuse_lowlevel.c\<close>: one definition for each function of the \<^verbatim>\<open>fuse_reply_*\<close>
  family, with the bytes it sends, including the way file data takes through a pipe
  (\<^verbatim>\<open>splice\<close> and \<^verbatim>\<open>vmsplice\<close>, which the build finds on Linux).
\<close>

section \<open>Structures sent\<close>

definition fill_open :: "fuse_file_info \<Rightarrow> char list" where
  "fill_open f =
     le64 (word_of_int (fi_fh f)) @
     le32 ((if fi_direct_io f then FOPEN_DIRECT_IO else 0) OR
           (if fi_keep_cache f then FOPEN_KEEP_CACHE else 0) OR
           (if fi_cache_readdir f then FOPEN_CACHE_DIR else 0) OR
           (if fi_nonseekable f then FOPEN_NONSEEKABLE else 0)) @ le32 0"

definition convert_statfs :: "statvfs \<Rightarrow> char list" where
  "convert_statfs v =
     le64 (vf_blocks v) @ le64 (vf_bfree v) @ le64 (vf_bavail v) @ le64 (vf_files v) @ le64 (vf_ffree v) @
     le32 (ucast (vf_bsize v)) @ le32 (ucast (vf_namemax v)) @ le32 (ucast (vf_frsize v)) @ le32 0 @
     concat (replicate 6 (le32 0))"

definition attr_out :: "stat \<Rightarrow> rat \<Rightarrow> char list" where
  "attr_out st t = le64 (calc_timeout_sec t) @ le32 (calc_timeout_nsec t) @ le32 0 @
     attr_bytes (convert_stat st)"

record flock =
  l_type :: int
  l_start :: u64
  l_len :: u64
  l_pid :: u32

definition F_RDLCK :: int where [const_defs]: "F_RDLCK = 0"
definition F_WRLCK :: int where [const_defs]: "F_WRLCK = 1"
definition F_UNLCK :: int where [const_defs]: "F_UNLCK = 2"
definition OFFSET_MAX :: u64 where [const_defs]: "OFFSET_MAX = 0x7FFFFFFFFFFFFFFF"

definition lk_out :: "flock \<Rightarrow> char list" where
  "lk_out l =
     (if l_type l \<noteq> F_UNLCK
      then le64 (l_start l) @ le64 (if l_len l = 0 then OFFSET_MAX else l_start l + l_len l - 1)
      else le64 0 @ le64 0) @
     le32 (word_of_int (l_type l)) @ le32 (l_pid l)"

section \<open>Simple answers\<close>

definition proto_minor :: "fuse_session \<Rightarrow> u32" where
  "proto_minor se = conn_proto_minor (se_conn se)"

definition fuse_reply_entry :: "'w os \<Rightarrow> addr \<Rightarrow> fuse_entry_param \<Rightarrow> ('w, 'x) ll \<Rightarrow>
    (int \<times> ('w, 'x) ll) option" where
  "fuse_reply_entry os req e = (\<lambda>(se, s).
     let n = (if proto_minor se < 9 then FUSE_COMPAT_ENTRY_OUT_SIZE else 128) in
     if e_ino e = 0 \<and> proto_minor se < 4 then fuse_reply_err os req ENOENT (se, s)
     else send_reply_ok os req (take n (entry_bytes (fill_entry e))) (se, s))"

text \<open>
  The two structures are written over a cleared buffer one after the other; before protocol 7.9
  the second one starts inside the first.
\<close>

definition fuse_reply_create :: "'w os \<Rightarrow> addr \<Rightarrow> fuse_entry_param \<Rightarrow> fuse_file_info \<Rightarrow> ('w, 'x) ll \<Rightarrow>
    (int \<times> ('w, 'x) ll) option" where
  "fuse_reply_create os req e f = (\<lambda>(se, s).
     let entrysize = (if proto_minor se < 9 then FUSE_COMPAT_ENTRY_OUT_SIZE else 128) in
     send_reply_ok os req (take entrysize (entry_bytes (fill_entry e)) @ fill_open f) (se, s))"

definition fuse_reply_attr :: "'w os \<Rightarrow> addr \<Rightarrow> stat \<Rightarrow> rat \<Rightarrow> ('w, 'x) ll \<Rightarrow>
    (int \<times> ('w, 'x) ll) option" where
  "fuse_reply_attr os req attr attr_timeout = (\<lambda>(se, s).
     let n = (if proto_minor se < 9 then FUSE_COMPAT_ATTR_OUT_SIZE else 104) in
     send_reply_ok os req (take n (attr_out attr attr_timeout)) (se, s))"

definition fuse_reply_readlink :: "'w os \<Rightarrow> addr \<Rightarrow> string \<Rightarrow> ('w, 'x) ll \<Rightarrow> (int \<times> ('w, 'x) ll) option" where
  "fuse_reply_readlink os req linkname = send_reply_ok os req linkname"

definition fuse_reply_open :: "'w os \<Rightarrow> addr \<Rightarrow> fuse_file_info \<Rightarrow> ('w, 'x) ll \<Rightarrow>
    (int \<times> ('w, 'x) ll) option" where
  "fuse_reply_open os req f = send_reply_ok os req (fill_open f)"

definition fuse_reply_write :: "'w os \<Rightarrow> addr \<Rightarrow> u64 \<Rightarrow> ('w, 'x) ll \<Rightarrow> (int \<times> ('w, 'x) ll) option" where
  "fuse_reply_write os req count = send_reply_ok os req (le32 (ucast count) @ le32 0)"

definition fuse_reply_buf :: "'w os \<Rightarrow> addr \<Rightarrow> string \<Rightarrow> ('w, 'x) ll \<Rightarrow> (int \<times> ('w, 'x) ll) option" where
  "fuse_reply_buf os req buf = send_reply_ok os req buf"

definition fuse_reply_statfs :: "'w os \<Rightarrow> addr \<Rightarrow> statvfs \<Rightarrow> ('w, 'x) ll \<Rightarrow> (int \<times> ('w, 'x) ll) option" where
  "fuse_reply_statfs os req stbuf = (\<lambda>(se, s).
     let n = (if proto_minor se < 4 then FUSE_COMPAT_STATFS_SIZE else 80) in
     send_reply_ok os req (take n (convert_statfs stbuf)) (se, s))"

definition fuse_reply_xattr :: "'w os \<Rightarrow> addr \<Rightarrow> u64 \<Rightarrow> ('w, 'x) ll \<Rightarrow> (int \<times> ('w, 'x) ll) option" where
  "fuse_reply_xattr os req count = send_reply_ok os req (le32 (ucast count) @ le32 0)"

definition fuse_reply_lock :: "'w os \<Rightarrow> addr \<Rightarrow> flock \<Rightarrow> ('w, 'x) ll \<Rightarrow> (int \<times> ('w, 'x) ll) option" where
  "fuse_reply_lock os req l = send_reply_ok os req (lk_out l)"

definition fuse_reply_bmap :: "'w os \<Rightarrow> addr \<Rightarrow> u64 \<Rightarrow> ('w, 'x) ll \<Rightarrow> (int \<times> ('w, 'x) ll) option" where
  "fuse_reply_bmap os req idx = send_reply_ok os req (le64 idx)"

definition fuse_reply_poll :: "'w os \<Rightarrow> addr \<Rightarrow> u32 \<Rightarrow> ('w, 'x) ll \<Rightarrow> (int \<times> ('w, 'x) ll) option" where
  "fuse_reply_poll os req revents = send_reply_ok os req (le32 revents @ le32 0)"

definition fuse_reply_lseek :: "'w os \<Rightarrow> addr \<Rightarrow> u64 \<Rightarrow> ('w, 'x) ll \<Rightarrow> (int \<times> ('w, 'x) ll) option" where
  "fuse_reply_lseek os req off = send_reply_ok os req (le64 off)"

section \<open>Answers to ioctl\<close>

definition ioctl_out :: "int \<Rightarrow> u32 \<Rightarrow> nat \<Rightarrow> nat \<Rightarrow> char list" where
  "ioctl_out result flags in_iovs out_iovs =
     le32 (word_of_int result) @ le32 flags @ le32 (of_nat in_iovs) @ le32 (of_nat out_iovs)"

text \<open>
  An \<^verbatim>\<open>iovec\<close> as base address and length; on the 64-bit machines the driver runs on it has the bytes of
  \<^verbatim>\<open>struct fuse_ioctl_iovec\<close>.
\<close>

definition fuse_ioctl_iovec_copy :: "'w os \<Rightarrow> (u64 \<times> u64) list \<Rightarrow> ('w, 'x) machine_scheme \<Rightarrow>
    char list option \<times> ('w, 'x) machine_scheme" where
  "fuse_ioctl_iovec_copy os iov s =
     (let (ok, s) = alloc os s
      in (if ok then Some (concat (map (\<lambda>(base, len). le64 base @ le64 len) iov)) else None, s))"

definition iovec_bytes :: "(u64 \<times> u64) list \<Rightarrow> char list" where
  "iovec_bytes iov = concat (map (\<lambda>(base, len). le64 base @ le64 len) iov)"

definition fuse_reply_ioctl_retry :: "'w os \<Rightarrow> addr \<Rightarrow> (u64 \<times> u64) list \<Rightarrow> (u64 \<times> u64) list \<Rightarrow>
    ('w, 'x) ll \<Rightarrow> (int \<times> ('w, 'x) ll) option" where
  "fuse_reply_ioctl_retry os req in_iov out_iov = (\<lambda>(se, s).
     let arg = ioctl_out 0 FUSE_IOCTL_RETRY (length in_iov) (length out_iov) in
     if proto_minor se < 16 then
       send_reply_iov os req 0
         ([arg] @ (if in_iov \<noteq> [] then [iovec_bytes in_iov] else []) @
                  (if out_iov \<noteq> [] then [iovec_bytes out_iov] else [])) (se, s)
     else
       let (a, s) = (if in_iov \<noteq> [] then map_prod (map_option (\<lambda>b. [b])) id (fuse_ioctl_iovec_copy os in_iov s)
                     else (Some [], s)) in
       case a of
         None \<Rightarrow> fuse_reply_err os req ENOMEM (se, s)
       | Some a \<Rightarrow>
           let (b, s) = (if out_iov \<noteq> [] then map_prod (map_option (\<lambda>b. [b])) id (fuse_ioctl_iovec_copy os out_iov s)
                         else (Some [], s)) in
           case b of
             None \<Rightarrow> fuse_reply_err os req ENOMEM (se, s)
           | Some b \<Rightarrow> send_reply_iov os req 0 ([arg] @ a @ b) (se, s))"

definition fuse_reply_ioctl :: "'w os \<Rightarrow> addr \<Rightarrow> int \<Rightarrow> string \<Rightarrow> ('w, 'x) ll \<Rightarrow>
    (int \<times> ('w, 'x) ll) option" where
  "fuse_reply_ioctl os req result buf =
     send_reply_iov os req 0 ([ioctl_out result 0 0 0] @ (if buf \<noteq> [] then [buf] else []))"

definition fuse_reply_ioctl_iov :: "'w os \<Rightarrow> addr \<Rightarrow> int \<Rightarrow> string list \<Rightarrow> ('w, 'x) ll \<Rightarrow>
    (int \<times> ('w, 'x) ll) option" where
  "fuse_reply_ioctl_iov os req result iov = (\<lambda>(se, s).
     let (ok, s) = alloc os s in
     if \<not> ok then fuse_reply_err os req ENOMEM (se, s)
     else send_reply_iov os req 0 (ioctl_out result 0 0 0 # iov) (se, s))"

end
