(* ===== verification/Fuse_Data.thy ===== *)
theory Fuse_Data
  imports Fuse_Reply
begin

text \<open>
  Sending file data, \<^verbatim>\<open>libfuse/lib/fuse_lowlevel.c\<close>: a copy through memory, or, when the connection allows it, a
  splice through the thread's pipe with a fallback to the copy at every obstacle.

  \<open>vmsplice\<close> makes the pipe refer to the process's memory, not to a copy of it. So the call names only the lengths of
  the blocks, and the final \<open>splice\<close> to the device is given what the blocks hold at that moment.
\<close>

section \<open>The thread's pipe\<close>

definition fuse_ll_pipe_free :: "'w os \<Rightarrow> fuse_ll_pipe \<Rightarrow> ('w, 'x) machine_scheme \<Rightarrow> ('w, 'x) machine_scheme" where
  "fuse_ll_pipe_free os llp s = sys_ignore os (Close (lp_write llp)) (sys_ignore os (Close (lp_read llp)) s)"

definition fuse_ll_get_pipe :: "'w os \<Rightarrow> ('w, 'x) ll \<Rightarrow> fuse_ll_pipe option \<times> ('w, 'x) ll" where
  "fuse_ll_get_pipe os = (\<lambda>(se, s).
     case se_pipe se of
       Some llp \<Rightarrow> (Some llp, se, s)
     | None \<Rightarrow>
         let (ok, s) = alloc os s in
         if \<not> ok then (None, se, s)
         else
           let (res, s) = sys_pipe os s in
           case res of
             Inl _ \<Rightarrow> (None, se, s)
           | Inr (r, w) \<Rightarrow>
               let llp = \<lparr>lp_size = se_pagesize se * 16, lp_can_grow = True, lp_read = r, lp_write = w\<rparr>
               in (Some llp, se\<lparr>se_pipe := Some llp\<rparr>, s))"

definition fuse_ll_clear_pipe :: "'w os \<Rightarrow> ('w, 'x) ll \<Rightarrow> ('w, 'x) ll" where
  "fuse_ll_clear_pipe os = (\<lambda>(se, s).
     case se_pipe se of
       None \<Rightarrow> (se, s)
     | Some llp \<Rightarrow> (se\<lparr>se_pipe := None\<rparr>, fuse_ll_pipe_free os llp s))"

text \<open>Reads exactly \<open>len\<close> bytes back from the pipe into memory.\<close>

definition read_back :: "'w os \<Rightarrow> fdesc \<Rightarrow> addr \<Rightarrow> nat \<Rightarrow> ('w, 'x) machine_scheme \<Rightarrow>
    int \<times> ('w, 'x) machine_scheme" where
  "read_back os fd buf len s =
     (let (res, s) = sys_data os (ReadFd fd len) s in
      case res of
        Inl _ \<Rightarrow> (- EIO, s)
      | Inr bs \<Rightarrow> (if length bs \<noteq> len then - EIO else 0, write_mem buf bs s))"

definition grow_pipe_to_max :: "'w os \<Rightarrow> fdesc \<Rightarrow> ('w, 'x) machine_scheme \<Rightarrow>
    int \<times> ('w, 'x) machine_scheme" where
  "grow_pipe_to_max os pipefd s =
     (let (maxfd, s) = sys os (Open ''/proc/sys/fs/pipe-max-size'' O_RDONLY) s in
      case maxfd of
        Inl e \<Rightarrow> (- e, s)
      | Inr maxfd \<Rightarrow>
          let (res, s) = sys_data os (ReadFd maxfd 31) s;
              s = sys_ignore os (Close maxfd) s in
          case res of
            Inl e \<Rightarrow> (- e, s)
          | Inr buf \<Rightarrow>
              let max = sint (word_of_int (strtol (cut_nul buf)) :: u32);
                  (res, s) = sys os (FcntlSetPipeSz pipefd (word_of_int max)) s in
              case res of Inl e \<Rightarrow> (- e, s) | Inr _ \<Rightarrow> (max, s))"

text \<open>Makes the pipe large enough for \<open>n\<close> bytes if possible; the result tells whether it is.\<close>

definition ensure_pipe_size :: "'w os \<Rightarrow> u64 \<Rightarrow> fuse_ll_pipe \<Rightarrow> ('w, 'x) ll \<Rightarrow> bool \<times> ('w, 'x) ll" where
  "ensure_pipe_size os n llp = (\<lambda>(se, s).
     if lp_size llp < n then
       if lp_can_grow llp then
         let (res, s) = sys os (FcntlSetPipeSz (lp_read llp) n) s in
         case res of
           Inl _ \<Rightarrow>
             let (res, s) = grow_pipe_to_max os (lp_read llp) s;
                 llp = (if res > 0 then llp\<lparr>lp_size := word_of_int res\<rparr> else llp)
             in (False, se\<lparr>se_pipe := Some (llp\<lparr>lp_can_grow := False\<rparr>)\<rparr>, s)
         | Inr res \<Rightarrow>
             (\<not> (word_of_int res :: u64) < n, se\<lparr>se_pipe := Some (llp\<lparr>lp_size := word_of_int res\<rparr>)\<rparr>, s)
       else (False, se, s)
     else (True, se, s))"

section \<open>Sending data\<close>

definition fuse_send_data_iov_fallback :: "'w os \<Rightarrow> int \<Rightarrow> u64 \<Rightarrow> string list \<Rightarrow> fuse_bufvec \<Rightarrow> u64 \<Rightarrow>
    ('w, 'x) ll \<Rightarrow> (int \<times> ('w, 'x) ll) option" where
  "fuse_send_data_iov_fallback os err uniq iov buf len = (\<lambda>(se, s).
     if length (v_buf buf) = 1 \<and> v_idx buf = 0 \<and> v_off buf = 0 \<and>
        b_flags (hd (v_buf buf)) AND FUSE_BUF_IS_FD = 0
     then Some (fuse_send_msg os err uniq (iov @ [read_mem s (b_mem (hd (v_buf buf))) (unat len)]) (se, s))
     else do {
       let (ok, s) = alloc os s;
       if \<not> ok then Some (ENOMEM, se, s)
       else do {
         let (mbuf, s) = malloc (unat len) s;
         let mem_buf = FUSE_BUFVEC_INIT len;
         let mem_buf = mem_buf\<lparr>v_buf := [(hd (v_buf mem_buf))\<lparr>b_mem := mbuf\<rparr>]\<rparr>;
         (res, _, _, s) \<leftarrow> fuse_buf_copy os mem_buf buf 0 s;
         if res < 0 then Some (- res, se, s)
         else Some (fuse_send_msg os err uniq (iov @ [read_mem s mbuf (nat res)]) (se, s)) } })"

text \<open>
  After a short copy into the pipe: if there is more data, take back what is in the pipe and send all
  of it with \<open>writev\<close>. \<open>Inr\<close> is the result of the whole function; \<open>Inl (res, st)\<close> goes on with
  \<open>res\<close> bytes in the pipe, or clears the pipe and returns (the flag).
\<close>

definition send_rest :: "'w os \<Rightarrow> int \<Rightarrow> u64 \<Rightarrow> string list \<Rightarrow> fuse_bufvec \<Rightarrow> u64 \<Rightarrow> nat \<Rightarrow> fuse_ll_pipe \<Rightarrow> int \<Rightarrow>
    ('w, 'x) ll \<Rightarrow> ((bool \<times> int + int) \<times> ('w, 'x) ll) option" where
  "send_rest os err uniq iov buf len headerlen llp now_len = (\<lambda>(se, s). do {
     let (ok, s) = alloc os s;
     if \<not> ok then Some (Inl (True, ENOMEM), se, s)
     else do {
       let (mbuf, s) = malloc (unat len) s;
       let mem_buf = FUSE_BUFVEC_INIT len;
       let mem_buf = mem_buf\<lparr>v_buf := [(hd (v_buf mem_buf))\<lparr>b_mem := mbuf\<rparr>], v_off := word_of_int now_len\<rparr>;
       (res, _, _, s) \<leftarrow> fuse_buf_copy os mem_buf buf 0 s;
       if res > 0 then do {
         let (ok, s) = alloc os s;
         if \<not> ok then Some (Inl (True, ENOMEM), se, s)
         else do {
           let (tmpbuf, s) = malloc headerlen s;
           let (r, s) = read_back os (lp_read llp) tmpbuf headerlen s;
           if r \<noteq> 0 then Some (Inl (True, r), se, s)
           else do {
             let (r, s) = read_back os (lp_read llp) mbuf (nat now_len) s;
             if r \<noteq> 0 then Some (Inl (True, r), se, s)
             else do {
               let (r, st) = fuse_send_msg os err uniq (iov @ [read_mem s mbuf (nat (now_len + res))]) (se, s);
               Some (Inr r, st) } } } }
       else Some (Inl (False, now_len), se, s) } })"

text \<open>The last step: splice the message, whose header now has its final length, to the device.\<close>

definition splice_to_device :: "'w os \<Rightarrow> int \<Rightarrow> u64 \<Rightarrow> string list \<Rightarrow> nat \<Rightarrow> u32 \<Rightarrow> fuse_ll_pipe \<Rightarrow> int \<Rightarrow>
    ('w, 'x) ll \<Rightarrow> int \<times> ('w, 'x) ll" where
  "splice_to_device os err uniq iov headerlen flags llp len = (\<lambda>(se, s).
     let out_len = (word_of_int (int headerlen + len) :: u32);
         splice_flags = (if flags AND FUSE_BUF_SPLICE_MOVE \<noteq> 0 \<and> conn_want (se_conn se) AND FUSE_CAP_SPLICE_MOVE \<noteq> 0
                         then SPLICE_F_MOVE else 0);
         (res, s) = sys os (SpliceMsg (lp_read llp) (se_fd se) (ucast out_len) splice_flags
                       (fuse_out_header out_len err uniq # iov)) s in
     case res of
       Inl e \<Rightarrow> (- e, fuse_ll_clear_pipe os (se, s))
     | Inr res \<Rightarrow>
         if word_of_int res \<noteq> out_len then (- EIO, fuse_ll_clear_pipe os (se, s))
         else (0, se, s))"

definition total_buf_size :: "fuse_bufvec \<Rightarrow> u64" where
  "total_buf_size buf =
     (if v_idx buf < length (v_buf buf)
      then sum_list (map b_size (drop (v_idx buf) (v_buf buf))) - v_off buf else 0)"

text \<open>The part of \<^verbatim>\<open>fuse_send_data_iov\<close> after the pipe has been found large enough.\<close>

definition send_through_pipe :: "'w os \<Rightarrow> int \<Rightarrow> u64 \<Rightarrow> string list \<Rightarrow> fuse_bufvec \<Rightarrow> u32 \<Rightarrow> u64 \<Rightarrow> nat \<Rightarrow>
    fuse_ll_pipe \<Rightarrow> ('w, 'x) ll \<Rightarrow> (int \<times> ('w, 'x) ll) option" where
  "send_through_pipe os err uniq iov buf flags len headerlen llp = (\<lambda>(se, s). do {
     let (res, s) = sys os (Vmsplice (lp_write llp) (map length (fuse_out_header 0 0 0 # iov)) SPLICE_F_NONBLOCK) s;
     case res of
       Inl _ \<Rightarrow> fuse_send_data_iov_fallback os err uniq iov buf len (se, s)
     | Inr res \<Rightarrow>
         if res \<noteq> int headerlen then Some (- EIO, fuse_ll_clear_pipe os (se, s))
         else do {
           let pipe_buf = FUSE_BUFVEC_INIT len;
           let pipe_buf = pipe_buf\<lparr>v_buf := [(hd (v_buf pipe_buf))\<lparr>b_flags := FUSE_BUF_IS_FD, b_fd := lp_write llp\<rparr>]\<rparr>;
           (res, _, buf, s) \<leftarrow> fuse_buf_copy os pipe_buf buf (FUSE_BUF_FORCE_SPLICE OR FUSE_BUF_SPLICE_NONBLOCK) s;
           if res < 0 then
             if res = - EAGAIN \<or> res = - EINVAL then do {
               let se = (if res = - EAGAIN then se\<lparr>se_broken_splice_nonblock := True\<rparr> else se);
               let se = se\<lparr>se_pipe := None\<rparr>;
               let s = fuse_ll_pipe_free os llp s;
               fuse_send_data_iov_fallback os err uniq iov buf len (se, s) }
             else Some (- res, fuse_ll_clear_pipe os (se, s))
           else do {
             (r, se, s) \<leftarrow> (if res \<noteq> 0 \<and> (word_of_int res :: u64) < len
                           then send_rest os err uniq iov buf len headerlen llp res (se, s)
                           else Some (Inl (False, res), se, s));
             case r of
               Inr r \<Rightarrow> Some (r, se, s)
             | Inl (clear, r) \<Rightarrow>
                 if clear then Some (r, fuse_ll_clear_pipe os (se, s))
                 else Some (splice_to_device os err uniq iov headerlen flags llp r (se, s)) } } })"

definition fuse_send_data_iov :: "'w os \<Rightarrow> int \<Rightarrow> u64 \<Rightarrow> string list \<Rightarrow> fuse_bufvec \<Rightarrow> u32 \<Rightarrow>
    ('w, 'x) ll \<Rightarrow> (int \<times> ('w, 'x) ll) option" where
  "fuse_send_data_iov os err uniq iov buf flags = (\<lambda>(se, s).
     let len = fuse_buf_size buf;
         fallback = fuse_send_data_iov_fallback os err uniq iov buf len in
     if se_broken_splice_nonblock se \<or> flags AND FUSE_BUF_NO_SPLICE \<noteq> 0 \<or>
        total_buf_size buf < 2 * se_pagesize se \<or>
        proto_minor se < 14 \<or> conn_want (se_conn se) AND FUSE_CAP_SPLICE_WRITE = 0
     then fallback (se, s)
     else
       let (llp, se, s) = fuse_ll_get_pipe os (se, s) in
       case llp of
         None \<Rightarrow> fallback (se, s)
       | Some llp \<Rightarrow>
           let headerlen = length (concat (fuse_out_header 0 0 0 # iov));
               out_len = (of_nat headerlen + ucast len :: u32);
               pipesize = se_pagesize se * of_nat (1 + length iov + length (v_buf buf) + 1) + ucast out_len;
               (ok, se, s) = ensure_pipe_size os pipesize llp (se, s) in
           if \<not> ok then fallback (se, s)
           else send_through_pipe os err uniq iov buf flags len headerlen llp (se, s))"

definition fuse_reply_data :: "'w os \<Rightarrow> addr \<Rightarrow> fuse_bufvec \<Rightarrow> u32 \<Rightarrow> ('w, 'x) ll \<Rightarrow>
    (int \<times> ('w, 'x) ll) option" where
  "fuse_reply_data os req bufv flags = (\<lambda>(se, s). do {
     r \<leftarrow> se_reqs se req;
     (res, st) \<leftarrow> fuse_send_data_iov os 0 (r_unique r) [] bufv flags (se, s);
     if res \<le> 0 then do { st \<leftarrow> fuse_free_req req st; Some (res, st) }
     else fuse_reply_err os req res st })"

end
