(* ===== verification/Fuse_Ops.thy ===== *)
theory Fuse_Ops
  imports Fuse_Data
begin

text \<open>
  Decoding of requests, \<^verbatim>\<open>libfuse/lib/fuse_lowlevel.c\<close>: one definition for each function \<^verbatim>\<open>do_*\<close> that reads the
  arguments of a request from the message and calls the file system's operation, or answers itself if the
  file system does not provide it. \<open>inarg\<close> is the part of the message after its header.

  The operations of the file system, \<^verbatim>\<open>struct fuse_lowlevel_ops\<close>, are a parameter: the names of those that are set, and
  what a call with given arguments does to the session and the process.
\<close>

section \<open>Operations of the file system\<close>

datatype (plugins only: size code) oper =
    OpLookup u64 string
  | OpForget u64 u64
  | OpForgetMulti "(u64 \<times> u64) list"
  | OpGetattr u64 "fuse_file_info option"
  | OpSetattr u64 stat u32 "fuse_file_info option"
  | OpReadlink u64
  | OpMknod u64 string u32 u32
  | OpMkdir u64 string u32
  | OpUnlink u64 string
  | OpRmdir u64 string
  | OpSymlink string u64 string
  | OpRename u64 string u64 string u32
  | OpLink u64 u64 string
  | OpOpen u64 fuse_file_info
  | OpRead u64 u64 u64 fuse_file_info
  | OpWrite u64 string u64 fuse_file_info
  | OpFlush u64 fuse_file_info
  | OpRelease u64 fuse_file_info
  | OpFsync u64 bool fuse_file_info
  | OpOpendir u64 fuse_file_info
  | OpReaddir u64 u64 u64 fuse_file_info
  | OpReaddirplus u64 u64 u64 fuse_file_info
  | OpReleasedir u64 fuse_file_info
  | OpFsyncdir u64 bool fuse_file_info
  | OpStatfs u64
  | OpSetxattr u64 string string u32
  | OpGetxattr u64 string u64
  | OpListxattr u64 u64
  | OpRemovexattr u64 string
  | OpAccess u64 u32
  | OpCreate u64 string u32 fuse_file_info
  | OpGetlk u64 fuse_file_info flock
  | OpSetlk u64 fuse_file_info flock bool
  | OpFlock u64 fuse_file_info u32
  | OpBmap u64 u32 u64
  | OpIoctl u64 u32 u64 fuse_file_info u32 "string option" u32 u32
  | OpPoll u64 fuse_file_info "u64 option"
  | OpFallocate u64 u32 u64 u64 fuse_file_info
  | OpCopyFileRange u64 u64 fuse_file_info u64 u64 fuse_file_info u64 u32
  | OpLseek u64 u64 u32 fuse_file_info
  | OpDestroy

text \<open>
  \<open>op_set\<close> has the names of the members that are not null. \<open>write_buf\<close> and \<open>retrieve_reply\<close> get a buffer vector
  and tell how far they have read it; \<open>op_func\<close> calls the function a request has registered for interrupts.
\<close>

record ('w, 'x) fuse_lowlevel_ops =
  op_set :: "string list"
  op_run :: "addr \<Rightarrow> oper \<Rightarrow> ('w, 'x) ll \<Rightarrow> ('w, 'x) ll option"
  op_write_buf :: "addr \<Rightarrow> u64 \<Rightarrow> fuse_bufvec \<Rightarrow> u64 \<Rightarrow> fuse_file_info \<Rightarrow> ('w, 'x) ll \<Rightarrow>
    (fuse_bufvec \<times> ('w, 'x) ll) option"
  op_retrieve_reply :: "addr \<Rightarrow> u64 \<Rightarrow> u64 \<Rightarrow> u64 \<Rightarrow> fuse_bufvec \<Rightarrow> ('w, 'x) ll \<Rightarrow>
    (fuse_bufvec \<times> ('w, 'x) ll) option"
  op_init :: "fuse_conn_info \<Rightarrow> ('w, 'x) machine_scheme \<Rightarrow> (fuse_conn_info \<times> ('w, 'x) machine_scheme) option"
  op_func :: "u64 \<Rightarrow> addr \<Rightarrow> u64 \<Rightarrow> ('w, 'x) ll \<Rightarrow> ('w, 'x) ll option"

definition has_op :: "('w, 'x) fuse_lowlevel_ops \<Rightarrow> string \<Rightarrow> bool" where
  "has_op ops name \<longleftrightarrow> name \<in> set (op_set ops)"

text \<open>An answer whose result the caller ignores.\<close>

definition ignore_res :: "(int \<times> 's) option \<Rightarrow> 's option" where
  "ignore_res = map_option snd"

definition call_or_err :: "'w os \<Rightarrow> ('w, 'x) fuse_lowlevel_ops \<Rightarrow> string \<Rightarrow> addr \<Rightarrow> oper \<Rightarrow> errno \<Rightarrow>
    ('w, 'x) ll \<Rightarrow> ('w, 'x) ll option" where
  "call_or_err os ops name req op err st =
     (if has_op ops name then op_run ops req op st else ignore_res (fuse_reply_err os req err st))"

type_synonym ('w, 'x) ll_func = "'w os \<Rightarrow> ('w, 'x) fuse_lowlevel_ops \<Rightarrow> addr \<Rightarrow> u64 \<Rightarrow> char list \<Rightarrow>
  ('w, 'x) ll \<Rightarrow> ('w, 'x) ll option"

section \<open>Names and attributes\<close>

definition do_lookup_ll :: "('w, 'x) ll_func" where
  "do_lookup_ll os ops req nodeid inarg st = do {
     name \<leftarrow> get_cstr inarg 0;
     call_or_err os ops ''lookup'' req (OpLookup nodeid name) ENOSYS st }"

definition do_forget :: "('w, 'x) ll_func" where
  "do_forget os ops req nodeid inarg st =
     (if has_op ops ''forget'' then do {
        nlookup \<leftarrow> get64 inarg 0;
        op_run ops req (OpForget nodeid nlookup) st }
      else fuse_reply_none req st)"

fun get_forgets :: "char list \<Rightarrow> nat \<Rightarrow> nat \<Rightarrow> (u64 \<times> u64) list option" where
  "get_forgets bs off 0 = Some []"
| "get_forgets bs off (Suc n) = do {
     ino \<leftarrow> get64 bs off;
     k \<leftarrow> get64 bs (off + 8);
     rest \<leftarrow> get_forgets bs (off + 16) n;
     Some ((ino, k) # rest) }"

text \<open>
  Without \<open>forget_multi\<close>, every entry gets a request of its own that is in no list and answers for itself.
\<close>

fun forget_each :: "'w os \<Rightarrow> ('w, 'x) fuse_lowlevel_ops \<Rightarrow> addr \<Rightarrow> (u64 \<times> u64) list \<Rightarrow> ('w, 'x) ll \<Rightarrow>
    ('w, 'x) ll option" where
  "forget_each os ops req [] st = Some st"
| "forget_each os ops req ((ino, k) # fs) st = do {
     (dummy, se, s) \<leftarrow> fuse_ll_alloc_req os st;
     case dummy of
       None \<Rightarrow> Some (se, s)
     | Some dummy_req \<Rightarrow> do {
         r \<leftarrow> se_reqs se req;
         d \<leftarrow> se_reqs se dummy_req;
         let se = se\<lparr>se_reqs := (se_reqs se)(dummy_req \<mapsto>
           d\<lparr>r_unique := r_unique r, r_uid := r_uid r, r_gid := r_gid r, r_pid := r_pid r, r_umask := r_umask r\<rparr>)\<rparr>;
         st \<leftarrow> op_run ops dummy_req (OpForget ino k) (se, s);
         forget_each os ops req fs st } }"

definition do_batch_forget :: "('w, 'x) ll_func" where
  "do_batch_forget os ops req nodeid inarg st =
     (if has_op ops ''forget_multi'' then do {
        count \<leftarrow> get32 inarg 0;
        forgets \<leftarrow> get_forgets inarg 8 (unat count);
        op_run ops req (OpForgetMulti forgets) st }
      else if has_op ops ''forget'' then do {
        count \<leftarrow> get32 inarg 0;
        forgets \<leftarrow> get_forgets inarg 8 (unat count);
        st \<leftarrow> forget_each os ops req forgets st;
        fuse_reply_none req st }
      else fuse_reply_none req st)"

definition do_getattr :: "('w, 'x) ll_func" where
  "do_getattr os ops req nodeid inarg = (\<lambda>(se, s). do {
     fip \<leftarrow> (if proto_minor se \<ge> 9 then do {
               flags \<leftarrow> get32 inarg 0;
               if flags AND FUSE_GETATTR_FH \<noteq> 0 then do {
                 fh \<leftarrow> get64 inarg 8;
                 Some (Some (zero_fi\<lparr>fi_fh := uint fh\<rparr>)) }
               else Some None }
             else Some None);
     call_or_err os ops ''getattr'' req (OpGetattr nodeid fip) ENOSYS (se, s) })"

text \<open>\<^verbatim>\<open>convert_attr\<close> on \<^verbatim>\<open>struct fuse_setattr_in\<close>, and the rest of the attributes zero.\<close>

definition convert_attr :: "char list \<Rightarrow> stat option" where
  "convert_attr inarg = do {
     st_size' \<leftarrow> get64 inarg 16;
     atime \<leftarrow> get64 inarg 32;
     mtime \<leftarrow> get64 inarg 40;
     ctime \<leftarrow> get64 inarg 48;
     atimensec \<leftarrow> get32 inarg 56;
     mtimensec \<leftarrow> get32 inarg 60;
     ctimensec \<leftarrow> get32 inarg 64;
     mode \<leftarrow> get32 inarg 68;
     uid \<leftarrow> get32 inarg 76;
     gid \<leftarrow> get32 inarg 80;
     Some (zero_stat\<lparr>st_mode := mode, st_uid := uid, st_gid := gid, st_size := st_size',
       st_atim := \<lparr>tv_sec = sint atime, tv_nsec = uint atimensec\<rparr>,
       st_mtim := \<lparr>tv_sec = sint mtime, tv_nsec = uint mtimensec\<rparr>,
       st_ctim := \<lparr>tv_sec = sint ctime, tv_nsec = uint ctimensec\<rparr>\<rparr>) }"

definition SETATTR_MASK :: u32 where [const_defs]:
  "SETATTR_MASK = FUSE_SET_ATTR_MODE OR FUSE_SET_ATTR_UID OR FUSE_SET_ATTR_GID OR FUSE_SET_ATTR_SIZE OR
     FUSE_SET_ATTR_ATIME OR FUSE_SET_ATTR_MTIME OR FUSE_SET_ATTR_ATIME_NOW OR FUSE_SET_ATTR_MTIME_NOW OR
     FUSE_SET_ATTR_CTIME"

definition do_setattr_ll :: "('w, 'x) ll_func" where
  "do_setattr_ll os ops req nodeid inarg st =
     (if has_op ops ''setattr'' then do {
        stbuf \<leftarrow> convert_attr inarg;
        valid \<leftarrow> get32 inarg 0;
        fh \<leftarrow> get64 inarg 8;
        let fi = (if valid AND FATTR_FH \<noteq> 0 then Some (zero_fi\<lparr>fi_fh := uint fh\<rparr>) else None);
        let valid = (if valid AND FATTR_FH \<noteq> 0 then valid AND NOT FATTR_FH else valid);
        op_run ops req (OpSetattr nodeid stbuf (valid AND SETATTR_MASK) fi) st }
      else ignore_res (fuse_reply_err os req ENOSYS st))"

definition do_access :: "('w, 'x) ll_func" where
  "do_access os ops req nodeid inarg st = do {
     mask \<leftarrow> get32 inarg 0;
     call_or_err os ops ''access'' req (OpAccess nodeid mask) ENOSYS st }"

definition do_readlink :: "('w, 'x) ll_func" where
  "do_readlink os ops req nodeid inarg st = call_or_err os ops ''readlink'' req (OpReadlink nodeid) ENOSYS st"

definition set_umask :: "addr \<Rightarrow> u32 \<Rightarrow> fuse_session \<Rightarrow> fuse_session option" where
  "set_umask req m se = do {
     r \<leftarrow> se_reqs se req;
     Some (se\<lparr>se_reqs := (se_reqs se)(req \<mapsto> r\<lparr>r_umask := m\<rparr>)\<rparr>) }"

definition do_mknod :: "('w, 'x) ll_func" where
  "do_mknod os ops req nodeid inarg = (\<lambda>(se, s). do {
     mode \<leftarrow> get32 inarg 0;
     rdev \<leftarrow> get32 inarg 4;
     (name, se) \<leftarrow> (if proto_minor se \<ge> 12 then do {
         m \<leftarrow> get32 inarg 8;
         se \<leftarrow> set_umask req m se;
         name \<leftarrow> get_cstr inarg 16;
         Some (name, se) }
       else do {
         name \<leftarrow> get_cstr inarg FUSE_COMPAT_MKNOD_IN_SIZE;
         Some (name, se) });
     call_or_err os ops ''mknod'' req (OpMknod nodeid name mode rdev) ENOSYS (se, s) })"

definition do_mkdir :: "('w, 'x) ll_func" where
  "do_mkdir os ops req nodeid inarg = (\<lambda>(se, s). do {
     mode \<leftarrow> get32 inarg 0;
     se \<leftarrow> (if proto_minor se \<ge> 12 then do { m \<leftarrow> get32 inarg 4; set_umask req m se } else Some se);
     name \<leftarrow> get_cstr inarg 8;
     call_or_err os ops ''mkdir'' req (OpMkdir nodeid name mode) ENOSYS (se, s) })"

definition do_unlink :: "('w, 'x) ll_func" where
  "do_unlink os ops req nodeid inarg st = do {
     name \<leftarrow> get_cstr inarg 0;
     call_or_err os ops ''unlink'' req (OpUnlink nodeid name) ENOSYS st }"

definition do_rmdir :: "('w, 'x) ll_func" where
  "do_rmdir os ops req nodeid inarg st = do {
     name \<leftarrow> get_cstr inarg 0;
     call_or_err os ops ''rmdir'' req (OpRmdir nodeid name) ENOSYS st }"

definition do_symlink :: "('w, 'x) ll_func" where
  "do_symlink os ops req nodeid inarg st = do {
     name \<leftarrow> get_cstr inarg 0;
     linkname \<leftarrow> get_cstr inarg (length name + 1);
     call_or_err os ops ''symlink'' req (OpSymlink linkname nodeid name) ENOSYS st }"

definition do_rename :: "('w, 'x) ll_func" where
  "do_rename os ops req nodeid inarg st = do {
     newdir \<leftarrow> get64 inarg 0;
     oldname \<leftarrow> get_cstr inarg 8;
     newname \<leftarrow> get_cstr inarg (8 + length oldname + 1);
     call_or_err os ops ''rename'' req (OpRename nodeid oldname newdir newname 0) ENOSYS st }"

definition do_rename2 :: "('w, 'x) ll_func" where
  "do_rename2 os ops req nodeid inarg st = do {
     newdir \<leftarrow> get64 inarg 0;
     flags \<leftarrow> get32 inarg 8;
     oldname \<leftarrow> get_cstr inarg 16;
     newname \<leftarrow> get_cstr inarg (16 + length oldname + 1);
     call_or_err os ops ''rename'' req (OpRename nodeid oldname newdir newname flags) ENOSYS st }"

definition do_link :: "('w, 'x) ll_func" where
  "do_link os ops req nodeid inarg st = do {
     oldnodeid \<leftarrow> get64 inarg 0;
     newname \<leftarrow> get_cstr inarg 8;
     call_or_err os ops ''link'' req (OpLink oldnodeid nodeid newname) ENOSYS st }"

definition do_create :: "('w, 'x) ll_func" where
  "do_create os ops req nodeid inarg = (\<lambda>(se, s).
     if has_op ops ''create'' then do {
       flags \<leftarrow> get32 inarg 0;
       mode \<leftarrow> get32 inarg 4;
       (name, se) \<leftarrow> (if proto_minor se \<ge> 12 then do {
           m \<leftarrow> get32 inarg 8;
           se \<leftarrow> set_umask req m se;
           name \<leftarrow> get_cstr inarg 16;
           Some (name, se) }
         else do {
           name \<leftarrow> get_cstr inarg 8;
           Some (name, se) });
       op_run ops req (OpCreate nodeid name mode (zero_fi\<lparr>fi_flags := flags\<rparr>)) (se, s) }
     else ignore_res (fuse_reply_err os req ENOSYS (se, s)))"

section \<open>Files\<close>

definition do_open :: "('w, 'x) ll_func" where
  "do_open os ops req nodeid inarg st = do {
     flags \<leftarrow> get32 inarg 0;
     let fi = zero_fi\<lparr>fi_flags := flags\<rparr>;
     if has_op ops ''open'' then op_run ops req (OpOpen nodeid fi) st
     else ignore_res (fuse_reply_open os req fi st) }"

definition do_read_ll :: "('w, 'x) ll_func" where
  "do_read_ll os ops req nodeid inarg = (\<lambda>(se, s).
     if has_op ops ''read'' then do {
       fh \<leftarrow> get64 inarg 0;
       off \<leftarrow> get64 inarg 8;
       n \<leftarrow> get32 inarg 16;
       let fi = zero_fi\<lparr>fi_fh := uint fh\<rparr>;
       fi \<leftarrow> (if proto_minor se \<ge> 9 then do {
                lock_owner \<leftarrow> get64 inarg 24;
                flags \<leftarrow> get32 inarg 32;
                Some (fi\<lparr>fi_lock_owner := lock_owner, fi_flags := flags\<rparr>) }
              else Some fi);
       op_run ops req (OpRead nodeid (ucast n) off fi) (se, s) }
     else ignore_res (fuse_reply_err os req ENOSYS (se, s)))"

definition do_write :: "('w, 'x) ll_func" where
  "do_write os ops req nodeid inarg = (\<lambda>(se, s). do {
     fh \<leftarrow> get64 inarg 0;
     off \<leftarrow> get64 inarg 8;
     n \<leftarrow> get32 inarg 16;
     write_flags \<leftarrow> get32 inarg 20;
     let fi = zero_fi\<lparr>fi_fh := uint fh, fi_writepage := (write_flags AND FUSE_WRITE_CACHE \<noteq> 0)\<rparr>;
     (fi, param) \<leftarrow> (if proto_minor se < 9 then Some (fi, FUSE_COMPAT_WRITE_IN_SIZE)
       else do {
         lock_owner \<leftarrow> get64 inarg 24;
         flags \<leftarrow> get32 inarg 32;
         Some (fi\<lparr>fi_lock_owner := lock_owner, fi_flags := flags\<rparr>, 40) });
     if has_op ops ''write'' then do {
       bytes \<leftarrow> get_bytes inarg param (unat n);
       op_run ops req (OpWrite nodeid bytes off fi) (se, s) }
     else ignore_res (fuse_reply_err os req ENOSYS (se, s)) })"

text \<open>
  \<open>ia\<close> is the address of the arguments: the data of a request in memory follows them. What the file
  system leaves in the pipe is dropped with the pipe.
\<close>

definition IN_HEADER_SIZE :: nat where [const_defs]: "IN_HEADER_SIZE = 40"

definition do_write_buf_ll :: "'w os \<Rightarrow> ('w, 'x) fuse_lowlevel_ops \<Rightarrow> addr \<Rightarrow> u64 \<Rightarrow> addr \<Rightarrow> char list \<Rightarrow> fuse_buf \<Rightarrow>
    ('w, 'x) ll \<Rightarrow> ('w, 'x) ll option" where
  "do_write_buf_ll os ops req nodeid ia inarg ibuf = (\<lambda>(se, s). do {
     fh \<leftarrow> get64 inarg 0;
     off \<leftarrow> get64 inarg 8;
     n \<leftarrow> get32 inarg 16;
     write_flags \<leftarrow> get32 inarg 20;
     let fi = zero_fi\<lparr>fi_fh := uint fh, fi_writepage := (write_flags AND FUSE_WRITE_CACHE \<noteq> 0)\<rparr>;
     (fi, b) \<leftarrow> (if proto_minor se < 9 then
         if b_flags ibuf AND FUSE_BUF_IS_FD \<noteq> 0 then None
         else Some (fi, ibuf\<lparr>b_mem := ia + FUSE_COMPAT_WRITE_IN_SIZE,
                b_size := b_size ibuf - of_nat (IN_HEADER_SIZE + FUSE_COMPAT_WRITE_IN_SIZE)\<rparr>)
       else do {
         lock_owner \<leftarrow> get64 inarg 24;
         flags \<leftarrow> get32 inarg 32;
         let b = (if b_flags ibuf AND FUSE_BUF_IS_FD = 0 then ibuf\<lparr>b_mem := ia + 40\<rparr> else ibuf);
         Some (fi\<lparr>fi_lock_owner := lock_owner, fi_flags := flags\<rparr>,
               b\<lparr>b_size := b_size b - of_nat (IN_HEADER_SIZE + 40)\<rparr>) });
     (bufv, se, s) \<leftarrow> (if b_size b < ucast n then do {
         (res, st) \<leftarrow> fuse_reply_err os req EIO (se, s);
         Some (\<lparr>v_idx = 0, v_off = 0, v_buf = [b]\<rparr>, st) }
       else op_write_buf ops req nodeid \<lparr>v_idx = 0, v_off = 0, v_buf = [b\<lparr>b_size := ucast n\<rparr>]\<rparr> off fi (se, s));
     Some (if b_flags ibuf AND FUSE_BUF_IS_FD \<noteq> 0 \<and> v_idx bufv < length (v_buf bufv)
           then fuse_ll_clear_pipe os (se, s) else (se, s)) })"

definition do_flush :: "('w, 'x) ll_func" where
  "do_flush os ops req nodeid inarg = (\<lambda>(se, s). do {
     fh \<leftarrow> get64 inarg 0;
     let fi = zero_fi\<lparr>fi_fh := uint fh, fi_flush := True\<rparr>;
     fi \<leftarrow> (if proto_minor se \<ge> 7 then do {
              lock_owner \<leftarrow> get64 inarg 16;
              Some (fi\<lparr>fi_lock_owner := lock_owner\<rparr>) }
            else Some fi);
     call_or_err os ops ''flush'' req (OpFlush nodeid fi) ENOSYS (se, s) })"

definition do_release :: "('w, 'x) ll_func" where
  "do_release os ops req nodeid inarg = (\<lambda>(se, s). do {
     fh \<leftarrow> get64 inarg 0;
     flags \<leftarrow> get32 inarg 8;
     release_flags \<leftarrow> get32 inarg 12;
     let fi = zero_fi\<lparr>fi_flags := flags, fi_fh := uint fh\<rparr>;
     fi \<leftarrow> (if proto_minor se \<ge> 8 then do {
              lock_owner \<leftarrow> get64 inarg 16;
              Some (fi\<lparr>fi_flush := (release_flags AND FUSE_RELEASE_FLUSH \<noteq> 0), fi_lock_owner := lock_owner\<rparr>) }
            else Some fi);
     fi \<leftarrow> (if release_flags AND FUSE_RELEASE_FLOCK_UNLOCK \<noteq> 0 then do {
              lock_owner \<leftarrow> get64 inarg 16;
              Some (fi\<lparr>fi_flock_release := True, fi_lock_owner := lock_owner\<rparr>) }
            else Some fi);
     call_or_err os ops ''release'' req (OpRelease nodeid fi) 0 (se, s) })"

definition do_fsync :: "('w, 'x) ll_func" where
  "do_fsync os ops req nodeid inarg st = do {
     fh \<leftarrow> get64 inarg 0;
     fsync_flags \<leftarrow> get32 inarg 8;
     call_or_err os ops ''fsync'' req
       (OpFsync nodeid (fsync_flags AND 1 \<noteq> 0) (zero_fi\<lparr>fi_fh := uint fh\<rparr>)) ENOSYS st }"

section \<open>Directories\<close>

definition do_opendir :: "('w, 'x) ll_func" where
  "do_opendir os ops req nodeid inarg st = do {
     flags \<leftarrow> get32 inarg 0;
     let fi = zero_fi\<lparr>fi_flags := flags\<rparr>;
     if has_op ops ''opendir'' then op_run ops req (OpOpendir nodeid fi) st
     else ignore_res (fuse_reply_open os req fi st) }"

definition do_readdir_ll :: "('w, 'x) ll_func" where
  "do_readdir_ll os ops req nodeid inarg st = do {
     fh \<leftarrow> get64 inarg 0;
     off \<leftarrow> get64 inarg 8;
     n \<leftarrow> get32 inarg 16;
     call_or_err os ops ''readdir'' req (OpReaddir nodeid (ucast n) off (zero_fi\<lparr>fi_fh := uint fh\<rparr>)) ENOSYS st }"

definition do_readdirplus :: "('w, 'x) ll_func" where
  "do_readdirplus os ops req nodeid inarg st = do {
     fh \<leftarrow> get64 inarg 0;
     off \<leftarrow> get64 inarg 8;
     n \<leftarrow> get32 inarg 16;
     call_or_err os ops ''readdirplus'' req
       (OpReaddirplus nodeid (ucast n) off (zero_fi\<lparr>fi_fh := uint fh\<rparr>)) ENOSYS st }"

definition do_releasedir :: "('w, 'x) ll_func" where
  "do_releasedir os ops req nodeid inarg st = do {
     fh \<leftarrow> get64 inarg 0;
     flags \<leftarrow> get32 inarg 8;
     call_or_err os ops ''releasedir'' req
       (OpReleasedir nodeid (zero_fi\<lparr>fi_flags := flags, fi_fh := uint fh\<rparr>)) 0 st }"

definition do_fsyncdir :: "('w, 'x) ll_func" where
  "do_fsyncdir os ops req nodeid inarg st = do {
     fh \<leftarrow> get64 inarg 0;
     fsync_flags \<leftarrow> get32 inarg 8;
     call_or_err os ops ''fsyncdir'' req
       (OpFsyncdir nodeid (fsync_flags AND 1 \<noteq> 0) (zero_fi\<lparr>fi_fh := uint fh\<rparr>)) ENOSYS st }"

definition default_statvfs :: statvfs where
  "default_statvfs = \<lparr>vf_bsize = 512, vf_frsize = 0, vf_blocks = 0, vf_bfree = 0, vf_bavail = 0,
     vf_files = 0, vf_ffree = 0, vf_namemax = 255\<rparr>"

definition do_statfs :: "('w, 'x) ll_func" where
  "do_statfs os ops req nodeid inarg st =
     (if has_op ops ''statfs'' then op_run ops req (OpStatfs nodeid) st
      else ignore_res (fuse_reply_statfs os req default_statvfs st))"

section \<open>Extended attributes\<close>

definition do_setxattr :: "('w, 'x) ll_func" where
  "do_setxattr os ops req nodeid inarg st = do {
     n \<leftarrow> get32 inarg 0;
     flags \<leftarrow> get32 inarg 4;
     name \<leftarrow> get_cstr inarg 8;
     if has_op ops ''setxattr'' then do {
       bytes \<leftarrow> get_bytes inarg (8 + length name + 1) (unat n);
       op_run ops req (OpSetxattr nodeid name bytes flags) st }
     else ignore_res (fuse_reply_err os req ENOSYS st) }"

definition do_getxattr :: "('w, 'x) ll_func" where
  "do_getxattr os ops req nodeid inarg st = do {
     n \<leftarrow> get32 inarg 0;
     name \<leftarrow> get_cstr inarg 8;
     call_or_err os ops ''getxattr'' req (OpGetxattr nodeid name (ucast n)) ENOSYS st }"

definition do_listxattr :: "('w, 'x) ll_func" where
  "do_listxattr os ops req nodeid inarg st = do {
     n \<leftarrow> get32 inarg 0;
     call_or_err os ops ''listxattr'' req (OpListxattr nodeid (ucast n)) ENOSYS st }"

definition do_removexattr :: "('w, 'x) ll_func" where
  "do_removexattr os ops req nodeid inarg st = do {
     name \<leftarrow> get_cstr inarg 0;
     call_or_err os ops ''removexattr'' req (OpRemovexattr nodeid name) ENOSYS st }"

section \<open>Locks\<close>

text \<open>A lock at an offset in the message: start, end, type, process.\<close>

definition convert_fuse_file_lock :: "char list \<Rightarrow> nat \<Rightarrow> flock option" where
  "convert_fuse_file_lock bs off = do {
     start \<leftarrow> get64 bs off;
     end' \<leftarrow> get64 bs (off + 8);
     ty \<leftarrow> get32 bs (off + 16);
     pid \<leftarrow> get32 bs (off + 20);
     Some \<lparr>l_type = sint ty, l_start = start,
       l_len = (if end' = OFFSET_MAX then 0 else end' - start + 1), l_pid = pid\<rparr> }"

definition LOCK_SH :: u32 where [const_defs]: "LOCK_SH = 1"
definition LOCK_EX :: u32 where [const_defs]: "LOCK_EX = 2"
definition LOCK_NB :: u32 where [const_defs]: "LOCK_NB = 4"
definition LOCK_UN :: u32 where [const_defs]: "LOCK_UN = 8"

definition do_getlk :: "('w, 'x) ll_func" where
  "do_getlk os ops req nodeid inarg st = do {
     fh \<leftarrow> get64 inarg 0;
     owner \<leftarrow> get64 inarg 8;
     l \<leftarrow> convert_fuse_file_lock inarg 16;
     call_or_err os ops ''getlk'' req
       (OpGetlk nodeid (zero_fi\<lparr>fi_fh := uint fh, fi_lock_owner := owner\<rparr>) l) ENOSYS st }"

definition flock_op :: "u32 \<Rightarrow> bool \<Rightarrow> u32" where
  "flock_op ty sleep =
     (let op = (if sint ty = F_RDLCK then LOCK_SH else if sint ty = F_WRLCK then LOCK_EX
                else if sint ty = F_UNLCK then LOCK_UN else 0)
      in if \<not> sleep then op OR LOCK_NB else op)"

definition do_setlk_common :: "'w os \<Rightarrow> ('w, 'x) fuse_lowlevel_ops \<Rightarrow> addr \<Rightarrow> u64 \<Rightarrow> char list \<Rightarrow> bool \<Rightarrow>
    ('w, 'x) ll \<Rightarrow> ('w, 'x) ll option" where
  "do_setlk_common os ops req nodeid inarg sleep st = do {
     fh \<leftarrow> get64 inarg 0;
     owner \<leftarrow> get64 inarg 8;
     lk_flags \<leftarrow> get32 inarg 40;
     let fi = zero_fi\<lparr>fi_fh := uint fh, fi_lock_owner := owner\<rparr>;
     if lk_flags AND FUSE_LK_FLOCK \<noteq> 0 then do {
       ty \<leftarrow> get32 inarg 32;
       call_or_err os ops ''flock'' req (OpFlock nodeid fi (flock_op ty sleep)) ENOSYS st }
     else do {
       l \<leftarrow> convert_fuse_file_lock inarg 16;
       call_or_err os ops ''setlk'' req (OpSetlk nodeid fi l sleep) ENOSYS st } }"

definition do_setlk :: "('w, 'x) ll_func" where
  "do_setlk os ops req nodeid inarg st = do_setlk_common os ops req nodeid inarg False st"

definition do_setlkw :: "('w, 'x) ll_func" where
  "do_setlkw os ops req nodeid inarg st = do_setlk_common os ops req nodeid inarg True st"

section \<open>Other requests\<close>

definition do_bmap :: "('w, 'x) ll_func" where
  "do_bmap os ops req nodeid inarg st = do {
     block \<leftarrow> get64 inarg 0;
     blocksize \<leftarrow> get32 inarg 8;
     call_or_err os ops ''bmap'' req (OpBmap nodeid blocksize block) ENOSYS st }"

text \<open>On 64-bit machines the flag for 64-bit ioctls is never set.\<close>

definition do_ioctl :: "('w, 'x) ll_func" where
  "do_ioctl os ops req nodeid inarg = (\<lambda>(se, s). do {
     fh \<leftarrow> get64 inarg 0;
     flags \<leftarrow> get32 inarg 8;
     cmd \<leftarrow> get32 inarg 12;
     arg \<leftarrow> get64 inarg 16;
     in_size \<leftarrow> get32 inarg 24;
     out_size \<leftarrow> get32 inarg 28;
     if flags AND FUSE_IOCTL_DIR \<noteq> 0 \<and> conn_want (se_conn se) AND FUSE_CAP_IOCTL_DIR = 0
     then ignore_res (fuse_reply_err os req ENOTTY (se, s))
     else do {
       in_buf \<leftarrow> (if in_size \<noteq> 0 then map_option Some (get_bytes inarg 32 (unat in_size)) else Some None);
       call_or_err os ops ''ioctl'' req
         (OpIoctl nodeid cmd arg (zero_fi\<lparr>fi_fh := uint fh\<rparr>) flags in_buf in_size out_size) ENOSYS (se, s) } })"

text \<open>The poll handle is the kernel's handle it holds.\<close>

definition do_poll :: "('w, 'x) ll_func" where
  "do_poll os ops req nodeid inarg = (\<lambda>(se, s). do {
     fh \<leftarrow> get64 inarg 0;
     kh \<leftarrow> get64 inarg 8;
     flags \<leftarrow> get32 inarg 16;
     events \<leftarrow> get32 inarg 20;
     let fi = zero_fi\<lparr>fi_fh := uint fh, fi_poll_events := events\<rparr>;
     if has_op ops ''poll'' then
       if flags AND FUSE_POLL_SCHEDULE_NOTIFY \<noteq> 0 then
         let (ok, s) = alloc os s in
         if \<not> ok then ignore_res (fuse_reply_err os req ENOMEM (se, s))
         else op_run ops req (OpPoll nodeid fi (Some kh)) (se, s)
       else op_run ops req (OpPoll nodeid fi None) (se, s)
     else ignore_res (fuse_reply_err os req ENOSYS (se, s)) })"

definition do_fallocate :: "('w, 'x) ll_func" where
  "do_fallocate os ops req nodeid inarg st = do {
     fh \<leftarrow> get64 inarg 0;
     off \<leftarrow> get64 inarg 8;
     len \<leftarrow> get64 inarg 16;
     mode \<leftarrow> get32 inarg 24;
     call_or_err os ops ''fallocate'' req
       (OpFallocate nodeid mode off len (zero_fi\<lparr>fi_fh := uint fh\<rparr>)) ENOSYS st }"

definition do_copy_file_range :: "('w, 'x) ll_func" where
  "do_copy_file_range os ops req nodeid inarg st = do {
     fh_in \<leftarrow> get64 inarg 0;
     off_in \<leftarrow> get64 inarg 8;
     nodeid_out \<leftarrow> get64 inarg 16;
     fh_out \<leftarrow> get64 inarg 24;
     off_out \<leftarrow> get64 inarg 32;
     len \<leftarrow> get64 inarg 40;
     flags \<leftarrow> get64 inarg 48;
     call_or_err os ops ''copy_file_range'' req
       (OpCopyFileRange nodeid off_in (zero_fi\<lparr>fi_fh := uint fh_in\<rparr>) nodeid_out off_out
         (zero_fi\<lparr>fi_fh := uint fh_out\<rparr>) len (ucast flags)) ENOSYS st }"

definition do_lseek :: "('w, 'x) ll_func" where
  "do_lseek os ops req nodeid inarg st = do {
     fh \<leftarrow> get64 inarg 0;
     off \<leftarrow> get64 inarg 8;
     whence \<leftarrow> get32 inarg 16;
     call_or_err os ops ''lseek'' req (OpLseek nodeid off whence (zero_fi\<lparr>fi_fh := uint fh\<rparr>)) ENOSYS st }"

definition do_destroy :: "('w, 'x) ll_func" where
  "do_destroy os ops req nodeid inarg = (\<lambda>(se, s). do {
     let se = se\<lparr>se_got_destroy := True\<rparr>;
     st \<leftarrow> (if has_op ops ''destroy'' then op_run ops req OpDestroy (se, s) else Some (se, s));
     ignore_res (send_reply_ok os req [] st) })"

end
