(* ===== verification/Fuse_Init.thy ===== *)
theory Fuse_Init
  imports Fuse_Ops
begin

text \<open>
  Negotiation of the connection, \<^verbatim>\<open>do_init\<close> of \<^verbatim>\<open>libfuse/lib/fuse_lowlevel.c\<close>: protocol versions, the capabilities the
  kernel offers, the defaults, the file system's own wishes (its operation \<^verbatim>\<open>init\<close>), buffer sizes and the answer.
\<close>

section \<open>Flags and capabilities\<close>

definition FUSE_DEFAULT_MAX_PAGES_PER_REQ :: u64 where [const_defs]: "FUSE_DEFAULT_MAX_PAGES_PER_REQ = 32"
definition FUSE_BUFFER_HEADER_SIZE :: u64 where [const_defs]: "FUSE_BUFFER_HEADER_SIZE = 0x1000"

text \<open>The flags of the request that announce a capability.\<close>

definition capable_flags :: "(u32 \<times> u32) list" where
  "capable_flags = [
     (FUSE_ASYNC_READ, FUSE_CAP_ASYNC_READ),
     (FUSE_POSIX_LOCKS, FUSE_CAP_POSIX_LOCKS),
     (FUSE_ATOMIC_O_TRUNC, FUSE_CAP_ATOMIC_O_TRUNC),
     (FUSE_EXPORT_SUPPORT, FUSE_CAP_EXPORT_SUPPORT),
     (FUSE_DONT_MASK, FUSE_CAP_DONT_MASK),
     (FUSE_FLOCK_LOCKS, FUSE_CAP_FLOCK_LOCKS),
     (FUSE_AUTO_INVAL_DATA, FUSE_CAP_AUTO_INVAL_DATA),
     (FUSE_DO_READDIRPLUS, FUSE_CAP_READDIRPLUS),
     (FUSE_READDIRPLUS_AUTO, FUSE_CAP_READDIRPLUS_AUTO),
     (FUSE_ASYNC_DIO, FUSE_CAP_ASYNC_DIO),
     (FUSE_WRITEBACK_CACHE, FUSE_CAP_WRITEBACK_CACHE),
     (FUSE_NO_OPEN_SUPPORT, FUSE_CAP_NO_OPEN_SUPPORT),
     (FUSE_PARALLEL_DIROPS, FUSE_CAP_PARALLEL_DIROPS),
     (FUSE_POSIX_ACL, FUSE_CAP_POSIX_ACL),
     (FUSE_HANDLE_KILLPRIV, FUSE_CAP_HANDLE_KILLPRIV),
     (FUSE_CACHE_SYMLINKS, FUSE_CAP_CACHE_SYMLINKS),
     (FUSE_NO_OPENDIR_SUPPORT, FUSE_CAP_NO_OPENDIR_SUPPORT),
     (FUSE_EXPLICIT_INVAL_DATA, FUSE_CAP_EXPLICIT_INVAL_DATA)]"

text \<open>The capabilities that are answered with a flag.\<close>

definition want_flags :: "(u32 \<times> u32) list" where
  "want_flags = [
     (FUSE_CAP_ASYNC_READ, FUSE_ASYNC_READ),
     (FUSE_CAP_POSIX_LOCKS, FUSE_POSIX_LOCKS),
     (FUSE_CAP_ATOMIC_O_TRUNC, FUSE_ATOMIC_O_TRUNC),
     (FUSE_CAP_EXPORT_SUPPORT, FUSE_EXPORT_SUPPORT),
     (FUSE_CAP_DONT_MASK, FUSE_DONT_MASK),
     (FUSE_CAP_FLOCK_LOCKS, FUSE_FLOCK_LOCKS),
     (FUSE_CAP_AUTO_INVAL_DATA, FUSE_AUTO_INVAL_DATA),
     (FUSE_CAP_READDIRPLUS, FUSE_DO_READDIRPLUS),
     (FUSE_CAP_READDIRPLUS_AUTO, FUSE_READDIRPLUS_AUTO),
     (FUSE_CAP_ASYNC_DIO, FUSE_ASYNC_DIO),
     (FUSE_CAP_WRITEBACK_CACHE, FUSE_WRITEBACK_CACHE),
     (FUSE_CAP_POSIX_ACL, FUSE_POSIX_ACL),
     (FUSE_CAP_CACHE_SYMLINKS, FUSE_CACHE_SYMLINKS),
     (FUSE_CAP_EXPLICIT_INVAL_DATA, FUSE_EXPLICIT_INVAL_DATA)]"

text \<open>A run of \<open>if (from & a) to |= b;\<close>.\<close>

fun translate :: "(u32 \<times> u32) list \<Rightarrow> u32 \<Rightarrow> u32 \<Rightarrow> u32" where
  "translate [] from to = to"
| "translate ((a, b) # tab) from to = translate tab from (if from AND a \<noteq> 0 then to OR b else to)"

definition kernel_capable :: "u32 \<Rightarrow> u32 \<Rightarrow> u32" where
  "kernel_capable minor flags =
     (let c = (if minor \<ge> 6 then translate capable_flags flags 0 else 0);
          c = (if minor \<ge> 14 then c OR FUSE_CAP_SPLICE_WRITE OR FUSE_CAP_SPLICE_MOVE OR FUSE_CAP_SPLICE_READ else c)
      in if minor \<ge> 18 then c OR FUSE_CAP_IOCTL_DIR else c)"

text \<open>The macro \<^verbatim>\<open>LL_SET_DEFAULT\<close> and its uses.\<close>

definition ll_set_default :: "bool \<Rightarrow> u32 \<Rightarrow> fuse_conn_info \<Rightarrow> fuse_conn_info" where
  "ll_set_default cond cap conn =
     (if cond \<and> conn_capable conn AND cap \<noteq> 0 then conn\<lparr>conn_want := conn_want conn OR cap\<rparr> else conn)"

definition default_want :: "('w, 'x) fuse_lowlevel_ops \<Rightarrow> fuse_conn_info \<Rightarrow> fuse_conn_info" where
  "default_want ops conn =
     (let conn = ll_set_default True FUSE_CAP_ASYNC_READ conn;
          conn = ll_set_default True FUSE_CAP_PARALLEL_DIROPS conn;
          conn = ll_set_default True FUSE_CAP_AUTO_INVAL_DATA conn;
          conn = ll_set_default True FUSE_CAP_HANDLE_KILLPRIV conn;
          conn = ll_set_default True FUSE_CAP_ASYNC_DIO conn;
          conn = ll_set_default True FUSE_CAP_IOCTL_DIR conn;
          conn = ll_set_default True FUSE_CAP_ATOMIC_O_TRUNC conn;
          conn = ll_set_default (has_op ops ''write_buf'') FUSE_CAP_SPLICE_READ conn;
          conn = ll_set_default (has_op ops ''getlk'' \<and> has_op ops ''setlk'') FUSE_CAP_POSIX_LOCKS conn;
          conn = ll_set_default (has_op ops ''flock'') FUSE_CAP_FLOCK_LOCKS conn;
          conn = ll_set_default (has_op ops ''readdirplus'') FUSE_CAP_READDIRPLUS conn
      in ll_set_default (has_op ops ''readdirplus'' \<and> has_op ops ''readdir'') FUSE_CAP_READDIRPLUS_AUTO conn)"

section \<open>The answer\<close>

record fuse_init_out =
  io_max_readahead :: u32
  io_flags :: u32
  io_max_background :: "16 word"
  io_congestion_threshold :: "16 word"
  io_max_write :: u32
  io_time_gran :: u32
  io_max_pages :: "16 word"

definition zero_init_out :: fuse_init_out where
  "zero_init_out = \<lparr>io_max_readahead = 0, io_flags = 0, io_max_background = 0, io_congestion_threshold = 0,
     io_max_write = 0, io_time_gran = 0, io_max_pages = 0\<rparr>"

definition le16 :: "16 word \<Rightarrow> char list" where
  "le16 w = le 2 (unat w)"

definition init_out_bytes :: "fuse_init_out \<Rightarrow> char list" where
  "init_out_bytes o' = le32 FUSE_KERNEL_VERSION @ le32 FUSE_KERNEL_MINOR_VERSION @
     le32 (io_max_readahead o') @ le32 (io_flags o') @ le16 (io_max_background o') @
     le16 (io_congestion_threshold o') @ le32 (io_max_write o') @ le32 (io_time_gran o') @
     le16 (io_max_pages o') @ le16 0 @ concat (replicate 8 (le32 0))"

text \<open>The buffer size before and the sizes after the file system's \<^verbatim>\<open>init\<close>.\<close>

definition init_bufsize :: "fuse_session \<Rightarrow> u32 \<Rightarrow> u32 \<Rightarrow> u64" where
  "init_bufsize se minor flags =
     (let n = se_bufsize se;
          m = FUSE_DEFAULT_MAX_PAGES_PER_REQ * se_pagesize se + FUSE_BUFFER_HEADER_SIZE;
          n = (if minor \<ge> 6 \<and> flags AND FUSE_MAX_PAGES = 0 \<and> n > m then m else n)
      in if n < FUSE_MIN_READ_BUFFER then FUSE_MIN_READ_BUFFER else n)"

definition background_limits :: "fuse_conn_info \<Rightarrow> fuse_conn_info" where
  "background_limits conn =
     (let conn = (if conn_max_background conn \<ge> 0x10000 then conn\<lparr>conn_max_background := 0xFFFF\<rparr> else conn);
          conn = (if conn_congestion_threshold conn > conn_max_background conn
                  then conn\<lparr>conn_congestion_threshold := conn_max_background conn\<rparr> else conn)
      in if conn_congestion_threshold conn = 0
         then conn\<lparr>conn_congestion_threshold := conn_max_background conn * 3 div 4\<rparr> else conn)"

definition init_out :: "fuse_session \<Rightarrow> fuse_conn_info \<Rightarrow> u32 \<Rightarrow> fuse_init_out" where
  "init_out se conn flags =
     (let o' = zero_init_out;
          o' = (if flags AND FUSE_MAX_PAGES \<noteq> 0
                then o'\<lparr>io_flags := io_flags o' OR FUSE_MAX_PAGES,
                        io_max_pages := ucast ((conn_max_write conn - 1) div ucast (se_pagesize se) + 1)\<rparr>
                else o');
          o' = o'\<lparr>io_flags := translate want_flags (conn_want conn) (io_flags o' OR FUSE_BIG_WRITES),
                  io_max_readahead := conn_max_readahead conn, io_max_write := conn_max_write conn\<rparr>;
          o' = (if conn_proto_minor conn \<ge> 13
                then o'\<lparr>io_max_background := ucast (conn_max_background conn),
                        io_congestion_threshold := ucast (conn_congestion_threshold conn)\<rparr>
                else o')
      in if conn_proto_minor conn \<ge> 23 then o'\<lparr>io_time_gran := conn_time_gran conn\<rparr> else o')"

definition init_out_size :: "u32 \<Rightarrow> nat" where
  "init_out_size minor =
     (if minor < 5 then FUSE_COMPAT_INIT_OUT_SIZE else if minor < 23 then FUSE_COMPAT_22_INIT_OUT_SIZE else 64)"

section \<open>The request\<close>

definition init_failed :: "'w os \<Rightarrow> addr \<Rightarrow> ('w, 'x) ll \<Rightarrow> ('w, 'x) ll option" where
  "init_failed os req st = do {
     (res, se, s) \<leftarrow> fuse_reply_err os req EPROTO st;
     Some (se\<lparr>se_error := - EPROTO, se_exited := True\<rparr>, s) }"

text \<open>What the file system's \<^verbatim>\<open>init\<close> is given.\<close>

definition max_write_cap :: "u64 \<Rightarrow> fuse_conn_info \<Rightarrow> fuse_conn_info" where
  "max_write_cap n conn = (if ucast (conn_max_write conn) > n then conn\<lparr>conn_max_write := ucast n\<rparr> else conn)"

definition init_conn :: "('w, 'x) fuse_lowlevel_ops \<Rightarrow> u64 \<Rightarrow> u32 \<Rightarrow> u32 \<Rightarrow> u32 \<Rightarrow> fuse_conn_info \<Rightarrow> fuse_conn_info" where
  "init_conn ops bufsize minor max_readahead flags conn =
     (let conn = conn\<lparr>conn_max_readahead :=
                   (if minor < 6 \<or> max_readahead < conn_max_readahead conn then max_readahead
                    else conn_max_readahead conn),
                   conn_capable := kernel_capable minor flags\<rparr>;
          conn = (default_want ops conn)\<lparr>conn_time_gran := 1\<rparr>
      in max_write_cap (bufsize - FUSE_BUFFER_HEADER_SIZE) conn)"

text \<open>What follows after it.\<close>

definition init_finish :: "'w os \<Rightarrow> addr \<Rightarrow> u64 \<Rightarrow> u32 \<Rightarrow> u32 \<Rightarrow> ('w, 'x) ll \<Rightarrow> ('w, 'x) ll option" where
  "init_finish os req bufsize minor flags = (\<lambda>(se, s).
     let conn = se_conn se in
     if conn_want conn AND NOT (conn_capable conn) \<noteq> 0 then init_failed os req (se, s)
     else if conn_max_read conn \<noteq> se_max_read_mo se then init_failed os req (se, s)
     else
       let se = (if ucast (conn_max_write conn) < bufsize - FUSE_BUFFER_HEADER_SIZE
                 then se\<lparr>se_bufsize := ucast (conn_max_write conn) + FUSE_BUFFER_HEADER_SIZE\<rparr> else se);
           conn = (if conn_proto_minor conn \<ge> 13 then background_limits conn else conn);
           se = se\<lparr>se_conn := conn\<rparr> in
       ignore_res (send_reply_ok os req (take (init_out_size minor) (init_out_bytes (init_out se conn flags))) (se, s)))"

definition do_init :: "('w, 'x) ll_func" where
  "do_init os ops req nodeid inarg = (\<lambda>(se, s). do {
     major \<leftarrow> get32 inarg 0;
     minor \<leftarrow> get32 inarg 4;
     let conn = (se_conn se)\<lparr>conn_proto_major := major, conn_proto_minor := minor, conn_capable := 0, conn_want := 0\<rparr>;
     if major < 7 then ignore_res (fuse_reply_err os req EPROTO (se\<lparr>se_conn := conn\<rparr>, s))
     else if major > 7 then ignore_res (send_reply_ok os req (init_out_bytes zero_init_out) (se\<lparr>se_conn := conn\<rparr>, s))
     else do {
       max_readahead \<leftarrow> (if minor \<ge> 6 then get32 inarg 8 else Some 0);
       flags \<leftarrow> get32 inarg 12;
       let bufsize = init_bufsize se minor flags;
       let conn = init_conn ops bufsize minor max_readahead flags conn;
       (conn, s) \<leftarrow> (if has_op ops ''init'' then op_init ops conn s else Some (conn, s));
       init_finish os req bufsize minor flags
         (se\<lparr>se_bufsize := bufsize, se_got_init := True, se_conn := conn\<rparr>, s) } })"

end
