(* ===== verification/Fuse_Dispatch.thy ===== *)
theory Fuse_Dispatch
  imports Fuse_Init
begin

text \<open>
  The request loop of libfuse, \<^verbatim>\<open>libfuse/lib/fuse_lowlevel.c\<close> and \<^verbatim>\<open>libfuse/lib/fuse_loop.c\<close>: interrupts, the checks every
  message goes through before its handler runs, the table of handlers, reading messages from the device, and
  the single-threaded loop. Walking along a list of requests is a partial function of the links in
  memory; theory \<open>Fuse_Session_Inv\<close> shows that it ends.
\<close>

section \<open>Interrupts\<close>

partial_function (option) find_req :: "(fuse_req \<Rightarrow> bool) \<Rightarrow> addr \<Rightarrow> addr \<Rightarrow> (addr \<rightharpoonup> fuse_req) \<Rightarrow>
    addr option option" where
  "find_req P hp cur h =
     (if cur = hp then Some None
      else do {
        r \<leftarrow> h cur;
        if P r then Some (Some cur) else find_req P hp (r_next r) h })"

declare find_req.simps [code]

definition find_in_list :: "(fuse_req \<Rightarrow> bool) \<Rightarrow> addr \<Rightarrow> (addr \<rightharpoonup> fuse_req) \<Rightarrow> addr option option" where
  "find_in_list P hp h = do { r \<leftarrow> h hp; find_req P hp (r_next r) h }"

definition upd_req :: "addr \<Rightarrow> (fuse_req \<Rightarrow> fuse_req) \<Rightarrow> fuse_session \<Rightarrow> fuse_session option" where
  "upd_req p f se = do { r \<leftarrow> se_reqs se p; Some (se\<lparr>se_reqs := (se_reqs se)(p \<mapsto> f r)\<rparr>) }"

definition find_interrupted :: "('w, 'x) fuse_lowlevel_ops \<Rightarrow> addr \<Rightarrow> ('w, 'x) ll \<Rightarrow>
    (bool \<times> ('w, 'x) ll) option" where
  "find_interrupted ops req = (\<lambda>(se, s). do {
     i \<leftarrow> se_reqs se req;
     hit \<leftarrow> find_in_list (\<lambda>r. r_unique r = r_u i) SE_LIST (se_reqs se);
     case hit of
       Some cur \<Rightarrow> do {
         se \<leftarrow> upd_req cur (\<lambda>r. r\<lparr>r_ctr := r_ctr r + 1\<rparr>) se;
         let s = lock SessionMutex (lock (ReqMutex cur) (unlock SessionMutex s));
         se \<leftarrow> upd_req cur (\<lambda>r. r\<lparr>r_interrupted := True\<rparr>) se;
         r \<leftarrow> se_reqs se cur;
         let s = unlock SessionMutex s;
         (se, s) \<leftarrow> (if r_u r \<noteq> 0 then op_func ops (r_u r) cur (r_u_data r) (se, s) else Some (se, s));
         let s = lock SessionMutex (unlock (ReqMutex cur) s);
         se \<leftarrow> upd_req cur (\<lambda>r. r\<lparr>r_ctr := r_ctr r - 1\<rparr>) se;
         r \<leftarrow> se_reqs se cur;
         se \<leftarrow> (if r_ctr r = 0 then destroy_req cur se else Some se);
         Some (True, se, s) }
     | None \<Rightarrow> do {
         hit \<leftarrow> find_in_list (\<lambda>r. r_u r = r_u i) SE_INTERRUPTS (se_reqs se);
         Some (hit \<noteq> None, se, s) } })"

definition do_interrupt :: "('w, 'x) ll_func" where
  "do_interrupt os ops req nodeid inarg = (\<lambda>(se, s). do {
     uniq \<leftarrow> get64 inarg 0;
     se \<leftarrow> upd_req req (\<lambda>r. r\<lparr>r_u := uniq\<rparr>) se;
     let s = lock SessionMutex s;
     (found, se, s) \<leftarrow> find_interrupted ops req (se, s);
     se \<leftarrow> (if found then destroy_req req se
            else map_option (\<lambda>h. se\<lparr>se_reqs := h\<rparr>) (list_add_req req SE_INTERRUPTS (se_reqs se)));
     Some (se, unlock SessionMutex s) })"

text \<open>
  A pending interrupt for the new request marks it and goes away; otherwise the oldest pending
  interrupt, if any, is taken out to be answered.
\<close>

definition check_interrupt :: "addr \<Rightarrow> fuse_session \<Rightarrow> (addr option \<times> fuse_session) option" where
  "check_interrupt req se = do {
     q \<leftarrow> se_reqs se req;
     hit \<leftarrow> find_in_list (\<lambda>r. r_u r = r_unique q) SE_INTERRUPTS (se_reqs se);
     case hit of
       Some cur \<Rightarrow> do {
         se \<leftarrow> upd_req req (\<lambda>r. r\<lparr>r_interrupted := True\<rparr>) se;
         h \<leftarrow> list_del_req cur (se_reqs se);
         Some (None, se\<lparr>se_reqs := h(cur := None)\<rparr>) }
     | None \<Rightarrow> do {
         hp \<leftarrow> se_reqs se SE_INTERRUPTS;
         let cur = r_next hp;
         if cur \<noteq> SE_INTERRUPTS then do {
           h \<leftarrow> list_del_req cur (se_reqs se);
           h \<leftarrow> list_init_req cur h;
           Some (Some cur, se\<lparr>se_reqs := h\<rparr>) }
         else Some (None, se) } }"

section \<open>Answers to notifications\<close>

partial_function (option) find_nreq :: "u64 \<Rightarrow> addr \<Rightarrow> (addr \<rightharpoonup> fuse_notify_req) \<Rightarrow> addr option option" where
  "find_nreq uniq cur h =
     (if cur = SE_NOTIFY_LIST then Some None
      else do {
        r \<leftarrow> h cur;
        if n_unique r = uniq then Some (Some cur) else find_nreq uniq (n_next r) h })"

declare find_nreq.simps [code]

definition fuse_ll_retrieve_reply :: "'w os \<Rightarrow> ('w, 'x) fuse_lowlevel_ops \<Rightarrow> addr \<Rightarrow> addr \<Rightarrow> u64 \<Rightarrow> addr \<Rightarrow> char list \<Rightarrow>
    fuse_buf \<Rightarrow> ('w, 'x) ll \<Rightarrow> ('w, 'x) ll option" where
  "fuse_ll_retrieve_reply os ops nreq req ino ia inarg ibuf = (\<lambda>(se, s). do {
     rreq \<leftarrow> se_nreqs se nreq;
     off \<leftarrow> get64 inarg 8;
     n \<leftarrow> get32 inarg 16;
     let b = (if b_flags ibuf AND FUSE_BUF_IS_FD = 0 then ibuf\<lparr>b_mem := ia + 40\<rparr> else ibuf);
     let b = b\<lparr>b_size := b_size b - of_nat (IN_HEADER_SIZE + 40)\<rparr>;
     (bufv, se, s) \<leftarrow> (if b_size b < ucast n then do {
           st \<leftarrow> fuse_reply_none req (se, s);
           Some (\<lparr>v_idx = 0, v_off = 0, v_buf = [b]\<rparr>, st) }
         else
           let bufv = \<lparr>v_idx = 0, v_off = 0, v_buf = [b\<lparr>b_size := ucast n\<rparr>]\<rparr> in
           if has_op ops ''retrieve_reply'' then op_retrieve_reply ops req (n_cookie rreq) ino off bufv (se, s)
           else do { st \<leftarrow> fuse_reply_none req (se, s); Some (bufv, st) });
     let se = se\<lparr>se_nreqs := (se_nreqs se)(nreq := None)\<rparr>;
     Some (if b_flags ibuf AND FUSE_BUF_IS_FD \<noteq> 0 \<and> v_idx bufv < length (v_buf bufv)
           then fuse_ll_clear_pipe os (se, s) else (se, s)) })"

text \<open>An answer that belongs to no notification leaves its request unanswered in the list.\<close>

definition do_notify_reply :: "'w os \<Rightarrow> ('w, 'x) fuse_lowlevel_ops \<Rightarrow> addr \<Rightarrow> u64 \<Rightarrow> addr \<Rightarrow> char list \<Rightarrow> fuse_buf \<Rightarrow>
    ('w, 'x) ll \<Rightarrow> ('w, 'x) ll option" where
  "do_notify_reply os ops req nodeid ia inarg buf = (\<lambda>(se, s). do {
     let s = lock SessionMutex s;
     q \<leftarrow> se_reqs se req;
     hp \<leftarrow> se_nreqs se SE_NOTIFY_LIST;
     hit \<leftarrow> find_nreq (r_unique q) (n_next hp) (se_nreqs se);
     case hit of
       Some nreq \<Rightarrow> do {
         h \<leftarrow> list_del_nreq nreq (se_nreqs se);
         fuse_ll_retrieve_reply os ops nreq req nodeid ia inarg buf
           (se\<lparr>se_nreqs := h\<rparr>, unlock SessionMutex s) }
     | None \<Rightarrow> Some (se, unlock SessionMutex s) })"

section \<open>The table of handlers\<close>

definition fuse_ll_ops :: "(u32 \<times> ('w, 'x) ll_func) list" where
  "fuse_ll_ops = [
     (FUSE_LOOKUP, do_lookup_ll), (FUSE_FORGET, do_forget), (FUSE_GETATTR, do_getattr),
     (FUSE_SETATTR, do_setattr_ll), (FUSE_READLINK, do_readlink), (FUSE_SYMLINK, do_symlink),
     (FUSE_MKNOD, do_mknod), (FUSE_MKDIR, do_mkdir), (FUSE_UNLINK, do_unlink), (FUSE_RMDIR, do_rmdir),
     (FUSE_RENAME, do_rename), (FUSE_LINK, do_link), (FUSE_OPEN, do_open), (FUSE_READ, do_read_ll),
     (FUSE_WRITE, do_write), (FUSE_STATFS, do_statfs), (FUSE_RELEASE, do_release), (FUSE_FSYNC, do_fsync),
     (FUSE_SETXATTR, do_setxattr), (FUSE_GETXATTR, do_getxattr), (FUSE_LISTXATTR, do_listxattr),
     (FUSE_REMOVEXATTR, do_removexattr), (FUSE_FLUSH, do_flush), (FUSE_INIT, do_init),
     (FUSE_OPENDIR, do_opendir), (FUSE_READDIR, do_readdir_ll), (FUSE_RELEASEDIR, do_releasedir),
     (FUSE_FSYNCDIR, do_fsyncdir), (FUSE_GETLK, do_getlk), (FUSE_SETLK, do_setlk), (FUSE_SETLKW, do_setlkw),
     (FUSE_ACCESS, do_access), (FUSE_CREATE, do_create), (FUSE_INTERRUPT, do_interrupt), (FUSE_BMAP, do_bmap),
     (FUSE_IOCTL, do_ioctl), (FUSE_POLL, do_poll), (FUSE_FALLOCATE, do_fallocate), (FUSE_DESTROY, do_destroy),
     (FUSE_BATCH_FORGET, do_batch_forget), (FUSE_READDIRPLUS, do_readdirplus), (FUSE_RENAME2, do_rename2),
     (FUSE_COPY_FILE_RANGE, do_copy_file_range), (FUSE_LSEEK, do_lseek)]"

text \<open>
  Two more entries are not null: \<^verbatim>\<open>FUSE_NOTIFY_REPLY\<close>, which is dispatched separately, and \<^verbatim>\<open>CUSE_INIT\<close>, which only a
  session for a character device lets through.
\<close>

definition has_func :: "u32 \<Rightarrow> bool" where
  "has_func opcode \<longleftrightarrow> opcode \<in> set (map fst (fuse_ll_ops :: (u32 \<times> (unit, unit) ll_func) list)) \<or>
     opcode = FUSE_NOTIFY_REPLY \<or> opcode = CUSE_INIT"

section \<open>Processing a message\<close>

record fuse_in_header =
  ih_opcode :: u32
  ih_unique :: u64
  ih_nodeid :: u64
  ih_uid :: u32
  ih_gid :: u32
  ih_pid :: u32

definition get_in_header :: "char list \<Rightarrow> fuse_in_header option" where
  "get_in_header bs = do {
     opcode \<leftarrow> get32 bs 4;
     uniq \<leftarrow> get64 bs 8;
     nodeid \<leftarrow> get64 bs 16;
     uid \<leftarrow> get32 bs 24;
     gid \<leftarrow> get32 bs 28;
     pid \<leftarrow> get32 bs 32;
     Some \<lparr>ih_opcode = opcode, ih_unique = uniq, ih_nodeid = nodeid, ih_uid = uid, ih_gid = gid, ih_pid = pid\<rparr> }"

definition WRITE_HEADER_SIZE :: nat where [const_defs]: "WRITE_HEADER_SIZE = 80"

definition fuse_ll_copy_from_pipe :: "'w os \<Rightarrow> fuse_bufvec \<Rightarrow> fuse_bufvec \<Rightarrow> ('w, 'x) machine_scheme \<Rightarrow>
    (int \<times> fuse_bufvec \<times> ('w, 'x) machine_scheme) option" where
  "fuse_ll_copy_from_pipe os dst src s = do {
     (res, dst, src, s) \<leftarrow> fuse_buf_copy os dst src 0 s;
     Some (if res < 0 then res else if word_of_int res < fuse_buf_size dst then -1 else 0, src, s) }"

text \<open>The checks before the handler: the error they end with, if any.\<close>

definition allow_root_exempt :: "u32 list" where
  "allow_root_exempt = [FUSE_INIT, FUSE_READ, FUSE_WRITE, FUSE_FSYNC, FUSE_RELEASE, FUSE_READDIR, FUSE_FSYNCDIR,
     FUSE_RELEASEDIR, FUSE_NOTIFY_REPLY, FUSE_READDIRPLUS]"

definition refuse :: "fuse_session \<Rightarrow> fuse_in_header \<Rightarrow> errno option" where
  "refuse se ih =
     (if \<not> se_got_init se \<and> ih_opcode ih \<noteq> (if se_cuse_data se then CUSE_INIT else FUSE_INIT) then Some EIO
      else if se_got_init se \<and> (ih_opcode ih = FUSE_INIT \<or> ih_opcode ih = CUSE_INIT) then Some EIO
      else if se_deny_others se \<and> ih_uid ih \<noteq> se_owner se \<and> ih_uid ih \<noteq> 0 \<and>
              ih_opcode ih \<notin> set allow_root_exempt then Some EACCES
      else if \<not> has_func (ih_opcode ih) then Some ENOSYS
      else None)"

text \<open>The new request goes to the list of those in progress, unless it is an interrupt.\<close>

definition enter_req :: "'w os \<Rightarrow> addr \<Rightarrow> ('w, 'x) ll \<Rightarrow> ('w, 'x) ll option" where
  "enter_req os req = (\<lambda>(se, s). do {
     let s = lock SessionMutex s;
     (intr, se) \<leftarrow> check_interrupt req se;
     h \<leftarrow> list_add_req req SE_LIST (se_reqs se);
     let st = (se\<lparr>se_reqs := h\<rparr>, unlock SessionMutex s);
     case intr of
       Some i \<Rightarrow> ignore_res (fuse_reply_err os i EAGAIN st)
     | None \<Rightarrow> Some st })"

definition clear_pipe_of :: "'w os \<Rightarrow> fuse_buf \<Rightarrow> ('w, 'x) ll \<Rightarrow> ('w, 'x) ll" where
  "clear_pipe_of os buf st = (if b_flags buf AND FUSE_BUF_IS_FD \<noteq> 0 then fuse_ll_clear_pipe os st else st)"

definition reply_err_out :: "'w os \<Rightarrow> addr \<Rightarrow> errno \<Rightarrow> fuse_buf \<Rightarrow> ('w, 'x) ll \<Rightarrow> ('w, 'x) ll option" where
  "reply_err_out os req err buf st = do {
     (res, st) \<leftarrow> fuse_reply_err os req err st;
     Some (clear_pipe_of os buf st) }"

text \<open>
  The rest of a message in the pipe, behind the bytes already read at \<open>ia\<close>: the new address of the
  message, or the error.
\<close>

definition read_rest :: "'w os \<Rightarrow> fuse_buf \<Rightarrow> fuse_bufvec \<Rightarrow> addr \<Rightarrow> ('w, 'x) machine_scheme \<Rightarrow>
    ((errno + addr) \<times> ('w, 'x) machine_scheme) option" where
  "read_rest os buf bufv ia s = do {
     let (ok, s) = alloc os s;
     if \<not> ok then Some (Inl ENOMEM, s)
     else do {
       let (mbuf, s) = malloc (unat (b_size buf)) s;
       let s = write_mem mbuf (read_mem s ia WRITE_HEADER_SIZE) s;
       let tmpbuf = FUSE_BUFVEC_INIT (b_size buf - of_nat WRITE_HEADER_SIZE);
       let tmpbuf = tmpbuf\<lparr>v_buf := [(hd (v_buf tmpbuf))\<lparr>b_mem := mbuf + WRITE_HEADER_SIZE\<rparr>]\<rparr>;
       (res, _, s) \<leftarrow> fuse_ll_copy_from_pipe os tmpbuf bufv s;
       Some (if res < 0 then Inl (- res) else Inr mbuf, s) } }"

definition dispatch :: "'w os \<Rightarrow> ('w, 'x) fuse_lowlevel_ops \<Rightarrow> addr \<Rightarrow> fuse_in_header \<Rightarrow> addr \<Rightarrow> char list \<Rightarrow> fuse_buf \<Rightarrow>
    ('w, 'x) ll \<Rightarrow> ('w, 'x) ll option" where
  "dispatch os ops req ih ia inarg buf st =
     (if ih_opcode ih = FUSE_WRITE \<and> has_op ops ''write_buf''
      then do_write_buf_ll os ops req (ih_nodeid ih) ia inarg buf st
      else if ih_opcode ih = FUSE_NOTIFY_REPLY
      then do_notify_reply os ops req (ih_nodeid ih) ia inarg buf st
      else case map_of fuse_ll_ops (ih_opcode ih) of
        Some func \<Rightarrow> func os ops req (ih_nodeid ih) inarg st
      | None \<Rightarrow> None)"

text \<open>From the allocation of the request on; \<open>ia\<close> is the address of the message and \<open>n\<close> its length so far.\<close>

definition process_message :: "'w os \<Rightarrow> ('w, 'x) fuse_lowlevel_ops \<Rightarrow> fuse_buf \<Rightarrow> fuse_bufvec \<Rightarrow> addr \<Rightarrow> nat \<Rightarrow>
    ('w, 'x) ll \<Rightarrow> ('w, 'x) ll option" where
  "process_message os ops buf bufv ia n = (\<lambda>(se, s). do {
     ih \<leftarrow> get_in_header (read_mem s ia n);
     (req, se, s) \<leftarrow> fuse_ll_alloc_req os (se, s);
     case req of
       None \<Rightarrow> Some (clear_pipe_of os buf (snd (fuse_send_msg os (- ENOMEM) (ih_unique ih) [] (se, s))))
     | Some req \<Rightarrow> do {
         se \<leftarrow> upd_req req (\<lambda>r. r\<lparr>r_unique := ih_unique ih, r_uid := ih_uid ih, r_gid := ih_gid ih,
                                  r_pid := ih_pid ih\<rparr>) se;
         case refuse se ih of
           Some err \<Rightarrow> reply_err_out os req err buf (se, s)
         | None \<Rightarrow> do {
             (se, s) \<leftarrow> (if ih_opcode ih \<noteq> FUSE_INTERRUPT then enter_req os req (se, s) else Some (se, s));
             if b_flags buf AND FUSE_BUF_IS_FD \<noteq> 0 \<and> of_nat WRITE_HEADER_SIZE < b_size buf \<and>
                \<not> (ih_opcode ih = FUSE_WRITE \<and> has_op ops ''write_buf'') \<and> ih_opcode ih \<noteq> FUSE_NOTIFY_REPLY
             then do {
               (r, s) \<leftarrow> read_rest os buf bufv ia s;
               case r of
                 Inl err \<Rightarrow> reply_err_out os req err buf (se, s)
               | Inr ia \<Rightarrow>
                   dispatch os ops req ih (ia + IN_HEADER_SIZE)
                     (drop IN_HEADER_SIZE (read_mem s ia (unat (b_size buf)))) buf (se, s) }
             else dispatch os ops req ih (ia + IN_HEADER_SIZE)
                    (drop IN_HEADER_SIZE (read_mem s ia n)) buf (se, s) } } })"

definition fuse_session_process_buf_int :: "'w os \<Rightarrow> ('w, 'x) fuse_lowlevel_ops \<Rightarrow> fuse_buf \<Rightarrow> ('w, 'x) ll \<Rightarrow>
    ('w, 'x) ll option" where
  "fuse_session_process_buf_int os ops buf = (\<lambda>(se, s).
     let bufv = \<lparr>v_idx = 0, v_off = 0, v_buf = [buf]\<rparr> in
     if b_flags buf AND FUSE_BUF_IS_FD \<noteq> 0 then
       let n = min (unat (b_size buf)) WRITE_HEADER_SIZE;
           (ok, s) = alloc os s in
       if \<not> ok then Some (fuse_ll_clear_pipe os (se, s))
       else do {
         let (mbuf, s) = malloc n s;
         let tmpbuf = FUSE_BUFVEC_INIT (of_nat n);
         let tmpbuf = tmpbuf\<lparr>v_buf := [(hd (v_buf tmpbuf))\<lparr>b_mem := mbuf\<rparr>]\<rparr>;
         (res, bufv, s) \<leftarrow> fuse_ll_copy_from_pipe os tmpbuf bufv s;
         if res < 0 then Some (fuse_ll_clear_pipe os (se, s))
         else process_message os ops buf bufv mbuf n (se, s) }
     else process_message os ops buf bufv (b_mem buf) (unat (b_size buf)) (se, s))"

definition fuse_session_process_buf :: "'w os \<Rightarrow> ('w, 'x) fuse_lowlevel_ops \<Rightarrow> fuse_buf \<Rightarrow> ('w, 'x) ll \<Rightarrow>
    ('w, 'x) ll option" where
  "fuse_session_process_buf os ops buf = fuse_session_process_buf_int os ops buf"

end
