(* ===== verification/Fuse_Codec.thy ===== *)
theory Fuse_Codec
  imports Fuse_Dispatch
begin

text \<open>
  The messages the kernel sends, with the layout of \<^verbatim>\<open>libfuse/include/fuse_kernel.h\<close>, and the proof that the
  decoders of \<^verbatim>\<open>fuse_lowlevel.c\<close> read every field where the kernel puts it.
\<close>

section \<open>Messages\<close>

text \<open>The arguments behind the header: one constructor per operation, its fields those of \<^verbatim>\<open>struct fuse_*_in\<close> without padding.\<close>

datatype (plugins only: size code) fuse_in =
    InLookup string
  | InForget u64
  | InBatchForget "(u64 \<times> u64) list"
  | InGetattr u32 u64
  | InSetattr u32 u64 u64 u64 "u64 \<times> u64 \<times> u64" "u32 \<times> u32 \<times> u32" u32 u32 u32
  | InReadlink
  | InSymlink string string
  | InMknod u32 u32 u32 string
  | InMkdir u32 u32 string
  | InUnlink string
  | InRmdir string
  | InRename u64 string string
  | InRename2 u64 u32 string string
  | InLink u64 string
  | InOpen u32
  | InRead u64 u64 u32 u32 u64 u32
  | InStatfs
  | InRelease u64 u32 u32 u64
  | InFsync u64 u32
  | InSetxattr u32 string string
  | InGetxattr u32 string
  | InListxattr u32
  | InRemovexattr string
  | InFlush u64 u64
  | InOpendir u32
  | InReaddir u64 u64 u32 u32 u64 u32
  | InReaddirplus u64 u64 u32 u32 u64 u32
  | InReleasedir u64 u32 u32 u64
  | InFsyncdir u64 u32
  | InSetlk u64 u64 u64 u64 u32 u32 u32
  | InSetlkw u64 u64 u64 u64 u32 u32 u32
  | InAccess u32
  | InCreate u32 u32 u32 string

fun opcode_of :: "fuse_in \<Rightarrow> u32" where
  "opcode_of (InLookup _) = FUSE_LOOKUP"
| "opcode_of (InForget _) = FUSE_FORGET"
| "opcode_of (InBatchForget _) = FUSE_BATCH_FORGET"
| "opcode_of (InGetattr _ _) = FUSE_GETATTR"
| "opcode_of (InSetattr _ _ _ _ _ _ _ _ _) = FUSE_SETATTR"
| "opcode_of InReadlink = FUSE_READLINK"
| "opcode_of (InSymlink _ _) = FUSE_SYMLINK"
| "opcode_of (InMknod _ _ _ _) = FUSE_MKNOD"
| "opcode_of (InMkdir _ _ _) = FUSE_MKDIR"
| "opcode_of (InUnlink _) = FUSE_UNLINK"
| "opcode_of (InRmdir _) = FUSE_RMDIR"
| "opcode_of (InRename _ _ _) = FUSE_RENAME"
| "opcode_of (InRename2 _ _ _ _) = FUSE_RENAME2"
| "opcode_of (InLink _ _) = FUSE_LINK"
| "opcode_of (InOpen _) = FUSE_OPEN"
| "opcode_of (InRead _ _ _ _ _ _) = FUSE_READ"
| "opcode_of InStatfs = FUSE_STATFS"
| "opcode_of (InRelease _ _ _ _) = FUSE_RELEASE"
| "opcode_of (InFsync _ _) = FUSE_FSYNC"
| "opcode_of (InSetxattr _ _ _) = FUSE_SETXATTR"
| "opcode_of (InGetxattr _ _) = FUSE_GETXATTR"
| "opcode_of (InListxattr _) = FUSE_LISTXATTR"
| "opcode_of (InRemovexattr _) = FUSE_REMOVEXATTR"
| "opcode_of (InFlush _ _) = FUSE_FLUSH"
| "opcode_of (InOpendir _) = FUSE_OPENDIR"
| "opcode_of (InReaddir _ _ _ _ _ _) = FUSE_READDIR"
| "opcode_of (InReaddirplus _ _ _ _ _ _) = FUSE_READDIRPLUS"
| "opcode_of (InReleasedir _ _ _ _) = FUSE_RELEASEDIR"
| "opcode_of (InFsyncdir _ _) = FUSE_FSYNCDIR"
| "opcode_of (InSetlk _ _ _ _ _ _ _) = FUSE_SETLK"
| "opcode_of (InSetlkw _ _ _ _ _ _ _) = FUSE_SETLKW"
| "opcode_of (InAccess _) = FUSE_ACCESS"
| "opcode_of (InCreate _ _ _ _) = FUSE_CREATE"

fun forget_bytes :: "(u64 \<times> u64) list \<Rightarrow> char list" where
  "forget_bytes [] = []"
| "forget_bytes ((ino, n) # fs) = le64 ino @ le64 n @ forget_bytes fs"

definition name_bytes :: "string \<Rightarrow> char list" where
  "name_bytes name = name @ [NUL]"

definition read_bytes :: "u64 \<Rightarrow> u64 \<Rightarrow> u32 \<Rightarrow> u32 \<Rightarrow> u64 \<Rightarrow> u32 \<Rightarrow> char list" where
  "read_bytes fh off n rfl owner fl = le64 fh @ le64 off @ le32 n @ le32 rfl @ le64 owner @ le32 fl @ le32 0"

definition release_bytes :: "u64 \<Rightarrow> u32 \<Rightarrow> u32 \<Rightarrow> u64 \<Rightarrow> char list" where
  "release_bytes fh fl rfl owner = le64 fh @ le32 fl @ le32 rfl @ le64 owner"

definition lk_bytes :: "u64 \<Rightarrow> u64 \<Rightarrow> u64 \<Rightarrow> u64 \<Rightarrow> u32 \<Rightarrow> u32 \<Rightarrow> u32 \<Rightarrow> char list" where
  "lk_bytes fh owner start end' ty pid fl =
     le64 fh @ le64 owner @ le64 start @ le64 end' @ le32 ty @ le32 pid @ le32 fl @ le32 0"

fun in_bytes :: "fuse_in \<Rightarrow> char list" where
  "in_bytes (InLookup name) = name_bytes name"
| "in_bytes (InForget n) = le64 n"
| "in_bytes (InBatchForget fs) = le32 (of_nat (length fs)) @ le32 0 @ forget_bytes fs"
| "in_bytes (InGetattr fl fh) = le32 fl @ le32 0 @ le64 fh"
| "in_bytes (InSetattr valid fh n owner (ta, tm, tc) (na, nm, nc) mode uid gid) =
     le32 valid @ le32 0 @ le64 fh @ le64 n @ le64 owner @ le64 ta @ le64 tm @ le64 tc @
     le32 na @ le32 nm @ le32 nc @ le32 mode @ le32 0 @ le32 uid @ le32 gid @ le32 0"
| "in_bytes InReadlink = []"
| "in_bytes (InSymlink name target) = name_bytes name @ name_bytes target"
| "in_bytes (InMknod mode rdev um name) = le32 mode @ le32 rdev @ le32 um @ le32 0 @ name_bytes name"
| "in_bytes (InMkdir mode um name) = le32 mode @ le32 um @ name_bytes name"
| "in_bytes (InUnlink name) = name_bytes name"
| "in_bytes (InRmdir name) = name_bytes name"
| "in_bytes (InRename newdir old new) = le64 newdir @ name_bytes old @ name_bytes new"
| "in_bytes (InRename2 newdir fl old new) = le64 newdir @ le32 fl @ le32 0 @ name_bytes old @ name_bytes new"
| "in_bytes (InLink old name) = le64 old @ name_bytes name"
| "in_bytes (InOpen fl) = le32 fl @ le32 0"
| "in_bytes (InRead fh off n rfl owner fl) = read_bytes fh off n rfl owner fl"
| "in_bytes InStatfs = []"
| "in_bytes (InRelease fh fl rfl owner) = release_bytes fh fl rfl owner"
| "in_bytes (InFsync fh fl) = le64 fh @ le32 fl @ le32 0"
| "in_bytes (InSetxattr fl name v) = le32 (of_nat (length v)) @ le32 fl @ name_bytes name @ v"
| "in_bytes (InGetxattr n name) = le32 n @ le32 0 @ name_bytes name"
| "in_bytes (InListxattr n) = le32 n @ le32 0"
| "in_bytes (InRemovexattr name) = name_bytes name"
| "in_bytes (InFlush fh owner) = le64 fh @ le32 0 @ le32 0 @ le64 owner"
| "in_bytes (InOpendir fl) = le32 fl @ le32 0"
| "in_bytes (InReaddir fh off n rfl owner fl) = read_bytes fh off n rfl owner fl"
| "in_bytes (InReaddirplus fh off n rfl owner fl) = read_bytes fh off n rfl owner fl"
| "in_bytes (InReleasedir fh fl rfl owner) = release_bytes fh fl rfl owner"
| "in_bytes (InFsyncdir fh fl) = le64 fh @ le32 fl @ le32 0"
| "in_bytes (InSetlk fh owner start end' ty pid fl) = lk_bytes fh owner start end' ty pid fl"
| "in_bytes (InSetlkw fh owner start end' ty pid fl) = lk_bytes fh owner start end' ty pid fl"
| "in_bytes (InAccess am) = le32 am @ le32 0"
| "in_bytes (InCreate fl mode um name) = le32 fl @ le32 mode @ le32 um @ le32 0 @ name_bytes name"

text \<open>The operation a message stands for, and the member of the table that serves it.\<close>

definition fh_info :: "u64 \<Rightarrow> fuse_file_info" where
  "fh_info fh = zero_fi\<lparr>fi_fh := uint fh\<rparr>"

definition release_info :: "u64 \<Rightarrow> u32 \<Rightarrow> u32 \<Rightarrow> u64 \<Rightarrow> fuse_file_info" where
  "release_info fh fl rfl owner = zero_fi\<lparr>fi_flags := fl, fi_fh := uint fh,
     fi_flush := (rfl AND FUSE_RELEASE_FLUSH \<noteq> 0), fi_flock_release := (rfl AND FUSE_RELEASE_FLOCK_UNLOCK \<noteq> 0),
     fi_lock_owner := owner\<rparr>"

definition lk_oper :: "u64 \<Rightarrow> u64 \<Rightarrow> u64 \<Rightarrow> u64 \<Rightarrow> u64 \<Rightarrow> u32 \<Rightarrow> u32 \<Rightarrow> u32 \<Rightarrow> bool \<Rightarrow> oper" where
  "lk_oper ino fh owner start end' ty pid fl sleep =
     (let fi = zero_fi\<lparr>fi_fh := uint fh, fi_lock_owner := owner\<rparr> in
      if fl AND FUSE_LK_FLOCK \<noteq> 0 then OpFlock ino fi (flock_op ty sleep)
      else OpSetlk ino fi \<lparr>l_type = sint ty, l_start = start,
        l_len = (if end' = OFFSET_MAX then 0 else end' - start + 1), l_pid = pid\<rparr> sleep)"

fun oper_of :: "u64 \<Rightarrow> fuse_in \<Rightarrow> oper" where
  "oper_of ino (InLookup name) = OpLookup ino name"
| "oper_of ino (InForget n) = OpForget ino n"
| "oper_of ino (InBatchForget fs) = OpForgetMulti fs"
| "oper_of ino (InGetattr fl fh) = OpGetattr ino (if fl AND FUSE_GETATTR_FH \<noteq> 0 then Some (fh_info fh) else None)"
| "oper_of ino (InSetattr valid fh n owner (ta, tm, tc) (na, nm, nc) mode uid gid) =
     OpSetattr ino (zero_stat\<lparr>st_mode := mode, st_uid := uid, st_gid := gid, st_size := n,
         st_atim := \<lparr>tv_sec = sint ta, tv_nsec = uint na\<rparr>, st_mtim := \<lparr>tv_sec = sint tm, tv_nsec = uint nm\<rparr>,
         st_ctim := \<lparr>tv_sec = sint tc, tv_nsec = uint nc\<rparr>\<rparr>)
       (valid AND SETATTR_MASK) (if valid AND FATTR_FH \<noteq> 0 then Some (fh_info fh) else None)"
| "oper_of ino InReadlink = OpReadlink ino"
| "oper_of ino (InSymlink name target) = OpSymlink target ino name"
| "oper_of ino (InMknod mode rdev um name) = OpMknod ino name mode rdev"
| "oper_of ino (InMkdir mode um name) = OpMkdir ino name mode"
| "oper_of ino (InUnlink name) = OpUnlink ino name"
| "oper_of ino (InRmdir name) = OpRmdir ino name"
| "oper_of ino (InRename newdir old new) = OpRename ino old newdir new 0"
| "oper_of ino (InRename2 newdir fl old new) = OpRename ino old newdir new fl"
| "oper_of ino (InLink old name) = OpLink old ino name"
| "oper_of ino (InOpen fl) = OpOpen ino (zero_fi\<lparr>fi_flags := fl\<rparr>)"
| "oper_of ino (InRead fh off n rfl owner fl) =
     OpRead ino (ucast n) off (fh_info fh\<lparr>fi_lock_owner := owner, fi_flags := fl\<rparr>)"
| "oper_of ino InStatfs = OpStatfs ino"
| "oper_of ino (InRelease fh fl rfl owner) = OpRelease ino (release_info fh fl rfl owner)"
| "oper_of ino (InFsync fh fl) = OpFsync ino (fl AND 1 \<noteq> 0) (fh_info fh)"
| "oper_of ino (InSetxattr fl name v) = OpSetxattr ino name v fl"
| "oper_of ino (InGetxattr n name) = OpGetxattr ino name (ucast n)"
| "oper_of ino (InListxattr n) = OpListxattr ino (ucast n)"
| "oper_of ino (InRemovexattr name) = OpRemovexattr ino name"
| "oper_of ino (InFlush fh owner) = OpFlush ino (fh_info fh\<lparr>fi_flush := True, fi_lock_owner := owner\<rparr>)"
| "oper_of ino (InOpendir fl) = OpOpendir ino (zero_fi\<lparr>fi_flags := fl\<rparr>)"
| "oper_of ino (InReaddir fh off n rfl owner fl) = OpReaddir ino (ucast n) off (fh_info fh)"
| "oper_of ino (InReaddirplus fh off n rfl owner fl) = OpReaddirplus ino (ucast n) off (fh_info fh)"
| "oper_of ino (InReleasedir fh fl rfl owner) = OpReleasedir ino (fh_info fh\<lparr>fi_flags := fl\<rparr>)"
| "oper_of ino (InFsyncdir fh fl) = OpFsyncdir ino (fl AND 1 \<noteq> 0) (fh_info fh)"
| "oper_of ino (InSetlk fh owner start end' ty pid fl) = lk_oper ino fh owner start end' ty pid fl False"
| "oper_of ino (InSetlkw fh owner start end' ty pid fl) = lk_oper ino fh owner start end' ty pid fl True"
| "oper_of ino (InAccess am) = OpAccess ino am"
| "oper_of ino (InCreate fl mode um name) = OpCreate ino name mode (zero_fi\<lparr>fi_flags := fl\<rparr>)"

fun op_name :: "oper \<Rightarrow> string" where
  "op_name (OpLookup _ _) = ''lookup''"
| "op_name (OpForget _ _) = ''forget''"
| "op_name (OpForgetMulti _) = ''forget_multi''"
| "op_name (OpGetattr _ _) = ''getattr''"
| "op_name (OpSetattr _ _ _ _) = ''setattr''"
| "op_name (OpReadlink _) = ''readlink''"
| "op_name (OpMknod _ _ _ _) = ''mknod''"
| "op_name (OpMkdir _ _ _) = ''mkdir''"
| "op_name (OpUnlink _ _) = ''unlink''"
| "op_name (OpRmdir _ _) = ''rmdir''"
| "op_name (OpSymlink _ _ _) = ''symlink''"
| "op_name (OpRename _ _ _ _ _) = ''rename''"
| "op_name (OpLink _ _ _) = ''link''"
| "op_name (OpOpen _ _) = ''open''"
| "op_name (OpRead _ _ _ _) = ''read''"
| "op_name (OpWrite _ _ _ _) = ''write''"
| "op_name (OpFlush _ _) = ''flush''"
| "op_name (OpRelease _ _) = ''release''"
| "op_name (OpFsync _ _ _) = ''fsync''"
| "op_name (OpOpendir _ _) = ''opendir''"
| "op_name (OpReaddir _ _ _ _) = ''readdir''"
| "op_name (OpReaddirplus _ _ _ _) = ''readdirplus''"
| "op_name (OpReleasedir _ _) = ''releasedir''"
| "op_name (OpFsyncdir _ _ _) = ''fsyncdir''"
| "op_name (OpStatfs _) = ''statfs''"
| "op_name (OpSetxattr _ _ _ _) = ''setxattr''"
| "op_name (OpGetxattr _ _ _) = ''getxattr''"
| "op_name (OpListxattr _ _) = ''listxattr''"
| "op_name (OpRemovexattr _ _) = ''removexattr''"
| "op_name (OpAccess _ _) = ''access''"
| "op_name (OpCreate _ _ _ _) = ''create''"
| "op_name (OpGetlk _ _ _) = ''getlk''"
| "op_name (OpSetlk _ _ _ _) = ''setlk''"
| "op_name (OpFlock _ _ _) = ''flock''"
| "op_name (OpBmap _ _ _) = ''bmap''"
| "op_name (OpIoctl _ _ _ _ _ _ _ _) = ''ioctl''"
| "op_name (OpPoll _ _ _) = ''poll''"
| "op_name (OpFallocate _ _ _ _ _) = ''fallocate''"
| "op_name (OpCopyFileRange _ _ _ _ _ _ _ _) = ''copy_file_range''"
| "op_name (OpLseek _ _ _ _) = ''lseek''"
| "op_name OpDestroy = ''destroy''"

text \<open>Names are C strings, and lengths fit their field.\<close>

fun in_fine :: "fuse_in \<Rightarrow> bool" where
  "in_fine (InLookup name) = (NUL \<notin> set name)"
| "in_fine (InBatchForget fs) = (length fs < 2 ^ 32)"
| "in_fine (InSymlink name target) = (NUL \<notin> set name \<and> NUL \<notin> set target)"
| "in_fine (InMknod _ _ _ name) = (NUL \<notin> set name)"
| "in_fine (InMkdir _ _ name) = (NUL \<notin> set name)"
| "in_fine (InUnlink name) = (NUL \<notin> set name)"
| "in_fine (InRmdir name) = (NUL \<notin> set name)"
| "in_fine (InRename _ old new) = (NUL \<notin> set old \<and> NUL \<notin> set new)"
| "in_fine (InRename2 _ _ old new) = (NUL \<notin> set old \<and> NUL \<notin> set new)"
| "in_fine (InLink _ name) = (NUL \<notin> set name)"
| "in_fine (InSetxattr _ name v) = (NUL \<notin> set name \<and> length v < 2 ^ 32)"
| "in_fine (InGetxattr _ name) = (NUL \<notin> set name)"
| "in_fine (InRemovexattr name) = (NUL \<notin> set name)"
| "in_fine (InCreate _ _ _ name) = (NUL \<notin> set name)"
| "in_fine _ = True"

text \<open>Three operations also record the file mode creation mask in the request.\<close>

fun umask_of :: "fuse_in \<Rightarrow> u32 option" where
  "umask_of (InMknod _ _ um _) = Some um"
| "umask_of (InMkdir _ um _) = Some um"
| "umask_of (InCreate _ _ um _) = Some um"
| "umask_of _ = None"

definition with_umask :: "addr \<Rightarrow> fuse_in \<Rightarrow> fuse_session \<Rightarrow> fuse_session option" where
  "with_umask req m se = (case umask_of m of Some um \<Rightarrow> set_umask req um se | None \<Rightarrow> Some se)"

section \<open>Reading fields\<close>

named_theorems decode

lemma get_skip [decode]:
  "length xs \<le> off \<Longrightarrow> get32 (xs @ ys) off = get32 ys (off - length xs)"
  "length xs \<le> off \<Longrightarrow> get64 (xs @ ys) off = get64 ys (off - length xs)"
  "length xs \<le> off \<Longrightarrow> get_cstr (xs @ ys) off = get_cstr ys (off - length xs)"
  "length xs \<le> off \<Longrightarrow> get_bytes (xs @ ys) off n = get_bytes ys (off - length xs) n"
  by (auto simp: get32_def get64_def get_cstr_def get_bytes_def)

lemma get_here [decode]:
  "get32 (le32 w @ ys) 0 = Some w" "get32 (le32 w) 0 = Some w"
  "get64 (le64 v @ ys) 0 = Some v" "get64 (le64 v) 0 = Some v"
  using get32_le32 [of "[]" 0 w ys] get32_le32 [of "[]" 0 w "[]"] get64_le64 [of "[]" 0 v ys] get64_le64 [of "[]" 0 v "[]"]
  by simp_all

lemma get_name [decode]:
  "NUL \<notin> set name \<Longrightarrow> get_cstr (name_bytes name @ ys) 0 = Some name"
  "NUL \<notin> set name \<Longrightarrow> get_cstr (name_bytes name) 0 = Some name"
  by (auto simp: get_cstr_def cstr_def name_bytes_def takeWhile_tail)

lemma length_name_bytes [simp]: "length (name_bytes name) = length name + 1"
  by (simp add: name_bytes_def)

lemma get_bytes_all [decode]: "get_bytes v 0 (length v) = Some v"
  by (simp add: get_bytes_def)

lemma get_forgets_bytes: "get_forgets (xs @ forget_bytes fs) (length xs) (length fs) = Some fs"
proof (induction fs arbitrary: xs)
  case (Cons f fs)
  obtain ino n where f: "f = (ino, n)" by (cases f)
  have "get_forgets ((xs @ le64 ino @ le64 n) @ forget_bytes fs) (length (xs @ le64 ino @ le64 n)) (length fs) = Some fs"
    by (rule Cons.IH)
  moreover have "get64 (xs @ le64 ino @ le64 n @ forget_bytes fs) (length xs) = Some ino"
    "get64 ((xs @ le64 ino) @ le64 n @ forget_bytes fs) (length (xs @ le64 ino)) = Some n"
    by (simp_all only: get64_le64)
  ultimately show ?case by (simp add: f add.commute)
qed simp

lemma get_forgets_message [decode]:
  "get_forgets (le32 a @ le32 b @ forget_bytes fs) 8 (length fs) = Some fs"
  using get_forgets_bytes [of "le32 a @ le32 b" fs] by simp

lemma unat_length: "length xs < 2 ^ 32 \<Longrightarrow> unat (of_nat (length xs) :: u32) = length xs"
  by (simp add: unat_of_nat)

section \<open>Every message reaches its operation\<close>

lemma ll_ops_at:
  "map_of fuse_ll_ops FUSE_LOOKUP = Some do_lookup_ll" "map_of fuse_ll_ops FUSE_FORGET = Some do_forget"
  "map_of fuse_ll_ops FUSE_BATCH_FORGET = Some do_batch_forget" "map_of fuse_ll_ops FUSE_GETATTR = Some do_getattr"
  "map_of fuse_ll_ops FUSE_SETATTR = Some do_setattr_ll" "map_of fuse_ll_ops FUSE_READLINK = Some do_readlink"
  "map_of fuse_ll_ops FUSE_SYMLINK = Some do_symlink" "map_of fuse_ll_ops FUSE_MKNOD = Some do_mknod"
  "map_of fuse_ll_ops FUSE_MKDIR = Some do_mkdir" "map_of fuse_ll_ops FUSE_UNLINK = Some do_unlink"
  "map_of fuse_ll_ops FUSE_RMDIR = Some do_rmdir" "map_of fuse_ll_ops FUSE_RENAME = Some do_rename"
  "map_of fuse_ll_ops FUSE_RENAME2 = Some do_rename2" "map_of fuse_ll_ops FUSE_LINK = Some do_link"
  "map_of fuse_ll_ops FUSE_OPEN = Some do_open" "map_of fuse_ll_ops FUSE_READ = Some do_read_ll"
  "map_of fuse_ll_ops FUSE_STATFS = Some do_statfs" "map_of fuse_ll_ops FUSE_RELEASE = Some do_release"
  "map_of fuse_ll_ops FUSE_FSYNC = Some do_fsync" "map_of fuse_ll_ops FUSE_SETXATTR = Some do_setxattr"
  "map_of fuse_ll_ops FUSE_GETXATTR = Some do_getxattr" "map_of fuse_ll_ops FUSE_LISTXATTR = Some do_listxattr"
  "map_of fuse_ll_ops FUSE_REMOVEXATTR = Some do_removexattr" "map_of fuse_ll_ops FUSE_FLUSH = Some do_flush"
  "map_of fuse_ll_ops FUSE_OPENDIR = Some do_opendir" "map_of fuse_ll_ops FUSE_READDIR = Some do_readdir_ll"
  "map_of fuse_ll_ops FUSE_READDIRPLUS = Some do_readdirplus" "map_of fuse_ll_ops FUSE_RELEASEDIR = Some do_releasedir"
  "map_of fuse_ll_ops FUSE_FSYNCDIR = Some do_fsyncdir" "map_of fuse_ll_ops FUSE_SETLK = Some do_setlk"
  "map_of fuse_ll_ops FUSE_SETLKW = Some do_setlkw" "map_of fuse_ll_ops FUSE_ACCESS = Some do_access"
  "map_of fuse_ll_ops FUSE_CREATE = Some do_create"
  by (simp_all add: fuse_ll_ops_def const_defs)

lemma opcode_plain: "opcode_of m \<noteq> FUSE_WRITE \<and> opcode_of m \<noteq> FUSE_NOTIFY_REPLY \<and> opcode_of m \<noteq> FUSE_INTERRUPT"
  by (cases m) (simp_all add: const_defs)

lemma dispatch_plain:
  "ih_opcode ih = opcode_of m \<Longrightarrow>
   dispatch os ops req ih ia inarg buf st =
     (case map_of fuse_ll_ops (opcode_of m) of Some func \<Rightarrow> func os ops req (ih_nodeid ih) inarg st | None \<Rightarrow> None)"
  using opcode_plain [of m] by (simp add: dispatch_def)

lemma proto_minor_umask: "set_umask req um se = Some se' \<Longrightarrow> proto_minor se' = proto_minor se"
  by (auto simp: set_umask_def proto_minor_def elim!: stepE)

lemma word_minor: "12 \<le> (w :: u32) \<Longrightarrow> 7 \<le> w \<and> 8 \<le> w \<and> 9 \<le> w \<and> \<not> w < 9"
  by (auto simp: not_less intro: order_trans [of _ 12])

lemma valid_mask: "(if v AND FATTR_FH \<noteq> 0 then v AND NOT FATTR_FH else v) AND SETATTR_MASK = v AND SETATTR_MASK"
proof -
  have "NOT FATTR_FH AND SETATTR_MASK = SETATTR_MASK" by (simp add: const_defs)
  then show ?thesis by (simp add: and.assoc)
qed

lemmas decoders = do_lookup_ll_def do_forget_def do_batch_forget_def do_getattr_def do_setattr_ll_def do_readlink_def
  do_symlink_def do_mknod_def do_mkdir_def do_unlink_def do_rmdir_def do_rename_def do_rename2_def do_link_def
  do_open_def do_read_ll_def do_statfs_def do_release_def do_fsync_def do_setxattr_def do_getxattr_def do_listxattr_def
  do_removexattr_def do_flush_def do_opendir_def do_readdir_ll_def do_readdirplus_def do_releasedir_def do_fsyncdir_def
  do_setlk_def do_setlkw_def do_setlk_common_def do_access_def do_create_def convert_attr_def convert_fuse_file_lock_def

lemma dispatch_message:
  assumes "ih_opcode ih = opcode_of m" "in_fine m" "proto_minor se \<ge> 12" "with_umask req m se = Some se'"
    and "has_op ops (op_name (oper_of (ih_nodeid ih) m))"
  shows "dispatch os ops req ih ia (in_bytes m) buf (se, s) = op_run ops req (oper_of (ih_nodeid ih) m) (se', s)"
  unfolding dispatch_plain [OF assms(1)] using assms(2-) word_minor [OF assms(3)]
  by (cases m)
    (auto simp: ll_ops_at decoders decode call_or_err_def with_umask_def fh_info_def read_bytes_def
      release_bytes_def release_info_def lk_bytes_def lk_oper_def Let_def unat_length valid_mask
      zero_fi_def)

text \<open>Writes, for a file system that takes buffers: the data stay where the kernel put them, behind the arguments.\<close>

definition write_bytes :: "u64 \<Rightarrow> u64 \<Rightarrow> u32 \<Rightarrow> u32 \<Rightarrow> u64 \<Rightarrow> u32 \<Rightarrow> char list" where
  "write_bytes fh off n wfl owner fl = le64 fh @ le64 off @ le32 n @ le32 wfl @ le64 owner @ le32 fl @ le32 0"

lemma length_write_bytes [simp]: "length (write_bytes fh off n wfl owner fl) = 40"
  by (simp add: write_bytes_def)

lemma dispatch_write:
  assumes "ih_opcode ih = FUSE_WRITE" "has_op ops ''write_buf''" "b_flags buf AND FUSE_BUF_IS_FD = 0"
    and "proto_minor se \<ge> 12" "b_size buf = 80 + ucast n"
  shows "dispatch os ops req ih ia (write_bytes fh off n wfl owner fl @ bytes) buf (se, s) =
    map_option snd (op_write_buf ops req (ih_nodeid ih)
      \<lparr>v_idx = 0, v_off = 0, v_buf = [buf\<lparr>b_mem := ia + 40, b_size := ucast n\<rparr>]\<rparr> off
      (fh_info fh\<lparr>fi_writepage := (wfl AND FUSE_WRITE_CACHE \<noteq> 0), fi_lock_owner := owner, fi_flags := fl\<rparr>) (se, s))"
  using assms word_minor [OF assms(4)]
  by (simp add: dispatch_def do_write_buf_ll_def write_bytes_def decode fh_info_def IN_HEADER_SIZE_def zero_fi_def)
    (simp add: map_conv_bind_option split_def comp_def)

section \<open>The header\<close>

definition header_bytes :: "u32 \<Rightarrow> fuse_in_header \<Rightarrow> char list" where
  "header_bytes len ih = le32 len @ le32 (ih_opcode ih) @ le64 (ih_unique ih) @ le64 (ih_nodeid ih) @
     le32 (ih_uid ih) @ le32 (ih_gid ih) @ le32 (ih_pid ih) @ le32 0"

lemma length_header_bytes [simp]: "length (header_bytes len ih) = 40"
  by (simp add: header_bytes_def)

lemma get_in_header_bytes: "get_in_header (header_bytes len ih @ xs) = Some ih"
  by (simp add: get_in_header_def header_bytes_def decode)

end
