(* ===== verification/Fuse_Opt.thy ===== *)
theory Fuse_Opt
  imports Posix
begin

text \<open>
  The option parser of libfuse, \<^verbatim>\<open>libfuse/lib/fuse_opt.c\<close>: argument vectors, comma-separated option
  groups with escapes, templates such as \<^verbatim>\<open>max_read=%u\<close>, and the loop over the command line. An
  allocation may fail whenever the operating system says so; a failed assertion is \<open>None\<close>.
\<close>

section \<open>Data\<close>

text \<open>An argument vector; \<open>None\<close> is the null pointer. The count is the length of the vector.\<close>

record fuse_args =
  fa_argv :: "string list option"
  fa_allocated :: bool

definition fa_list :: "fuse_args \<Rightarrow> string list" where
  "fa_list args = (case fa_argv args of None \<Rightarrow> [] | Some xs \<Rightarrow> xs)"

definition fa_argc :: "fuse_args \<Rightarrow> nat" where
  "fa_argc args = length (fa_list args)"

record fuse_opt =
  templ :: string
  offset :: u64
  val :: int

text \<open>The variables options are stored into, by their offset: numbers and strings.\<close>

datatype optval = OptInt u32 | OptStr "string option"

type_synonym optdata = "u64 \<Rightarrow> optval"

text \<open>
  The caller's processing function: it gets the data, the argument, the key and the output arguments
  (and may change the data, the output arguments and the world).
\<close>

type_synonym 'w optproc = "optdata \<Rightarrow> string \<Rightarrow> int \<Rightarrow> fuse_args \<Rightarrow> 'w \<Rightarrow> int \<times> optdata \<times> fuse_args \<times> 'w"

record 'w fuse_opt_context = "'w machine" +
  octx_data :: optdata
  octx_argctr :: nat
  octx_argv :: "string list"
  octx_outargs :: fuse_args
  octx_opts :: "string option"
  octx_nonopt :: nat

definition FUSE_OPT_KEY_OPT :: int where [const_defs]: "FUSE_OPT_KEY_OPT = -1"
definition FUSE_OPT_KEY_NONOPT :: int where [const_defs]: "FUSE_OPT_KEY_NONOPT = -2"
definition FUSE_OPT_KEY_KEEP :: int where [const_defs]: "FUSE_OPT_KEY_KEEP = -3"
definition FUSE_OPT_KEY_DISCARD :: int where [const_defs]: "FUSE_OPT_KEY_DISCARD = -4"

text \<open>\<open>-1U\<close>, an \<open>unsigned int\<close>, compared with an \<open>unsigned long\<close>.\<close>

definition OFFSET_NONE :: u64 where [const_defs]: "OFFSET_NONE = 0xFFFFFFFF"

section \<open>Argument vectors\<close>

definition fuse_opt_free_args :: "fuse_args \<Rightarrow> fuse_args" where
  "fuse_opt_free_args args = args\<lparr>fa_argv := None, fa_allocated := False\<rparr>"

definition fuse_opt_add_arg :: "'w os \<Rightarrow> fuse_args \<Rightarrow> string \<Rightarrow> ('w, 'x) machine_scheme \<Rightarrow>
    (int \<times> fuse_args \<times> ('w, 'x) machine_scheme) option" where
  "fuse_opt_add_arg os args arg s =
     (if fa_argv args \<noteq> None \<and> \<not> fa_allocated args then None
      else do {
        let (ok, s) = alloc os s;
        if \<not> ok then Some (-1, args, s)
        else do {
          let (ok, s) = alloc os s;
          if \<not> ok then Some (-1, args, s)
          else Some (0, \<lparr>fa_argv = Some (fa_list args @ [arg]), fa_allocated = True\<rparr>, s) } })"

text \<open>
  The new argument is appended and then moved to its place: \<open>memmove\<close> of the \<open>argc - pos - 1\<close> pointers
  from \<open>pos\<close> on, one place up.
\<close>

definition fuse_opt_insert_arg :: "'w os \<Rightarrow> fuse_args \<Rightarrow> nat \<Rightarrow> string \<Rightarrow> ('w, 'x) machine_scheme \<Rightarrow>
    (int \<times> fuse_args \<times> ('w, 'x) machine_scheme) option" where
  "fuse_opt_insert_arg os args pos arg s =
     (if pos > fa_argc args then None
      else do {
        (res, args, s) \<leftarrow> fuse_opt_add_arg os args arg s;
        if res = -1 then Some (-1, args, s)
        else if pos \<noteq> fa_argc args - 1 then do {
          let xs = fa_list args;
          let newarg = xs ! (length xs - 1);
          let moved = take (Suc pos) xs @ take (length xs - pos - 1) (drop pos xs);
          Some (0, args\<lparr>fa_argv := Some (moved[pos := newarg])\<rparr>, s) }
        else Some (0, args, s) })"

section \<open>Option strings\<close>

fun escape_opt :: "bool \<Rightarrow> string \<Rightarrow> string" where
  "escape_opt esc [] = []"
| "escape_opt esc (c # cs) =
     (if esc \<and> (c = CHR '','' \<or> c = CHR 0x5C) then CHR 0x5C # c # escape_opt esc cs
      else c # escape_opt esc cs)"

definition join_opt :: "string option \<Rightarrow> string \<Rightarrow> bool \<Rightarrow> string" where
  "join_opt opts opt esc =
     (let old = (case opts of None \<Rightarrow> [] | Some t \<Rightarrow> t)
      in (if old \<noteq> [] then old @ '','' else []) @ escape_opt esc opt)"

definition add_opt_common :: "'w os \<Rightarrow> string option \<Rightarrow> string \<Rightarrow> bool \<Rightarrow> ('w, 'x) machine_scheme \<Rightarrow>
    int \<times> string option \<times> ('w, 'x) machine_scheme" where
  "add_opt_common os opts opt esc s =
     (let (ok, s) = alloc os s
      in if \<not> ok then (-1, opts, s) else (0, Some (join_opt opts opt esc), s))"

definition fuse_opt_add_opt :: "'w os \<Rightarrow> string option \<Rightarrow> string \<Rightarrow> ('w, 'x) machine_scheme \<Rightarrow>
    int \<times> string option \<times> ('w, 'x) machine_scheme" where
  "fuse_opt_add_opt os opts opt s = add_opt_common os opts opt False s"

definition fuse_opt_add_opt_escaped :: "'w os \<Rightarrow> string option \<Rightarrow> string \<Rightarrow> ('w, 'x) machine_scheme \<Rightarrow>
    int \<times> string option \<times> ('w, 'x) machine_scheme" where
  "fuse_opt_add_opt_escaped os opts opt s = add_opt_common os opts opt True s"

definition next_arg :: "('w, 'x) fuse_opt_context_scheme \<Rightarrow> int \<times> ('w, 'x) fuse_opt_context_scheme" where
  "next_arg ctx =
     (if octx_argctr ctx + 1 \<ge> length (octx_argv ctx) then (-1, ctx)
      else (0, ctx\<lparr>octx_argctr := octx_argctr ctx + 1\<rparr>))"

definition add_arg :: "'w os \<Rightarrow> ('w, 'x) fuse_opt_context_scheme \<Rightarrow> string \<Rightarrow>
    (int \<times> ('w, 'x) fuse_opt_context_scheme) option" where
  "add_arg os ctx arg = do {
     (res, args, ctx) \<leftarrow> fuse_opt_add_arg os (octx_outargs ctx) arg ctx;
     Some (res, ctx\<lparr>octx_outargs := args\<rparr>) }"

definition add_opt :: "'w os \<Rightarrow> ('w, 'x) fuse_opt_context_scheme \<Rightarrow> string \<Rightarrow>
    int \<times> ('w, 'x) fuse_opt_context_scheme" where
  "add_opt os ctx opt =
     (let (res, opts, ctx) = add_opt_common os (octx_opts ctx) opt True ctx
      in (res, ctx\<lparr>octx_opts := opts\<rparr>))"

definition call_proc :: "'w os \<Rightarrow> 'w optproc option \<Rightarrow> ('w, 'x) fuse_opt_context_scheme \<Rightarrow> string \<Rightarrow> int \<Rightarrow>
    bool \<Rightarrow> (int \<times> ('w, 'x) fuse_opt_context_scheme) option" where
  "call_proc os proc ctx arg key is_o =
     (if key = FUSE_OPT_KEY_DISCARD then Some (0, ctx)
      else
        let (res, ctx) = (case proc of
            Some f \<Rightarrow>
              if key \<noteq> FUSE_OPT_KEY_KEEP then
                (let (res, d, args, w) = f (octx_data ctx) arg key (octx_outargs ctx) (world ctx)
                 in (res, ctx\<lparr>octx_data := d, octx_outargs := args, world := w\<rparr>))
              else (1, ctx)
          | None \<Rightarrow> (1, ctx)) in
        if res = -1 \<or> res = 0 then Some (res, ctx)
        else if is_o then Some (add_opt os ctx arg)
        else add_arg os ctx arg)"

section \<open>Templates\<close>

definition strchr_pos :: "string \<Rightarrow> char \<Rightarrow> nat option" where
  "strchr_pos t c = (if c \<in> set t then Some (length (takeWhile (\<lambda>x. x \<noteq> c) t)) else None)"

text \<open>The position of the separator when the argument matches (0 for a plain match).\<close>

definition match_template :: "string \<Rightarrow> string \<Rightarrow> nat option" where
  "match_template t arg =
     (let plain = (if t = arg then Some 0 else None);
          sep = (case strchr_pos t (CHR ''='') of Some i \<Rightarrow> Some i | None \<Rightarrow> strchr_pos t (CHR '' '')) in
      case sep of
        None \<Rightarrow> plain
      | Some i \<Rightarrow>
          if Suc i = length t \<or> t ! Suc i = CHR ''%'' then
            let tlen = (if t ! i = CHR ''='' then Suc i else i) in
            if length arg \<ge> tlen \<and> strncmp_eq arg t tlen then Some i else plain
          else plain)"

fun find_opt :: "fuse_opt list \<Rightarrow> string \<Rightarrow> (fuse_opt \<times> fuse_opt list \<times> nat) option" where
  "find_opt [] arg = None"
| "find_opt (opt # opts) arg =
     (case match_template (templ opt) arg of
        Some sep \<Rightarrow> Some (opt, opts, sep)
      | None \<Rightarrow> find_opt opts arg)"

definition fuse_opt_match :: "fuse_opt list \<Rightarrow> string \<Rightarrow> bool" where
  "fuse_opt_match opts opt \<longleftrightarrow> find_opt opts opt \<noteq> None"

section \<open>Storing parameters\<close>

text \<open>
  \<open>sscanf\<close> with one of the integer conversions used in libfuse's tables: white space, an optional sign
  and at least one digit; the value is stored in 32 bits. Other conversions are left undefined.
\<close>

definition digit_in :: "nat \<Rightarrow> char \<Rightarrow> bool" where
  "digit_in base c \<longleftrightarrow> 48 \<le> (of_char c :: nat) \<and> (of_char c :: nat) < 48 + base"

fun scan_digits :: "nat \<Rightarrow> nat \<Rightarrow> string \<Rightarrow> nat" where
  "scan_digits base acc [] = acc"
| "scan_digits base acc (c # cs) =
     (if digit_in base c then scan_digits base (base * acc + (of_char c - 48)) cs else acc)"

definition scan_int :: "nat \<Rightarrow> string \<Rightarrow> int option" where
  "scan_int base t =
     (let t = dropWhile is_space_char t;
          neg = (t \<noteq> [] \<and> hd t = CHR ''-'');
          u = (if t \<noteq> [] \<and> (hd t = CHR ''-'' \<or> hd t = CHR ''+'') then tl t else t)
      in if u \<noteq> [] \<and> digit_in base (hd u)
         then Some ((if neg then -1 else 1) * int (scan_digits base 0 u)) else None)"

text \<open>The outer option is \<open>None\<close> for an unmodelled format, the inner one when nothing was assigned.\<close>

definition sscanf :: "string \<Rightarrow> string \<Rightarrow> u32 option option" where
  "sscanf param format =
     (if format = ''%u'' \<or> format = ''%d'' then Some (map_option word_of_int (scan_int 10 param))
      else if format = ''%o'' then Some (map_option word_of_int (scan_int 8 param))
      else None)"

definition process_opt_param :: "'w os \<Rightarrow> u64 \<Rightarrow> string \<Rightarrow> string \<Rightarrow> ('w, 'x) fuse_opt_context_scheme \<Rightarrow>
    (int \<times> ('w, 'x) fuse_opt_context_scheme) option" where
  "process_opt_param os var format param ctx =
     (case format of
        f0 # f1 # _ \<Rightarrow>
          if f0 \<noteq> CHR ''%'' then None
          else if f1 = CHR ''s'' then
            let (ok, ctx) = alloc os ctx in
            if \<not> ok then Some (-1, ctx)
            else Some (0, ctx\<lparr>octx_data := (octx_data ctx)(var := OptStr (Some param))\<rparr>)
          else do {
            r \<leftarrow> sscanf param format;
            case r of
              None \<Rightarrow> Some (-1, ctx)
            | Some n \<Rightarrow> Some (0, ctx\<lparr>octx_data := (octx_data ctx)(var := OptInt n)\<rparr>) }
      | _ \<Rightarrow> None)"

definition process_opt :: "'w os \<Rightarrow> 'w optproc option \<Rightarrow> fuse_opt \<Rightarrow> nat \<Rightarrow> string \<Rightarrow> bool \<Rightarrow>
    ('w, 'x) fuse_opt_context_scheme \<Rightarrow> (int \<times> ('w, 'x) fuse_opt_context_scheme) option" where
  "process_opt os proc opt sep arg is_o ctx =
     (if offset opt = OFFSET_NONE then do {
        (res, ctx) \<leftarrow> call_proc os proc ctx arg (val opt) is_o;
        Some (if res = -1 then -1 else 0, ctx) }
      else if sep \<noteq> 0 \<and> Suc sep < length (templ opt) then
        let param = drop (if templ opt ! sep = CHR ''='' then Suc sep else sep) arg
        in do {
          (res, ctx) \<leftarrow> process_opt_param os (offset opt) (drop (Suc sep) (templ opt)) param ctx;
          Some (if res = -1 then -1 else 0, ctx) }
      else Some (0, ctx\<lparr>octx_data := (octx_data ctx)(offset opt := OptInt (word_of_int (val opt)))\<rparr>))"

definition process_opt_sep_arg :: "'w os \<Rightarrow> 'w optproc option \<Rightarrow> fuse_opt \<Rightarrow> nat \<Rightarrow> string \<Rightarrow> bool \<Rightarrow>
    ('w, 'x) fuse_opt_context_scheme \<Rightarrow> (int \<times> ('w, 'x) fuse_opt_context_scheme) option" where
  "process_opt_sep_arg os proc opt sep arg is_o ctx =
     (let (res, ctx) = next_arg ctx in
      if res = -1 then Some (-1, ctx)
      else
        let param = octx_argv ctx ! octx_argctr ctx;
            (ok, ctx) = alloc os ctx in
        if \<not> ok then Some (-1, ctx)
        else process_opt os proc opt sep (take sep arg @ param) is_o ctx)"

section \<open>Parsing\<close>

text \<open>Every matching entry of the table is applied, in the order of the table.\<close>

fun process_matches :: "'w os \<Rightarrow> 'w optproc option \<Rightarrow> fuse_opt list \<Rightarrow> string \<Rightarrow> bool \<Rightarrow>
    ('w, 'x) fuse_opt_context_scheme \<Rightarrow> (int \<times> ('w, 'x) fuse_opt_context_scheme) option" where
  "process_matches os proc [] arg is_o ctx = Some (0, ctx)"
| "process_matches os proc (opt # opts) arg is_o ctx =
     (case match_template (templ opt) arg of
        None \<Rightarrow> process_matches os proc opts arg is_o ctx
      | Some sep \<Rightarrow> do {
          (res, ctx) \<leftarrow> (if sep \<noteq> 0 \<and> templ opt ! sep = CHR '' '' \<and> length arg = sep
                         then process_opt_sep_arg os proc opt sep arg is_o ctx
                         else process_opt os proc opt sep arg is_o ctx);
          if res = -1 then Some (-1, ctx) else process_matches os proc opts arg is_o ctx })"

definition process_gopt :: "'w os \<Rightarrow> fuse_opt list \<Rightarrow> 'w optproc option \<Rightarrow> string \<Rightarrow> bool \<Rightarrow>
    ('w, 'x) fuse_opt_context_scheme \<Rightarrow> (int \<times> ('w, 'x) fuse_opt_context_scheme) option" where
  "process_gopt os opts proc arg is_o ctx =
     (case find_opt opts arg of
        Some _ \<Rightarrow> process_matches os proc opts arg is_o ctx
      | None \<Rightarrow> call_proc os proc ctx arg FUSE_OPT_KEY_OPT is_o)"

text \<open>
  The group is unescaped in place: \<open>i\<close> reads and \<open>d\<close> writes the same buffer. At a comma or the end, the
  bytes before \<open>d\<close> are one option. Reading outside the buffer is undefined.
\<close>

definition nth_opt :: "'a list \<Rightarrow> nat \<Rightarrow> 'a option" where
  "nth_opt xs i = (if i < length xs then Some (xs ! i) else None)"

definition octal_at :: "char list \<Rightarrow> nat \<Rightarrow> char option option" where
  "octal_at buf i = do {
     a \<leftarrow> nth_opt buf i;
     if \<not> digit_in 4 a then Some None
     else do {
       b \<leftarrow> nth_opt buf (i + 1);
       if \<not> digit_in 8 b then Some None
       else do {
         c \<leftarrow> nth_opt buf (i + 2);
         if \<not> digit_in 8 c then Some None
         else Some (Some (char_of
           ((of_char a - 48) * 64 + (of_char b - 48) * 8 + (of_char c - 48) :: nat))) } } }"

function option_group_loop :: "(string \<Rightarrow> 'c \<Rightarrow> (int \<times> 'c) option) \<Rightarrow> char list \<Rightarrow> nat \<Rightarrow> nat \<Rightarrow> 'c \<Rightarrow>
    (int \<times> 'c) option" where
  "option_group_loop gopt buf i d ctx =
     (if i \<ge> length buf then None
      else if buf ! i = CHR '','' \<or> buf ! i = NUL then do {
        let fin = (buf ! i = NUL);
        let buf = buf[d := NUL];
        arg \<leftarrow> cstr buf;
        (res, ctx) \<leftarrow> gopt arg ctx;
        if res = -1 then Some (-1, ctx)
        else if fin then Some (0, ctx)
        else option_group_loop gopt buf (Suc i) 0 ctx }
      else do {
        next \<leftarrow> (if buf ! i = CHR 0x5C then nth_opt buf (Suc i) else Some NUL);
        if next \<noteq> NUL then do {
          oct \<leftarrow> octal_at buf (Suc i);
          case oct of
            Some c \<Rightarrow> option_group_loop gopt (buf[d := c]) (i + 4) (Suc d) ctx
          | None \<Rightarrow> option_group_loop gopt (buf[d := buf ! Suc i]) (i + 2) (Suc d) ctx }
        else option_group_loop gopt (buf[d := buf ! i]) (Suc i) (Suc d) ctx })"
  by pat_completeness auto
termination
  by (relation "measure (\<lambda>(gopt, buf, i, d, ctx). length buf - i)") auto

declare option_group_loop.simps [simp del]

definition process_real_option_group :: "'w os \<Rightarrow> fuse_opt list \<Rightarrow> 'w optproc option \<Rightarrow> char list \<Rightarrow>
    ('w, 'x) fuse_opt_context_scheme \<Rightarrow> (int \<times> ('w, 'x) fuse_opt_context_scheme) option" where
  "process_real_option_group os opts proc buf ctx =
     option_group_loop (\<lambda>arg. process_gopt os opts proc arg True) buf 0 0 ctx"

definition process_option_group :: "'w os \<Rightarrow> fuse_opt list \<Rightarrow> 'w optproc option \<Rightarrow> string \<Rightarrow>
    ('w, 'x) fuse_opt_context_scheme \<Rightarrow> (int \<times> ('w, 'x) fuse_opt_context_scheme) option" where
  "process_option_group os opts proc grp ctx =
     (let (ok, ctx) = alloc os ctx in
      if \<not> ok then Some (-1, ctx)
      else process_real_option_group os opts proc (grp @ [NUL]) ctx)"

definition process_one :: "'w os \<Rightarrow> fuse_opt list \<Rightarrow> 'w optproc option \<Rightarrow> string \<Rightarrow>
    ('w, 'x) fuse_opt_context_scheme \<Rightarrow> (int \<times> ('w, 'x) fuse_opt_context_scheme) option" where
  "process_one os opts proc arg ctx =
     (if octx_nonopt ctx \<noteq> 0 \<or> take 1 arg \<noteq> ''-''
      then call_proc os proc ctx arg FUSE_OPT_KEY_NONOPT False
      else if take 2 arg = ''-o'' then
        if length arg > 2 then process_option_group os opts proc (drop 2 arg) ctx
        else
          (let (res, ctx) = next_arg ctx in
           if res = -1 then Some (-1, ctx)
           else process_option_group os opts proc (octx_argv ctx ! octx_argctr ctx) ctx)
      else if arg = ''--'' then do {
        (res, ctx) \<leftarrow> add_arg os ctx arg;
        if res = -1 then Some (-1, ctx)
        else Some (0, ctx\<lparr>octx_nonopt := fa_argc (octx_outargs ctx)\<rparr>) }
      else process_gopt os opts proc arg False ctx)"

partial_function (option) parse_loop :: "'w os \<Rightarrow> fuse_opt list \<Rightarrow> 'w optproc option \<Rightarrow>
    ('w, 'x) fuse_opt_context_scheme \<Rightarrow> (int \<times> ('w, 'x) fuse_opt_context_scheme) option" where
  "parse_loop os opts proc ctx =
     (if octx_argctr ctx < length (octx_argv ctx) then do {
        (res, ctx1) \<leftarrow> process_one os opts proc (octx_argv ctx ! octx_argctr ctx) ctx;
        if res = -1 then Some (-1, ctx1)
        else parse_loop os opts proc (ctx1\<lparr>octx_argctr := octx_argctr ctx1 + 1\<rparr>) }
      else Some (0, ctx))"

declare parse_loop.simps [code]

text \<open>The options collected in \<open>opts\<close> go to the front as \<^verbatim>\<open>-o opts\<close>.\<close>

definition insert_opts :: "'w os \<Rightarrow> ('w, 'x) fuse_opt_context_scheme \<Rightarrow>
    (int \<times> ('w, 'x) fuse_opt_context_scheme) option" where
  "insert_opts os ctx =
     (case octx_opts ctx of
        None \<Rightarrow> Some (0, ctx)
      | Some t \<Rightarrow> do {
          (res, args, ctx) \<leftarrow> fuse_opt_insert_arg os (octx_outargs ctx) 1 ''-o'' ctx;
          let ctx = ctx\<lparr>octx_outargs := args\<rparr>;
          if res = -1 then Some (-1, ctx)
          else do {
            (res, args, ctx) \<leftarrow> fuse_opt_insert_arg os (octx_outargs ctx) 2 t ctx;
            let ctx = ctx\<lparr>octx_outargs := args\<rparr>;
            Some (if res = -1 then -1 else 0, ctx) } })"

definition drop_separator :: "('w, 'x) fuse_opt_context_scheme \<Rightarrow> ('w, 'x) fuse_opt_context_scheme" where
  "drop_separator ctx =
     (let args = octx_outargs ctx in
      if octx_nonopt ctx \<noteq> 0 \<and> octx_nonopt ctx = fa_argc args \<and> last (fa_list args) = ''--''
      then ctx\<lparr>octx_outargs := args\<lparr>fa_argv := Some (butlast (fa_list args))\<rparr>\<rparr>
      else ctx)"

definition opt_parse :: "'w os \<Rightarrow> fuse_opt list \<Rightarrow> 'w optproc option \<Rightarrow>
    ('w, 'x) fuse_opt_context_scheme \<Rightarrow> (int \<times> ('w, 'x) fuse_opt_context_scheme) option" where
  "opt_parse os opts proc ctx = do {
     (res, ctx) \<leftarrow> (case octx_argv ctx of
         [] \<Rightarrow> Some (0, ctx)
       | a # _ \<Rightarrow> add_arg os ctx a);
     if res = -1 then Some (-1, ctx)
     else do {
       (res, ctx) \<leftarrow> parse_loop os opts proc (ctx\<lparr>octx_argctr := 1\<rparr>);
       if res = -1 then Some (-1, ctx)
       else do {
         (res, ctx) \<leftarrow> insert_opts os ctx;
         if res = -1 then Some (-1, ctx) else Some (0, drop_separator ctx) } } }"

text \<open>
  \<^verbatim>\<open>fuse_opt_parse\<close>: on success the arguments are replaced by the output arguments; on failure they
  stay. The result has the new arguments and data.
\<close>

definition fuse_opt_parse :: "'w os \<Rightarrow> fuse_args \<Rightarrow> optdata \<Rightarrow> fuse_opt list \<Rightarrow> 'w optproc option \<Rightarrow>
    'w machine \<Rightarrow> (int \<times> fuse_args \<times> optdata \<times> 'w fuse_opt_context) option" where
  "fuse_opt_parse os args dat opts proc s =
     (let ctx = \<lparr>world = world s, mem = mem s, brk = brk s, trace = trace s, octx_data = dat, octx_argctr = 0, octx_argv = fa_list args,
             octx_outargs = \<lparr>fa_argv = None, fa_allocated = False\<rparr>, octx_opts = None, octx_nonopt = 0\<rparr> in
      if fa_list args = [] then Some (0, args, dat, ctx)
      else do {
        (res, ctx) \<leftarrow> opt_parse os opts proc ctx;
        Some (res, if res \<noteq> -1 then octx_outargs ctx else args, octx_data ctx, ctx) })"

end
