(* ===== verification/Fuse_Loop.thy ===== *)
theory Fuse_Loop
  imports Fuse_Dispatch Fuse_Opt
begin

text \<open>
  A session from its creation to its end, \<^verbatim>\<open>libfuse/lib/fuse_lowlevel.c\<close> and \<^verbatim>\<open>libfuse/lib/fuse_loop.c\<close>: creating it from
  the command line, reading messages from the device (through the pipe or with \<^verbatim>\<open>read\<close>), the single-threaded
  loop, unmounting and destroying. Mounting itself is left to the code of \<^verbatim>\<open>mount.c\<close>, which is not modelled.
\<close>

section \<open>Ending a session\<close>

definition fuse_session_exit :: "fuse_session \<Rightarrow> fuse_session" where
  "fuse_session_exit se = se\<lparr>se_exited := True\<rparr>"

definition fuse_session_reset :: "fuse_session \<Rightarrow> fuse_session" where
  "fuse_session_reset se = se\<lparr>se_exited := False, se_error := 0\<rparr>"

definition fuse_session_exited :: "fuse_session \<Rightarrow> bool" where
  "fuse_session_exited se = se_exited se"

section \<open>Receiving\<close>

text \<open>What a failed or an empty read of the device means; \<open>None\<close> means that data has arrived.\<close>

definition receive_failed :: "errno + 'a \<Rightarrow> ('w, 'x) ll \<Rightarrow> (int \<times> ('w, 'x) ll) option" where
  "receive_failed res = (\<lambda>(se, s).
     if fuse_session_exited se then Some (0, se, s)
     else case res of
       Inl err \<Rightarrow> if err = ENODEV then Some (0, fuse_session_exit se, s) else Some (- err, se, s)
     | Inr _ \<Rightarrow> None)"

text \<open>The buffer's memory, allocated at its first use.\<close>

definition ensure_mem :: "'w os \<Rightarrow> fuse_buf \<Rightarrow> ('w, 'x) ll \<Rightarrow> fuse_buf option \<times> ('w, 'x) ll" where
  "ensure_mem os buf = (\<lambda>(se, s).
     if b_mem buf \<noteq> 0 then (Some buf, se, s)
     else
       let (ok, s) = alloc os s in
       if \<not> ok then (None, se, s)
       else let (a, s) = malloc (unat (se_bufsize se)) s in (Some (buf\<lparr>b_mem := a\<rparr>), se, s))"

text \<open>The loop \<^verbatim>\<open>restart:\<close>, as long as the kernel reports an interrupted operation.\<close>

partial_function (option) receive_read :: "'w os \<Rightarrow> fuse_buf \<Rightarrow> ('w, 'x) ll \<Rightarrow>
    (int \<times> fuse_buf \<times> ('w, 'x) ll) option" where
  "receive_read os buf st =
     (let (se, s) = st;
          (res, s) = sys_data os (ReadFd (se_fd se) (unat (se_bufsize se))) s in
      if \<not> fuse_session_exited se \<and> res = Inl ENOENT then receive_read os buf (se, s)
      else case receive_failed res (se, s) of
        Some (r, st) \<Rightarrow> Some (r, buf, st)
      | None \<Rightarrow>
          (case res of
             Inl _ \<Rightarrow> None
           | Inr bs \<Rightarrow>
               let s = write_mem (b_mem buf) bs s in
               if length bs < IN_HEADER_SIZE then Some (- EIO, buf, se, s)
               else Some (int (length bs), buf\<lparr>b_size := of_nat (length bs)\<rparr>, se, s)))"

declare receive_read.simps [code]

definition receive_fallback :: "'w os \<Rightarrow> fuse_buf \<Rightarrow> ('w, 'x) ll \<Rightarrow> (int \<times> fuse_buf \<times> ('w, 'x) ll) option" where
  "receive_fallback os buf st =
     (case ensure_mem os buf st of
        (None, st) \<Rightarrow> Some (- ENOMEM, buf, st)
      | (Some buf, st) \<Rightarrow> receive_read os buf st)"

text \<open>A message of \<open>n\<close> bytes in the pipe; a small one is copied to memory at once.\<close>

definition receive_spliced :: "'w os \<Rightarrow> fuse_buf \<Rightarrow> fuse_ll_pipe \<Rightarrow> nat \<Rightarrow> ('w, 'x) ll \<Rightarrow>
    (int \<times> fuse_buf \<times> ('w, 'x) ll) option" where
  "receive_spliced os buf llp n st =
     (let tmpbuf = \<lparr>b_size = of_nat n, b_flags = FUSE_BUF_IS_FD, b_mem = 0, b_fd = lp_read llp, b_pos = 0\<rparr> in
      if n < WRITE_HEADER_SIZE + unat (se_pagesize (fst st)) then
        (case ensure_mem os buf st of
           (None, st) \<Rightarrow> Some (- ENOMEM, buf, st)
         | (Some buf, se, s) \<Rightarrow> do {
             let buf = buf\<lparr>b_size := se_bufsize se, b_flags := 0\<rparr>;
             (res, _, _, s) \<leftarrow> fuse_buf_copy os \<lparr>v_idx = 0, v_off = 0, v_buf = [buf]\<rparr>
                                 \<lparr>v_idx = 0, v_off = 0, v_buf = [tmpbuf]\<rparr> 0 s;
             if res < 0 then Some (res, buf, fuse_ll_clear_pipe os (se, s))
             else if nat res < n then Some (- EIO, buf, fuse_ll_clear_pipe os (se, s))
             else if nat res \<noteq> n then None
             else Some (res, buf\<lparr>b_size := of_nat n\<rparr>, se, s) })
      else Some (int n, buf\<lparr>b_fd := b_fd tmpbuf, b_flags := b_flags tmpbuf, b_size := of_nat n\<rparr>, st))"

definition fuse_session_receive_buf_int :: "'w os \<Rightarrow> fuse_buf \<Rightarrow> ('w, 'x) ll \<Rightarrow>
    (int \<times> fuse_buf \<times> ('w, 'x) ll) option" where
  "fuse_session_receive_buf_int os buf = (\<lambda>(se, s).
     if proto_minor se < 14 \<or> conn_want (se_conn se) AND FUSE_CAP_SPLICE_READ = 0
     then receive_fallback os buf (se, s)
     else
       let (llp, se, s) = fuse_ll_get_pipe os (se, s) in
       case llp of
         None \<Rightarrow> receive_fallback os buf (se, s)
       | Some llp \<Rightarrow>
           let (ok, se, s) = ensure_pipe_size os (se_bufsize se) llp (se, s) in
           if \<not> ok then receive_fallback os buf (se, s)
           else
             let (res, s) = sys os (Splice (se_fd se) None (lp_write llp) None (se_bufsize se) 0) s in
             case receive_failed res (se, s) of
               Some (r, st) \<Rightarrow> Some (r, buf, st)
             | None \<Rightarrow>
                 (case res of
                    Inl _ \<Rightarrow> None
                  | Inr n \<Rightarrow>
                      if n < int IN_HEADER_SIZE then Some (- EIO, buf, se, s)
                      else receive_spliced os buf llp (nat n) (se, s)))"

definition fuse_session_receive_buf :: "'w os \<Rightarrow> fuse_buf \<Rightarrow> ('w, 'x) ll \<Rightarrow>
    (int \<times> fuse_buf \<times> ('w, 'x) ll) option" where
  "fuse_session_receive_buf os buf = fuse_session_receive_buf_int os buf"

section \<open>The loop\<close>

partial_function (option) session_loop_from :: "'w os \<Rightarrow> ('w, 'x) fuse_lowlevel_ops \<Rightarrow> int \<Rightarrow> fuse_buf \<Rightarrow> ('w, 'x) ll \<Rightarrow>
    (int \<times> ('w, 'x) ll) option" where
  "session_loop_from os ops res fbuf st =
     (if fuse_session_exited (fst st) then Some (res, st)
      else do {
        (res, fbuf, st) \<leftarrow> fuse_session_receive_buf_int os fbuf st;
        if res = - EINTR then session_loop_from os ops res fbuf st
        else if res \<le> 0 then Some (res, st)
        else do {
          st \<leftarrow> fuse_session_process_buf_int os ops fbuf st;
          session_loop_from os ops res fbuf st } })"

declare session_loop_from.simps [code]

definition fuse_session_loop :: "'w os \<Rightarrow> ('w, 'x) fuse_lowlevel_ops \<Rightarrow> ('w, 'x) ll \<Rightarrow>
    (int \<times> ('w, 'x) ll) option" where
  "fuse_session_loop os ops st = do {
     (res, se, s) \<leftarrow> session_loop_from os ops 0 \<lparr>b_size = 0, b_flags = 0, b_mem = 0, b_fd = 0, b_pos = 0\<rparr> st;
     let res = (if res > 0 then 0 else res);
     let res = (if se_error se \<noteq> 0 then se_error se else res);
     Some (res, fuse_session_reset se, s) }"

section \<open>Creating and destroying\<close>

definition FUSE_MAX_MAX_PAGES :: u64 where [const_defs]: "FUSE_MAX_MAX_PAGES = 256"

text \<open>The options of the session, stored by the offsets of its fields \<open>debug\<close> and \<open>deny_others\<close>.\<close>

definition OFF_DEBUG :: u64 where [const_defs]: "OFF_DEBUG = 24"
definition OFF_DENY_OTHERS :: u64 where [const_defs]: "OFF_DENY_OTHERS = 28"

definition fuse_ll_opts :: "fuse_opt list" where
  "fuse_ll_opts = [
     \<lparr>templ = ''debug'', offset = OFF_DEBUG, val = 1\<rparr>,
     \<lparr>templ = ''-d'', offset = OFF_DEBUG, val = 1\<rparr>,
     \<lparr>templ = ''--debug'', offset = OFF_DEBUG, val = 1\<rparr>,
     \<lparr>templ = ''allow_root'', offset = OFF_DENY_OTHERS, val = 1\<rparr>]"

definition zero_conn :: fuse_conn_info where
  "zero_conn = \<lparr>conn_proto_major = 0, conn_proto_minor = 0, conn_max_write = 0, conn_max_read = 0,
     conn_max_readahead = 0, conn_capable = 0, conn_want = 0, conn_max_background = 0,
     conn_congestion_threshold = 0, conn_time_gran = 0\<rparr>"

text \<open>The session as \<^verbatim>\<open>fuse_session_new\<close> leaves it: three empty lists, no pipe, no message yet.\<close>

definition new_session :: "bool \<Rightarrow> u32 \<Rightarrow> u32 \<Rightarrow> u64 \<Rightarrow> fuse_session" where
  "new_session deny_others owner max_read_mo pagesize = \<lparr>
     se_exited = False, se_fd = -1, se_mountpoint = None, se_deny_others = deny_others,
     se_got_init = False, se_got_destroy = False, se_cuse_data = False, se_owner = owner,
     se_conn = zero_conn\<lparr>conn_max_write := -1, conn_max_readahead := -1\<rparr>,
     se_reqs = [SE_LIST \<mapsto> zero_req\<lparr>r_next := SE_LIST, r_prev := SE_LIST\<rparr>,
                SE_INTERRUPTS \<mapsto> zero_req\<lparr>r_next := SE_INTERRUPTS, r_prev := SE_INTERRUPTS\<rparr>],
     se_nreqs = [SE_NOTIFY_LIST \<mapsto> \<lparr>n_unique = 0, n_cookie = 0, n_next = SE_NOTIFY_LIST, n_prev = SE_NOTIFY_LIST\<rparr>],
     se_brk = 4, se_pipe = None, se_broken_splice_nonblock = False, se_notify_ctr = 1,
     se_bufsize = FUSE_MAX_MAX_PAGES * pagesize + FUSE_BUFFER_HEADER_SIZE, se_error = 0,
     se_max_read_mo = max_read_mo, se_pagesize = pagesize\<rparr>"

text \<open>
  \<open>parse_mount\<close> stands for \<^verbatim>\<open>parse_mount_opts\<close> of \<^verbatim>\<open>mount.c\<close>: the remaining arguments and the value of
  \<^verbatim>\<open>max_read\<close>, or \<open>None\<close> if it fails. The result is \<open>None\<close> for the null pointer.
\<close>

definition fuse_session_new :: "'w os \<Rightarrow> (fuse_args \<Rightarrow> (fuse_args \<times> u32) option) \<Rightarrow> u32 \<Rightarrow> u64 \<Rightarrow> fuse_args \<Rightarrow>
    'w machine \<Rightarrow> (fuse_session option \<times> fuse_args \<times> 'w fuse_opt_context) option" where
  "fuse_session_new os parse_mount uid pagesize args s = do {
     let (ok, s) = (if fa_list args = [] then (False, s) else alloc os s);
     let ctx0 = \<lparr>world = world s, mem = mem s, brk = brk s, trace = trace s, octx_data = (\<lambda>_. OptInt 0),
                octx_argctr = 0, octx_argv = [], octx_outargs = args, octx_opts = None, octx_nonopt = 0\<rparr>;
     if \<not> ok then Some (None, args, ctx0)
     else do {
       (res, args, dat, ctx) \<leftarrow> fuse_opt_parse os args (\<lambda>_. OptInt 0) fuse_ll_opts None s;
       if res = -1 then Some (None, args, ctx)
       else do {
         let deny = (dat OFF_DENY_OTHERS \<noteq> OptInt 0);
         (res, args, ctx) \<leftarrow> (if deny then fuse_opt_add_arg os args ''-oallow_other'' ctx else Some (0, args, ctx));
         if res = -1 then Some (None, args, ctx)
         else case parse_mount args of
           None \<Rightarrow> Some (None, args, ctx)
         | Some (args, max_read) \<Rightarrow>
             if fa_argc args \<noteq> 1 then Some (None, fuse_opt_free_args args, ctx)
             else Some (Some (new_session deny uid max_read pagesize), args, ctx) } } }"

definition fuse_session_unmount :: "(string \<Rightarrow> fdesc \<Rightarrow> ('w, 'x) machine_scheme \<Rightarrow> ('w, 'x) machine_scheme) \<Rightarrow>
    ('w, 'x) ll \<Rightarrow> ('w, 'x) ll" where
  "fuse_session_unmount kern_unmount = (\<lambda>(se, s).
     case se_mountpoint se of
       None \<Rightarrow> (se, s)
     | Some mp \<Rightarrow> (se\<lparr>se_fd := -1, se_mountpoint := None\<rparr>, kern_unmount mp (se_fd se) s))"

definition fuse_session_destroy :: "'w os \<Rightarrow> ('w, 'x) fuse_lowlevel_ops \<Rightarrow> ('w, 'x) ll \<Rightarrow>
    ('w, 'x) machine_scheme option" where
  "fuse_session_destroy os ops = (\<lambda>(se, s). do {
     (se, s) \<leftarrow> (if se_got_init se \<and> \<not> se_got_destroy se \<and> has_op ops ''destroy''
                 then op_run ops 0 OpDestroy (se, s) else Some (se, s));
     let s = (case se_pipe se of None \<Rightarrow> s | Some llp \<Rightarrow> fuse_ll_pipe_free os llp s);
     Some (if se_fd se \<noteq> -1 then sys_ignore os (Close (se_fd se)) s else s) })"

end
