(* ===== verification/Fuse_Notify.thy ===== *)
theory Fuse_Notify
  imports Fuse_Dispatch
begin

text \<open>
  Notifications to the kernel and what a handler may ask about its request, \<^verbatim>\<open>libfuse/lib/fuse_lowlevel.c\<close>. The
  session is there, so the checks for a null session are left out.
\<close>

section \<open>Notifications\<close>

definition send_notify_iov :: "'w os \<Rightarrow> u32 \<Rightarrow> string list \<Rightarrow> ('w, 'x) ll \<Rightarrow> int \<times> ('w, 'x) ll" where
  "send_notify_iov os notify_code iov = (\<lambda>(se, s).
     if \<not> se_got_init se then (- ENOTCONN, se, s)
     else fuse_send_msg os (uint notify_code) 0 iov (se, s))"

definition fuse_lowlevel_notify_poll :: "'w os \<Rightarrow> u64 option \<Rightarrow> ('w, 'x) ll \<Rightarrow> int \<times> ('w, 'x) ll" where
  "fuse_lowlevel_notify_poll os ph st =
     (case ph of None \<Rightarrow> (0, st) | Some kh \<Rightarrow> send_notify_iov os FUSE_NOTIFY_POLL [le64 kh] st)"

definition fuse_lowlevel_notify_inval_inode :: "'w os \<Rightarrow> u64 \<Rightarrow> u64 \<Rightarrow> u64 \<Rightarrow> ('w, 'x) ll \<Rightarrow> int \<times> ('w, 'x) ll" where
  "fuse_lowlevel_notify_inval_inode os ino off len = (\<lambda>(se, s).
     if proto_minor se < 12 then (- ENOSYS, se, s)
     else send_notify_iov os FUSE_NOTIFY_INVAL_INODE [le64 ino @ le64 off @ le64 len] (se, s))"

definition fuse_lowlevel_notify_inval_entry :: "'w os \<Rightarrow> u64 \<Rightarrow> string \<Rightarrow> ('w, 'x) ll \<Rightarrow> int \<times> ('w, 'x) ll" where
  "fuse_lowlevel_notify_inval_entry os parent name = (\<lambda>(se, s).
     if proto_minor se < 12 then (- ENOSYS, se, s)
     else send_notify_iov os FUSE_NOTIFY_INVAL_ENTRY
            [le64 parent @ le32 (of_nat (length name)) @ le32 0, name @ [NUL]] (se, s))"

definition fuse_lowlevel_notify_delete :: "'w os \<Rightarrow> u64 \<Rightarrow> u64 \<Rightarrow> string \<Rightarrow> ('w, 'x) ll \<Rightarrow> int \<times> ('w, 'x) ll" where
  "fuse_lowlevel_notify_delete os parent child name = (\<lambda>(se, s).
     if proto_minor se < 18 then (- ENOSYS, se, s)
     else send_notify_iov os FUSE_NOTIFY_DELETE
            [le64 parent @ le64 child @ le32 (of_nat (length name)) @ le32 0, name @ [NUL]] (se, s))"

definition fuse_lowlevel_notify_store :: "'w os \<Rightarrow> u64 \<Rightarrow> u64 \<Rightarrow> fuse_bufvec \<Rightarrow> u32 \<Rightarrow> ('w, 'x) ll \<Rightarrow>
    (int \<times> ('w, 'x) ll) option" where
  "fuse_lowlevel_notify_store os ino off bufv flags = (\<lambda>(se, s).
     if proto_minor se < 15 then Some (- ENOSYS, se, s)
     else do {
       let outarg = le64 ino @ le64 off @ le32 (ucast (fuse_buf_size bufv)) @ le32 0;
       (res, st) \<leftarrow> fuse_send_data_iov os (uint FUSE_NOTIFY_STORE) 0 [outarg] bufv flags (se, s);
       Some (if res > 0 then - res else res, st) })"

definition fuse_lowlevel_notify_retrieve :: "'w os \<Rightarrow> u64 \<Rightarrow> u64 \<Rightarrow> u64 \<Rightarrow> u64 \<Rightarrow> ('w, 'x) ll \<Rightarrow>
    (int \<times> ('w, 'x) ll) option" where
  "fuse_lowlevel_notify_retrieve os ino n off cookie = (\<lambda>(se, s).
     if proto_minor se < 15 then Some (- ENOSYS, se, s)
     else
       let (ok, s) = alloc os s in
       if \<not> ok then Some (- ENOMEM, se, s)
       else do {
         let s = lock SessionMutex s;
         let rreq = se_brk se;
         let uniq = se_notify_ctr se;
         let nr = \<lparr>n_unique = uniq, n_cookie = cookie, n_next = 0, n_prev = 0\<rparr>;
         h \<leftarrow> list_add_nreq rreq SE_NOTIFY_LIST ((se_nreqs se)(rreq \<mapsto> nr));
         let se = se\<lparr>se_nreqs := h, se_brk := rreq + 1, se_notify_ctr := uniq + 1\<rparr>;
         let s = unlock SessionMutex s;
         let (err, se, s) = send_notify_iov os FUSE_NOTIFY_RETRIEVE
               [le64 uniq @ le64 ino @ le64 off @ le32 (ucast n) @ le32 0] (se, s);
         if err \<noteq> 0 then do {
           let s = lock SessionMutex s;
           h \<leftarrow> list_del_nreq rreq (se_nreqs se);
           Some (err, se\<lparr>se_nreqs := h(rreq := None)\<rparr>, unlock SessionMutex s) }
         else Some (err, se, s) })"

section \<open>Requests seen from a handler\<close>

definition fuse_req_ctx :: "addr \<Rightarrow> ('w, 'x) ll \<Rightarrow> (u32 \<times> u32 \<times> u32 \<times> u32) option" where
  "fuse_req_ctx req st = map_option (\<lambda>r. (r_uid r, r_gid r, r_pid r, r_umask r)) (se_reqs (fst st) req)"

definition fuse_req_interrupt_func :: "('w, 'x) fuse_lowlevel_ops \<Rightarrow> addr \<Rightarrow> u64 \<Rightarrow> u64 \<Rightarrow> ('w, 'x) ll \<Rightarrow>
    ('w, 'x) ll option" where
  "fuse_req_interrupt_func ops req func data = (\<lambda>(se, s). do {
     let s = lock SessionMutex (lock (ReqMutex req) s);
     se \<leftarrow> upd_req req (\<lambda>r. r\<lparr>r_u := func, r_u_data := data\<rparr>) se;
     let s = unlock SessionMutex s;
     r \<leftarrow> se_reqs se req;
     (se, s) \<leftarrow> (if r_interrupted r \<and> func \<noteq> 0 then op_func ops func req data (se, s) else Some (se, s));
     Some (se, unlock (ReqMutex req) s) })"

definition fuse_req_interrupted :: "addr \<Rightarrow> ('w, 'x) ll \<Rightarrow> (bool \<times> ('w, 'x) ll) option" where
  "fuse_req_interrupted req = (\<lambda>(se, s). do {
     r \<leftarrow> se_reqs se req;
     Some (r_interrupted r, se, unlock SessionMutex (lock SessionMutex s)) })"

end
