(* ===== verification/Fuse_Session_Inv.thy ===== *)
theory Fuse_Session_Inv
  imports Fuse_Loop Fuse_Notify
begin

text \<open>
  What libfuse's session keeps: the request objects hang in two circular lists, those in progress and the
  pending interrupts, and nothing else is alive. The operations on requests are shown to implement
  operations on two plain lists, which is also why walking along the lists ends.
\<close>

section \<open>Walking along a ring\<close>

lemma find_req_path:
  assumes "path (rnext h) (rprev h) (a # ys @ [hp])" "hp \<notin> set ys"
  shows "find_req P hp (hd (ys @ [hp])) h = Some (List.find (\<lambda>p. P (the (h p))) ys)"
  using assms
proof (induction ys arbitrary: a)
  case Nil
  then show ?case by (simp add: find_req.simps)
next
  case (Cons y ys)
  obtain r where r: "h y = Some r" "r_next r = hd (ys @ [hp])"
    using Cons.prems(1) by (cases ys) auto
  have "path (rnext h) (rprev h) (y # ys @ [hp])" using Cons.prems(1) by simp
  from Cons.IH [OF this] Cons.prems(2) r show ?case by (simp add: find_req.simps)
qed

lemma find_in_list_ring:
  assumes "ring (rnext h) (rprev h) hp xs"
  shows "find_in_list P hp h = Some (List.find (\<lambda>p. P (the (h p))) xs)"
proof -
  have p: "path (rnext h) (rprev h) (hp # xs @ [hp])" "hp \<notin> set xs"
    using assms by (simp_all add: ring_def)
  then obtain r where "h hp = Some r" "r_next r = hd (xs @ [hp])" by (cases xs) auto
  with find_req_path [OF p] show ?thesis by (simp add: find_in_list_def)
qed

section \<open>Contents of requests\<close>

text \<open>What a request object holds apart from its links.\<close>

definition payload :: "fuse_req \<Rightarrow> fuse_req" where
  "payload r = r\<lparr>r_next := 0, r_prev := 0\<rparr>"

definition payloads :: "(addr \<rightharpoonup> fuse_req) \<Rightarrow> addr \<Rightarrow> fuse_req option" where
  "payloads h p = map_option payload (h p)"

lemma payload_eq:
  "payload r = payload r' \<Longrightarrow> r_unique r = r_unique r' \<and> r_ctr r = r_ctr r' \<and> r_u r = r_u r' \<and>
     r_interrupted r = r_interrupted r' \<and> r_uid r = r_uid r' \<and> r_u_data r = r_u_data r'"
  by (cases r; cases r') (simp add: payload_def)

lemma payload_links [simp]: "payload (r\<lparr>r_next := a\<rparr>) = payload r" "payload (r\<lparr>r_prev := a\<rparr>) = payload r"
  by (simp_all add: payload_def)

lemma payloads_set_next: "set_next p q h = Some h' \<Longrightarrow> payloads h' = payloads h"
  by (auto simp: set_next_def payloads_def intro!: ext)

lemma payloads_set_prev: "set_prev p q h = Some h' \<Longrightarrow> payloads h' = payloads h"
  by (auto simp: set_prev_def payloads_def intro!: ext)

lemma payloads_list_del_req: "list_del_req p h = Some h' \<Longrightarrow> payloads h' = payloads h"
  unfolding list_del_req_def by (elim stepE) (auto dest!: payloads_set_next payloads_set_prev)

lemma payloads_list_add_req: "list_add_req p n h = Some h' \<Longrightarrow> payloads h' = payloads h"
  unfolding list_add_req_def by (elim stepE) (auto dest!: payloads_set_next payloads_set_prev)

lemma payloads_list_init_req: "list_init_req p h = Some h' \<Longrightarrow> payloads h' = payloads h"
  unfolding list_init_req_def by (elim stepE) (auto dest!: payloads_set_next payloads_set_prev)

lemma payloads_dom: "payloads h' = payloads h \<Longrightarrow> dom h' = dom h"
  unfolding payloads_def fun_eq_iff dom_def by (metis map_option_is_None)

lemma payloadsD: "payloads h' = payloads h \<Longrightarrow> h p = Some r \<Longrightarrow> \<exists>r'. h' p = Some r' \<and> payload r' = payload r"
  unfolding payloads_def fun_eq_iff by (metis (no_types) map_option_eq_Some)

section \<open>Two rings\<close>

text \<open>
  Two lists with heads \<open>a\<close> and \<open>b\<close>, and the nodes \<open>E\<close> that are linked only to themselves; nothing else is
  alive. The operations on the first list; those on the second follow by symmetry.
\<close>

definition lone :: "(addr \<rightharpoonup> fuse_req) \<Rightarrow> addr \<Rightarrow> bool" where
  "lone h p \<longleftrightarrow> rnext h p = Some p \<and> rprev h p = Some p"

definition rings :: "(addr \<rightharpoonup> fuse_req) \<Rightarrow> addr \<Rightarrow> addr list \<Rightarrow> addr \<Rightarrow> addr list \<Rightarrow> addr set \<Rightarrow> bool" where
  "rings h a xs b ys E \<longleftrightarrow>
     ring (rnext h) (rprev h) a xs \<and> ring (rnext h) (rprev h) b ys \<and>
     set (a # xs) \<inter> set (b # ys) = {} \<and> E \<inter> (set (a # xs) \<union> set (b # ys)) = {} \<and>
     (\<forall>p \<in> E. lone h p) \<and> dom h = set (a # xs) \<union> set (b # ys) \<union> E"

lemma rings_swap: "rings h a xs b ys E \<longleftrightarrow> rings h b ys a xs E"
  by (auto simp: rings_def)

lemma rings_links:
  assumes "rings h a xs b ys E" "\<And>p. rnext h' p = rnext h p" "\<And>p. rprev h' p = rprev h p"
  shows "rings h' a xs b ys E"
proof -
  have "dom h' = dom h" unfolding dom_def using assms(2) by (metis map_option_is_None)
  moreover have "rnext h' = rnext h" "rprev h' = rprev h" using assms(2,3) by (auto intro!: ext)
  moreover have "lone h' = lone h" using assms(2,3) by (intro ext) (simp only: lone_def)
  ultimately show ?thesis using assms(1) by (simp add: rings_def)
qed

lemmas dom_list_ops =
  payloads_list_del_req [THEN payloads_dom] payloads_list_add_req [THEN payloads_dom]
  payloads_list_init_req [THEN payloads_dom]

lemma rings_disj:
  assumes "rings h a xs b ys E"
  shows "ring (rnext h) (rprev h) a xs" "ring (rnext h) (rprev h) b ys"
    and "q \<in> set (b # ys) \<Longrightarrow> q \<notin> set (a # xs)" "q \<in> E \<Longrightarrow> q \<notin> set (a # xs)" "q \<in> E \<Longrightarrow> q \<notin> set (b # ys)"
    and "q \<in> E \<Longrightarrow> lone h q" "dom h = set (a # xs) \<union> set (b # ys) \<union> E"
  using assms unfolding rings_def by blast+

lemma ringsI:
  assumes "ring (rnext h) (rprev h) a xs" "ring (rnext h) (rprev h) b ys"
    "\<And>q. q \<in> set (b # ys) \<Longrightarrow> q \<notin> set (a # xs)" "\<And>q. q \<in> E \<Longrightarrow> q \<notin> set (a # xs)"
    "\<And>q. q \<in> E \<Longrightarrow> q \<notin> set (b # ys)" "\<And>q. q \<in> E \<Longrightarrow> lone h q" "dom h = set (a # xs) \<union> set (b # ys) \<union> E"
  shows "rings h a xs b ys E"
  using assms unfolding rings_def by blast

lemma lone_frame: "lone h q \<Longrightarrow> rnext h' q = rnext h q \<and> rprev h' q = rprev h q \<Longrightarrow> lone h' q"
  by (simp only: lone_def)

lemma rings_add:
  assumes "rings h a xs b ys E" "p \<in> E"
  shows "\<exists>h'. list_add_req p a h = Some h' \<and> rings h' a (xs @ [p]) b ys (E - {p})"
proof -
  note R = rings_disj [OF assms(1)]
  have p: "p \<notin> set (a # xs)" "p \<notin> set (b # ys)" using R(4,5) [OF assms(2)] by simp_all
  have live: "rnext h p \<noteq> None" using R(6) [OF assms(2)] by (simp only: lone_def) simp
  obtain h' where h': "list_add_req p a h = Some h'" "ring (rnext h') (rprev h') a (xs @ [p])"
    and fr: "\<forall>q. q \<notin> set (a # xs) \<and> q \<noteq> p \<longrightarrow> rnext h' q = rnext h q \<and> rprev h' q = rprev h q"
    using rl.add_ring [OF R(1) p(1) live] by (elim exE conjE) (rule that)
  have "rings h' a (xs @ [p]) b ys (E - {p})"
  proof (rule ringsI)
    show "ring (rnext h') (rprev h') b ys"
      by (rule ring_frame [OF R(2)]) (metis R(3) fr p(2))
    show "lone h' q" if "q \<in> E - {p}" for q
      by (rule lone_frame [of h]) (use that R(4,6) fr in blast)+
    show "dom h' = set (a # xs @ [p]) \<union> set (b # ys) \<union> (E - {p})"
      using R(7) assms(2) dom_list_ops(2) [OF h'(1)] by auto
  qed (use h'(2) R(3-5) p in auto)
  with h'(1) show ?thesis by (intro exI conjI)
qed

lemma rings_del:
  assumes "rings h a (us @ p # vs) b ys E"
  shows "\<exists>h'. list_del_req p h = Some h' \<and> rings (h'(p := None)) a (us @ vs) b ys E \<and>
    (\<exists>h''. list_init_req p h' = Some h'' \<and> rings h'' a (us @ vs) b ys (insert p E))"
proof -
  note R = rings_disj [OF assms]
  have d: "p \<notin> set (a # us @ vs)" using R(1) by (auto simp: ring_def)
  have pb: "p \<notin> set (b # ys)" "p \<notin> E" using R(3,4) [of p] by auto
  obtain h' where h': "list_del_req p h = Some h'" "ring (rnext h') (rprev h') a (us @ vs)"
    and fr: "\<forall>q. q \<notin> set (a # us @ vs) \<longrightarrow> rnext h' q = rnext h q \<and> rprev h' q = rprev h q"
    using rl.del_ring [OF R(1)] by (elim exE conjE) (rule that)
  have b: "ring (rnext h') (rprev h') b ys"
    by (rule ring_frame [OF R(2)]) (use R(3) fr in auto)
  have dom: "dom h' = insert p (set (a # us @ vs) \<union> set (b # ys) \<union> E)"
    using R(7) dom_list_ops(1) [OF h'(1)] by auto
  have lone: "lone h' q" if "q \<in> E" for q
    by (rule lone_frame [of h]) (use that R(4,6) fr in auto)
  have off: "rings g a (us @ vs) b ys F"
    if "\<And>q. q \<noteq> p \<Longrightarrow> g q = h' q" "F \<subseteq> insert p E" "\<And>q. q \<in> F \<Longrightarrow> lone g q"
      "dom g = set (a # us @ vs) \<union> set (b # ys) \<union> F" for g F
  proof (rule ringsI)
    show "ring (rnext g) (rprev g) a (us @ vs)"
      by (rule ring_frame [OF h'(2)]) (metis d that(1))
    show "ring (rnext g) (rprev g) b ys"
      by (rule ring_frame [OF b]) (metis pb(1) that(1))
    show "q \<notin> set (a # us @ vs)" if q: "q \<in> F" for q
      using \<open>F \<subseteq> insert p E\<close> q d R(4) [of q] by (cases "q = p") auto
    show "q \<notin> set (b # ys)" if q: "q \<in> F" for q
      using \<open>F \<subseteq> insert p E\<close> q pb R(5) [of q] by (cases "q = p") auto
  qed (use that R(3) in auto)
  have 1: "rings (h'(p := None)) a (us @ vs) b ys E"
  proof (rule off)
    show "lone (h'(p := None)) q" if "q \<in> E" for q
      by (rule lone_frame [OF lone [OF that]]) (use that pb in auto)
    show "dom (h'(p := None)) = set (a # us @ vs) \<union> set (b # ys) \<union> E"
      using dom d pb by auto
  qed auto
  obtain r where r: "h' p = Some r" using dom by blast
  let ?g = "h'(p \<mapsto> r\<lparr>r_next := p, r_prev := p\<rparr>)"
  have "list_init_req p h' = Some ?g"
    using r by (simp add: list_init_req_def set_next_def set_prev_def)
  moreover have "rings ?g a (us @ vs) b ys (insert p E)"
  proof (rule off)
    show "lone ?g q" if "q \<in> insert p E" for q
    proof (cases "q = p")
      case True
      then show ?thesis by (simp add: lone_def)
    next
      case False
      with that show ?thesis by (intro lone_frame [OF lone]) auto
    qed
    show "dom ?g = set (a # us @ vs) \<union> set (b # ys) \<union> insert p E"
      using dom by auto
  qed auto
  ultimately show ?thesis using h'(1) 1 by blast
qed

lemma rings_drop:
  assumes "rings h a xs b ys E" "p \<in> E"
  shows "rings (h(p := None)) a xs b ys (E - {p})"
proof -
  note R = rings_disj [OF assms(1)]
  have p: "p \<notin> set (a # xs)" "p \<notin> set (b # ys)" using R(4,5) [OF assms(2)] by simp_all
  show ?thesis
  proof (rule ringsI)
    show "ring (rnext (h(p := None))) (rprev (h(p := None))) a xs"
      by (rule ring_frame [OF R(1)]) (use p in auto)
    show "ring (rnext (h(p := None))) (rprev (h(p := None))) b ys"
      by (rule ring_frame [OF R(2)]) (use p in auto)
    show "lone (h(p := None)) q" if "q \<in> E - {p}" for q
      by (rule lone_frame [OF R(6)]) (use that in auto)
    show "dom (h(p := None)) = set (a # xs) \<union> set (b # ys) \<union> (E - {p})"
      using R(7) p by auto
  qed (use R(3-5) in auto)
qed

lemma rings_del_lone:
  assumes "rings h a xs b ys E" "p \<in> E"
  shows "\<exists>h'. list_del_req p h = Some h' \<and> rings (h'(p := None)) a xs b ys (E - {p})"
proof -
  obtain r where r: "h p = Some r" "r_next r = p" "r_prev r = p"
    using rings_disj(6) [OF assms] by (auto simp: lone_def)
  then have "list_del_req p h = Some (h(p \<mapsto> r\<lparr>r_next := p, r_prev := p\<rparr>))"
    by (simp add: list_del_req_def set_next_def set_prev_def)
  with rings_drop [OF assms] show ?thesis by simp
qed

section \<open>The invariant of a session\<close>

text \<open>
  \<open>xs\<close> are the requests in progress, \<open>is\<close> the pending interrupts, and \<open>E\<close> those that are being set
  up or taken down. New requests get addresses that are not in use.
\<close>

definition sess_ok :: "fuse_session \<Rightarrow> addr list \<Rightarrow> addr list \<Rightarrow> addr set \<Rightarrow> bool" where
  "sess_ok se xs is E \<longleftrightarrow> rings (se_reqs se) SE_LIST xs SE_INTERRUPTS is E \<and>
     (\<forall>p \<in> dom (se_reqs se). p < se_brk se)"

lemma sess_ok_new: "sess_ok (new_session deny owner mr pg) [] [] {}"
proof -
  let ?h = "se_reqs (new_session deny owner mr pg)"
  have "?h SE_LIST = Some (zero_req\<lparr>r_next := SE_LIST, r_prev := SE_LIST\<rparr>)"
    "?h SE_INTERRUPTS = Some (zero_req\<lparr>r_next := SE_INTERRUPTS, r_prev := SE_INTERRUPTS\<rparr>)"
    "dom ?h = {SE_LIST, SE_INTERRUPTS}"
    by (auto simp: new_session_def SE_LIST_def SE_INTERRUPTS_def)
  then show ?thesis
    by (simp add: sess_ok_def rings_def ring_def) (simp add: new_session_def SE_LIST_def SE_INTERRUPTS_def)
qed

lemma sess_ok_links:
  assumes "sess_ok se xs is E" "\<And>p. rnext h p = rnext (se_reqs se) p" "\<And>p. rprev h p = rprev (se_reqs se) p"
  shows "sess_ok (se\<lparr>se_reqs := h\<rparr>) xs is E"
proof -
  have "dom h = dom (se_reqs se)" unfolding dom_def using assms(2) by (metis map_option_is_None)
  moreover have "rings h SE_LIST xs SE_INTERRUPTS is E"
    by (rule rings_links [OF _ assms(2,3)]) (use assms(1) in \<open>simp add: sess_ok_def\<close>)
  ultimately show ?thesis using assms(1) by (simp add: sess_ok_def)
qed

lemma sess_ok_rings:
  assumes "sess_ok se xs is E" "rings h SE_LIST xs' SE_INTERRUPTS is' E'" "dom h \<subseteq> dom (se_reqs se)"
  shows "sess_ok (se\<lparr>se_reqs := h\<rparr>) xs' is' E'"
  using assms by (auto simp: sess_ok_def)

lemma upd_req_ok:
  assumes "sess_ok se xs is E" "se_reqs se p = Some r" "r_next (f r) = r_next r" "r_prev (f r) = r_prev r"
  shows "upd_req p f se = Some (se\<lparr>se_reqs := (se_reqs se)(p \<mapsto> f r)\<rparr>)"
    and "sess_ok (se\<lparr>se_reqs := (se_reqs se)(p \<mapsto> f r)\<rparr>) xs is E"
  using assms(2) by (simp add: upd_req_def) (rule sess_ok_links [OF assms(1)]; use assms(2-) in auto)

section \<open>Allocation and release\<close>

definition fresh_req :: "addr \<Rightarrow> fuse_req" where
  "fresh_req p = zero_req\<lparr>r_ctr := 1, r_next := p, r_prev := p\<rparr>"

lemma fuse_ll_alloc_req_eq:
  "fuse_ll_alloc_req os (se, s) =
     (let (ok, s) = alloc os s in
      if ok then Some (Some (se_brk se),
        se\<lparr>se_reqs := (se_reqs se)(se_brk se \<mapsto> fresh_req (se_brk se)), se_brk := se_brk se + 1\<rparr>, s)
      else Some (None, se, s))"
  by (simp add: fuse_ll_alloc_req_def list_init_req_def set_next_def set_prev_def fresh_req_def Let_def split: prod.splits)

lemma sess_ok_alloc:
  assumes "sess_ok se xs is E"
  shows "sess_ok (se\<lparr>se_reqs := (se_reqs se)(se_brk se \<mapsto> fresh_req (se_brk se)), se_brk := se_brk se + 1\<rparr>)
    xs is (insert (se_brk se) E)"
proof -
  let ?h = "se_reqs se" and ?p = "se_brk se"
  let ?g = "?h(?p \<mapsto> fresh_req ?p)"
  have r: "rings ?h SE_LIST xs SE_INTERRUPTS is E" and b: "\<And>q. q \<in> dom ?h \<Longrightarrow> q < ?p"
    using assms by (auto simp: sess_ok_def)
  note R = rings_disj [OF r]
  have p: "?p \<notin> set (SE_LIST # xs)" "?p \<notin> set (SE_INTERRUPTS # is)" "?p \<notin> E"
    using b [of ?p] unfolding R(7) by auto
  have "rings ?g SE_LIST xs SE_INTERRUPTS is (insert ?p E)"
  proof (rule ringsI)
    show "ring (rnext ?g) (rprev ?g) SE_LIST xs" by (rule ring_frame [OF R(1)]) (use p in auto)
    show "ring (rnext ?g) (rprev ?g) SE_INTERRUPTS is" by (rule ring_frame [OF R(2)]) (use p in auto)
    show "lone ?g q" if "q \<in> insert ?p E" for q
    proof (cases "q = ?p")
      case True
      then show ?thesis by (simp add: lone_def fresh_req_def)
    next
      case False
      with that show ?thesis by (intro lone_frame [OF R(6)]) auto
    qed
    show "dom ?g = set (SE_LIST # xs) \<union> set (SE_INTERRUPTS # is) \<union> insert ?p E" using R(7) by auto
    show "q \<notin> set (SE_LIST # xs)" if "q \<in> insert ?p E" for q using that p R(4) [of q] by auto
    show "q \<notin> set (SE_INTERRUPTS # is)" if "q \<in> insert ?p E" for q using that p R(5) [of q] by auto
  qed (rule R(3))
  with b show ?thesis by (auto simp: sess_ok_def less_Suc_eq)
qed

lemma payloads_upd [simp]: "payloads (h(p := x)) = (payloads h)(p := map_option payload x)"
  by (auto simp: payloads_def)

lemma fuse_free_req_ok:
  assumes ok: "sess_ok se xs is E" and p: "se_reqs se p = Some r" "r_ctr r = 1" "p \<in> set xs \<or> p \<in> E"
  shows "\<exists>h. fuse_free_req p (se, s) = Some (se\<lparr>se_reqs := h\<rparr>, unlock SessionMutex (lock SessionMutex s)) \<and>
    sess_ok (se\<lparr>se_reqs := h\<rparr>) (removeAll p xs) is (E - {p}) \<and> payloads h = (payloads (se_reqs se))(p := None)"
proof -
  define h1 where "h1 = (se_reqs se)(p \<mapsto> r\<lparr>r_u := 0, r_u_data := 0\<rparr>)"
  have "sess_ok (se\<lparr>se_reqs := h1\<rparr>) xs is E"
    by (rule sess_ok_links [OF ok]) (auto simp: h1_def p)
  then have r1: "rings h1 SE_LIST xs SE_INTERRUPTS is E" by (simp add: sess_ok_def)
  note R = rings_disj [OF r1]
  have "\<exists>h'. list_del_req p h1 = Some h' \<and> rings (h'(p := None)) SE_LIST (removeAll p xs) SE_INTERRUPTS is (E - {p})"
  proof (cases "p \<in> set xs")
    case True
    then obtain us vs where xs: "xs = us @ p # vs" by (metis split_list)
    have d: "p \<notin> set us" "p \<notin> set vs" using R(1) by (auto simp: ring_def xs)
    have "p \<notin> E" using R(4) [of p] xs by auto
    with rings_del [OF r1 [unfolded xs]] d show ?thesis by (auto simp: xs)
  next
    case False
    with p(3) rings_del_lone [OF r1] show ?thesis by auto
  qed
  then obtain h' where h': "list_del_req p h1 = Some h'"
    "rings (h'(p := None)) SE_LIST (removeAll p xs) SE_INTERRUPTS is (E - {p})" by blast
  have pl: "payloads h' = payloads h1" by (rule payloads_list_del_req [OF h'(1)])
  obtain r' where r': "h' p = Some r'" "payload r' = payload (r\<lparr>r_u := 0, r_u_data := 0\<rparr>)"
    using payloadsD [OF pl, of p] by (auto simp: h1_def)
  then have "r_ctr r' = 1" using payload_eq [OF r'(2)] p(2) by simp
  then have "fuse_free_req p (se, s) = Some (se\<lparr>se_reqs := h'(p := None)\<rparr>, unlock SessionMutex (lock SessionMutex s))"
    using p(1) h'(1) r'(1) by (simp add: fuse_free_req_def h1_def destroy_req_def)
  moreover have "dom (h'(p := None)) \<subseteq> dom (se_reqs se)"
    using payloads_dom [OF pl] by (auto simp: h1_def)
  ultimately show ?thesis
    using sess_ok_rings [OF ok h'(2)] pl by (auto simp: h1_def)
qed

section \<open>Messages\<close>

lemma calls_steps [simp]:
  "calls (trace (lock m s)) = calls (trace s)" "calls (trace (unlock m s)) = calls (trace s)"
  by (simp_all add: lock_def unlock_def emit_def)

lemma calls_sys: "sys os c s = (r, s') \<Longrightarrow> calls (trace s') = calls (trace s) @ [c]"
  by (auto simp: sys_def invoke_def emit_def split: prod.splits)

definition clamp_error :: "int \<Rightarrow> int" where
  "clamp_error err = (if err \<le> -1000 \<or> err > 0 then - ERANGE else err)"

definition message :: "int \<Rightarrow> u64 \<Rightarrow> string list \<Rightarrow> string list" where
  "message err uniq iov =
     fuse_out_header (ucast (of_nat OUT_HEADER_SIZE + iov_length iov)) err uniq # iov"

lemma fuse_send_msg_calls:
  "fuse_send_msg os err uniq iov (se, s) = (res, se', s') \<Longrightarrow>
     se' = se \<and> calls (trace s') = calls (trace s) @ [Writev (se_fd se) (message err uniq iov)]"
  by (auto simp: fuse_send_msg_def message_def dest!: calls_sys split: prod.splits)

text \<open>An answer to a request that is alive: one message, and the request is gone.\<close>

lemma send_reply_iov_ok:
  assumes ok: "sess_ok se xs is E" and p: "se_reqs se p = Some r" "r_ctr r = 1" "p \<in> set xs \<or> p \<in> E"
  shows "\<exists>h res s'. send_reply_iov os p err iov (se, s) = Some (res, se\<lparr>se_reqs := h\<rparr>, s') \<and>
    sess_ok (se\<lparr>se_reqs := h\<rparr>) (removeAll p xs) is (E - {p}) \<and>
    payloads h = (payloads (se_reqs se))(p := None) \<and>
    calls (trace s') = calls (trace s) @ [Writev (se_fd se) (message (clamp_error err) (r_unique r) iov)]"
proof -
  obtain res s1 where m: "fuse_send_msg os (clamp_error err) (r_unique r) iov (se, s) = (res, se, s1)"
    "calls (trace s1) = calls (trace s) @ [Writev (se_fd se) (message (clamp_error err) (r_unique r) iov)]"
    using fuse_send_msg_calls [of os "clamp_error err" "r_unique r" iov se s] by (metis prod_cases3)
  obtain h where "fuse_free_req p (se, s1) = Some (se\<lparr>se_reqs := h\<rparr>, unlock SessionMutex (lock SessionMutex s1))"
    "sess_ok (se\<lparr>se_reqs := h\<rparr>) (removeAll p xs) is (E - {p})" "payloads h = (payloads (se_reqs se))(p := None)"
    using fuse_free_req_ok [OF ok p, of s1] by blast
  with m p(1) show ?thesis
    by (auto simp: send_reply_iov_def fuse_send_reply_iov_nofree_def clamp_error_def)
qed

text \<open>Answering a request that is gone is undefined.\<close>

lemma send_reply_iov_gone: "se_reqs se p = None \<Longrightarrow> send_reply_iov os p err iov (se, s) = None"
  by (simp add: send_reply_iov_def fuse_send_reply_iov_nofree_def)

lemma payloads_None: "payloads h p = None \<longleftrightarrow> h p = None"
  by (simp add: payloads_def)

end
