(* ===== verification/Fuse_Interrupts.thy ===== *)
theory Fuse_Interrupts
  imports Fuse_Session_Inv
begin

text \<open>
  Interrupts. A request that enters the session and an interrupt that arrives are shown to do on the two
  circular lists what the operations below do on two plain lists, and with which messages.
\<close>

section \<open>Requests and interrupts as lists\<close>

text \<open>
  Of a request in progress its unique number and whether it has been interrupted; of a pending
  interrupt its own number and the number of the request it is for.
\<close>

type_synonym reqs_view = "(u64 \<times> bool) list"
type_synonym intrs_view = "(u64 \<times> u64) list"

definition view_reqs :: "(addr \<rightharpoonup> fuse_req) \<Rightarrow> addr list \<Rightarrow> reqs_view" where
  "view_reqs h xs = map (\<lambda>p. case payloads h p of Some r \<Rightarrow> (r_unique r, r_interrupted r) | None \<Rightarrow> (0, False)) xs"

definition view_intrs :: "(addr \<rightharpoonup> fuse_req) \<Rightarrow> addr list \<Rightarrow> intrs_view" where
  "view_intrs h is = map (\<lambda>p. case payloads h p of Some r \<Rightarrow> (r_unique r, r_u r) | None \<Rightarrow> (0, 0)) is"

text \<open>Entering a request, and interrupting one, on lists. The third component is the interrupt to be answered.\<close>

fun remove_intr :: "u64 \<Rightarrow> intrs_view \<Rightarrow> intrs_view" where
  "remove_intr u [] = []"
| "remove_intr u ((own, t) # I) = (if t = u then I else (own, t) # remove_intr u I)"

definition enter_abs :: "u64 \<Rightarrow> reqs_view \<Rightarrow> intrs_view \<Rightarrow> reqs_view \<times> intrs_view \<times> u64 option" where
  "enter_abs u P I =
     (if u \<in> snd ` set I then (P @ [(u, True)], remove_intr u I, None)
      else case I of
        [] \<Rightarrow> (P @ [(u, False)], [], None)
      | (own, _) # I' \<Rightarrow> (P @ [(u, False)], I', Some own))"

fun mark_interrupted :: "u64 \<Rightarrow> reqs_view \<Rightarrow> reqs_view" where
  "mark_interrupted u [] = []"
| "mark_interrupted u ((v, i) # P) = (if v = u then (v, True) # P else (v, i) # mark_interrupted u P)"

definition interrupt_abs :: "u64 \<Rightarrow> u64 \<Rightarrow> reqs_view \<Rightarrow> intrs_view \<Rightarrow> reqs_view \<times> intrs_view" where
  "interrupt_abs own u P I =
     (if u \<in> fst ` set P then (mark_interrupted u P, I)
      else if u \<in> snd ` set I then (P, I)
      else (P, I @ [(own, u)]))"

text \<open>
  A session stands for the two lists when its rings do, every request is referenced once and no
  request in progress has registered a function for interrupts (the file system here registers none).
\<close>

definition unit_counts :: "(addr \<rightharpoonup> fuse_req) \<Rightarrow> bool" where
  "unit_counts h \<longleftrightarrow> (\<forall>p r. payloads h p = Some r \<longrightarrow> p \<noteq> SE_LIST \<longrightarrow> p \<noteq> SE_INTERRUPTS \<longrightarrow> r_ctr r = 1)"

definition no_func :: "(addr \<rightharpoonup> fuse_req) \<Rightarrow> addr \<Rightarrow> bool" where
  "no_func h p \<longleftrightarrow> (\<forall>r. payloads h p = Some r \<longrightarrow> r_u r = 0)"

definition stands_for :: "fuse_session \<Rightarrow> addr list \<Rightarrow> addr list \<Rightarrow> addr set \<Rightarrow> reqs_view \<Rightarrow> intrs_view \<Rightarrow> bool" where
  "stands_for se xs is E P I \<longleftrightarrow> sess_ok se xs is E \<and> unit_counts (se_reqs se) \<and> list_all (no_func (se_reqs se)) xs \<and>
     P = view_reqs (se_reqs se) xs \<and> I = view_intrs (se_reqs se) is"

section \<open>Views of the rings\<close>

lemma payload_fields [simp]:
  "r_unique (payload r) = r_unique r" "r_interrupted (payload r) = r_interrupted r" "r_u (payload r) = r_u r"
  "r_ctr (payload r) = r_ctr r"
  by (simp_all add: payload_def)

lemma payloads_at: "h p = Some r \<Longrightarrow> payloads h p = Some (payload r)"
  by (simp add: payloads_def)

lemma payload_at: "se_reqs se p = Some r \<Longrightarrow> payloads (se_reqs se) p = Some (payload r)"
  by (simp add: payloads_def)

lemma view_append [simp]:
  "view_reqs h (xs @ ys) = view_reqs h xs @ view_reqs h ys" "view_reqs h [] = []"
  "view_intrs h (xs @ ys) = view_intrs h xs @ view_intrs h ys" "view_intrs h [] = []"
  by (simp_all add: view_reqs_def view_intrs_def)

lemma view_Cons:
  "payloads h p = Some r \<Longrightarrow> view_reqs h (p # xs) = (r_unique r, r_interrupted r) # view_reqs h xs"
  "payloads h p = Some r \<Longrightarrow> view_intrs h (p # is) = (r_unique r, r_u r) # view_intrs h is"
  by (simp_all add: view_reqs_def view_intrs_def)

lemma view_cong:
  "(\<And>p. p \<in> set xs \<Longrightarrow> payloads h' p = payloads h p) \<Longrightarrow> view_reqs h' xs = view_reqs h xs"
  "(\<And>p. p \<in> set is \<Longrightarrow> payloads h' p = payloads h p) \<Longrightarrow> view_intrs h' is = view_intrs h is"
  by (simp_all add: view_reqs_def view_intrs_def)

lemma view_keys:
  "set xs \<subseteq> dom h \<Longrightarrow> fst ` set (view_reqs h xs) = (\<lambda>p. r_unique (the (h p))) ` set xs"
  "set is \<subseteq> dom h \<Longrightarrow> snd ` set (view_intrs h is) = (\<lambda>p. r_u (the (h p))) ` set is"
  by (force simp: view_reqs_def view_intrs_def payloads_def image_iff)+

lemma remove_intr_at: "u \<notin> snd ` set I \<Longrightarrow> remove_intr u (I @ (own, u) # J) = I @ J"
  by (induction I) auto

lemma mark_interrupted_at: "u \<notin> fst ` set P \<Longrightarrow> mark_interrupted u (P @ (u, i) # Q) = P @ (u, True) # Q"
  by (induction P) auto

lemma find_split: "List.find Q xs = Some x \<Longrightarrow> \<exists>us vs. xs = us @ x # vs \<and> Q x \<and> (\<forall>u \<in> set us. \<not> Q u)"
proof (induction xs)
  case (Cons y ys)
  show ?case
  proof (cases "Q y")
    case True
    then show ?thesis using Cons.prems by (intro exI [of _ "[]"] exI [of _ ys]) simp
  next
    case False
    with Cons obtain us vs where "ys = us @ x # vs" "Q x" "\<forall>u \<in> set us. \<not> Q u" by auto
    with False show ?thesis by (intro exI [of _ "y # us"] exI [of _ vs]) auto
  qed
qed simp

lemma first_such: "\<exists>x \<in> set xs. Q x \<Longrightarrow> \<exists>us x vs. xs = us @ x # vs \<and> Q x \<and> (\<forall>u \<in> set us. \<not> Q u)"
  using find_split [of Q xs] by (cases "List.find Q xs") (auto simp: find_None_iff)

lemma sess_dom:
  assumes "sess_ok se xs is E"
  shows "set xs \<subseteq> dom (se_reqs se)" "set is \<subseteq> dom (se_reqs se)" "E \<subseteq> dom (se_reqs se)"
    "SE_LIST \<notin> E" "SE_INTERRUPTS \<notin> E" "SE_LIST \<notin> set is" "SE_INTERRUPTS \<notin> set is" "SE_LIST \<notin> set xs" "SE_INTERRUPTS \<notin> set xs"
    "p \<in> E \<Longrightarrow> p \<notin> set xs" "p \<in> E \<Longrightarrow> p \<notin> set is" "p \<in> set is \<Longrightarrow> p \<notin> set xs" "distinct xs" "distinct is"
  using assms unfolding sess_ok_def rings_def ring_def by auto

lemma sess_ok_ring:
  assumes "sess_ok se xs is E"
  shows "ring (rnext (se_reqs se)) (rprev (se_reqs se)) SE_LIST xs"
    and "ring (rnext (se_reqs se)) (rprev (se_reqs se)) SE_INTERRUPTS is"
proof -
  have r: "rings (se_reqs se) SE_LIST xs SE_INTERRUPTS is E" using assms by (simp add: sess_ok_def)
  show "ring (rnext (se_reqs se)) (rprev (se_reqs se)) SE_LIST xs" by (rule rings_disj(1) [OF r])
  show "ring (rnext (se_reqs se)) (rprev (se_reqs se)) SE_INTERRUPTS is" by (rule rings_disj(2) [OF r])
qed

section \<open>Taking a pending interrupt\<close>

text \<open>The three ways \<^verbatim>\<open>check_interrupt\<close> can go.\<close>

lemma check_interrupt_hit:
  assumes ok: "sess_ok se xs (us @ c # vs) E" and q: "p \<in> E" "se_reqs se p = Some q"
    and c: "r_u (the (se_reqs se c)) = r_unique q" "\<forall>u \<in> set us. r_u (the (se_reqs se u)) \<noteq> r_unique q"
  shows "\<exists>h. check_interrupt p se = Some (None, se\<lparr>se_reqs := h\<rparr>) \<and> sess_ok (se\<lparr>se_reqs := h\<rparr>) xs (us @ vs) E \<and>
    payloads h = (payloads (se_reqs se))(p \<mapsto> payload (q\<lparr>r_interrupted := True\<rparr>), c := None)"
proof -
  note D = sess_dom [OF ok]
  have "List.find (\<lambda>p. r_u (the (se_reqs se p)) = r_unique q) (us @ c # vs) = Some c"
    using c by (induction us) auto
  then have f: "find_in_list (\<lambda>r. r_u r = r_unique q) SE_INTERRUPTS (se_reqs se) = Some (Some c)"
    by (simp add: find_in_list_ring [OF sess_ok_ring(2) [OF ok]])
  let ?h = "(se_reqs se)(p \<mapsto> q\<lparr>r_interrupted := True\<rparr>)"
  have u: "upd_req p (\<lambda>r. r\<lparr>r_interrupted := True\<rparr>) se = Some (se\<lparr>se_reqs := ?h\<rparr>)"
    "sess_ok (se\<lparr>se_reqs := ?h\<rparr>) xs (us @ c # vs) E"
    using upd_req_ok [OF ok q(2), of "\<lambda>r. r\<lparr>r_interrupted := True\<rparr>"] by simp_all
  then have "rings ?h SE_INTERRUPTS (us @ c # vs) SE_LIST xs E" by (simp add: sess_ok_def rings_swap)
  then obtain h where h: "list_del_req c ?h = Some h" "rings (h(c := None)) SE_INTERRUPTS (us @ vs) SE_LIST xs E"
    using rings_del by blast
  have "dom (h(c := None)) \<subseteq> dom (se_reqs (se\<lparr>se_reqs := ?h\<rparr>))"
    using dom_list_ops(1) [OF h(1)] by auto
  from sess_ok_rings [OF u(2) _ this] h(2)
  have "sess_ok (se\<lparr>se_reqs := h(c := None)\<rparr>) xs (us @ vs) E" by (simp add: rings_swap)
  moreover have "p \<noteq> c" using D(11) [OF q(1)] by auto
  ultimately show ?thesis
    using q f u(1) h(1) payloads_list_del_req [OF h(1)] by (auto simp: check_interrupt_def)
qed

lemma check_interrupt_miss:
  assumes ok: "sess_ok se xs is E" and q: "se_reqs se p = Some q"
    and c: "\<forall>u \<in> set is. r_u (the (se_reqs se u)) \<noteq> r_unique q"
  shows "is = [] \<Longrightarrow> check_interrupt p se = Some (None, se)"
    and "is = c # vs \<Longrightarrow> \<exists>h. check_interrupt p se = Some (Some c, se\<lparr>se_reqs := h\<rparr>) \<and>
      sess_ok (se\<lparr>se_reqs := h\<rparr>) xs vs (insert c E) \<and> payloads h = payloads (se_reqs se)"
proof -
  have r: "rings (se_reqs se) SE_INTERRUPTS is SE_LIST xs E" using ok by (simp add: sess_ok_def rings_swap)
  note R = rings_disj(1) [OF r]
  have f: "find_in_list (\<lambda>r. r_u r = r_unique q) SE_INTERRUPTS (se_reqs se) = Some None"
    using c by (simp add: find_in_list_ring [OF R] find_None_iff)
  obtain s where s: "se_reqs se SE_INTERRUPTS = Some s" "r_next s = hd (is @ [SE_INTERRUPTS])"
    using R by (cases "is") (auto simp: ring_def)
  show "check_interrupt p se = Some (None, se)" if "is = []"
    using that q f s by (simp add: check_interrupt_def)
  show "\<exists>h. check_interrupt p se = Some (Some c, se\<lparr>se_reqs := h\<rparr>) \<and>
      sess_ok (se\<lparr>se_reqs := h\<rparr>) xs vs (insert c E) \<and> payloads h = payloads (se_reqs se)" if e: "is = c # vs"
  proof -
    have "rings (se_reqs se) SE_INTERRUPTS ([] @ c # vs) SE_LIST xs E" using r e by simp
    from rings_del [OF this] obtain h h' where h: "list_del_req c (se_reqs se) = Some h" "list_init_req c h = Some h'"
      "rings h' SE_INTERRUPTS vs SE_LIST xs (insert c E)" by auto
    have "c \<noteq> SE_INTERRUPTS" using sess_dom(7) [OF ok] e by auto
    moreover have "sess_ok (se\<lparr>se_reqs := h'\<rparr>) xs vs (insert c E)"
      using sess_ok_rings [OF ok, of h'] h dom_list_ops by (auto simp: rings_swap)
    ultimately show ?thesis
      using q f s e h payloads_list_del_req [OF h(1)] payloads_list_init_req [OF h(2)]
      by (auto simp: check_interrupt_def)
  qed
qed

section \<open>Entering a request\<close>

lemma sess_ok_add:
  assumes "sess_ok se xs is E" "p \<in> E"
  shows "\<exists>h. list_add_req p SE_LIST (se_reqs se) = Some h \<and> sess_ok (se\<lparr>se_reqs := h\<rparr>) (xs @ [p]) is (E - {p}) \<and>
      payloads h = payloads (se_reqs se)"
    and "\<exists>h. list_add_req p SE_INTERRUPTS (se_reqs se) = Some h \<and> sess_ok (se\<lparr>se_reqs := h\<rparr>) xs (is @ [p]) (E - {p}) \<and>
      payloads h = payloads (se_reqs se)"
proof -
  have r: "rings (se_reqs se) SE_LIST xs SE_INTERRUPTS is E" using assms(1) by (simp add: sess_ok_def)
  have fin: "sess_ok (se\<lparr>se_reqs := h\<rparr>) xs' is' (E - {p}) \<and> payloads h = payloads (se_reqs se)"
    if "list_add_req p n (se_reqs se) = Some h" "rings h SE_LIST xs' SE_INTERRUPTS is' (E - {p})" for n h xs' is'
    using sess_ok_rings [OF assms(1) that(2)] payloads_list_add_req [OF that(1)] dom_list_ops(2) [OF that(1)] by simp
  obtain h where h: "list_add_req p SE_LIST (se_reqs se) = Some h" "rings h SE_LIST (xs @ [p]) SE_INTERRUPTS is (E - {p})"
    using rings_add [OF r assms(2)] by (elim exE conjE) (rule that)
  show "\<exists>h. list_add_req p SE_LIST (se_reqs se) = Some h \<and> sess_ok (se\<lparr>se_reqs := h\<rparr>) (xs @ [p]) is (E - {p}) \<and>
      payloads h = payloads (se_reqs se)"
    using h(1) fin [OF h] by (intro exI [of _ h] conjI) simp_all
  have "rings (se_reqs se) SE_INTERRUPTS is SE_LIST xs E" using r by (simp add: rings_swap)
  note R' = rings_add [OF this assms(2)]
  obtain g where g: "list_add_req p SE_INTERRUPTS (se_reqs se) = Some g"
    "rings g SE_INTERRUPTS (is @ [p]) SE_LIST xs (E - {p})"
    using R' by (elim exE conjE) (rule that)
  show "\<exists>h. list_add_req p SE_INTERRUPTS (se_reqs se) = Some h \<and>
      sess_ok (se\<lparr>se_reqs := h\<rparr>) xs (is @ [p]) (E - {p}) \<and> payloads h = payloads (se_reqs se)"
    using g(1) fin [OF g(1) g(2) [THEN rings_swap [THEN iffD1]]] by (intro exI [of _ g] conjI) simp_all
qed

text \<open>The answer to an interrupt that could not be matched, as messages on the device.\<close>

definition eagain :: "fuse_session \<Rightarrow> u64 option \<Rightarrow> call list" where
  "eagain se ans = (case ans of None \<Rightarrow> [] | Some own \<Rightarrow> [Writev (se_fd se) (message (- EAGAIN) own [])])"

lemma unit_counts_upd:
  "unit_counts h \<Longrightarrow> payloads h' = payloads h \<Longrightarrow> unit_counts h'"
  "unit_counts h \<Longrightarrow> payloads h' = (payloads h)(p := None) \<Longrightarrow> unit_counts h'"
  "unit_counts h \<Longrightarrow> payloads h' = (payloads h)(p \<mapsto> r) \<Longrightarrow> r_ctr r = 1 \<Longrightarrow> unit_counts h'"
  "unit_counts h \<Longrightarrow> payloads h' = (payloads h)(p \<mapsto> r, q := None) \<Longrightarrow> r_ctr r = 1 \<Longrightarrow> unit_counts h'"
  by (auto simp: unit_counts_def)

lemma unit_counts_at: "unit_counts (se_reqs se) \<Longrightarrow> se_reqs se p = Some r \<Longrightarrow> p \<noteq> SE_LIST \<Longrightarrow> p \<noteq> SE_INTERRUPTS \<Longrightarrow> r_ctr r = 1"
  using payload_at [of se p r] unfolding unit_counts_def by (metis payload_fields(4))

lemma no_func_payloads: "payloads h' p = payloads h p \<Longrightarrow> no_func h' p = no_func h p"
  by (simp add: no_func_def)

lemma list_all_no_func:
  "list_all (no_func h) xs \<Longrightarrow> (\<And>p. p \<in> set xs \<Longrightarrow> payloads h' p = payloads h p) \<Longrightarrow> list_all (no_func h') xs"
  unfolding list_all_iff using no_func_payloads [of h' _ h] by blast

lemma send_reply_iov_at:
  assumes "sess_ok (se\<lparr>se_reqs := h\<rparr>) xs is E" "h p = Some r" "r_ctr r = 1" "p \<in> set xs \<or> p \<in> E"
  shows "\<exists>h' res s'. send_reply_iov os p err iov (se\<lparr>se_reqs := h\<rparr>, s) = Some (res, se\<lparr>se_reqs := h'\<rparr>, s') \<and>
    sess_ok (se\<lparr>se_reqs := h'\<rparr>) (removeAll p xs) is (E - {p}) \<and> payloads h' = (payloads h)(p := None) \<and>
    calls (trace s') = calls (trace s) @ [Writev (se_fd se) (message (clamp_error err) (r_unique r) iov)]"
  using send_reply_iov_ok [OF assms(1), of p r os err iov s] assms(2-) by simp

text \<open>The heap after entering, in the three cases.\<close>

lemma enter_req_hit:
  assumes ok: "sess_ok se xs (us @ c # vs) E" and q: "p \<in> E" "se_reqs se p = Some q"
    and c: "r_u (the (se_reqs se c)) = r_unique q" "\<forall>u \<in> set us. r_u (the (se_reqs se u)) \<noteq> r_unique q"
  shows "\<exists>h. enter_req os p (se, s) = Some (se\<lparr>se_reqs := h\<rparr>, unlock SessionMutex (lock SessionMutex s)) \<and>
    sess_ok (se\<lparr>se_reqs := h\<rparr>) (xs @ [p]) (us @ vs) (E - {p}) \<and>
    payloads h = (payloads (se_reqs se))(p \<mapsto> payload (q\<lparr>r_interrupted := True\<rparr>), c := None)"
proof -
  obtain h1 where
    h1: "check_interrupt p se = Some (None, se\<lparr>se_reqs := h1\<rparr>)" "sess_ok (se\<lparr>se_reqs := h1\<rparr>) xs (us @ vs) E"
      "payloads h1 = (payloads (se_reqs se))(p \<mapsto> payload (q\<lparr>r_interrupted := True\<rparr>), c := None)"
    using check_interrupt_hit [OF assms] by (elim exE conjE) (rule that)
  obtain h where
    h: "list_add_req p SE_LIST h1 = Some h" "sess_ok (se\<lparr>se_reqs := h\<rparr>) (xs @ [p]) (us @ vs) (E - {p})"
      "payloads h = payloads h1"
    using sess_ok_add(1) [OF h1(2) q(1), simplified] by (elim exE conjE) (rule that)
  show ?thesis
    using h1(1,3) h by (intro exI [of _ h]) (simp add: enter_req_def)
qed

lemma enter_req_empty:
  assumes ok: "sess_ok se xs [] E" and q: "p \<in> E" "se_reqs se p = Some q"
  shows "\<exists>h. enter_req os p (se, s) = Some (se\<lparr>se_reqs := h\<rparr>, unlock SessionMutex (lock SessionMutex s)) \<and>
    sess_ok (se\<lparr>se_reqs := h\<rparr>) (xs @ [p]) [] (E - {p}) \<and> payloads h = payloads (se_reqs se)"
proof -
  obtain h where
    h: "list_add_req p SE_LIST (se_reqs se) = Some h" "sess_ok (se\<lparr>se_reqs := h\<rparr>) (xs @ [p]) [] (E - {p})"
      "payloads h = payloads (se_reqs se)"
    using sess_ok_add(1) [OF ok q(1)] by (elim exE conjE) (rule that)
  show ?thesis
    using check_interrupt_miss(1) [OF ok q(2)] h by (intro exI [of _ h]) (simp add: enter_req_def)
qed

lemma enter_req_oldest:
  assumes ok: "sess_ok se xs (c # vs) E" and q: "p \<in> E" "se_reqs se p = Some q"
    and c: "se_reqs se c = Some rc" "r_ctr rc = 1" "\<forall>u \<in> set (c # vs). r_u (the (se_reqs se u)) \<noteq> r_unique q"
  shows "\<exists>h s'. enter_req os p (se, s) = Some (se\<lparr>se_reqs := h\<rparr>, s') \<and>
    sess_ok (se\<lparr>se_reqs := h\<rparr>) (xs @ [p]) vs (E - {p}) \<and> payloads h = (payloads (se_reqs se))(c := None) \<and>
    calls (trace s') = calls (trace s) @ eagain se (Some (r_unique rc))"
proof -
  note D = sess_dom [OF ok]
  have d: "c \<noteq> p" "c \<notin> set xs" "c \<notin> E" using D(11) [of c] D(11) [OF q(1)] D(12) [of c] by auto
  obtain h1 where
    h1: "check_interrupt p se = Some (Some c, se\<lparr>se_reqs := h1\<rparr>)" "sess_ok (se\<lparr>se_reqs := h1\<rparr>) xs vs (insert c E)"
      "payloads h1 = payloads (se_reqs se)"
    using check_interrupt_miss(2) [OF ok q(2) c(3) refl] by (elim exE conjE) (rule that)
  obtain h where
    h: "list_add_req p SE_LIST h1 = Some h" "sess_ok (se\<lparr>se_reqs := h\<rparr>) (xs @ [p]) vs (insert c E - {p})"
      "payloads h = payloads h1"
    using sess_ok_add(1) [OF h1(2) insertI2 [OF q(1)], simplified] by (elim exE conjE) (rule that)
  obtain rc' where rc': "h c = Some rc'" "payload rc' = payload rc"
    using payloadsD [OF h(3) [unfolded h1(3)] c(1)] by (elim exE conjE) (rule that)
  have uq: "r_unique rc' = r_unique rc" "r_ctr rc' = 1" using payload_eq [OF rc'(2)] c(2) by simp_all
  have dj: "c \<in> set (xs @ [p]) \<or> c \<in> insert c E - {p}" using d(1) by simp
  note reply = send_reply_iov_at [OF h(2) rc'(1) uq(2), of os "- EAGAIN" "[]" "unlock SessionMutex (lock SessionMutex s)",
      unfolded calls_steps]
  let ?st = "unlock SessionMutex (lock SessionMutex s)"
  obtain h2 res s2 where
    s2: "send_reply_iov os c (- EAGAIN) [] (se\<lparr>se_reqs := h\<rparr>, ?st) = Some (res, se\<lparr>se_reqs := h2\<rparr>, s2)"
      "sess_ok (se\<lparr>se_reqs := h2\<rparr>) (removeAll c (xs @ [p])) vs (insert c E - {p} - {c})"
      "payloads h2 = (payloads h)(c := None)"
      "calls (trace s2) = calls (trace s) @ [Writev (se_fd se) (message (clamp_error (- EAGAIN)) (r_unique rc') [])]"
    using reply [OF dj] by (elim exE conjE) (rule that)
  have "insert c E - {p} - {c} = E - {p}" "removeAll c (xs @ [p]) = xs @ [p]" using d by auto
  then show ?thesis
    using h1(1,3) h(1,3) s2 uq
    by (intro exI [of _ h2] exI [of _ s2])
      (simp add: enter_req_def eagain_def ignore_res_def clamp_error_def EAGAIN_def fuse_reply_err_def send_reply_def)
qed

text \<open>Together: a request enters as \<^const>\<open>enter_abs\<close> says.\<close>

lemma stands_for_hit:
  assumes st: "stands_for se xs (us @ c # vs) E P I" and p: "p \<in> E" "se_reqs se p = Some q" "r_u q = 0"
    and c: "r_u (the (se_reqs se c)) = r_unique q" "\<forall>u \<in> set us. r_u (the (se_reqs se u)) \<noteq> r_unique q"
    and ok: "sess_ok (se\<lparr>se_reqs := h\<rparr>) (xs @ [p]) (us @ vs) (E - {p})"
    and h: "payloads h = (payloads (se_reqs se))(p \<mapsto> payload (q\<lparr>r_interrupted := True\<rparr>), c := None)"
  shows "stands_for (se\<lparr>se_reqs := h\<rparr>) (xs @ [p]) (us @ vs) (E - {p}) (P @ [(r_unique q, True)])
    (remove_intr (r_unique q) I)" and "r_unique q \<in> snd ` set I"
proof -
  let ?g = "se_reqs se"
  have ok0: "sess_ok se xs (us @ c # vs) E" and u1: "unit_counts ?g" and nf: "list_all (no_func ?g) xs"
    and P: "P = view_reqs ?g xs" and I: "I = view_intrs ?g (us @ c # vs)"
    using st by (simp_all add: stands_for_def)
  note D = sess_dom [OF ok0]
  have ctr: "r_ctr q = 1" using unit_counts_at [OF u1 p(2)] D(4,5) p(1) by auto
  have d: "c \<noteq> p" "c \<notin> set xs" "c \<notin> set us" "c \<notin> set vs" "p \<notin> set xs" "p \<notin> set us" "p \<notin> set vs"
    using D(10,11) [OF p(1)] D(12) [of c] D(14) by auto
  obtain rc where rc: "?g c = Some rc" using D(2) by auto
  have same: "payloads h x = payloads ?g x" if "x \<in> set xs \<or> x \<in> set us \<or> x \<in> set vs" for x
    using that d h by auto
  have I': "I = view_intrs ?g us @ (r_unique rc, r_unique q) # view_intrs ?g vs"
    using I c(1) rc view_Cons(2) [OF payload_at [OF rc]] by simp
  have us: "set us \<subseteq> dom ?g" using D(2) by simp
  have "r_unique q \<notin> snd ` set (view_intrs ?g us)"
    unfolding view_keys(2) [OF us] by (rule notI, erule imageE) (use bspec [OF c(2)] in metis)
  from remove_intr_at [OF this] have vi: "view_intrs h (us @ vs) = remove_intr (r_unique q) I"
    using same by (simp add: I' view_cong(2) [of us h ?g] view_cong(2) [of vs h ?g])
  have vr: "view_reqs h (xs @ [p]) = P @ [(r_unique q, True)]"
    using view_cong(1) [of xs h ?g] same d(1) h P by (simp add: view_reqs_def)
  have "unit_counts h" using unit_counts_upd(4) [OF u1 h] ctr by simp
  moreover have "list_all (no_func h) (xs @ [p])"
    using list_all_no_func [OF nf, of h] same h d(1) p(3) by (simp add: no_func_def)
  ultimately show "stands_for (se\<lparr>se_reqs := h\<rparr>) (xs @ [p]) (us @ vs) (E - {p}) (P @ [(r_unique q, True)])
    (remove_intr (r_unique q) I)"
    using ok vr vi by (simp add: stands_for_def del: view_append)
  show "r_unique q \<in> snd ` set I" using I' by simp
qed

lemma stands_for_miss:
  assumes st: "stands_for se xs is E P I" and p: "p \<in> E" "se_reqs se p = Some q" "\<not> r_interrupted q" "r_u q = 0"
    and ok: "sess_ok (se\<lparr>se_reqs := h\<rparr>) (xs @ [p]) is' (E - {p})" and s: "set is' \<subseteq> set is"
    and h: "payloads h = payloads (se_reqs se) \<or> c \<in> set is - set is' \<and> payloads h = (payloads (se_reqs se))(c := None)"
  shows "stands_for (se\<lparr>se_reqs := h\<rparr>) (xs @ [p]) is' (E - {p}) (P @ [(r_unique q, False)]) (view_intrs (se_reqs se) is')"
proof -
  let ?g = "se_reqs se"
  have ok0: "sess_ok se xs is E" and u1: "unit_counts ?g" and nf: "list_all (no_func ?g) xs" and P: "P = view_reqs ?g xs"
    using st by (simp_all add: stands_for_def)
  note D = sess_dom [OF ok0]
  have same: "payloads h x = payloads ?g x" if "x \<in> set xs \<or> x = p \<or> x \<in> set is'" for x
  proof -
    have "c \<in> set is - set is' \<Longrightarrow> x \<noteq> c" using that D(11) [OF p(1)] D(12) [of x] by auto
    with h show ?thesis by auto
  qed
  have "unit_counts h" using h unit_counts_upd(1,2) [OF u1] by blast
  moreover have "list_all (no_func h) (xs @ [p])"
    using list_all_no_func [OF nf, of h] same payload_at [OF p(2)] p(4) by (auto simp: no_func_def)
  moreover have "view_reqs h (xs @ [p]) = P @ [(r_unique q, False)]"
    using view_cong(1) [of xs h ?g] same [of p] same payload_at [OF p(2)] p(3) P by (simp add: view_reqs_def)
  moreover have "view_intrs h is' = view_intrs ?g is'"
    by (rule view_cong(2)) (use same in blast)
  ultimately show ?thesis using ok by (simp add: stands_for_def del: view_append)
qed

lemma enter_req_stands_for:
  assumes st: "stands_for se xs is E P I" and p: "p \<in> E" "se_reqs se p = Some q" "\<not> r_interrupted q" "r_u q = 0"
  shows "\<exists>h s' is' P' I' ans. enter_abs (r_unique q) P I = (P', I', ans) \<and>
    enter_req os p (se, s) = Some (se\<lparr>se_reqs := h\<rparr>, s') \<and>
    stands_for (se\<lparr>se_reqs := h\<rparr>) (xs @ [p]) is' (E - {p}) P' I' \<and>
    calls (trace s') = calls (trace s) @ eagain se ans"
proof -
  let ?g = "se_reqs se"
  have ok: "sess_ok se xs is E" and u1: "unit_counts ?g" and I: "I = view_intrs ?g is"
    using st by (auto simp: stands_for_def)
  note D = sess_dom [OF ok]
  consider (hit) us c vs where "is = us @ c # vs" "r_u (the (?g c)) = r_unique q" "\<forall>u \<in> set us. r_u (the (?g u)) \<noteq> r_unique q"
    | (miss) "\<forall>u \<in> set is. r_u (the (?g u)) \<noteq> r_unique q"
    using first_such [of "is" "\<lambda>u. r_u (the (?g u)) = r_unique q"] by blast
  then show ?thesis
  proof cases
    case hit
    obtain h where h: "enter_req os p (se, s) = Some (se\<lparr>se_reqs := h\<rparr>, unlock SessionMutex (lock SessionMutex s))"
      "sess_ok (se\<lparr>se_reqs := h\<rparr>) (xs @ [p]) (us @ vs) (E - {p})"
      "payloads h = (payloads ?g)(p \<mapsto> payload (q\<lparr>r_interrupted := True\<rparr>), c := None)"
      using enter_req_hit [where os = os and s = s, OF ok [unfolded hit(1)] p(1,2) hit(2,3)] by (elim exE conjE) (rule that)
    from stands_for_hit [OF st [unfolded hit(1)] p(1,2,4) hit(2,3) h(2,3)] h(1)
    show ?thesis by (simp add: enter_abs_def eagain_def) blast
  next
    case miss
    then have u: "r_unique q \<notin> snd ` set I" unfolding I view_keys(2) [OF D(2)] by auto
    show ?thesis
    proof (cases "is")
      case Nil
      obtain h where h: "enter_req os p (se, s) = Some (se\<lparr>se_reqs := h\<rparr>, unlock SessionMutex (lock SessionMutex s))"
        "sess_ok (se\<lparr>se_reqs := h\<rparr>) (xs @ [p]) [] (E - {p})" "payloads h = payloads ?g"
        using enter_req_empty [where os = os and s = s, OF ok [unfolded Nil] p(1,2)] by (elim exE conjE) (rule that)
      from stands_for_miss [OF st p h(2) _ disjI1, OF _ h(3)] h(1) I Nil u
      show ?thesis by (simp add: enter_abs_def eagain_def) blast
    next
      case (Cons c vs)
      obtain rc where rc: "?g c = Some rc" using D(2) Cons by auto
      have ctr: "r_ctr rc = 1" using unit_counts_at [OF u1 rc] D(6,7) Cons by auto
      obtain h s' where h: "enter_req os p (se, s) = Some (se\<lparr>se_reqs := h\<rparr>, s')"
        "sess_ok (se\<lparr>se_reqs := h\<rparr>) (xs @ [p]) vs (E - {p})" "payloads h = (payloads ?g)(c := None)"
        "calls (trace s') = calls (trace s) @ eagain se (Some (r_unique rc))"
        using enter_req_oldest [where os = os and s = s, OF ok [unfolded Cons] p(1,2) rc ctr miss [unfolded Cons]] by (elim exE conjE) (rule that)
      have "c \<in> set is - set vs" "set vs \<subseteq> set is" using D(14) Cons by auto
      from stands_for_miss [OF st p h(2) this(2) disjI2, OF conjI, OF this(1) h(3)] h(1,4) I Cons u
        view_Cons(2) [OF payload_at [OF rc]]
      show ?thesis by (simp add: enter_abs_def) blast
    qed
  qed
qed

section \<open>An interrupt arrives\<close>

lemma sess_ok_destroy:
  assumes "sess_ok se xs is E" "p \<in> E"
  shows "destroy_req p se = Some (se\<lparr>se_reqs := (se_reqs se)(p := None)\<rparr>)"
    and "sess_ok (se\<lparr>se_reqs := (se_reqs se)(p := None)\<rparr>) xs is (E - {p})"
proof -
  show "destroy_req p se = Some (se\<lparr>se_reqs := (se_reqs se)(p := None)\<rparr>)"
    using sess_dom(3) [OF assms(1)] assms(2) by (auto simp: destroy_req_def)
  have "rings (se_reqs se) SE_LIST xs SE_INTERRUPTS is E" using assms(1) by (simp add: sess_ok_def)
  from sess_ok_rings [OF assms(1) rings_drop [OF this assms(2)]]
  show "sess_ok (se\<lparr>se_reqs := (se_reqs se)(p := None)\<rparr>) xs is (E - {p})" by auto
qed

text \<open>A request in progress is marked; its own reference count comes out as it was.\<close>

lemma find_interrupted_hit:
  assumes ok: "sess_ok se (us @ c # vs) is E" and i: "se_reqs se p = Some i" and c: "se_reqs se c = Some r"
    and hit: "r_unique r = r_u i" "\<forall>u \<in> set us. r_unique (the (se_reqs se u)) \<noteq> r_u i"
    and r: "r_ctr r = 1" "r_u r = 0"
  shows "\<exists>s'. find_interrupted ops p (se, s) =
      Some (True, se\<lparr>se_reqs := (se_reqs se)(c \<mapsto> r\<lparr>r_interrupted := True\<rparr>)\<rparr>, s') \<and> calls (trace s') = calls (trace s)"
proof -
  have "List.find (\<lambda>p. r_unique (the (se_reqs se p)) = r_u i) (us @ c # vs) = Some c"
    using hit c by (induction us) auto
  then have "find_in_list (\<lambda>q. r_unique q = r_u i) SE_LIST (se_reqs se) = Some (Some c)"
    by (simp add: find_in_list_ring [OF sess_ok_ring(1) [OF ok]])
  then show ?thesis
    using i c r by (cases r) (simp add: find_interrupted_def upd_req_def)
qed

lemma find_interrupted_miss:
  assumes ok: "sess_ok se xs is E" and i: "se_reqs se p = Some i"
    and miss: "\<forall>u \<in> set xs. r_unique (the (se_reqs se u)) \<noteq> r_u i"
  shows "find_interrupted ops p (se, s) = Some (\<exists>u \<in> set is. r_u (the (se_reqs se u)) = r_u i, se, s)"
proof -
  note r = sess_ok_ring [OF ok]
  have "find_in_list (\<lambda>q. r_unique q = r_u i) SE_LIST (se_reqs se) = Some None"
    using miss by (simp add: find_in_list_ring [OF r(1)] find_None_iff)
  moreover have "(List.find Q ys \<noteq> None) = (\<exists>u \<in> set ys. Q u)" for Q and ys :: "addr list"
    by (auto simp: find_None_iff)
  ultimately show ?thesis
    using i by (simp add: find_interrupted_def find_in_list_ring [OF r(2)])
qed

lemma stands_for_upd:
  assumes st: "stands_for se xs is E P I" and p: "p \<in> E" "se_reqs se p = Some q"
  shows "stands_for (se\<lparr>se_reqs := (se_reqs se)(p \<mapsto> q\<lparr>r_u := u\<rparr>)\<rparr>) xs is E P I"
proof -
  let ?g = "se_reqs se" and ?h = "(se_reqs se)(p \<mapsto> q\<lparr>r_u := u\<rparr>)"
  have ok: "sess_ok se xs is E" and u1: "unit_counts ?g" and nf: "list_all (no_func ?g) xs"
    using st by (simp_all add: stands_for_def)
  note D = sess_dom [OF ok]
  have ctr: "r_ctr q = 1" using unit_counts_at [OF u1 p(2)] D(4,5) p(1) by auto
  have same: "payloads ?h x = payloads ?g x" if "x \<in> set xs \<or> x \<in> set is" for x
    using that D(10,11) [OF p(1)] by auto
  have "sess_ok (se\<lparr>se_reqs := ?h\<rparr>) xs is E"
    using upd_req_ok(2) [OF ok p(2), of "\<lambda>r. r\<lparr>r_u := u\<rparr>"] by simp
  moreover have "unit_counts ?h"
    using unit_counts_upd(3) [OF u1, of ?h p "payload (q\<lparr>r_u := u\<rparr>)"] ctr by simp
  moreover have "list_all (no_func ?h) xs" by (rule list_all_no_func [OF nf]) (rule same, simp)
  moreover have "view_reqs ?h xs = view_reqs ?g xs" by (rule view_cong(1)) (rule same, simp)
  moreover have "view_intrs ?h is = view_intrs ?g is" by (rule view_cong(2)) (rule same, simp)
  ultimately show ?thesis using st by (simp add: stands_for_def)
qed

lemma stands_for_destroy:
  assumes st: "stands_for se xs is E P I" and p: "p \<in> E"
  shows "destroy_req p se = Some (se\<lparr>se_reqs := (se_reqs se)(p := None)\<rparr>)"
    and "stands_for (se\<lparr>se_reqs := (se_reqs se)(p := None)\<rparr>) xs is (E - {p}) P I"
proof -
  let ?g = "se_reqs se" and ?h = "(se_reqs se)(p := None)"
  have ok: "sess_ok se xs is E" and u1: "unit_counts ?g" and nf: "list_all (no_func ?g) xs"
    using st by (simp_all add: stands_for_def)
  show "destroy_req p se = Some (se\<lparr>se_reqs := ?h\<rparr>)" by (rule sess_ok_destroy(1) [OF ok p])
  note D = sess_dom [OF ok]
  have same: "payloads ?h x = payloads ?g x" if "x \<in> set xs \<or> x \<in> set is" for x
    using that D(10,11) [OF p] by auto
  have "unit_counts ?h" using unit_counts_upd(2) [OF u1, of ?h p] by simp
  moreover have "list_all (no_func ?h) xs" by (rule list_all_no_func [OF nf]) (rule same, simp)
  moreover have "view_reqs ?h xs = view_reqs ?g xs" by (rule view_cong(1)) (rule same, simp)
  moreover have "view_intrs ?h is = view_intrs ?g is" by (rule view_cong(2)) (rule same, simp)
  ultimately show "stands_for (se\<lparr>se_reqs := ?h\<rparr>) xs is (E - {p}) P I"
    using st sess_ok_destroy(2) [OF ok p] by (simp add: stands_for_def)
qed

lemma stands_for_mark:
  assumes st: "stands_for se (us @ c # vs) is E P I" and c: "se_reqs se c = Some r"
    and miss: "\<forall>u \<in> set us. r_unique (the (se_reqs se u)) \<noteq> r_unique r"
  shows "stands_for (se\<lparr>se_reqs := (se_reqs se)(c \<mapsto> r\<lparr>r_interrupted := True\<rparr>)\<rparr>) (us @ c # vs) is E
      (mark_interrupted (r_unique r) P) I" and "r_unique r \<in> fst ` set P"
proof -
  let ?g = "se_reqs se" and ?h = "(se_reqs se)(c \<mapsto> r\<lparr>r_interrupted := True\<rparr>)"
  have ok: "sess_ok se (us @ c # vs) is E" and u1: "unit_counts ?g" and nf: "list_all (no_func ?g) (us @ c # vs)"
    and P: "P = view_reqs ?g (us @ c # vs)" using st by (simp_all add: stands_for_def)
  note D = sess_dom [OF ok]
  have d: "c \<notin> set us" "c \<notin> set vs" "c \<notin> set is" "c \<noteq> SE_LIST" "c \<noteq> SE_INTERRUPTS"
    using D(8,9,13) D(12) [of c] by auto
  have ctr: "r_ctr r = 1" using unit_counts_at [OF u1 c] d by simp
  have same: "payloads ?h x = payloads ?g x" if "x \<in> set us \<or> x \<in> set vs \<or> x \<in> set is" for x using that d by auto
  have P': "P = view_reqs ?g us @ (r_unique r, r_interrupted r) # view_reqs ?g vs"
    using P view_Cons(1) [OF payload_at [OF c]] by simp
  have us: "set us \<subseteq> dom ?g" using D(1) by simp
  have "r_unique r \<notin> fst ` set (view_reqs ?g us)"
    unfolding view_keys(1) [OF us] by (rule notI, erule imageE) (use bspec [OF miss] in metis)
  from mark_interrupted_at [OF this]
  have vm: "mark_interrupted (r_unique r) P = view_reqs ?g us @ (r_unique r, True) # view_reqs ?g vs" using P' by simp
  have "view_reqs ?h us = view_reqs ?g us" "view_reqs ?h vs = view_reqs ?g vs"
    by (rule view_cong(1); rule same, simp)+
  then have vr: "view_reqs ?h (us @ c # vs) = mark_interrupted (r_unique r) P"
    unfolding vm by (simp add: view_Cons(1) [of ?h c "payload (r\<lparr>r_interrupted := True\<rparr>)"])
  have "sess_ok (se\<lparr>se_reqs := ?h\<rparr>) (us @ c # vs) is E"
    using upd_req_ok(2) [OF ok c, of "\<lambda>r. r\<lparr>r_interrupted := True\<rparr>"] by simp
  moreover have "unit_counts ?h"
    using unit_counts_upd(3) [OF u1, of ?h c "payload (r\<lparr>r_interrupted := True\<rparr>)"] ctr by simp
  moreover have "list_all (no_func ?h) (us @ c # vs)"
    using nf c d by (auto simp: list_all_iff no_func_def payloads_def)
  moreover have "view_intrs ?h is = view_intrs ?g is" by (rule view_cong(2)) (rule same, simp)
  ultimately show "stands_for (se\<lparr>se_reqs := ?h\<rparr>) (us @ c # vs) is E (mark_interrupted (r_unique r) P) I"
    using st vr by (simp add: stands_for_def del: view_append)
  show "r_unique r \<in> fst ` set P" using P' by simp
qed

lemma do_interrupt_stands_for:
  assumes st: "stands_for se xs is E P I" and p: "p \<in> E" "se_reqs se p = Some q" and u: "get64 inarg 0 = Some u"
  shows "\<exists>h s' is' P' I'. interrupt_abs (r_unique q) u P I = (P', I') \<and>
    do_interrupt os ops p nodeid inarg (se, s) = Some (se\<lparr>se_reqs := h\<rparr>, s') \<and>
    stands_for (se\<lparr>se_reqs := h\<rparr>) xs is' (E - {p}) P' I' \<and> calls (trace s') = calls (trace s)"
proof -
  define q' g se1 where d: "q' = q\<lparr>r_u := u\<rparr>" "g = (se_reqs se)(p \<mapsto> q')" "se1 = se\<lparr>se_reqs := g\<rparr>"
  have st1: "stands_for se1 xs is E P I" using stands_for_upd [OF st p] by (simp add: d)
  have q': "se_reqs se1 p = Some q'" "r_u q' = u" "r_unique q' = r_unique q" by (simp_all add: d)
  have ok: "sess_ok se1 xs is E" and u1: "unit_counts (se_reqs se1)" and nf: "list_all (no_func (se_reqs se1)) xs"
    and P: "P = view_reqs (se_reqs se1) xs" and I: "I = view_intrs (se_reqs se1) is"
    using st1 by (simp_all add: stands_for_def)
  note D = sess_dom [OF ok]
  have run: "do_interrupt os ops p nodeid inarg (se, s) = do {
      (found, se, s) \<leftarrow> find_interrupted ops p (se1, lock SessionMutex s);
      se \<leftarrow> (if found then destroy_req p se
             else map_option (\<lambda>h. se\<lparr>se_reqs := h\<rparr>) (list_add_req p SE_INTERRUPTS (se_reqs se)));
      Some (se, unlock SessionMutex s) }"
    using p u by (simp add: do_interrupt_def upd_req_def d)
  consider (hit) us c vs where "xs = us @ c # vs" "r_unique (the (se_reqs se1 c)) = u"
      "\<forall>x \<in> set us. r_unique (the (se_reqs se1 x)) \<noteq> u"
    | (miss) "\<forall>x \<in> set xs. r_unique (the (se_reqs se1 x)) \<noteq> u"
    using first_such [of xs "\<lambda>x. r_unique (the (se_reqs se1 x)) = u"] by blast
  then show ?thesis
  proof cases
    case hit
    obtain r where r: "se_reqs se1 c = Some r" using D(1) hit(1) by auto
    have rr: "r_unique r = u" using hit(2) r by simp
    have one: "r_ctr r = 1" using unit_counts_at [OF u1 r] D(8,9) hit(1) by auto
    have zero: "r_u r = 0" using nf hit(1) payload_at [OF r] by (simp add: no_func_def)
    let ?h = "(se_reqs se1)(c \<mapsto> r\<lparr>r_interrupted := True\<rparr>)"
    obtain s' where s': "find_interrupted ops p (se1, lock SessionMutex s) = Some (True, se1\<lparr>se_reqs := ?h\<rparr>, s')"
      "calls (trace s') = calls (trace s)"
      using find_interrupted_hit [where ops = ops and s = "lock SessionMutex s", OF ok [unfolded hit(1)] q'(1) r, unfolded q'(2),
          OF rr hit(3) one zero, unfolded calls_steps] by (elim exE conjE) (rule that)
    note m = stands_for_mark [OF st1 [unfolded hit(1)] r, unfolded rr, OF hit(3)]
    note k = stands_for_destroy [OF m(1) p(1)]
    show ?thesis
      using m(2) k s' by (simp add: run interrupt_abs_def hit(1) d) blast
  next
    case miss
    then have nP: "u \<notin> fst ` set P" unfolding P view_keys(1) [OF D(1)] by auto
    have "(\<exists>x \<in> set is. r_u (the (se_reqs se1 x)) = u) = (u \<in> snd ` set I)"
      unfolding I view_keys(2) [OF D(2)] by auto
    with find_interrupted_miss [OF ok q'(1), unfolded q'(2), OF miss]
    have f: "find_interrupted ops p (se1, lock SessionMutex s) = Some (u \<in> snd ` set I, se1, lock SessionMutex s)"
      by simp
    show ?thesis
    proof (cases "u \<in> snd ` set I")
      case True
      with stands_for_destroy [OF st1 p(1)] f nP show ?thesis
        by (simp add: run interrupt_abs_def d) blast
    next
      case False
      obtain h where h: "list_add_req p SE_INTERRUPTS (se_reqs se1) = Some h"
        "sess_ok (se1\<lparr>se_reqs := h\<rparr>) xs (is @ [p]) (E - {p})" "payloads h = payloads (se_reqs se1)"
        using sess_ok_add(2) [OF ok p(1)] by (elim exE conjE) (rule that)
      have "stands_for (se1\<lparr>se_reqs := h\<rparr>) xs (is @ [p]) (E - {p}) P (I @ [(r_unique q, u)])"
        using st1 h(2) view_cong [of _ h "se_reqs se1"] unit_counts_upd(1) [OF u1 h(3)] list_all_no_func [OF nf, of h]
          view_Cons(2) [of h p "payload q'" "[]"] payload_at [OF q'(1)] q'(2,3) P I h(3)
        by (simp add: stands_for_def)
      with False f nP h(1) show ?thesis
        by (simp add: run interrupt_abs_def d) blast
    qed
  qed
qed

end
