(* ===== verification/Sample_Os.thy ===== *)
theory Sample_Os
  imports Posix
begin

text \<open>
  A small concrete operating system on which the properties' hypotheses are checked to be satisfiable.
  Every call succeeds, every name below the root names the same regular file, every extended
  attribute is empty and directories have no entries.
\<close>

definition sample_stat :: stat where
  "sample_stat = zero_stat\<lparr>st_dev := 1, st_ino := 7, st_mode := 0x8000, st_nlink := 1, st_size := 100\<rparr>"

definition sample_statvfs :: statvfs where
  "sample_statvfs = \<lparr>vf_bsize = 4096, vf_frsize = 4096, vf_blocks = 0, vf_bfree = 0, vf_bavail = 0,
     vf_files = 0, vf_ffree = 0, vf_namemax = 255\<rparr>"

definition sample_os :: "unit os" where
  "sample_os = \<lparr>
     os_call = (\<lambda>_ w. (Inr 5, w)),
     os_stat = (\<lambda>c w. (Inr (case c of Lstat _ \<Rightarrow> sample_stat\<lparr>st_mode := S_IFDIR\<rparr>
                                    | Fstatat _ \<Rightarrow> sample_stat), w)),
     os_data = (\<lambda>_ w. (Inr [], w)),
     os_readdir = (\<lambda>_ w. (Inr None, w)),
     os_statvfs = (\<lambda>_ w. (Inr sample_statvfs, w)),
     os_alloc = (\<lambda>w. (True, w)),
     os_pipe = (\<lambda>w. (Inr (8, 9), w))\<rparr>"

end
