(* ===== verification/Fuse_Session_Spec.thy ===== *)
theory Fuse_Session_Spec
  imports Fuse_Interrupts Sample_Os
begin

text \<open>
  What libfuse's session promises for every message: requests and interrupts behave as two plain lists, a
  request is answered once and is gone afterwards, and a message that may not be served is answered with
  its error and leaves nothing behind.
\<close>

section \<open>A message becomes a request\<close>

definition message_req :: "fuse_in_header \<Rightarrow> addr \<Rightarrow> fuse_req" where
  "message_req ih p = (fresh_req p)\<lparr>r_unique := ih_unique ih, r_uid := ih_uid ih, r_gid := ih_gid ih, r_pid := ih_pid ih\<rparr>"

definition with_req :: "fuse_in_header \<Rightarrow> fuse_session \<Rightarrow> fuse_session" where
  "with_req ih se = se\<lparr>se_reqs := (se_reqs se)(se_brk se \<mapsto> message_req ih (se_brk se)), se_brk := se_brk se + 1\<rparr>"

lemma with_req_fields [simp]:
  "se_reqs (with_req ih se) = (se_reqs se)(se_brk se \<mapsto> message_req ih (se_brk se))"
  "se_fd (with_req ih se) = se_fd se" "refuse (with_req ih se) = refuse se"
  by (simp_all add: with_req_def refuse_def fun_eq_iff)

lemma message_req_fields [simp]:
  "r_unique (message_req ih p) = ih_unique ih" "r_ctr (message_req ih p) = 1" "r_u (message_req ih p) = 0"
  "\<not> r_interrupted (message_req ih p)"
  by (simp_all add: message_req_def fresh_req_def zero_req_def)

lemma stands_for_message:
  assumes st: "stands_for se xs is E P I"
  shows "stands_for (with_req ih se) xs is (insert (se_brk se) E) P I" and "se_brk se \<notin> E"
proof -
  let ?p = "se_brk se" and ?g = "se_reqs se" and ?h = "se_reqs (with_req ih se)"
  have ok: "sess_ok se xs is E" and u1: "unit_counts ?g" and nf: "list_all (no_func ?g) xs"
    using st by (simp_all add: stands_for_def)
  have b: "q < ?p" if "q \<in> dom ?g" for q using ok that by (simp add: sess_ok_def)
  note D = sess_dom [OF ok]
  show new: "?p \<notin> E" using b D(3) by blast
  have n: "?p \<notin> set xs" "?p \<notin> set is" using b D(1,2) by blast+
  have same: "payloads ?h x = payloads ?g x" if "x \<in> set xs \<or> x \<in> set is" for x using that n by auto
  let ?a = "se\<lparr>se_reqs := ?g(?p \<mapsto> fresh_req ?p), se_brk := ?p + 1\<rparr>"
  have "sess_ok (?a\<lparr>se_reqs := ?h\<rparr>) xs is (insert ?p E)"
    by (rule sess_ok_links [OF sess_ok_alloc [OF ok]]) (auto simp: message_req_def)
  moreover have "?a\<lparr>se_reqs := ?h\<rparr> = with_req ih se" by (simp add: with_req_def)
  ultimately have "sess_ok (with_req ih se) xs is (insert ?p E)" by metis
  moreover have "unit_counts ?h" using unit_counts_upd(3) [OF u1, of ?h ?p "payload (message_req ih ?p)"] by simp
  moreover have "list_all (no_func ?h) xs" by (rule list_all_no_func [OF nf]) (rule same, simp)
  moreover have "view_reqs ?h xs = view_reqs ?g xs" by (rule view_cong(1)) (rule same, simp)
  moreover have "view_intrs ?h is = view_intrs ?g is" by (rule view_cong(2)) (rule same, simp)
  ultimately show "stands_for (with_req ih se) xs is (insert ?p E) P I"
    using st by (simp add: stands_for_def)
qed

text \<open>A message that is not in a pipe, up to the choice of its handler.\<close>

lemma process_message_eq:
  assumes "get_in_header (read_mem s ia n) = Some ih" "b_flags buf AND FUSE_BUF_IS_FD = 0"
    and "alloc os s = (True, s1)"
  shows "process_message os ops buf bufv ia n (se, s) =
    (case refuse se ih of
       Some err \<Rightarrow> ignore_res (fuse_reply_err os (se_brk se) err (with_req ih se, s1))
     | None \<Rightarrow> do {
         (se', s') \<leftarrow> (if ih_opcode ih \<noteq> FUSE_INTERRUPT then enter_req os (se_brk se) (with_req ih se, s1)
                      else Some (with_req ih se, s1));
         dispatch os ops (se_brk se) ih (ia + IN_HEADER_SIZE) (drop IN_HEADER_SIZE (read_mem s' ia n)) buf (se', s') })"
proof -
  have "upd_req (se_brk se) (\<lambda>r. r\<lparr>r_unique := ih_unique ih, r_uid := ih_uid ih, r_gid := ih_gid ih, r_pid := ih_pid ih\<rparr>)
      (se\<lparr>se_reqs := (se_reqs se)(se_brk se \<mapsto> fresh_req (se_brk se)), se_brk := se_brk se + 1\<rparr>) = Some (with_req ih se)"
    by (simp add: upd_req_def with_req_def message_req_def)
  with assms show ?thesis
    by (simp add: process_message_def fuse_ll_alloc_req_eq reply_err_out_def clear_pipe_of_def ignore_res_def
        split: option.splits) (cases "fuse_reply_err os (se_brk se) (the (refuse se ih)) (with_req ih se, s1)"; auto)
qed

lemma alloc_same:
  "alloc os s = (b, s1) \<Longrightarrow> read_mem s1 a n = read_mem s a n \<and> calls (trace s1) = calls (trace s)"
  by (auto simp: alloc_def invoke_def emit_def read_mem_def split: prod.splits)

section \<open>Interrupts and requests\<close>

lemma dispatch_interrupt:
  "ih_opcode ih = FUSE_INTERRUPT \<Longrightarrow> dispatch os ops req ih ia inarg buf st = do_interrupt os ops req (ih_nodeid ih) inarg st"
  by (simp add: dispatch_def fuse_ll_ops_def const_defs)

lemma interrupt_message:
  assumes st: "stands_for se xs is {} P I" and ih: "get_in_header (read_mem s ia n) = Some ih" "ih_opcode ih = FUSE_INTERRUPT"
    and go: "refuse se ih = None" "b_flags buf AND FUSE_BUF_IS_FD = 0" "alloc os s = (True, s1)"
    and u: "get64 (drop IN_HEADER_SIZE (read_mem s ia n)) 0 = Some u"
  shows "\<exists>se' s' is' P' I'. interrupt_abs (ih_unique ih) u P I = (P', I') \<and>
    process_message os ops buf bufv ia n (se, s) = Some (se', s') \<and>
    stands_for se' xs is' {} P' I' \<and> calls (trace s') = calls (trace s)"
proof -
  note m = stands_for_message(1) [OF st, of ih]
  have u': "get64 (drop IN_HEADER_SIZE (read_mem s1 ia n)) 0 = Some u"
    using u alloc_same [OF go(3)] by simp
  have "\<exists>h s' is' P' I'. interrupt_abs (r_unique (message_req ih (se_brk se))) u P I = (P', I') \<and>
    do_interrupt os ops (se_brk se) (ih_nodeid ih) (drop IN_HEADER_SIZE (read_mem s1 ia n)) (with_req ih se, s1) =
      Some (with_req ih se\<lparr>se_reqs := h\<rparr>, s') \<and>
    stands_for (with_req ih se\<lparr>se_reqs := h\<rparr>) xs is' (insert (se_brk se) {} - {se_brk se}) P' I' \<and>
    calls (trace s') = calls (trace s1)"
    by (rule do_interrupt_stands_for [OF m _ _ u']) simp_all
  then show ?thesis
    using ih go alloc_same [OF go(3)] by (simp add: process_message_eq dispatch_interrupt) blast
qed

lemma request_enters:
  assumes st: "stands_for se xs is {} P I"
  shows "\<exists>se' s' is' P' I' ans. enter_abs (ih_unique ih) P I = (P', I', ans) \<and>
    enter_req os (se_brk se) (with_req ih se, s) = Some (se', s') \<and>
    stands_for se' (xs @ [se_brk se]) is' {} P' I' \<and> calls (trace s') = calls (trace s) @ eagain se ans"
proof -
  have "\<exists>h s' is' P' I' ans. enter_abs (r_unique (message_req ih (se_brk se))) P I = (P', I', ans) \<and>
    enter_req os (se_brk se) (with_req ih se, s) = Some (with_req ih se\<lparr>se_reqs := h\<rparr>, s') \<and>
    stands_for (with_req ih se\<lparr>se_reqs := h\<rparr>) (xs @ [se_brk se]) is' (insert (se_brk se) {} - {se_brk se}) P' I' \<and>
    calls (trace s') = calls (trace s) @ eagain (with_req ih se) ans"
    by (rule enter_req_stands_for [OF stands_for_message(1) [OF st]]) simp_all
  moreover have "eagain (with_req ih se) = eagain se"
    by (simp add: eagain_def fun_eq_iff split: option.splits)
  ultimately show ?thesis by simp blast
qed

section \<open>Answers\<close>

lemma stands_for_gone:
  assumes st: "stands_for se xs is E P I" and p: "p \<in> set xs \<or> p \<in> E"
    and h: "sess_ok (se\<lparr>se_reqs := h\<rparr>) (removeAll p xs) is (E - {p})" "payloads h = (payloads (se_reqs se))(p := None)"
  shows "stands_for (se\<lparr>se_reqs := h\<rparr>) (removeAll p xs) is (E - {p}) (view_reqs (se_reqs se) (removeAll p xs)) I"
    and "h p = None"
proof -
  let ?g = "se_reqs se"
  have ok: "sess_ok se xs is E" and u1: "unit_counts ?g" and nf: "list_all (no_func ?g) xs"
    and I: "I = view_intrs ?g is" using st by (simp_all add: stands_for_def)
  note D = sess_dom [OF ok]
  have "p \<notin> set is" using p D(11) [of p] D(12) [of p] by auto
  then have same: "payloads h x = payloads ?g x" if "x \<in> set is \<or> x \<in> set (removeAll p xs)" for x
    using that h(2) by auto
  have "unit_counts h" using unit_counts_upd(2) [OF u1 h(2)] .
  moreover have "list_all (no_func h) (removeAll p xs)"
    by (rule list_all_no_func [of ?g]) (use nf same in \<open>auto simp: list_all_iff\<close>)
  moreover have "view_reqs h (removeAll p xs) = view_reqs ?g (removeAll p xs)"
    by (rule view_cong(1)) (rule same, simp)
  moreover have "view_intrs h is = I" unfolding I by (rule view_cong(2)) (rule same, simp)
  ultimately show "stands_for (se\<lparr>se_reqs := h\<rparr>) (removeAll p xs) is (E - {p}) (view_reqs ?g (removeAll p xs)) I"
    using h(1) by (simp add: stands_for_def)
  show "h p = None" using h(2) payloads_None [of h p] by simp
qed

lemma stands_for_at:
  assumes "stands_for se xs is E P I" "p \<in> set xs \<or> p \<in> E"
  shows "\<exists>r. se_reqs se p = Some r \<and> r_ctr r = 1"
proof -
  have ok: "sess_ok se xs is E" and u1: "unit_counts (se_reqs se)" using assms(1) by (simp_all add: stands_for_def)
  note D = sess_dom [OF ok]
  obtain r where r: "se_reqs se p = Some r" using assms(2) D(1,3) by blast
  have "r_ctr r = 1" using unit_counts_at [OF u1 r] D(4,5,8,9) assms(2) by auto
  with r show ?thesis by blast
qed

lemma stands_for_reply:
  assumes st: "stands_for se xs is E P I" and p: "p \<in> set xs \<or> p \<in> E" "se_reqs se p = Some r"
  shows "\<exists>res se' s'. send_reply_iov os p err iov (se, s) = Some (res, se', s') \<and>
    calls (trace s') = calls (trace s) @ [Writev (se_fd se) (message (clamp_error err) (r_unique r) iov)] \<and>
    stands_for se' (removeAll p xs) is (E - {p}) (view_reqs (se_reqs se) (removeAll p xs)) I \<and> se_reqs se' p = None"
proof -
  have ok: "sess_ok se xs is E" using st by (simp add: stands_for_def)
  have ctr: "r_ctr r = 1" using stands_for_at [OF st p(1)] p(2) by simp
  obtain h res s' where h: "send_reply_iov os p err iov (se, s) = Some (res, se\<lparr>se_reqs := h\<rparr>, s')"
    "sess_ok (se\<lparr>se_reqs := h\<rparr>) (removeAll p xs) is (E - {p})" "payloads h = (payloads (se_reqs se))(p := None)"
    "calls (trace s') = calls (trace s) @ [Writev (se_fd se) (message (clamp_error err) (r_unique r) iov)]"
    using send_reply_iov_ok [where os = os and err = err and iov = iov and s = s, OF ok p(2) ctr p(1)]
    by (elim exE conjE) (rule that)
  show ?thesis using h(1,4) stands_for_gone [OF st p(1) h(2,3)] by simp
qed

lemma refuse_small: "refuse se ih = Some err \<Longrightarrow> clamp_error (- err) = - err"
  by (auto simp: refuse_def clamp_error_def const_defs split: if_splits)

lemma refused_message:
  assumes st: "stands_for se xs is {} P I" and ih: "get_in_header (read_mem s ia n) = Some ih" "refuse se ih = Some err"
    and go: "b_flags buf AND FUSE_BUF_IS_FD = 0" "alloc os s = (True, s1)"
  shows "\<exists>se' s'. process_message os ops buf bufv ia n (se, s) = Some (se', s') \<and> stands_for se' xs is {} P I \<and>
    calls (trace s') = calls (trace s) @ [Writev (se_fd se) (message (- err) (ih_unique ih) [])]"
proof -
  let ?p = "se_brk se"
  have ok: "sess_ok se xs is {}" and P: "P = view_reqs (se_reqs se) xs" using st by (simp_all add: stands_for_def)
  have n: "?p \<notin> set xs" using ok sess_dom(1) [OF ok] by (auto simp: sess_ok_def)
  have "view_reqs ((se_reqs se)(?p \<mapsto> message_req ih ?p)) xs = P"
    unfolding P by (rule view_cong(1)) (use n in auto)
  then obtain res se' s' where "send_reply_iov os ?p (- err) [] (with_req ih se, s1) = Some (res, se', s')"
    "calls (trace s') = calls (trace s1) @ [Writev (se_fd se) (message (- err) (ih_unique ih) [])]"
    "stands_for se' xs is {} P I"
    using stands_for_reply [OF stands_for_message(1) [OF st, of ih], of ?p "message_req ih ?p" os "- err" "[]" s1]
      refuse_small [OF ih(2)] n by auto
  then show ?thesis
    using ih go alloc_same [OF go(2)]
    by (simp add: process_message_eq fuse_reply_err_def send_reply_def ignore_res_def)
qed

section \<open>The properties\<close>

text \<open>A session that has been set up and has no request yet, and a message in memory.\<close>

definition sample_session :: fuse_session where
  "sample_session = (new_session False 0 0 4096)\<lparr>se_got_init := True, se_fd := 3\<rparr>"

definition sample_ih :: "u32 \<Rightarrow> u64 \<Rightarrow> fuse_in_header" where
  "sample_ih opcode uniq = \<lparr>ih_opcode = opcode, ih_unique = uniq, ih_nodeid = 1, ih_uid = 0, ih_gid = 0, ih_pid = 0\<rparr>"

definition sample_message :: "u32 \<Rightarrow> u64 \<Rightarrow> char list \<Rightarrow> char list" where
  "sample_message opcode uniq arg =
     le32 (of_nat (40 + length arg)) @ le32 opcode @ le64 uniq @ le64 1 @ le32 0 @ le32 0 @ le32 0 @ le32 0 @ arg"

definition sample_memory :: "u32 \<Rightarrow> u64 \<Rightarrow> char list \<Rightarrow> unit machine" where
  "sample_memory opcode uniq arg = write_mem 0 (sample_message opcode uniq arg)
     \<lparr>world = (), mem = (\<lambda>_. NUL), brk = 1000, trace = []\<rparr>"

definition sample_mbuf :: fuse_buf where
  "sample_mbuf = \<lparr>b_size = 48, b_flags = 0, b_mem = 0, b_fd = -1, b_pos = 0\<rparr>"

definition sample_ll_ops :: "(unit, unit) fuse_lowlevel_ops" where
  "sample_ll_ops = \<lparr>op_set = [''lookup''], op_run = (\<lambda>req op st. ignore_res (fuse_reply_err sample_os req ENOENT st)),
     op_write_buf = (\<lambda>req ino bufv off fi st. None), op_retrieve_reply = (\<lambda>req cookie ino off bufv st. None),
     op_init = (\<lambda>conn s. Some (conn, s)), op_func = (\<lambda>f req d st. None)\<rparr>"

lemma stands_for_sample: "stands_for sample_session [] [] {} [] []"
proof -
  have "sess_ok sample_session [] [] {}"
    using sess_ok_new [of False 0 0 4096] by (simp add: sess_ok_def sample_session_def)
  then show ?thesis
    by (simp add: stands_for_def unit_counts_def payloads_def sample_session_def new_session_def)
qed

lemma sample_mbuf_mem: "b_flags sample_mbuf AND FUSE_BUF_IS_FD = 0"
  by (simp add: sample_mbuf_def)

lemma sample_alloc: "\<exists>s1. alloc sample_os s = (True, s1)"
  by (simp add: alloc_def invoke_def sample_os_def)

text \<open>
  C16. An interrupt message does on the circular lists of the session what \<^const>\<open>interrupt_abs\<close> does on plain lists:
  the request it names is marked if it is in progress; otherwise the interrupt is kept for a request still
  to come, unless one for the same request is already kept. Nothing is written to the device, walking
  along the lists ends, and no object is leaked or used after its release.
\<close>

theorem interrupt_message_refines:
  assumes "stands_for se xs is {} P I"
    and "get_in_header (read_mem s ia n) = Some ih" "ih_opcode ih = FUSE_INTERRUPT" "refuse se ih = None"
    and "b_flags buf AND FUSE_BUF_IS_FD = 0" "alloc os s = (True, s1)"
    and "get64 (drop IN_HEADER_SIZE (read_mem s ia n)) 0 = Some u"
  shows "\<exists>se' s' is'. process_message os ops buf bufv ia n (se, s) = Some (se', s') \<and>
    stands_for se' xs is' {} (fst (interrupt_abs (ih_unique ih) u P I)) (snd (interrupt_abs (ih_unique ih) u P I)) \<and>
    calls (trace s') = calls (trace s)"
  using interrupt_message [OF assms(1-3,4-7), of ops bufv] by (elim exE conjE) auto

lemma sample_interrupt:
  "get_in_header (read_mem (sample_memory FUSE_INTERRUPT 9 (le64 5)) 0 48) = Some (sample_ih FUSE_INTERRUPT 9)"
  "get64 (drop IN_HEADER_SIZE (read_mem (sample_memory FUSE_INTERRUPT 9 (le64 5)) 0 48)) 0 = Some 5"
  "refuse sample_session (sample_ih FUSE_INTERRUPT 9) = None"
  by code_simp+

theorem interrupt_message_refines_witness:
  "\<exists>se' s' is'. process_message sample_os sample_ll_ops sample_mbuf (FUSE_BUFVEC_INIT 0) 0 48
      (sample_session, sample_memory FUSE_INTERRUPT 9 (le64 5)) = Some (se', s') \<and>
    stands_for se' [] is' {} [] [(9, 5)] \<and> calls (trace s') = []"
proof -
  obtain s1 where a: "alloc sample_os (sample_memory FUSE_INTERRUPT 9 (le64 5)) = (True, s1)"
    using sample_alloc by blast
  have "ih_opcode (sample_ih FUSE_INTERRUPT 9) = FUSE_INTERRUPT" "ih_unique (sample_ih FUSE_INTERRUPT 9) = 9"
    by (simp_all add: sample_ih_def)
  from interrupt_message_refines [OF stands_for_sample sample_interrupt(1) this(1) sample_interrupt(3) sample_mbuf_mem a
      sample_interrupt(2), of sample_ll_ops "FUSE_BUFVEC_INIT 0"] this(2)
  show ?thesis by (simp add: interrupt_abs_def sample_memory_def write_mem_def)
qed

text \<open>
  C17. A request that enters does on the circular lists what \<^const>\<open>enter_abs\<close> does on plain lists: it comes last among the
  requests in progress, marked if an interrupt for it was waiting, which then goes away; otherwise the
  oldest waiting interrupt, if there is one, is answered with \<open>EAGAIN\<close>, in exactly one message under its
  own number, and released.
\<close>

theorem request_enter_refines:
  assumes "stands_for se xs is {} P I" and "enter_abs (ih_unique ih) P I = (P', I', ans)"
  shows "\<exists>se' s' is'. enter_req os (se_brk se) (with_req ih se, s) = Some (se', s') \<and>
    stands_for se' (xs @ [se_brk se]) is' {} P' I' \<and> calls (trace s') = calls (trace s) @ eagain se ans"
  using request_enters [OF assms(1), of ih os s] assms(2) by (elim exE conjE) auto

theorem request_enter_refines_witness:
  "\<exists>se' s' is'. enter_req sample_os (se_brk sample_session)
      (with_req (sample_ih FUSE_LOOKUP 5) sample_session, sample_memory FUSE_LOOKUP 5 []) = Some (se', s') \<and>
    stands_for se' [se_brk sample_session] is' {} [(5, False)] [] \<and> calls (trace s') = []"
proof -
  have "enter_abs (ih_unique (sample_ih FUSE_LOOKUP 5)) [] [] = ([(5, False)], [], None)"
    by (simp add: enter_abs_def sample_ih_def)
  from request_enter_refines [OF stands_for_sample this, of sample_os "sample_memory FUSE_LOOKUP 5 []"]
  show ?thesis by (simp add: eagain_def sample_memory_def write_mem_def)
qed

text \<open>
  C18. An interrupt that overtakes its request is not lost. When the interrupt message is processed first and the
  request it names enters next, the request is marked as interrupted from the start and the session keeps no trace of
  the interrupt.
\<close>

theorem early_interrupt_kept:
  assumes "stands_for se xs is {} P I" and "u \<notin> fst ` set P" "u \<notin> snd ` set I"
    and "get_in_header (read_mem s ia n) = Some ih" "ih_opcode ih = FUSE_INTERRUPT" "refuse se ih = None"
    and "b_flags buf AND FUSE_BUF_IS_FD = 0" "alloc os s = (True, s1)"
    and "get64 (drop IN_HEADER_SIZE (read_mem s ia n)) 0 = Some u" and "ih_unique ih' = u"
    and "process_message os ops buf bufv ia n (se, s) = Some (se1, s2)"
  shows "\<exists>se' s' is'. enter_req os (se_brk se1) (with_req ih' se1, s3) = Some (se', s') \<and>
    stands_for se' (xs @ [se_brk se1]) is' {} (P @ [(u, True)]) I \<and> calls (trace s') = calls (trace s3)"
proof -
  have "interrupt_abs (ih_unique ih) u P I = (P, I @ [(ih_unique ih, u)])"
    using assms(2,3) by (simp add: interrupt_abs_def)
  with interrupt_message [OF assms(1,4-9), of ops bufv] assms(11) obtain is1
    where st: "stands_for se1 xs is1 {} P (I @ [(ih_unique ih, u)])" by auto
  have "enter_abs (ih_unique ih') P (I @ [(ih_unique ih, u)]) = (P @ [(u, True)], I, None)"
    using assms(3,10) remove_intr_at [of u I "ih_unique ih" "[]"] by (simp add: enter_abs_def)
  with request_enters [OF st, of ih' os s3] show ?thesis
    by (elim exE conjE) (auto simp: eagain_def)
qed

definition sample_interrupted :: "(unit, unit) ll option" where
  "sample_interrupted = process_message sample_os sample_ll_ops sample_mbuf (FUSE_BUFVEC_INIT 0) 0 48
      (sample_session, sample_memory FUSE_INTERRUPT 9 (le64 5))"

theorem early_interrupt_kept_witness:
  "\<exists>se1 s2 se' s' is'. sample_interrupted = Some (se1, s2) \<and>
    enter_req sample_os (se_brk se1) (with_req (sample_ih FUSE_LOOKUP 5) se1, s2) = Some (se', s') \<and>
    stands_for se' [se_brk se1] is' {} [(5, True)] [] \<and> calls (trace s') = calls (trace s2)"
proof -
  obtain s1 where a: "alloc sample_os (sample_memory FUSE_INTERRUPT 9 (le64 5)) = (True, s1)"
    using sample_alloc by blast
  have i: "ih_opcode (sample_ih FUSE_INTERRUPT 9) = FUSE_INTERRUPT" "ih_unique (sample_ih FUSE_LOOKUP 5) = 5"
    by (simp_all add: sample_ih_def)
  obtain se1 s2 where r: "sample_interrupted = Some (se1, s2)"
    using interrupt_message [OF stands_for_sample sample_interrupt(1) i(1) sample_interrupt(3) sample_mbuf_mem a
        sample_interrupt(2), of sample_ll_ops "FUSE_BUFVEC_INIT 0", folded sample_interrupted_def]
    by (elim exE conjE) (rule that)
  note k = early_interrupt_kept [OF stands_for_sample _ _ sample_interrupt(1) i(1) sample_interrupt(3) sample_mbuf_mem a
      sample_interrupt(2) i(2) r [unfolded sample_interrupted_def], of s2, simplified]
  show ?thesis using k by (elim exE conjE, intro exI conjI) (rule r)
qed

text \<open>
  C19. A request in progress is answered exactly once. Every answer goes through \<^verbatim>\<open>send_reply_iov\<close>: one \<open>writev\<close> on
  the device with a header that has the length, the error (out-of-range errors become \<open>-ERANGE\<close>) and the
  request's number; the request leaves the list and is released, all others stay; and a second answer to it is a
  use after free.
\<close>

theorem request_answered_once:
  assumes "stands_for se xs is E P I" "p \<in> set xs" "se_reqs se p = Some r"
  shows "\<exists>res se' s'. send_reply_iov os p err iov (se, s) = Some (res, se', s') \<and>
    calls (trace s') = calls (trace s) @ [Writev (se_fd se) (message (clamp_error err) (r_unique r) iov)] \<and>
    stands_for se' (removeAll p xs) is E (view_reqs (se_reqs se) (removeAll p xs)) I \<and>
    (\<forall>err' iov' s2. send_reply_iov os p err' iov' (se', s2) = None)"
proof -
  have "E - {p} = E" using assms(1,2) sess_dom(10) [of se xs "is" E p] by (auto simp: stands_for_def)
  note r = stands_for_reply [OF assms(1) disjI1 [OF assms(2)] assms(3), of os err iov s, unfolded this]
  obtain res se' s' where a: "send_reply_iov os p err iov (se, s) = Some (res, se', s')"
    "calls (trace s') = calls (trace s) @ [Writev (se_fd se) (message (clamp_error err) (r_unique r) iov)]"
    "stands_for se' (removeAll p xs) is E (view_reqs (se_reqs se) (removeAll p xs)) I" "se_reqs se' p = None"
    using r by (elim exE conjE) (rule that)
  then show ?thesis using send_reply_iov_gone [OF a(4)] by (intro exI conjI allI)
qed

theorem request_answered_once_witness:
  "\<exists>se1 s1 p r res se' s'. enter_req sample_os (se_brk sample_session)
      (with_req (sample_ih FUSE_LOOKUP 5) sample_session, sample_memory FUSE_LOOKUP 5 []) = Some (se1, s1) \<and>
    se_reqs se1 p = Some r \<and>
    send_reply_iov sample_os p (- ENOENT) [] (se1, s1) = Some (res, se', s') \<and>
    calls (trace s') = calls (trace s1) @ [Writev (se_fd se1) (message (- ENOENT) (r_unique r) [])] \<and>
    (\<forall>err' iov' s2. send_reply_iov sample_os p err' iov' (se', s2) = None)"
proof -
  obtain se1 s1 is1 P1 I1 where e: "enter_req sample_os (se_brk sample_session)
      (with_req (sample_ih FUSE_LOOKUP 5) sample_session, sample_memory FUSE_LOOKUP 5 []) = Some (se1, s1)"
    "stands_for se1 ([] @ [se_brk sample_session]) is1 {} P1 I1"
    using request_enters [OF stands_for_sample, of "sample_ih FUSE_LOOKUP 5" sample_os "sample_memory FUSE_LOOKUP 5 []"]
    by (elim exE conjE) (rule that)
  then obtain r where r: "se_reqs se1 (se_brk sample_session) = Some r"
    using sess_dom(1) by (fastforce simp: stands_for_def)
  have "clamp_error (- ENOENT) = - ENOENT" by (simp add: clamp_error_def ENOENT_def)
  with request_answered_once [OF e(2) _ r, of sample_os "- ENOENT" "[]" s1] e(1) r
  show ?thesis by (simp only: append_Nil list.set insert_iff simp_thms) blast
qed

text \<open>
  C20. A message that may not be served, because the connection is not set up yet, is set up twice, the user has no
  access or the operation is unknown, is answered with that error in one message under its number; no handler
  runs and the session stays as it was.
\<close>

theorem refused_message_answered:
  assumes "stands_for se xs is {} P I" and "get_in_header (read_mem s ia n) = Some ih" "refuse se ih = Some err"
    and "b_flags buf AND FUSE_BUF_IS_FD = 0" "alloc os s = (True, s1)"
  shows "\<exists>se' s'. process_message os ops buf bufv ia n (se, s) = Some (se', s') \<and> stands_for se' xs is {} P I \<and>
    calls (trace s') = calls (trace s) @ [Writev (se_fd se) (message (- err) (ih_unique ih) [])]"
  using assms by (rule refused_message)

lemma sample_refused:
  "get_in_header (read_mem (sample_memory FUSE_INIT 9 []) 0 40) = Some (sample_ih FUSE_INIT 9)"
  "refuse sample_session (sample_ih FUSE_INIT 9) = Some EIO"
  by code_simp+

theorem refused_message_answered_witness:
  "\<exists>se' s'. process_message sample_os sample_ll_ops sample_mbuf (FUSE_BUFVEC_INIT 0) 0 40
      (sample_session, sample_memory FUSE_INIT 9 []) = Some (se', s') \<and> stands_for se' [] [] {} [] [] \<and>
    calls (trace s') = calls (trace (sample_memory FUSE_INIT 9 [])) @
      [Writev (se_fd sample_session) (message (- EIO) (ih_unique (sample_ih FUSE_INIT 9)) [])]"
proof -
  obtain s1 where a: "alloc sample_os (sample_memory FUSE_INIT 9 []) = (True, s1)"
    using sample_alloc by blast
  show ?thesis
    by (rule refused_message_answered [OF stands_for_sample sample_refused sample_mbuf_mem a])
qed

end
