(* ===== verification/Fuse_Init_Spec.thy ===== *)
theory Fuse_Init_Spec
  imports Fuse_Session_Spec
begin

text \<open>
  What \<^verbatim>\<open>do_init\<close> negotiates: versions, flags that the kernel has offered, and a buffer that holds the
  largest write.
\<close>

section \<open>Flags\<close>

lemma and_nonzero_iff: "x AND y \<noteq> 0 \<longleftrightarrow> (\<exists>n. bit x n \<and> bit y n)" for x y :: u32
proof
  assume "x AND y \<noteq> 0"
  then have "\<exists>n. bit (x AND y) n" by (rule contrapos_np) (rule bit_eqI, simp)
  then show "\<exists>n. bit x n \<and> bit y n" by (simp add: bit_and_iff)
next
  assume "\<exists>n. bit x n \<and> bit y n"
  then obtain n where "bit (x AND y) n" by (auto simp: bit_and_iff)
  then show "x AND y \<noteq> 0" by auto
qed

lemma single_bit: "x AND 2 ^ k \<noteq> 0 \<Longrightarrow> bit (2 ^ k :: u32) n \<Longrightarrow> bit x n" for x :: u32
  unfolding and_nonzero_iff bit_exp_iff by blast

lemma bit_translate:
  "bit (translate tab from to) n \<longleftrightarrow> bit to n \<or> (\<exists>(a, b) \<in> set tab. from AND a \<noteq> 0 \<and> bit b n)"
  by (induction tab "from" to rule: translate.induct) (auto simp: bit_or_iff)

lemma translate_split: "translate tab from (to OR c) = translate tab from to OR c"
  by (rule bit_eqI) (auto simp: bit_translate bit_or_iff)

text \<open>Every capability that is answered with a flag is announced by that flag alone.\<close>

definition announced :: "u32 \<Rightarrow> u32 \<Rightarrow> bool" where
  "announced cap flag \<longleftrightarrow> (\<forall>(f, c) \<in> set capable_flags. c AND cap \<noteq> 0 \<longrightarrow> f = flag)"

lemma want_flags_announced: "\<forall>(cap, flag) \<in> set want_flags. announced cap flag"
  by (simp add: want_flags_def announced_def capable_flags_def const_defs)

lemma capable_and:
  assumes "cap AND (FUSE_CAP_SPLICE_WRITE OR FUSE_CAP_SPLICE_MOVE OR FUSE_CAP_SPLICE_READ OR FUSE_CAP_IOCTL_DIR) = 0"
    and "kernel_capable minor flags AND cap \<noteq> 0" "announced cap flag"
  shows "flags AND flag \<noteq> 0"
proof -
  from assms(2) obtain n where n: "bit (kernel_capable minor flags) n" "bit cap n"
    unfolding and_nonzero_iff by blast
  have "\<not> bit (FUSE_CAP_SPLICE_WRITE OR FUSE_CAP_SPLICE_MOVE OR FUSE_CAP_SPLICE_READ OR FUSE_CAP_IOCTL_DIR) n"
    using assms(1) n(2) and_nonzero_iff by blast
  with n(1) have "bit (translate capable_flags flags 0) n"
    by (auto simp: kernel_capable_def bit_or_iff Let_def split: if_splits)
  then obtain f c where fc: "(f, c) \<in> set capable_flags" "flags AND f \<noteq> 0" "bit c n"
    by (auto simp: bit_translate)
  have "c AND cap \<noteq> 0" unfolding and_nonzero_iff using fc(3) n(2) by blast
  with fc assms(3) show ?thesis by (auto simp: announced_def)
qed

definition POWERS :: "u32 list" where
  "POWERS = map (\<lambda>k. 2 ^ k) [0..<32]"

lemma want_flags_fine:
  "\<forall>(cap, flag) \<in> set want_flags. flag \<in> set POWERS \<and>
     cap AND (FUSE_CAP_SPLICE_WRITE OR FUSE_CAP_SPLICE_MOVE OR FUSE_CAP_SPLICE_READ OR FUSE_CAP_IOCTL_DIR) = 0"
  by code_simp

lemma and_not_zero: "w AND NOT c = 0 \<Longrightarrow> bit w n \<Longrightarrow> bit c n" for w c :: u32
  using and_nonzero_iff [of w "NOT c"] bit_not_iff [of c n] bit_imp_le_length [of w n] by fastforce

lemma init_out_flags:
  "io_flags (init_out se conn flags) =
     translate want_flags (conn_want conn) ((if flags AND FUSE_MAX_PAGES \<noteq> 0 then FUSE_MAX_PAGES else 0) OR FUSE_BIG_WRITES)"
  by (simp add: init_out_def Let_def zero_init_out_def)

lemma answered_flags:
  assumes "conn_want conn AND NOT (kernel_capable minor flags) = 0" "bit (io_flags (init_out se conn flags)) n"
  shows "bit (flags OR FUSE_BIG_WRITES) n"
proof -
  let ?o = "if flags AND FUSE_MAX_PAGES \<noteq> 0 then FUSE_MAX_PAGES else 0"
  consider "bit ?o n" | "bit FUSE_BIG_WRITES n"
    | (want) cap flag where "(cap, flag) \<in> set want_flags" "conn_want conn AND cap \<noteq> 0" "bit flag n"
    using assms(2) unfolding init_out_flags bit_translate bit_or_iff by blast
  then show ?thesis
  proof cases
    case 1
    have e: "FUSE_MAX_PAGES = 2 ^ 22" by (simp add: FUSE_MAX_PAGES_def)
    show ?thesis using 1 single_bit [of flags 22 n, folded e] by (auto simp: bit_or_iff split: if_splits)
  next
    case 2
    then show ?thesis by (simp add: bit_or_iff)
  next
    case want
    obtain m where m: "bit (conn_want conn) m" "bit cap m"
      using want(2) unfolding and_nonzero_iff by blast
    have "bit (kernel_capable minor flags) m" using and_not_zero [OF assms(1) m(1)] .
    with m(2) have "kernel_capable minor flags AND cap \<noteq> 0" unfolding and_nonzero_iff by blast
    with want(1) want_flags_fine want_flags_announced capable_and [of cap minor flags flag]
    have "flags AND flag \<noteq> 0" "flag \<in> set POWERS" by fast+
    with want(3) show ?thesis by (auto simp: POWERS_def bit_or_iff dest: single_bit)
  qed
qed

section \<open>The answer\<close>

lemma fuse_free_req_frame:
  "fuse_free_req p (se, s) = Some (se', s') \<Longrightarrow> (\<exists>h. se' = se\<lparr>se_reqs := h\<rparr>) \<and> calls (trace s') = calls (trace s)"
  unfolding fuse_free_req_def destroy_req_def Let_def by (auto elim!: stepE split: if_splits)

lemma send_reply_iov_frame:
  assumes "send_reply_iov os p err iov (se, s) = Some (res, se', s')"
  shows "\<exists>h r. se' = se\<lparr>se_reqs := h\<rparr> \<and> se_reqs se p = Some r \<and>
    calls (trace s') = calls (trace s) @ [Writev (se_fd se) (message (clamp_error err) (r_unique r) iov)]"
proof -
  from assms obtain r where r: "se_reqs se p = Some r"
    by (cases "se_reqs se p") (simp_all add: send_reply_iov_gone)
  obtain res1 s1 where m: "fuse_send_msg os (clamp_error err) (r_unique r) iov (se, s) = (res1, se, s1)"
    "calls (trace s1) = calls (trace s) @ [Writev (se_fd se) (message (clamp_error err) (r_unique r) iov)]"
    using fuse_send_msg_calls [of os "clamp_error err" "r_unique r" iov se s] by (metis prod_cases3)
  from assms r m(1) have "fuse_free_req p (se, s1) = Some (se', s')"
    by (auto simp: send_reply_iov_def fuse_send_reply_iov_nofree_def clamp_error_def elim!: stepE)
  from fuse_free_req_frame [OF this] m(2) r show ?thesis by auto
qed

lemma ll_set_default_frame [simp]:
  "conn_capable (ll_set_default c cap conn) = conn_capable conn"
  "conn_max_write (ll_set_default c cap conn) = conn_max_write conn"
  by (simp_all add: ll_set_default_def)

lemma default_want_frame [simp]:
  "conn_capable (default_want ops conn) = conn_capable conn" "conn_max_write (default_want ops conn) = conn_max_write conn"
  by (simp_all add: default_want_def Let_def)

lemma background_limits_frame [simp]:
  "conn_want (background_limits conn) = conn_want conn" "conn_max_write (background_limits conn) = conn_max_write conn"
  by (simp_all add: background_limits_def Let_def)

lemma uint_ucast_u32: "uint (ucast (y :: u32) :: u64) = uint y"
proof -
  have "uint y < 2 ^ 32" using uint_bounded [of y] by simp
  then have "uint y < 2 ^ 64" by (rule less_trans) simp
  then show ?thesis by (simp add: unsigned_ucast_eq take_bit_int_eq_self)
qed


lemma ucast_back:
  assumes "x < ucast (y :: u32)"
  shows "ucast (ucast x :: u32) = (x :: u64)"
proof -
  have "uint x < uint y" using assms by (simp add: word_less_def uint_ucast_u32)
  then have "uint x < 2 ^ 32" using uint_bounded [of y] by simp
  then have "uint (ucast x :: u32) = uint x" by (simp add: unsigned_ucast_eq take_bit_int_eq_self)
  then show ?thesis by (intro word_uint_eqI) (simp only: uint_ucast_u32)
qed

lemma max_write_cap_le: "ucast (conn_max_write (max_write_cap n conn)) \<le> n"
  by (auto simp: max_write_cap_def ucast_back)

lemma init_failed_error: "init_failed os req st = Some (se', s') \<Longrightarrow> se_error se' = - EPROTO"
  unfolding init_failed_def by (auto elim!: stepE)

lemma send_reply_ok_frame:
  assumes "ignore_res (send_reply_ok os p arg (se, s)) = Some (se', s')" "arg \<noteq> []"
  shows "\<exists>h uniq. se' = se\<lparr>se_reqs := h\<rparr> \<and> calls (trace s') = calls (trace s) @ [Writev (se_fd se) (message 0 uniq [arg])]"
proof -
  from assms obtain res where "send_reply_iov os p 0 [arg] (se, s) = Some (res, se', s')"
    by (auto simp: ignore_res_def send_reply_ok_def send_reply_def)
  from send_reply_iov_frame [OF this] show ?thesis by (auto simp: clamp_error_def)
qed

lemma init_out_nonempty: "take (init_out_size minor) (init_out_bytes o') \<noteq> []"
proof -
  have "4 \<le> length (init_out_bytes o')" by (simp add: init_out_bytes_def)
  then have "init_out_bytes o' \<noteq> []" by auto
  then show ?thesis by (simp add: init_out_size_def FUSE_COMPAT_INIT_OUT_SIZE_def FUSE_COMPAT_22_INIT_OUT_SIZE_def)
qed

lemma init_bytes_nonempty: "init_out_bytes o' \<noteq> []"
  using init_out_nonempty [of 31 o'] by auto

lemma zero_init_out_bytes: "init_out_bytes zero_init_out = le32 7 @ le32 31 @ replicate 56 NUL"
  by code_simp

lemma init_conn_facts:
  "conn_capable (init_conn ops b minor ra flags conn) = kernel_capable minor flags"
  "ucast (conn_max_write (init_conn ops b minor ra flags conn)) \<le> b - FUSE_BUFFER_HEADER_SIZE"
  by (simp_all add: init_conn_def Let_def max_write_cap_le) (simp add: max_write_cap_def)

lemma ucast_mono_u32: "x \<le> y \<Longrightarrow> (ucast (x :: u32) :: u64) \<le> ucast y"
  by (simp add: word_le_def uint_ucast_u32)

text \<open>
  A set-up that succeeds. The file system's \<^verbatim>\<open>init\<close> may ask for capabilities and for smaller writes, but it does not
  touch what the kernel has announced. What the file system's \<^verbatim>\<open>init\<close> left, and the message that answers:
\<close>

definition modest_init :: "('w, 'x) fuse_lowlevel_ops \<Rightarrow> bool" where
  "modest_init ops \<longleftrightarrow> (\<forall>conn s conn' s'. op_init ops conn s = Some (conn', s') \<longrightarrow>
     conn_capable conn' = conn_capable conn \<and> conn_max_write conn' \<le> conn_max_write conn)"

lemma modestD:
  "op_init ops conn s = Some (conn', s') \<Longrightarrow> modest_init ops \<Longrightarrow>
     conn_capable conn' = conn_capable conn \<and> conn_max_write conn' \<le> conn_max_write conn"
  by (auto simp: modest_init_def)

lemma init_finish_done:
  assumes run: "init_finish os req b minor flags (se, s) = Some (se', s')" "se_error se' \<noteq> - EPROTO"
    and b: "se_bufsize se = b"
  shows "\<exists>se1 uniq conn. conn_want conn AND NOT (conn_capable (se_conn se)) = 0 \<and>
    conn_max_write conn = conn_max_write (se_conn se) \<and> se_conn se' = conn \<and> se_got_init se' = se_got_init se \<and>
    se_bufsize se' = (if ucast (conn_max_write conn) < b - FUSE_BUFFER_HEADER_SIZE
      then ucast (conn_max_write conn) + FUSE_BUFFER_HEADER_SIZE else b) \<and>
    calls (trace s') = calls (trace s) @ [Writev (se_fd se)
      (message 0 uniq [take (init_out_size minor) (init_out_bytes (init_out se1 conn flags))])]"
proof -
  define c where "c = (if conn_proto_minor (se_conn se) \<ge> 13 then background_limits (se_conn se) else se_conn se)"
  have c: "conn_want c = conn_want (se_conn se)" "conn_max_write c = conn_max_write (se_conn se)"
    by (simp_all add: c_def)
  define se1 where "se1 = (if ucast (conn_max_write (se_conn se)) < b - FUSE_BUFFER_HEADER_SIZE
      then se\<lparr>se_bufsize := ucast (conn_max_write (se_conn se)) + FUSE_BUFFER_HEADER_SIZE\<rparr> else se)\<lparr>se_conn := c\<rparr>"
  let ?out = "take (init_out_size minor) (init_out_bytes (init_out se1 c flags))"
  have w: "conn_want (se_conn se) AND NOT (conn_capable (se_conn se)) = 0"
    using run by (auto simp: init_finish_def Let_def split: if_splits dest: init_failed_error)
  have "ignore_res (send_reply_ok os req ?out (se1, s)) = Some (se', s')"
    using run by (auto simp: init_finish_def Let_def c_def se1_def split: if_splits dest: init_failed_error)
  from send_reply_ok_frame [OF this init_out_nonempty] obtain h uniq where
    h: "se' = se1\<lparr>se_reqs := h\<rparr>" "calls (trace s') = calls (trace s) @ [Writev (se_fd se1) (message 0 uniq [?out])]"
    by blast
  have f: "se_fd se1 = se_fd se" "se_conn se1 = c" "se_got_init se1 = se_got_init se"
    "se_bufsize se1 = (if ucast (conn_max_write c) < b - FUSE_BUFFER_HEADER_SIZE
      then ucast (conn_max_write c) + FUSE_BUFFER_HEADER_SIZE else b)"
    using b by (simp_all add: se1_def c)
  show ?thesis
    by (rule exI [of _ se1], rule exI [of _ uniq], rule exI [of _ c]) (use w c h f in simp)
qed

lemma do_init_done:
  assumes arg: "get32 inarg 0 = Some 7" "get32 inarg 4 = Some minor" "get32 inarg 12 = Some flags"
    and run: "do_init os ops req nodeid inarg (se, s) = Some (se', s')" "se_error se' \<noteq> - EPROTO"
    and ops: "modest_init ops"
  shows "\<exists>se1 pre uniq. conn_want (se_conn se') AND NOT (kernel_capable minor flags) = 0 \<and>
    ucast (conn_max_write (se_conn se')) \<le> init_bufsize se minor flags - FUSE_BUFFER_HEADER_SIZE \<and>
    se_bufsize se' = (if ucast (conn_max_write (se_conn se')) < init_bufsize se minor flags - FUSE_BUFFER_HEADER_SIZE
      then ucast (conn_max_write (se_conn se')) + FUSE_BUFFER_HEADER_SIZE else init_bufsize se minor flags) \<and>
    se_got_init se' \<and>
    calls (trace s') = pre @ [Writev (se_fd se)
      (message 0 uniq [take (init_out_size minor) (init_out_bytes (init_out se1 (se_conn se') flags))])]"
proof -
  let ?b = "init_bufsize se minor flags"
  from run(1) arg obtain ra conn0 c1 s1 where
    c1: "(if has_op ops ''init'' then op_init ops (init_conn ops ?b minor ra flags conn0) s
      else Some (init_conn ops ?b minor ra flags conn0, s)) = Some (c1, s1)"
    and fin: "init_finish os req ?b minor flags (se\<lparr>se_bufsize := ?b, se_got_init := True, se_conn := c1\<rparr>, s1) = Some (se', s')"
    by (auto simp: do_init_def Let_def elim!: stepE)
  have k: "conn_capable c1 = kernel_capable minor flags" "conn_max_write c1 \<le> conn_max_write (init_conn ops ?b minor ra flags conn0)"
    using c1 ops init_conn_facts(1) [of ops ?b minor ra flags conn0]
    by (auto dest: modestD split: if_splits)
  have "ucast (conn_max_write c1) \<le> ?b - FUSE_BUFFER_HEADER_SIZE"
    using ucast_mono_u32 [OF k(2)] init_conn_facts(2) by (rule order_trans)
  moreover obtain se1 uniq where "conn_want (se_conn se') AND NOT (conn_capable c1) = 0"
    "conn_max_write (se_conn se') = conn_max_write c1" "se_got_init se'"
    "se_bufsize se' = (if ucast (conn_max_write (se_conn se')) < ?b - FUSE_BUFFER_HEADER_SIZE
      then ucast (conn_max_write (se_conn se')) + FUSE_BUFFER_HEADER_SIZE else ?b)"
    "calls (trace s') = calls (trace s1) @ [Writev (se_fd se)
      (message 0 uniq [take (init_out_size minor) (init_out_bytes (init_out se1 (se_conn se') flags))])]"
    using init_finish_done [OF fin run(2)] by auto
  ultimately show ?thesis
    using k(1) by (intro exI [of _ se1] exI [of _ "calls (trace s1)"] exI [of _ uniq]) simp
qed

section \<open>Success\<close>

text \<open>What is wanted by default is offered, and so the set-up cannot fail on the library's own account.\<close>

definition offered :: "fuse_conn_info \<Rightarrow> bool" where
  "offered conn \<longleftrightarrow> conn_want conn AND NOT (conn_capable conn) = 0"

lemma offered_iff: "offered conn \<longleftrightarrow> (\<forall>n. bit (conn_want conn) n \<longrightarrow> bit (conn_capable conn) n)"
proof
  assume "offered conn"
  then show "\<forall>n. bit (conn_want conn) n \<longrightarrow> bit (conn_capable conn) n"
    using and_not_zero by (auto simp: offered_def)
next
  assume a: "\<forall>n. bit (conn_want conn) n \<longrightarrow> bit (conn_capable conn) n"
  show "offered conn"
  proof (rule ccontr)
    assume "\<not> offered conn"
    then obtain n where "bit (conn_want conn) n" "bit (NOT (conn_capable conn)) n"
      unfolding offered_def and_nonzero_iff by blast
    with a show False by (simp add: bit_not_iff)
  qed
qed

lemma offered_cap:
  assumes "offered conn" "cap \<in> set POWERS" "conn_capable conn AND cap \<noteq> 0"
  shows "offered (conn\<lparr>conn_want := conn_want conn OR cap\<rparr>)"
  using assms single_bit unfolding offered_iff by (auto simp: bit_or_iff POWERS_def)

lemma offered_default: "offered conn \<Longrightarrow> cap \<in> set POWERS \<Longrightarrow> offered (ll_set_default c cap conn)"
  by (simp add: ll_set_default_def offered_cap)

lemma default_caps:
  "\<forall>cap \<in> set [FUSE_CAP_ASYNC_READ, FUSE_CAP_PARALLEL_DIROPS, FUSE_CAP_AUTO_INVAL_DATA, FUSE_CAP_HANDLE_KILLPRIV,
     FUSE_CAP_ASYNC_DIO, FUSE_CAP_IOCTL_DIR, FUSE_CAP_ATOMIC_O_TRUNC, FUSE_CAP_SPLICE_READ, FUSE_CAP_POSIX_LOCKS,
     FUSE_CAP_FLOCK_LOCKS, FUSE_CAP_READDIRPLUS, FUSE_CAP_READDIRPLUS_AUTO, FUSE_CAP_EXPORT_SUPPORT,
     FUSE_CAP_WRITEBACK_CACHE, FUSE_CAP_SPLICE_WRITE]. cap \<in> set POWERS"
  by code_simp

lemma offered_default_want: "offered conn \<Longrightarrow> offered (default_want ops conn)"
  unfolding default_want_def Let_def using default_caps by (simp add: offered_default)

lemma offered_init_conn: "conn_want conn = 0 \<Longrightarrow> offered (init_conn ops b minor ra flags conn)"
proof -
  assume "conn_want conn = 0"
  then have "offered (default_want ops (conn\<lparr>conn_max_readahead := x, conn_capable := y\<rparr>))" for x y
    by (intro offered_default_want) (simp add: offered_def)
  then show ?thesis by (simp add: init_conn_def Let_def max_write_cap_def offered_def)
qed

lemma max_read_frame [simp]:
  "conn_max_read (ll_set_default c cap conn) = conn_max_read conn"
  "conn_max_read (default_want ops conn) = conn_max_read conn"
  "conn_max_read (init_conn ops b minor ra flags conn) = conn_max_read conn"
proof -
  show l: "conn_max_read (ll_set_default c cap conn) = conn_max_read conn" for c cap conn by (simp add: ll_set_default_def)
  show d: "conn_max_read (default_want ops conn) = conn_max_read conn" for conn by (simp add: default_want_def Let_def l)
  show "conn_max_read (init_conn ops b minor ra flags conn) = conn_max_read conn"
    by (simp add: init_conn_def Let_def max_write_cap_def d)
qed

text \<open>
  A file system whose \<^verbatim>\<open>init\<close> asks only for what is offered and leaves the maximal read size alone is
  set up without failing.
\<close>

definition content_init :: "('w, 'x) fuse_lowlevel_ops \<Rightarrow> bool" where
  "content_init ops \<longleftrightarrow> (\<forall>conn s. offered conn \<longrightarrow>
     (\<exists>conn' s'. op_init ops conn s = Some (conn', s') \<and> offered conn' \<and> conn_max_read conn' = conn_max_read conn))"

lemma stands_for_session:
  "stands_for se xs is E P I \<Longrightarrow> se_reqs se' = se_reqs se \<Longrightarrow> se_brk se' = se_brk se \<Longrightarrow> stands_for se' xs is E P I"
  by (simp add: stands_for_def sess_ok_def)

lemma do_init_total:
  assumes st: "stands_for se xs is E P I" and p: "p \<in> set xs \<or> p \<in> E" "se_reqs se p = Some r"
    and arg: "get32 inarg 0 = Some 7" "get32 inarg 4 = Some minor" "get32 inarg 8 = Some ra" "get32 inarg 12 = Some flags"
    and ops: "has_op ops ''init'' \<longrightarrow> content_init ops" and mr: "conn_max_read (se_conn se) = se_max_read_mo se"
  shows "\<exists>se' s'. do_init os ops p nodeid inarg (se, s) = Some (se', s') \<and> se_error se' = se_error se \<and>
    se_got_init se' \<and> stands_for se' (removeAll p xs) is (E - {p}) (view_reqs (se_reqs se) (removeAll p xs)) I"
proof -
  let ?b = "init_bufsize se minor flags"
  let ?ra = "if minor \<ge> 6 then ra else 0"
  let ?c = "init_conn ops ?b minor ?ra flags
    ((se_conn se)\<lparr>conn_proto_major := 7, conn_proto_minor := minor, conn_capable := 0, conn_want := 0\<rparr>)"
  have "offered ?c" by (rule offered_init_conn) simp
  then obtain c1 s1 where c1: "(if has_op ops ''init'' then op_init ops ?c s else Some (?c, s)) = Some (c1, s1)"
    "offered c1" "conn_max_read c1 = se_max_read_mo se"
    using ops mr unfolding content_init_def by (cases "has_op ops ''init''") fastforce+
  define conn where "conn = (if conn_proto_minor c1 \<ge> 13 then background_limits c1 else c1)"
  define se1 where "se1 = (if ucast (conn_max_write c1) < ?b - FUSE_BUFFER_HEADER_SIZE
      then se\<lparr>se_got_init := True, se_bufsize := ucast (conn_max_write c1) + FUSE_BUFFER_HEADER_SIZE, se_conn := conn\<rparr>
      else se\<lparr>se_bufsize := ?b, se_got_init := True, se_conn := conn\<rparr>)"
  let ?out = "take (init_out_size minor) (init_out_bytes (init_out se1 conn flags))"
  have run: "do_init os ops p nodeid inarg (se, s) = ignore_res (send_reply_ok os p ?out (se1, s1))"
  proof -
    have "do_init os ops p nodeid inarg (se, s) =
        init_finish os p ?b minor flags (se\<lparr>se_bufsize := ?b, se_got_init := True, se_conn := c1\<rparr>, s1)"
      using arg c1(1) by (cases "6 \<le> minor"; cases "has_op ops ''init''") (simp_all add: do_init_def Let_def)
    also have "\<dots> = ignore_res (send_reply_ok os p ?out (se1, s1))"
      using c1(2,3) by (simp add: init_finish_def Let_def offered_def conn_def se1_def)
    finally show ?thesis .
  qed
  have f: "se_reqs se1 = se_reqs se" "se_brk se1 = se_brk se" "se_error se1 = se_error se" "se_got_init se1"
    by (simp_all add: se1_def)
  have st1: "stands_for se1 xs is E P I" by (rule stands_for_session [OF st f(1,2)])
  have q: "se_reqs se1 p = Some r" using p(2) f(1) by simp
  obtain res se' s' where r: "send_reply_iov os p 0 [?out] (se1, s1) = Some (res, se', s')"
    "stands_for se' (removeAll p xs) is (E - {p}) (view_reqs (se_reqs se1) (removeAll p xs)) I"
    using stands_for_reply [OF st1 p(1) q, of os 0 "[?out]" s1] by (elim exE conjE) (rule that)
  from send_reply_iov_frame [OF r(1)] obtain h where "se' = se1\<lparr>se_reqs := h\<rparr>" by blast
  then show ?thesis
    using run r init_out_nonempty [of minor] f
    by (simp add: ignore_res_def send_reply_ok_def send_reply_def)
qed

section \<open>The properties\<close>

text \<open>
  C21. The library never turns on what the kernel has not offered. Whatever the file system's \<^verbatim>\<open>init\<close> asks for, if the
  set-up succeeds then every flag in the answer is among the flags of the kernel's message, or is the one for
  big writes that is always set.
\<close>

theorem init_flags_offered:
  assumes "get32 inarg 0 = Some 7" "get32 inarg 4 = Some minor" "get32 inarg 12 = Some flags"
    and "do_init os ops req nodeid inarg (se, s) = Some (se', s')" "se_error se' \<noteq> - EPROTO"
    and "modest_init ops"
  shows "\<exists>out pre uniq. io_flags out AND NOT (flags OR FUSE_BIG_WRITES) = 0 \<and>
    calls (trace s') = pre @ [Writev (se_fd se) (message 0 uniq [take (init_out_size minor) (init_out_bytes out)])]"
proof -
  obtain se1 pre uniq where w: "conn_want (se_conn se') AND NOT (kernel_capable minor flags) = 0"
    and c: "calls (trace s') = pre @ [Writev (se_fd se)
      (message 0 uniq [take (init_out_size minor) (init_out_bytes (init_out se1 (se_conn se') flags))])]"
    using do_init_done [OF assms] by (elim exE conjE) (rule that)
  have "io_flags (init_out se1 (se_conn se') flags) AND NOT (flags OR FUSE_BIG_WRITES) = 0"
    using answered_flags [OF w] and_nonzero_iff bit_not_iff by blast
  with c show ?thesis by blast
qed

lemma init_flags_offered_msg:
  "get32 (le32 7 @ le32 31 @ le32 0 @ le32 f) 0 = Some 7" "get32 (le32 7 @ le32 31 @ le32 0 @ le32 f) 4 = Some 31"
  "get32 (le32 7 @ le32 31 @ le32 0 @ le32 f) 12 = Some f"
  using get32_le32 [of "[]" 0 7 "le32 31 @ le32 0 @ le32 f"] get32_le32 [of "le32 7" 4 31 "le32 0 @ le32 f"]
    get32_le32 [of "le32 7 @ le32 31 @ le32 0" 12 f "[]"] by simp_all

lemma init_msg_readahead: "get32 (le32 7 @ le32 31 @ le32 0 @ le32 f) 8 = Some 0"
  using get32_le32 [of "le32 7 @ le32 31" 8 0 "le32 f"] by simp

definition sample_init :: "(unit, unit) ll option" where
  "sample_init = do_init sample_os sample_ll_ops (se_brk sample_session) 0
     (le32 7 @ le32 31 @ le32 0 @ le32 FUSE_ASYNC_READ) (with_req (sample_ih FUSE_INIT 1) sample_session, sample_memory FUSE_INIT 1 [])"

lemma sample_ll_ops_modest: "modest_init sample_ll_ops"
  by (simp add: modest_init_def sample_ll_ops_def)

lemma sample_init_ok: "\<exists>se' s'. sample_init = Some (se', s') \<and> se_error se' = 0"
proof -
  let ?se = "with_req (sample_ih FUSE_INIT 1) sample_session" and ?p = "se_brk sample_session"
  have st: "stands_for ?se [] [] {?p} [] []" using stands_for_message(1) [OF stands_for_sample] by simp
  have pd: "?p \<in> set [] \<or> ?p \<in> {?p}" and q: "se_reqs ?se ?p = Some (message_req (sample_ih FUSE_INIT 1) ?p)" by simp_all
  have no: "has_op sample_ll_ops ''init'' \<longrightarrow> content_init sample_ll_ops" by (simp add: has_op_def sample_ll_ops_def)
  have mr: "conn_max_read (se_conn ?se) = se_max_read_mo ?se" and e: "se_error ?se = 0"
    by (simp_all add: with_req_def sample_session_def new_session_def zero_conn_def)
  note k = do_init_total [where os = sample_os and nodeid = 0 and s = "sample_memory FUSE_INIT 1 []",
      OF st pd q init_flags_offered_msg(1,2) init_msg_readahead init_flags_offered_msg(3) no mr, unfolded e,
      of FUSE_ASYNC_READ, folded sample_init_def]
  show ?thesis using k by (elim exE conjE) (intro exI conjI)
qed

theorem init_flags_offered_witness:
  "\<exists>se' s' out pre uniq. sample_init = Some (se', s') \<and> io_flags out AND NOT (FUSE_ASYNC_READ OR FUSE_BIG_WRITES) = 0 \<and>
    calls (trace s') = pre @ [Writev (se_fd (with_req (sample_ih FUSE_INIT 1) sample_session))
      (message 0 uniq [take (init_out_size 31) (init_out_bytes out)])]"
proof -
  obtain se' s' where r: "sample_init = Some (se', s')" "se_error se' = 0"
    using sample_init_ok by blast
  have "se_error se' \<noteq> - EPROTO" using r(2) by (simp add: EPROTO_def)
  note k = init_flags_offered [OF init_flags_offered_msg r(1) [unfolded sample_init_def] this sample_ll_ops_modest]
  show ?thesis using k by (elim exE conjE, intro exI conjI) (rule r(1))
qed



text \<open>
  C23. Versions. An older major version is answered with \<open>EPROTO\<close>; a newer one is answered with the version
  7.31 that the library speaks and everything else zero, and the connection stays open for a second attempt: the
  session does not count as set up. In both cases the request is answered and released.
\<close>

theorem init_version:
  assumes "stands_for se xs is E P I" "p \<in> set xs" "se_reqs se p = Some r"
    and "get32 inarg 0 = Some major" "get32 inarg 4 = Some minor" "major \<noteq> 7"
  shows "\<exists>se' s'. do_init os ops p nodeid inarg (se, s) = Some (se', s') \<and> se_got_init se' = se_got_init se \<and>
    se_reqs se' p = None \<and>
    calls (trace s') = calls (trace s) @ [Writev (se_fd se)
      (if major < 7 then message (- EPROTO) (r_unique r) []
       else message 0 (r_unique r) [le32 7 @ le32 31 @ replicate 56 NUL])]"
proof -
  define se1 where "se1 = se\<lparr>se_conn := (se_conn se)\<lparr>conn_proto_major := major, conn_proto_minor := minor,
    conn_capable := 0, conn_want := 0\<rparr>\<rparr>"
  define out where "out = (if major < 7 then [] else [init_out_bytes zero_init_out])"
  let ?e = "if major < 7 then - EPROTO else 0 :: int"
  have f: "se_reqs se1 = se_reqs se" "se_brk se1 = se_brk se" "se_fd se1 = se_fd se" "se_got_init se1 = se_got_init se"
    by (simp_all add: se1_def)
  have run: "do_init os ops p nodeid inarg (se, s) = ignore_res (send_reply_iov os p ?e out (se1, s))"
    using assms(4-6) init_bytes_nonempty
    by (auto simp: do_init_def Let_def se1_def out_def fuse_reply_err_def send_reply_ok_def send_reply_def)
  have c: "clamp_error ?e = ?e" by (simp add: clamp_error_def EPROTO_def)
  have o: "out = (if major < 7 then [] else [le32 7 @ le32 31 @ replicate 56 NUL])"
    by (simp add: out_def zero_init_out_bytes)
  obtain res se' s' where s': "send_reply_iov os p ?e out (se1, s) = Some (res, se', s')" "se_reqs se' p = None"
    "calls (trace s') = calls (trace s) @ [Writev (se_fd se1) (message (clamp_error ?e) (r_unique r) out)]"
    using stands_for_reply [OF stands_for_session [OF assms(1) f(1,2)] disjI1 [OF assms(2)], unfolded f(1), OF assms(3),
        of os ?e out s] by (elim exE conjE) (rule that)
  from send_reply_iov_frame [OF s'(1)] obtain h where "se' = se1\<lparr>se_reqs := h\<rparr>" by blast
  then show ?thesis
    using run s' f c o by (simp add: ignore_res_def)
qed

lemma sample_version_msg: "get32 (le32 8 @ le32 0) 0 = Some 8" "get32 (le32 8 @ le32 0) 4 = Some 0"
  using get32_le32 [of "[]" 0 8 "le32 0"] get32_le32 [of "le32 8" 4 0 "[]"] by simp_all

theorem init_version_witness:
  "\<exists>se1 s1 r se' s'. enter_req sample_os (se_brk sample_session)
      (with_req (sample_ih FUSE_INIT 1) sample_session, sample_memory FUSE_INIT 1 []) = Some (se1, s1) \<and>
    se_reqs se1 (se_brk sample_session) = Some r \<and>
    do_init sample_os sample_ll_ops (se_brk sample_session) 0 (le32 8 @ le32 0) (se1, s1) = Some (se', s') \<and>
    se_got_init se' = se_got_init se1 \<and> se_reqs se' (se_brk sample_session) = None \<and>
    calls (trace s') = calls (trace s1) @ [Writev (se_fd se1) (message 0 (r_unique r) [le32 7 @ le32 31 @ replicate 56 NUL])]"
proof -
  obtain se1 s1 is1 P1 I1 where e: "enter_req sample_os (se_brk sample_session)
      (with_req (sample_ih FUSE_INIT 1) sample_session, sample_memory FUSE_INIT 1 []) = Some (se1, s1)"
    "stands_for se1 ([] @ [se_brk sample_session]) is1 {} P1 I1"
    using request_enters [OF stands_for_sample, of "sample_ih FUSE_INIT 1" sample_os "sample_memory FUSE_INIT 1 []"]
    by (elim exE conjE) (rule that)
  then obtain r where r: "se_reqs se1 (se_brk sample_session) = Some r"
    using sess_dom(1) by (fastforce simp: stands_for_def)
  have p: "se_brk sample_session \<in> set ([] @ [se_brk sample_session])" and n: "(8 :: u32) \<noteq> 7" and l: "\<not> (8 :: u32) < 7"
    by simp_all
  note k = init_version [OF e(2) p r sample_version_msg n, of sample_os sample_ll_ops 0 s1, unfolded if_not_P [OF l]]
  show ?thesis using e(1) r k by blast
qed

lemma set_default_mono: "bit (conn_want conn) n \<Longrightarrow> bit (conn_want (ll_set_default c cap conn)) n"
  by (simp add: ll_set_default_def bit_or_iff)

lemma set_default_hit: "bit cap n \<Longrightarrow> bit (conn_capable conn) n \<Longrightarrow> bit (conn_want (ll_set_default True cap conn)) n"
  using and_nonzero_iff [of "conn_capable conn" cap] by (auto simp: ll_set_default_def bit_or_iff)

lemma default_want_hit:
  assumes "bit (FUSE_CAP_PARALLEL_DIROPS OR FUSE_CAP_HANDLE_KILLPRIV) n" "bit (conn_capable conn) n"
  shows "bit (conn_want (default_want ops conn)) n"
proof -
  from assms(1) consider "bit FUSE_CAP_PARALLEL_DIROPS n" | "bit FUSE_CAP_HANDLE_KILLPRIV n" by (auto simp: bit_or_iff)
  then show ?thesis
    unfolding default_want_def Let_def
    by cases (rule set_default_mono set_default_hit | simp add: assms(2))+
qed

lemma no_flag_bits:
  "FUSE_MAX_PAGES AND (FUSE_PARALLEL_DIROPS OR FUSE_HANDLE_KILLPRIV) = 0"
  "FUSE_BIG_WRITES AND (FUSE_PARALLEL_DIROPS OR FUSE_HANDLE_KILLPRIV) = 0"
  "\<forall>(cap, flag) \<in> set want_flags. flag AND (FUSE_PARALLEL_DIROPS OR FUSE_HANDLE_KILLPRIV) = 0"
  by code_simp+

lemma capable_bits:
  "kernel_capable 31 (FUSE_PARALLEL_DIROPS OR FUSE_HANDLE_KILLPRIV) AND
     (FUSE_CAP_PARALLEL_DIROPS OR FUSE_CAP_HANDLE_KILLPRIV) = FUSE_CAP_PARALLEL_DIROPS OR FUSE_CAP_HANDLE_KILLPRIV"
  by code_simp

lemma init_out_flag_bits: "io_flags (init_out se conn flags) AND (FUSE_PARALLEL_DIROPS OR FUSE_HANDLE_KILLPRIV) = 0"
proof (rule ccontr)
  assume "\<not> ?thesis"
  then obtain n where n: "bit (io_flags (init_out se conn flags)) n" "bit (FUSE_PARALLEL_DIROPS OR FUSE_HANDLE_KILLPRIV) n"
    unfolding and_nonzero_iff by blast
  from n(1) consider "bit FUSE_MAX_PAGES n" | "bit FUSE_BIG_WRITES n" | a b where "(a, b) \<in> set want_flags" "bit b n"
    unfolding init_out_flags bit_translate bit_or_iff by (auto split: if_splits)
  then show False
    by cases (use no_flag_bits n(2) and_nonzero_iff in blast)+
qed

text \<open>
  C24. Two capabilities that are on by default never reach the kernel. When the kernel offers parallel directory
  operations or the handling of set-user-id bits, \<^verbatim>\<open>do_init\<close> puts them among the wanted capabilities, but no answer has their
  flag, whatever the session, the wishes of the file system and the kernel's message.
\<close>

theorem default_capabilities_not_sent:
  "conn_want (init_conn ops bufsize 31 ra (FUSE_PARALLEL_DIROPS OR FUSE_HANDLE_KILLPRIV) conn) AND
     (FUSE_CAP_PARALLEL_DIROPS OR FUSE_CAP_HANDLE_KILLPRIV) = FUSE_CAP_PARALLEL_DIROPS OR FUSE_CAP_HANDLE_KILLPRIV \<and>
   (\<forall>se conn flags. io_flags (init_out se conn flags) AND (FUSE_PARALLEL_DIROPS OR FUSE_HANDLE_KILLPRIV) = 0)"
proof -
  let ?X = "FUSE_CAP_PARALLEL_DIROPS OR FUSE_CAP_HANDLE_KILLPRIV"
  let ?c = "init_conn ops bufsize 31 ra (FUSE_PARALLEL_DIROPS OR FUSE_HANDLE_KILLPRIV) conn"
  have "bit (conn_want ?c) n" if "bit ?X n" for n
  proof -
    have "bit (kernel_capable 31 (FUSE_PARALLEL_DIROPS OR FUSE_HANDLE_KILLPRIV)) n"
      using that capable_bits bit_and_iff by metis
    then show ?thesis by (simp add: init_conn_def Let_def max_write_cap_def default_want_hit [OF that])
  qed
  then have "conn_want ?c AND ?X = ?X" by (intro bit_eqI) (auto simp: bit_and_iff)
  then show ?thesis using init_out_flag_bits by blast
qed

end
