(* ===== verification/Fuse_Message_Spec.thy ===== *)
theory Fuse_Message_Spec
  imports Fuse_Codec Fuse_Init_Spec
begin

text \<open>
  From the bytes of a message to the call of the file system: what the kernel encodes is what the file
  system is asked to do, with the request in the list of those in progress.
\<close>

section \<open>What processing leaves alone\<close>

text \<open>The memory, and what the state of the process has beyond that of the machine.\<close>

definition same_data :: "('w, 'x) machine_scheme \<Rightarrow> ('w, 'x) machine_scheme \<Rightarrow> bool" where
  "same_data s s' \<longleftrightarrow> mem s' = mem s \<and> machine.more s' = machine.more s"

lemma sys_mem: "sys os c s = (r, s') \<Longrightarrow> same_data s s'"
  by (auto simp: same_data_def sys_def invoke_def emit_def split: prod.splits)

lemma lock_mem [simp]: "same_data (lock m s) s' \<longleftrightarrow> same_data s s'" "same_data s (lock m s') \<longleftrightarrow> same_data s s'"
  "same_data (unlock m s) s' \<longleftrightarrow> same_data s s'" "same_data s (unlock m s') \<longleftrightarrow> same_data s s'" "same_data s s"
  by (simp_all add: same_data_def lock_def unlock_def emit_def)

lemma same_data_trans: "same_data s s1 \<Longrightarrow> same_data s1 s' \<Longrightarrow> same_data s s'"
  by (simp add: same_data_def)

lemma fuse_send_msg_mem: "fuse_send_msg os err uniq iov (se, s) = (res, se', s') \<Longrightarrow> same_data s s'"
  by (auto simp: fuse_send_msg_def dest!: sys_mem split: prod.splits)

lemma fuse_free_req_mem: "fuse_free_req p (se, s) = Some (se', s') \<Longrightarrow> same_data s s'"
  unfolding fuse_free_req_def destroy_req_def Let_def by (auto elim!: stepE split: if_splits)

lemma send_reply_iov_mem: "send_reply_iov os p err iov (se, s) = Some (res, se', s') \<Longrightarrow> same_data s s'"
  unfolding send_reply_iov_def fuse_send_reply_iov_nofree_def
  by (auto elim!: stepE dest!: fuse_send_msg_mem fuse_free_req_mem split: prod.splits intro: same_data_trans)

lemma enter_req_mem: "enter_req os p (se, s) = Some (se', s') \<Longrightarrow> same_data s s'"
  unfolding enter_req_def ignore_res_def fuse_reply_err_def send_reply_def
  by (auto elim!: stepE dest!: send_reply_iov_mem split: option.splits)

lemma same_session: "\<exists>h. se = se\<lparr>se_reqs := h\<rparr>"
  by (rule exI [of _ "se_reqs se"]) simp

lemma check_interrupt_frame: "check_interrupt p se = Some (i, se') \<Longrightarrow> \<exists>h. se' = se\<lparr>se_reqs := h\<rparr>"
  unfolding check_interrupt_def upd_req_def
  by (auto elim!: stepE simp: Let_def same_session split: option.splits if_splits)

lemma enter_req_frame: "enter_req os p (se, s) = Some (se', s') \<Longrightarrow> \<exists>h. se' = se\<lparr>se_reqs := h\<rparr>"
  unfolding enter_req_def ignore_res_def fuse_reply_err_def send_reply_def
  by (auto elim!: stepE dest!: check_interrupt_frame send_reply_iov_frame split: option.splits)

lemma read_mem_cong: "same_data s s' \<Longrightarrow> read_mem s' a n = read_mem s a n"
  by (simp add: same_data_def read_mem_def)

lemma stands_for_umask:
  assumes st: "stands_for se xs is E P I" and p: "p \<in> set xs \<or> p \<in> E"
  shows "\<exists>se'. set_umask p um se = Some se' \<and> stands_for se' xs is E P I \<and> (\<exists>h. se' = se\<lparr>se_reqs := h\<rparr>)"
proof -
  have ok: "sess_ok se xs is E" using st by (simp add: stands_for_def)
  obtain r where r: "se_reqs se p = Some r" using stands_for_at [OF st p] by blast
  let ?h = "(se_reqs se)(p \<mapsto> r\<lparr>r_umask := um\<rparr>)"
  have "sess_ok (se\<lparr>se_reqs := ?h\<rparr>) xs is E"
    using upd_req_ok(2) [OF ok r, of "\<lambda>r. r\<lparr>r_umask := um\<rparr>"] by simp
  moreover have pl: "payloads ?h = (payloads (se_reqs se))(p \<mapsto> payload (r\<lparr>r_umask := um\<rparr>))" "payloads (se_reqs se) p = Some (payload r)"
    using payload_at [OF r] by (auto simp: payloads_def fun_eq_iff)
  moreover have "p \<noteq> SE_LIST \<Longrightarrow> p \<noteq> SE_INTERRUPTS \<Longrightarrow> r_ctr r = 1"
    using st pl(2) by (auto simp: stands_for_def unit_counts_def payload_def dest!: spec [of _ p])
  ultimately have "stands_for (se\<lparr>se_reqs := ?h\<rparr>) xs is E P I"
    using st by (auto simp: stands_for_def unit_counts_def no_func_def list_all_iff view_reqs_def view_intrs_def payload_def)
  then show ?thesis using r by (auto simp: set_umask_def)
qed

lemma with_umask_stands:
  assumes "stands_for se xs is E P I" "p \<in> set xs"
  shows "\<exists>se' h. with_umask p m se = Some se' \<and> stands_for se' xs is E P I \<and> se' = se\<lparr>se_reqs := h\<rparr>"
proof (cases "umask_of m")
  case None
  then show ?thesis using assms(1) by (intro exI [of _ se] exI [of _ "se_reqs se"]) (simp add: with_umask_def)
next
  case (Some um)
  then show ?thesis using stands_for_umask [OF assms(1) disjI1 [OF assms(2)], of um] by (auto simp: with_umask_def)
qed

section \<open>From bytes to operations\<close>

lemma process_entered:
  assumes st: "stands_for se xs is {} P I" and bytes: "read_mem s ia n = header_bytes len ih @ arg"
    and op: "ih_opcode ih \<noteq> FUSE_INTERRUPT" "refuse se ih = None"
    and buf: "b_flags buf AND FUSE_BUF_IS_FD = 0" and a: "alloc os s = (True, s1)"
  shows "\<exists>h s' is' P' I' ans. enter_abs (ih_unique ih) P I = (P', I', ans) \<and>
    process_message os ops buf bufv ia n (se, s) =
      dispatch os ops (se_brk se) ih (ia + IN_HEADER_SIZE) arg buf (se\<lparr>se_brk := se_brk se + 1, se_reqs := h\<rparr>, s') \<and>
    stands_for (se\<lparr>se_brk := se_brk se + 1, se_reqs := h\<rparr>) (xs @ [se_brk se]) is' {} P' I' \<and>
    calls (trace s') = calls (trace s) @ eagain se ans \<and> same_data s s'"
proof -
  let ?p = "se_brk se"
  obtain se1 s2 is' P' I' ans where e: "enter_abs (ih_unique ih) P I = (P', I', ans)"
    "enter_req os ?p (with_req ih se, s1) = Some (se1, s2)"
    "stands_for se1 (xs @ [?p]) is' {} P' I'" "calls (trace s2) = calls (trace s1) @ eagain se ans"
    using request_enters [OF st, of ih os s1] by (elim exE conjE) (rule that)
  obtain h1 where "se1 = with_req ih se\<lparr>se_reqs := h1\<rparr>" using enter_req_frame [OF e(2)] by blast
  then have h1: "se1 = se\<lparr>se_brk := ?p + 1, se_reqs := h1\<rparr>" by (simp add: with_req_def)
  have "same_data s s1" using a by (auto simp: same_data_def alloc_def invoke_def emit_def split: prod.splits)
  then have mm: "same_data s s2" using enter_req_mem [OF e(2)] by (rule same_data_trans)
  have "drop IN_HEADER_SIZE (read_mem s2 ia n) = arg"
    by (simp add: read_mem_cong [OF mm] bytes IN_HEADER_SIZE_def)
  moreover have "get_in_header (read_mem s ia n) = Some ih" by (simp add: bytes get_in_header_bytes)
  ultimately have "process_message os ops buf bufv ia n (se, s) =
      dispatch os ops ?p ih (ia + IN_HEADER_SIZE) arg buf (se1, s2)"
    using op buf a e(2) by (simp add: process_message_eq)
  moreover have "calls (trace s2) = calls (trace s) @ eagain se ans" using e(4) alloc_same [OF a] by simp
  ultimately show ?thesis using e(1,3) mm unfolding h1 by blast
qed

lemma process_encoded:
  assumes st: "stands_for se xs is {} P I"
    and bytes: "read_mem s ia n = header_bytes len ih @ in_bytes m" and m: "ih_opcode ih = opcode_of m" "in_fine m"
    and minor: "proto_minor se \<ge> 12"
    and go: "refuse se ih = None" "b_flags buf AND FUSE_BUF_IS_FD = 0" "alloc os s = (True, s1)"
    and op: "has_op ops (op_name (oper_of (ih_nodeid ih) m))"
  shows "\<exists>h s' is' P' I' ans. enter_abs (ih_unique ih) P I = (P', I', ans) \<and>
    process_message os ops buf bufv ia n (se, s) =
      op_run ops (se_brk se) (oper_of (ih_nodeid ih) m) (se\<lparr>se_brk := se_brk se + 1, se_reqs := h\<rparr>, s') \<and>
    stands_for (se\<lparr>se_brk := se_brk se + 1, se_reqs := h\<rparr>) (xs @ [se_brk se]) is' {} P' I' \<and>
    calls (trace s') = calls (trace s) @ eagain se ans \<and> same_data s s'"
proof -
  let ?p = "se_brk se"
  have ni: "ih_opcode ih \<noteq> FUSE_INTERRUPT" using opcode_plain [of m] m(1) by simp
  obtain h1 s2 is' P' I' ans where e: "enter_abs (ih_unique ih) P I = (P', I', ans)"
    "process_message os ops buf bufv ia n (se, s) =
      dispatch os ops ?p ih (ia + IN_HEADER_SIZE) (in_bytes m) buf (se\<lparr>se_brk := ?p + 1, se_reqs := h1\<rparr>, s2)"
    "stands_for (se\<lparr>se_brk := ?p + 1, se_reqs := h1\<rparr>) (xs @ [?p]) is' {} P' I'"
    "calls (trace s2) = calls (trace s) @ eagain se ans" "same_data s s2"
    using process_entered [OF st bytes ni go, of ops bufv] by (elim exE conjE) (rule that)
  let ?se1 = "se\<lparr>se_brk := ?p + 1, se_reqs := h1\<rparr>"
  obtain se' h2 where u: "with_umask ?p m ?se1 = Some se'" "stands_for se' (xs @ [?p]) is' {} P' I'" "se' = ?se1\<lparr>se_reqs := h2\<rparr>"
    using with_umask_stands [OF e(3), of ?p m] by auto
  have se': "se' = se\<lparr>se_brk := ?p + 1, se_reqs := h2\<rparr>" using u(3) by simp
  have "proto_minor ?se1 \<ge> 12" using minor by (simp add: proto_minor_def)
  from dispatch_message [OF m this u(1) op]
  have "process_message os ops buf bufv ia n (se, s) = op_run ops ?p (oper_of (ih_nodeid ih) m) (se', s2)"
    unfolding e(2) .
  then show ?thesis using e(1,4,5) u(2) unfolding se' by blast
qed

lemma process_encoded_write:
  assumes st: "stands_for se xs is {} P I"
    and bytes: "read_mem s ia k = header_bytes len ih @ write_bytes fh off n wfl owner fl @ data"
    and m: "ih_opcode ih = FUSE_WRITE" "b_size buf = 80 + ucast n"
    and minor: "proto_minor se \<ge> 12"
    and go: "refuse se ih = None" "b_flags buf AND FUSE_BUF_IS_FD = 0" "alloc os s = (True, s1)"
    and op: "has_op ops ''write_buf''"
  shows "\<exists>h s' is' P' I' ans. enter_abs (ih_unique ih) P I = (P', I', ans) \<and>
    process_message os ops buf bufv ia k (se, s) =
      map_option snd (op_write_buf ops (se_brk se) (ih_nodeid ih)
        \<lparr>v_idx = 0, v_off = 0, v_buf = [buf\<lparr>b_mem := ia + 80, b_size := ucast n\<rparr>]\<rparr> off
        (fh_info fh\<lparr>fi_writepage := (wfl AND FUSE_WRITE_CACHE \<noteq> 0), fi_lock_owner := owner, fi_flags := fl\<rparr>)
        (se\<lparr>se_brk := se_brk se + 1, se_reqs := h\<rparr>, s')) \<and>
    stands_for (se\<lparr>se_brk := se_brk se + 1, se_reqs := h\<rparr>) (xs @ [se_brk se]) is' {} P' I' \<and>
    calls (trace s') = calls (trace s) @ eagain se ans \<and> same_data s s'"
proof -
  let ?p = "se_brk se"
  have ni: "ih_opcode ih \<noteq> FUSE_INTERRUPT" by (simp add: m(1) FUSE_WRITE_def FUSE_INTERRUPT_def)
  obtain h s2 is' P' I' ans where e: "enter_abs (ih_unique ih) P I = (P', I', ans)"
    "process_message os ops buf bufv ia k (se, s) = dispatch os ops ?p ih (ia + IN_HEADER_SIZE)
      (write_bytes fh off n wfl owner fl @ data) buf (se\<lparr>se_brk := ?p + 1, se_reqs := h\<rparr>, s2)"
    "stands_for (se\<lparr>se_brk := ?p + 1, se_reqs := h\<rparr>) (xs @ [?p]) is' {} P' I'"
    "calls (trace s2) = calls (trace s) @ eagain se ans" "same_data s s2"
    using process_entered [OF st bytes ni go, of ops bufv] by (elim exE conjE) (rule that)
  let ?se1 = "se\<lparr>se_brk := ?p + 1, se_reqs := h\<rparr>"
  have pm: "proto_minor ?se1 \<ge> 12" using minor by (simp add: proto_minor_def)
  have ia: "ia + IN_HEADER_SIZE + 40 = ia + 80" by (simp add: IN_HEADER_SIZE_def)
  note w = dispatch_write [where os = os and req = ?p and ia = "ia + IN_HEADER_SIZE", OF m(1) op go(2) pm m(2), unfolded ia]
  show ?thesis using e(1,3-) unfolding e(2) w by blast
qed

section \<open>The properties\<close>

definition sample_talking :: fuse_session where
  "sample_talking = sample_session\<lparr>se_conn := (se_conn sample_session)\<lparr>conn_proto_minor := 31\<rparr>\<rparr>"

lemma stands_for_talking: "stands_for sample_talking [] [] {} [] []"
  by (rule stands_for_session [OF stands_for_sample]) (simp_all add: sample_talking_def)

text \<open>
  C25. What the kernel encodes is what the file system is asked to do. For each of thirty-three kinds of message,
  whatever its arguments, the session decodes header and argument bytes to the operation the message stands
  for, with the same names, offsets, sizes, flags, times and handles, and calls it once, with the request
  entered in the list of those in progress; the memory and the file system's own state are as before.
\<close>

theorem encoded_message_called:
  assumes "stands_for se xs is {} P I"
    and "read_mem s ia n = header_bytes len ih @ in_bytes m" "ih_opcode ih = opcode_of m" "in_fine m"
    and "proto_minor se \<ge> 12"
    and "refuse se ih = None" "b_flags buf AND FUSE_BUF_IS_FD = 0" "alloc os s = (True, s1)"
    and "has_op ops (op_name (oper_of (ih_nodeid ih) m))"
  shows "\<exists>se' s' is' P' I' ans. enter_abs (ih_unique ih) P I = (P', I', ans) \<and>
    process_message os ops buf bufv ia n (se, s) = op_run ops (se_brk se) (oper_of (ih_nodeid ih) m) (se', s') \<and>
    stands_for se' (xs @ [se_brk se]) is' {} P' I' \<and>
    calls (trace s') = calls (trace s) @ eagain se ans \<and> same_data s s'"
  using process_encoded [OF assms, of bufv] by (elim exE conjE) blast

lemma sample_lookup_message:
  "read_mem (sample_memory FUSE_LOOKUP 5 (name_bytes ''a'')) 0 42 =
     header_bytes 42 (sample_ih FUSE_LOOKUP 5) @ in_bytes (InLookup ''a'')"
  "ih_opcode (sample_ih FUSE_LOOKUP 5) = opcode_of (InLookup ''a'')" "in_fine (InLookup ''a'')"
  "proto_minor sample_talking \<ge> 12" "refuse sample_talking (sample_ih FUSE_LOOKUP 5) = None"
  "has_op sample_ll_ops (op_name (oper_of (ih_nodeid (sample_ih FUSE_LOOKUP 5)) (InLookup ''a'')))"
  by code_simp+

theorem encoded_message_called_witness:
  "\<exists>se' s' is'. process_message sample_os sample_ll_ops sample_mbuf (FUSE_BUFVEC_INIT 0) 0 42
      (sample_talking, sample_memory FUSE_LOOKUP 5 (name_bytes ''a'')) =
        op_run sample_ll_ops (se_brk sample_talking) (OpLookup 1 ''a'') (se', s') \<and>
    stands_for se' [se_brk sample_talking] is' {} [(5, False)] [] \<and> calls (trace s') = []"
proof -
  obtain s1 where a: "alloc sample_os (sample_memory FUSE_LOOKUP 5 (name_bytes ''a'')) = (True, s1)"
    using sample_alloc by blast
  have e: "enter_abs 5 [] [] = ([(5, False)], [], None)" by (simp add: enter_abs_def)
  have ih: "ih_unique (sample_ih FUSE_LOOKUP 5) = 5" "ih_nodeid (sample_ih FUSE_LOOKUP 5) = 1" by (simp_all add: sample_ih_def)
  have t: "trace (sample_memory FUSE_LOOKUP 5 (name_bytes ''a'')) = []" by (simp add: sample_memory_def write_mem_def)
  from encoded_message_called [OF stands_for_talking sample_lookup_message(1-5) sample_mbuf_mem a sample_lookup_message(6),
      of "FUSE_BUFVEC_INIT 0"]
  show ?thesis unfolding ih e by (auto simp: eagain_def t)
qed

text \<open>
  C26. A write hands the data over in place: the file system gets one buffer that starts right behind the header and
  the arguments and has exactly the size the kernel declared, never more than the message holds.
\<close>

theorem encoded_write_called:
  assumes "stands_for se xs is {} P I"
    and "read_mem s ia k = header_bytes len ih @ write_bytes fh off n wfl owner fl @ data"
    and "ih_opcode ih = FUSE_WRITE" "b_size buf = 80 + ucast n"
    and "proto_minor se \<ge> 12"
    and "refuse se ih = None" "b_flags buf AND FUSE_BUF_IS_FD = 0" "alloc os s = (True, s1)"
    and "has_op ops ''write_buf''" and "length data = unat n"
  shows "\<exists>se' s' is' P' I' ans v. enter_abs (ih_unique ih) P I = (P', I', ans) \<and>
    process_message os ops buf bufv ia k (se, s) =
      map_option snd (op_write_buf ops (se_brk se) (ih_nodeid ih) \<lparr>v_idx = 0, v_off = 0, v_buf = [v]\<rparr> off
        (fh_info fh\<lparr>fi_writepage := (wfl AND FUSE_WRITE_CACHE \<noteq> 0), fi_lock_owner := owner, fi_flags := fl\<rparr>) (se', s')) \<and>
    b_flags v = b_flags buf \<and> read_mem s' (b_mem v) (unat (b_size v)) = data \<and>
    stands_for se' (xs @ [se_brk se]) is' {} P' I' \<and> calls (trace s') = calls (trace s) @ eagain se ans"
proof -
  obtain h s' is' P' I' ans where e: "enter_abs (ih_unique ih) P I = (P', I', ans)"
    "process_message os ops buf bufv ia k (se, s) =
      map_option snd (op_write_buf ops (se_brk se) (ih_nodeid ih)
        \<lparr>v_idx = 0, v_off = 0, v_buf = [buf\<lparr>b_mem := ia + 80, b_size := ucast n\<rparr>]\<rparr> off
        (fh_info fh\<lparr>fi_writepage := (wfl AND FUSE_WRITE_CACHE \<noteq> 0), fi_lock_owner := owner, fi_flags := fl\<rparr>)
        (se\<lparr>se_brk := se_brk se + 1, se_reqs := h\<rparr>, s'))"
    "stands_for (se\<lparr>se_brk := se_brk se + 1, se_reqs := h\<rparr>) (xs @ [se_brk se]) is' {} P' I'"
    "calls (trace s') = calls (trace s) @ eagain se ans" "same_data s s'"
    using process_encoded_write [OF assms(1-9), of bufv] by (elim exE conjE) (rule that)
  have "read_mem s' (ia + 80) (unat n) = data"
    using arg_cong [OF assms(2), of "drop 80"] arg_cong [OF assms(2), of length] assms(10) e(5)
    by (simp add: same_data_def read_mem_def drop_map add.assoc)
  moreover have "unat (ucast n :: u64) = unat n" using uint_ucast_u32 [of n] by (simp only: uint_nat of_nat_eq_iff)
  ultimately show ?thesis
    using e(1-4) by (intro exI conjI) (assumption | simp)+
qed

definition sample_write_ops :: "(unit, unit) fuse_lowlevel_ops" where
  "sample_write_ops = sample_ll_ops\<lparr>op_set := [''write_buf''],
     op_write_buf := (\<lambda>req ino bufv off fi st. map_option (\<lambda>st. (bufv, st)) (ignore_res (fuse_reply_err sample_os req EIO st)))\<rparr>"

definition sample_write :: "unit machine" where
  "sample_write = sample_memory FUSE_WRITE 5 (write_bytes 7 100 3 0 0 0 @ ''xyz'')"

definition sample_wbuf :: fuse_buf where
  "sample_wbuf = \<lparr>b_size = 83, b_flags = 0, b_mem = 0, b_fd = -1, b_pos = 0\<rparr>"

lemma sample_write:
  "read_mem sample_write 0 83 = header_bytes 83 (sample_ih FUSE_WRITE 5) @ write_bytes 7 100 3 0 0 0 @ ''xyz''"
  "ih_opcode (sample_ih FUSE_WRITE 5) = FUSE_WRITE" "b_size sample_wbuf = 80 + ucast (3 :: u32)"
  "proto_minor sample_talking \<ge> 12" "refuse sample_talking (sample_ih FUSE_WRITE 5) = None"
  "b_flags sample_wbuf AND FUSE_BUF_IS_FD = 0" "has_op sample_write_ops ''write_buf''" "length ''xyz'' = unat (3 :: u32)"
  by code_simp+

theorem encoded_write_called_witness:
  "\<exists>se' s' is' v. process_message sample_os sample_write_ops sample_wbuf (FUSE_BUFVEC_INIT 0) 0 83 (sample_talking, sample_write) =
      map_option snd (op_write_buf sample_write_ops (se_brk sample_talking) 1 \<lparr>v_idx = 0, v_off = 0, v_buf = [v]\<rparr> 100
        (fh_info 7) (se', s')) \<and>
    read_mem s' (b_mem v) (unat (b_size v)) = ''xyz'' \<and> stands_for se' [se_brk sample_talking] is' {} [(5, False)] []"
proof -
  obtain s1 where a: "alloc sample_os sample_write = (True, s1)" using sample_alloc by blast
  have e: "enter_abs 5 [] [] = ([(5, False)], [], None)" by (simp add: enter_abs_def)
  have ih: "ih_unique (sample_ih FUSE_WRITE 5) = 5" "ih_nodeid (sample_ih FUSE_WRITE 5) = 1" by (simp_all add: sample_ih_def)
  have fi: "fh_info 7\<lparr>fi_writepage := (0 AND FUSE_WRITE_CACHE \<noteq> 0), fi_lock_owner := 0, fi_flags := 0\<rparr> = fh_info 7"
    by (simp add: fh_info_def zero_fi_def)
  from encoded_write_called [OF stands_for_talking sample_write(1-6) a sample_write(7,8), of "FUSE_BUFVEC_INIT 0"]
  show ?thesis unfolding ih e fi by auto
qed

end
