(* ===== verification/Fuse_Serving.thy ===== *)
theory Fuse_Serving
  imports Fuse_Message_Spec Fuse_Loop
begin

text \<open>
  A session serves any message, not only those a sound kernel sends: whatever the bytes, a file system that answers
  every request it is given leaves the list of requests in progress as it found it. The contract
  of such a file system is the locale \<open>answering\<close>; theory \<open>F3_Lowlevel\<close> interprets it with the driver.
\<close>

section \<open>A request is released\<close>

definition released :: "addr \<Rightarrow> fuse_session \<Rightarrow> fuse_session \<Rightarrow> bool" where
  "released p se se' \<longleftrightarrow> (\<forall>xs is E P I. stands_for se xs is E P I \<longrightarrow> p \<in> set xs \<or> p \<in> E \<longrightarrow>
     stands_for se' (removeAll p xs) is (E - {p}) (view_reqs (se_reqs se) (removeAll p xs)) I)"

definition same_reqs :: "fuse_session \<Rightarrow> fuse_session \<Rightarrow> bool" where
  "same_reqs se se' \<longleftrightarrow> se_reqs se' = se_reqs se \<and> se_brk se' = se_brk se"

named_theorems releases

lemma same_reqs_refl [simp]: "same_reqs se se"
  by (simp add: same_reqs_def)

lemma same_reqs_trans: "same_reqs se se1 \<Longrightarrow> same_reqs se1 se' \<Longrightarrow> same_reqs se se'"
  by (simp add: same_reqs_def)

lemma stands_for_same: "stands_for se xs is E P I \<Longrightarrow> same_reqs se se' \<Longrightarrow> stands_for se' xs is E P I"
  by (rule stands_for_session) (simp_all add: same_reqs_def)

lemma same_released: "same_reqs se se1 \<Longrightarrow> released p se1 se' \<Longrightarrow> released p se se'"
  unfolding released_def using stands_for_same by (metis same_reqs_def)

lemma released_same: "released p se se1 \<Longrightarrow> same_reqs se1 se' \<Longrightarrow> released p se se'"
  unfolding released_def using stands_for_same by blast

lemma releasedD:
  "released p se se' \<Longrightarrow> stands_for se xs is E P I \<Longrightarrow> p \<in> set xs \<or> p \<in> E \<Longrightarrow>
   stands_for se' (removeAll p xs) is (E - {p}) (view_reqs (se_reqs se) (removeAll p xs)) I"
  unfolding released_def by blast

lemma send_reply_iov_released [releases]:
  assumes "send_reply_iov os p err iov (se, s) = Some (res, se', s')"
  shows "released p se se'"
  unfolding released_def
proof (intro allI impI)
  fix xs "is" E P I
  assume st: "stands_for se xs is E P I" "p \<in> set xs \<or> p \<in> E"
  obtain r where "se_reqs se p = Some r" using stands_for_at [OF st] by blast
  from stands_for_reply [OF st this, of os err iov s] assms
  show "stands_for se' (removeAll p xs) is (E - {p}) (view_reqs (se_reqs se) (removeAll p xs)) I" by auto
qed

lemma fuse_free_req_released [releases]:
  assumes "fuse_free_req p (se, s) = Some (se', s')"
  shows "released p se se'"
  unfolding released_def
proof (intro allI impI)
  fix xs "is" E P I
  assume st: "stands_for se xs is E P I" "p \<in> set xs \<or> p \<in> E"
  then have ok: "sess_ok se xs is E" by (simp add: stands_for_def)
  obtain r where r: "se_reqs se p = Some r" "r_ctr r = 1" using stands_for_at [OF st] by blast
  obtain h where h: "se' = se\<lparr>se_reqs := h\<rparr>" "sess_ok (se\<lparr>se_reqs := h\<rparr>) (removeAll p xs) is (E - {p})"
    "payloads h = (payloads (se_reqs se))(p := None)"
    using fuse_free_req_ok [OF ok r st(2), of s] assms by auto
  show "stands_for se' (removeAll p xs) is (E - {p}) (view_reqs (se_reqs se) (removeAll p xs)) I"
    unfolding h(1) by (rule stands_for_gone(1) [OF st h(2,3)])
qed

lemma send_reply_released [releases]:
  "send_reply os p err arg (se, s) = Some (res, se', s') \<Longrightarrow> released p se se'"
  by (auto simp: send_reply_def dest: send_reply_iov_released)

lemma send_reply_ok_released [releases]:
  "send_reply_ok os p arg (se, s) = Some (res, se', s') \<Longrightarrow> released p se se'"
  by (auto simp: send_reply_ok_def dest: send_reply_released)

lemma fuse_reply_err_released [releases]:
  "fuse_reply_err os p err (se, s) = Some (res, se', s') \<Longrightarrow> released p se se'"
  by (auto simp: fuse_reply_err_def dest: send_reply_released)

lemma fuse_reply_none_released [releases]:
  "fuse_reply_none p (se, s) = Some (se', s') \<Longrightarrow> released p se se'"
  by (simp add: fuse_reply_none_def fuse_free_req_released)

lemma fuse_reply_open_released [releases]:
  "fuse_reply_open os p f (se, s) = Some (res, se', s') \<Longrightarrow> released p se se'"
  by (auto simp: fuse_reply_open_def dest: send_reply_ok_released)

lemma fuse_reply_statfs_released [releases]:
  "fuse_reply_statfs os p v (se, s) = Some (res, se', s') \<Longrightarrow> released p se se'"
  by (auto simp: fuse_reply_statfs_def Let_def dest: send_reply_ok_released)

lemma ignore_res_Some: "ignore_res x = Some y \<longleftrightarrow> (\<exists>r. x = Some (r, y))"
  by (auto simp: ignore_res_def)

lemma set_umask_released:
  assumes "set_umask p um se = Some se1" "released p se1 se'"
  shows "released p se se'"
  unfolding released_def
proof (intro allI impI)
  fix xs "is" E P I
  assume st: "stands_for se xs is E P I" and p: "p \<in> set xs \<or> p \<in> E"
  have st1: "stands_for se1 xs is E P I" using stands_for_umask [OF st p, of um] assms(1) by auto
  have o: "x \<noteq> p \<Longrightarrow> se_reqs se1 x = se_reqs se x" for x using assms(1) by (auto simp: set_umask_def elim!: stepE)
  have "view_reqs (se_reqs se1) (removeAll p xs) = view_reqs (se_reqs se) (removeAll p xs)"
    by (rule view_cong(1)) (auto simp: payloads_def o)
  then show "stands_for se' (removeAll p xs) is (E - {p}) (view_reqs (se_reqs se) (removeAll p xs)) I"
    using releasedD [OF assms(2) st1 p] by simp
qed

lemma clear_pipe_same: "fuse_ll_clear_pipe os (se, s) = (se', s') \<Longrightarrow> same_reqs se se'"
  by (auto simp: fuse_ll_clear_pipe_def same_reqs_def split: option.splits)

text \<open>A request that is taken and given back in between leaves everything as it was.\<close>

definition kept :: "fuse_session \<Rightarrow> fuse_session \<Rightarrow> bool" where
  "kept se se' \<longleftrightarrow> (\<forall>xs is E P I. stands_for se xs is E P I \<longrightarrow> stands_for se' xs is E P I)"

lemma kept_refl [simp]: "kept se se"
  by (simp add: kept_def)

lemma kept_trans: "kept se se1 \<Longrightarrow> kept se1 se' \<Longrightarrow> kept se se'"
  unfolding kept_def by blast

lemma kept_released:
  assumes "kept se se1" "released p se1 se'"
  shows "released p se se'"
  unfolding released_def
proof (intro allI impI)
  fix xs "is" E P I
  assume st: "stands_for se xs is E P I" "p \<in> set xs \<or> p \<in> E"
  then have st1: "stands_for se1 xs is E P I" using assms(1) unfolding kept_def by blast
  then have "view_reqs (se_reqs se1) xs = view_reqs (se_reqs se) xs" using st(1) by (simp add: stands_for_def)
  then have "view_reqs (se_reqs se1) (removeAll p xs) = view_reqs (se_reqs se) (removeAll p xs)"
    by (induction xs) (auto simp: view_reqs_def)
  then show "stands_for se' (removeAll p xs) is (E - {p}) (view_reqs (se_reqs se) (removeAll p xs)) I"
    using releasedD [OF assms(2) st1 st(2)] by simp
qed

lemma dummy_kept:
  assumes "released (se_brk se) (se\<lparr>se_brk := se_brk se + 1,
    se_reqs := (se_reqs se)(se_brk se \<mapsto> (message_req ih (se_brk se))\<lparr>r_umask := um\<rparr>)\<rparr>) se'" (is "released ?p ?se1 _")
  shows "kept se se'"
  unfolding kept_def
proof (intro allI impI)
  fix xs "is" E P I
  assume st: "stands_for se xs is E P I"
  note m = stands_for_message [OF st]
  obtain se2 where u: "set_umask ?p um (with_req ih se) = Some se2" "stands_for se2 xs is (insert ?p E) P I"
    using stands_for_umask [OF m(1) [of ih], of ?p um] by blast
  have st1: "stands_for ?se1 xs is (insert ?p E) P I"
    by (rule stands_for_same [OF u(2)]) (use u(1) in \<open>auto simp: set_umask_def with_req_def same_reqs_def\<close>)
  have x: "?p \<notin> set xs" using st sess_dom(1) [of se xs "is" E] by (auto simp: stands_for_def sess_ok_def)
  have "stands_for se' (removeAll ?p xs) is (insert ?p E - {?p}) (view_reqs (se_reqs ?se1) (removeAll ?p xs)) I"
    by (rule releasedD [OF assms st1]) simp
  moreover have "view_reqs (se_reqs ?se1) xs = P" using st1 by (simp add: stands_for_def)
  ultimately show "stands_for se' xs is E P I" using x m(2) by simp
qed

section \<open>The ways a message goes\<close>

lemma upd_fresh:
  "upd_req (se_brk se) (\<lambda>r. r\<lparr>r_unique := ih_unique ih, r_uid := ih_uid ih, r_gid := ih_gid ih, r_pid := ih_pid ih\<rparr>)
     (se\<lparr>se_reqs := (se_reqs se)(se_brk se \<mapsto> fresh_req (se_brk se)), se_brk := se_brk se + 1\<rparr>) = Some (with_req ih se)"
  by (simp add: upd_req_def with_req_def message_req_def)

lemma reply_err_out_released: "reply_err_out os p err buf (se, s) = Some (se', s') \<Longrightarrow> released p se se'"
  unfolding reply_err_out_def clear_pipe_of_def
  by (auto elim!: stepE split: if_splits dest!: fuse_reply_err_released clear_pipe_same intro: released_same)

lemma process_message_cases:
  fixes s :: "('w, 'x) machine_scheme"
  assumes run: "process_message os ops buf bufv ia n (se, s) = Some (se', s')"
  obtains (no_memory) ih where "get_in_header (read_mem s ia n) = Some ih" "same_reqs se se'"
  | (refused) ih err s1 where "get_in_header (read_mem s ia n) = Some ih" "refuse se ih = Some err"
      "reply_err_out os (se_brk se) err buf (with_req ih se, s1) = Some (se', s')"
  | (served) ih se1 and s1 s2 :: "('w, 'x) machine_scheme" where "get_in_header (read_mem s ia n) = Some ih" "refuse se ih = None"
      "if ih_opcode ih \<noteq> FUSE_INTERRUPT then enter_req os (se_brk se) (with_req ih se, s1) = Some (se1, s2)
       else se1 = with_req ih se"
      "(\<exists>err s3. reply_err_out os (se_brk se) err buf (se1, s3) = Some (se', s')) \<or>
       (\<exists>ia' inarg s3. dispatch os ops (se_brk se) ih ia' inarg buf (se1, s3) = Some (se', s'))"
proof -
  obtain ih where ih: "get_in_header (read_mem s ia n) = Some ih"
    using run by (auto simp: process_message_def elim!: stepE)
  obtain ok s1 where a: "alloc os s = (ok, s1)" by force
  show thesis
  proof (cases ok)
    case False
    obtain res s2 where m: "fuse_send_msg os (- ENOMEM) (ih_unique ih) [] (se, s1) = (res, se, s2)"
      using fuse_send_msg_calls [of os "- ENOMEM" "ih_unique ih" "[]" se s1] by (metis prod_cases3)
    have "clear_pipe_of os buf (se, s2) = (se', s')"
      using run ih a False m by (simp add: process_message_def fuse_ll_alloc_req_eq)
    then have "same_reqs se se'" by (auto simp: clear_pipe_of_def split: if_splits dest: clear_pipe_same)
    with ih show thesis by (rule no_memory)
  next
    case True
    show thesis
    proof (cases "refuse se ih")
      case (Some err)
      have "reply_err_out os (se_brk se) err buf (with_req ih se, s1) = Some (se', s')"
        using run ih a True Some upd_fresh [of se ih] by (simp add: process_message_def fuse_ll_alloc_req_eq)
      with ih Some show thesis by (rule refused)
    next
      case None
      have "\<exists>se1 s2. (if ih_opcode ih \<noteq> FUSE_INTERRUPT then enter_req os (se_brk se) (with_req ih se, s1) = Some (se1, s2)
           else se1 = with_req ih se) \<and>
        ((\<exists>err s3. reply_err_out os (se_brk se) err buf (se1, s3) = Some (se', s')) \<or>
         (\<exists>ia' inarg s3. dispatch os ops (se_brk se) ih ia' inarg buf (se1, s3) = Some (se', s')))"
      proof (cases "ih_opcode ih = FUSE_INTERRUPT")
        case i: True
        with run ih a True None upd_fresh [of se ih] show ?thesis
          by (simp add: process_message_def fuse_ll_alloc_req_eq) (auto elim!: stepE split: if_splits sum.splits)
      next
        case False
        with run ih a True None upd_fresh [of se ih] show ?thesis
          by (simp add: process_message_def fuse_ll_alloc_req_eq) (fastforce elim!: stepE split: if_splits sum.splits)
      qed
      then obtain se1 s2 where
        "if ih_opcode ih \<noteq> FUSE_INTERRUPT then enter_req os (se_brk se) (with_req ih se, s1) = Some (se1, s2)
         else se1 = with_req ih se"
        "(\<exists>err s3. reply_err_out os (se_brk se) err buf (se1, s3) = Some (se', s')) \<or>
         (\<exists>ia' inarg s3. dispatch os ops (se_brk se) ih ia' inarg buf (se1, s3) = Some (se', s'))"
        by (elim exE conjE) (rule that)
      with ih None show thesis by (rule served)
    qed
  qed
qed

section \<open>Receiving leaves the requests alone\<close>

lemma receive_failed_same: "receive_failed res (se, s) = Some (r, se', s') \<Longrightarrow> same_reqs se se'"
  by (auto simp: receive_failed_def fuse_session_exit_def same_reqs_def split: if_splits sum.splits)

lemma ensure_mem_same: "ensure_mem os buf (se, s) = (b, se', s') \<Longrightarrow> same_reqs se se'"
  by (auto simp: ensure_mem_def Let_def split: if_splits prod.splits)

lemma get_pipe_same: "fuse_ll_get_pipe os (se, s) = (llp, se', s') \<Longrightarrow> same_reqs se se'"
  by (auto simp: fuse_ll_get_pipe_def Let_def same_reqs_def split: option.splits if_splits prod.splits sum.splits)

lemma ensure_pipe_size_same: "ensure_pipe_size os n llp (se, s) = (ok, se', s') \<Longrightarrow> same_reqs se se'"
  by (auto simp: ensure_pipe_size_def Let_def same_reqs_def split: if_splits prod.splits sum.splits)

lemma receive_read_same:
  assumes "receive_read os buf st = Some y"
  shows "same_reqs (fst st) (fst (snd (snd y)))"
  using assms
proof (induction rule: receive_read.raw_induct [rotated, consumes 1, case_names step])
  case (step f os buf st y)
  obtain se s where st: "st = (se, s)" by force
  obtain res s1 where r: "sys_data os (ReadFd (se_fd se) (unat (se_bufsize se))) s = (res, s1)" by force
  from step(2) show ?case
    by (auto simp: st r Let_def split: if_splits option.splits sum.splits dest!: step(1) receive_failed_same)
qed

lemma receive_fallback_same:
  "receive_fallback os buf (se, s) = Some (r, buf', se', s') \<Longrightarrow> same_reqs se se'"
  by (auto simp: receive_fallback_def split: prod.splits option.splits dest!: ensure_mem_same receive_read_same
      intro: same_reqs_trans)

lemma receive_spliced_same:
  "receive_spliced os buf llp n (se, s) = Some (r, buf', se', s') \<Longrightarrow> same_reqs se se'"
  unfolding receive_spliced_def Let_def
  by (auto split: prod.splits option.splits if_splits elim!: stepE dest!: ensure_mem_same clear_pipe_same
      intro: same_reqs_trans)

lemma receive_same:
  assumes "fuse_session_receive_buf_int os buf (se, s) = Some (r, buf', se', s')"
  shows "same_reqs se se'"
proof -
  obtain llp se1 s1 where g: "fuse_ll_get_pipe os (se, s) = (llp, se1, s1)" by (metis prod_cases3)
  have g': "same_reqs se se1" by (rule get_pipe_same [OF g])
  show ?thesis
  proof (cases llp)
    case None
    then show ?thesis using assms g g'
      by (auto simp: fuse_session_receive_buf_int_def split: if_splits dest!: receive_fallback_same intro: same_reqs_trans)
  next
    case (Some p)
    obtain ok se2 s2 where e: "ensure_pipe_size os (se_bufsize se1) p (se1, s1) = (ok, se2, s2)" by (metis prod_cases3)
    have e': "same_reqs se se2" by (rule same_reqs_trans [OF g' ensure_pipe_size_same [OF e]])
    obtain res s3 where r: "sys os (Splice (se_fd se2) None (lp_write p) None (se_bufsize se2) 0) s2 = (res, s3)" by force
    show ?thesis using assms g g' Some e e' r
      by (auto simp: fuse_session_receive_buf_int_def split: if_splits option.splits sum.splits
          dest!: receive_fallback_same receive_failed_same receive_spliced_same intro: same_reqs_trans)
  qed
qed

definition ready :: "fuse_session \<Rightarrow> bool" where
  "ready se \<longleftrightarrow> (\<exists>xs is P I. stands_for se xs is {} P I)"

lemma ready_same: "ready se \<Longrightarrow> same_reqs se se' \<Longrightarrow> ready se'"
  unfolding ready_def using stands_for_same by blast

section \<open>A file system that answers\<close>

text \<open>
  What a session needs of the file system: an operation that returns has released the request it was given, and no
  other. Only \<^verbatim>\<open>destroy\<close> is given no request.
\<close>

locale answering =
  fixes os :: "'w os" and ops :: "('w, 'x) fuse_lowlevel_ops"
  assumes run_released: "op_run ops p op (se, s) = Some (se', s') \<Longrightarrow> op \<noteq> OpDestroy \<Longrightarrow> released p se se'"
    and destroy_same: "op_run ops p OpDestroy (se, s) = Some (se', s') \<Longrightarrow> same_reqs se se'"
    and write_released: "op_write_buf ops p ino bufv off fi (se, s) = Some (bufv', se', s') \<Longrightarrow> released p se se'"
    and retrieve_released:
      "op_retrieve_reply ops p cookie ino off bufv (se, s) = Some (bufv', se', s') \<Longrightarrow> released p se se'"
begin

lemma call_or_err_released:
  "call_or_err os ops name p op err (se, s) = Some (se', s') \<Longrightarrow> op \<noteq> OpDestroy \<Longrightarrow> released p se se'"
  by (auto simp: call_or_err_def ignore_res_Some split: if_splits dest: run_released releases)

lemmas answers = call_or_err_released run_released releases

lemma released_names:
  "do_lookup_ll os ops p nodeid inarg (se, s) = Some (se', s') \<Longrightarrow> released p se se'"
  "do_forget os ops p nodeid inarg (se, s) = Some (se', s') \<Longrightarrow> released p se se'"
  "do_getattr os ops p nodeid inarg (se, s) = Some (se', s') \<Longrightarrow> released p se se'"
  "do_setattr_ll os ops p nodeid inarg (se, s) = Some (se', s') \<Longrightarrow> released p se se'"
  "do_access os ops p nodeid inarg (se, s) = Some (se', s') \<Longrightarrow> released p se se'"
  "do_readlink os ops p nodeid inarg (se, s) = Some (se', s') \<Longrightarrow> released p se se'"
  "do_unlink os ops p nodeid inarg (se, s) = Some (se', s') \<Longrightarrow> released p se se'"
  "do_rmdir os ops p nodeid inarg (se, s) = Some (se', s') \<Longrightarrow> released p se se'"
  "do_symlink os ops p nodeid inarg (se, s) = Some (se', s') \<Longrightarrow> released p se se'"
  "do_rename os ops p nodeid inarg (se, s) = Some (se', s') \<Longrightarrow> released p se se'"
  "do_rename2 os ops p nodeid inarg (se, s) = Some (se', s') \<Longrightarrow> released p se se'"
  "do_link os ops p nodeid inarg (se, s) = Some (se', s') \<Longrightarrow> released p se se'"
  unfolding do_lookup_ll_def do_forget_def do_getattr_def do_setattr_ll_def do_access_def do_readlink_def
    do_unlink_def do_rmdir_def do_symlink_def do_rename_def do_rename2_def do_link_def
  by (auto elim!: stepE simp: ignore_res_Some dest: answers)

lemma released_made:
  "do_mknod os ops p nodeid inarg (se, s) = Some (se', s') \<Longrightarrow> released p se se'"
  "do_mkdir os ops p nodeid inarg (se, s) = Some (se', s') \<Longrightarrow> released p se se'"
  "do_create os ops p nodeid inarg (se, s) = Some (se', s') \<Longrightarrow> released p se se'"
  unfolding do_mknod_def do_mkdir_def do_create_def
  by (auto elim!: stepE simp: ignore_res_Some dest: answers intro: set_umask_released split: if_splits)

lemma released_files:
  "do_open os ops p nodeid inarg (se, s) = Some (se', s') \<Longrightarrow> released p se se'"
  "do_read_ll os ops p nodeid inarg (se, s) = Some (se', s') \<Longrightarrow> released p se se'"
  "do_write os ops p nodeid inarg (se, s) = Some (se', s') \<Longrightarrow> released p se se'"
  "do_flush os ops p nodeid inarg (se, s) = Some (se', s') \<Longrightarrow> released p se se'"
  "do_release os ops p nodeid inarg (se, s) = Some (se', s') \<Longrightarrow> released p se se'"
  "do_fsync os ops p nodeid inarg (se, s) = Some (se', s') \<Longrightarrow> released p se se'"
  "do_opendir os ops p nodeid inarg (se, s) = Some (se', s') \<Longrightarrow> released p se se'"
  "do_readdir_ll os ops p nodeid inarg (se, s) = Some (se', s') \<Longrightarrow> released p se se'"
  "do_readdirplus os ops p nodeid inarg (se, s) = Some (se', s') \<Longrightarrow> released p se se'"
  "do_releasedir os ops p nodeid inarg (se, s) = Some (se', s') \<Longrightarrow> released p se se'"
  "do_fsyncdir os ops p nodeid inarg (se, s) = Some (se', s') \<Longrightarrow> released p se se'"
  "do_statfs os ops p nodeid inarg (se, s) = Some (se', s') \<Longrightarrow> released p se se'"
  unfolding do_open_def do_read_ll_def do_write_def do_flush_def do_release_def do_fsync_def do_opendir_def
    do_readdir_ll_def do_readdirplus_def do_releasedir_def do_fsyncdir_def do_statfs_def
  by (auto elim!: stepE simp: ignore_res_Some dest: answers split: if_splits)

lemma released_attributes:
  "do_setxattr os ops p nodeid inarg (se, s) = Some (se', s') \<Longrightarrow> released p se se'"
  "do_getxattr os ops p nodeid inarg (se, s) = Some (se', s') \<Longrightarrow> released p se se'"
  "do_listxattr os ops p nodeid inarg (se, s) = Some (se', s') \<Longrightarrow> released p se se'"
  "do_removexattr os ops p nodeid inarg (se, s) = Some (se', s') \<Longrightarrow> released p se se'"
  "do_getlk os ops p nodeid inarg (se, s) = Some (se', s') \<Longrightarrow> released p se se'"
  "do_setlk_common os ops p nodeid inarg sl (se, s) = Some (se', s') \<Longrightarrow> released p se se'"
  "do_bmap os ops p nodeid inarg (se, s) = Some (se', s') \<Longrightarrow> released p se se'"
  "do_ioctl os ops p nodeid inarg (se, s) = Some (se', s') \<Longrightarrow> released p se se'"
  "do_poll os ops p nodeid inarg (se, s) = Some (se', s') \<Longrightarrow> released p se se'"
  "do_fallocate os ops p nodeid inarg (se, s) = Some (se', s') \<Longrightarrow> released p se se'"
  "do_copy_file_range os ops p nodeid inarg (se, s) = Some (se', s') \<Longrightarrow> released p se se'"
  "do_lseek os ops p nodeid inarg (se, s) = Some (se', s') \<Longrightarrow> released p se se'"
  unfolding do_setxattr_def do_getxattr_def do_listxattr_def do_removexattr_def do_getlk_def do_setlk_common_def
    do_bmap_def do_ioctl_def do_poll_def do_fallocate_def do_copy_file_range_def do_lseek_def
  by (auto elim!: stepE simp: ignore_res_Some dest: answers split: if_splits)

lemma released_destroy:
  "do_destroy os ops p nodeid inarg (se, s) = Some (se', s') \<Longrightarrow> released p se se'"
  unfolding do_destroy_def
  by (auto elim!: stepE simp: ignore_res_Some same_reqs_def split: if_splits
      intro!: same_released [of se "se\<lparr>se_got_destroy := True\<rparr>"] dest!: destroy_same send_reply_ok_released
      intro: same_released)

lemma released_init_failed: "init_failed os p (se, s) = Some (se', s') \<Longrightarrow> released p se se'"
  unfolding init_failed_def
  by (auto elim!: stepE dest!: fuse_reply_err_released intro: released_same simp: same_reqs_def)

lemma released_init_finish: "init_finish os p bufsize minor flags (se, s) = Some (se', s') \<Longrightarrow> released p se se'"
  unfolding init_finish_def Let_def
  by (auto elim!: stepE simp: ignore_res_Some split: if_splits dest!: released_init_failed send_reply_ok_released
      elim!: same_released [rotated] simp: same_reqs_def)

lemma released_init:
  "do_init os ops p nodeid inarg (se, s) = Some (se', s') \<Longrightarrow> released p se se'"
  unfolding do_init_def Let_def
  by (auto elim!: stepE simp: ignore_res_Some split: if_splits
      dest!: released_init_finish send_reply_ok_released fuse_reply_err_released
      elim!: same_released [rotated] simp: same_reqs_def)

lemma released_write_buf:
  "do_write_buf_ll os ops p nodeid ia inarg ibuf (se, s) = Some (se', s') \<Longrightarrow> released p se se'"
  unfolding do_write_buf_ll_def Let_def
  by (auto elim!: stepE split: if_splits dest!: write_released fuse_reply_err_released clear_pipe_same intro: released_same)

lemma forget_each_kept:
  "forget_each os ops p fs (se, s) = Some (se', s') \<Longrightarrow> kept se se'"
proof (induction fs arbitrary: se s)
  case Nil
  then show ?case by simp
next
  case (Cons f fs)
  obtain ino k where f: "f = (ino, k)" by force
  obtain ok s1 where a: "alloc os s = (ok, s1)" by force
  show ?case
  proof (cases ok)
    case False
    then show ?thesis using Cons.prems a by (simp add: f fuse_ll_alloc_req_eq)
  next
    case True
    let ?p = "se_brk se"
    define d where "d r = (message_req \<lparr>ih_opcode = 0, ih_unique = r_unique r, ih_nodeid = 0, ih_uid = r_uid r,
      ih_gid = r_gid r, ih_pid = r_pid r\<rparr> ?p)\<lparr>r_umask := r_umask r\<rparr>" for r :: fuse_req
    have fresh: "d (fresh_req ?p) = fresh_req ?p" by (simp add: d_def message_req_def)
    obtain r se1 s2 where r: "op_run ops ?p (OpForget ino k)
        (se\<lparr>se_brk := ?p + 1, se_reqs := (se_reqs se)(?p \<mapsto> d r)\<rparr>, s1) = Some (se1, s2)"
      "forget_each os ops p fs (se1, s2) = Some (se', s')"
    proof (cases "p = ?p")
      case True
      then show thesis using Cons.prems a \<open>ok\<close> fresh that [of "fresh_req ?p"]
        by (auto simp: f fuse_ll_alloc_req_eq elim!: stepE)
    next
      case False
      then show thesis using Cons.prems a \<open>ok\<close> that
        by (auto simp: f fuse_ll_alloc_req_eq d_def message_req_def elim!: stepE)
    qed
    have "kept se se1" by (rule dummy_kept [OF run_released [OF r(1) [unfolded d_def]]]) simp
    then show ?thesis using Cons.IH [OF r(2)] by (rule kept_trans)
  qed
qed

lemma released_batch_forget:
  "do_batch_forget os ops p nodeid inarg (se, s) = Some (se', s') \<Longrightarrow> released p se se'"
  unfolding do_batch_forget_def
  by (auto elim!: stepE split: if_splits dest!: forget_each_kept dest: answers kept_released)

lemma func_released:
  assumes "map_of fuse_ll_ops opcode = Some func" "opcode \<noteq> FUSE_INTERRUPT"
    and "func os ops p nodeid inarg (se, s) = Some (se', s')"
  shows "released p se se'"
proof -
  have "(opcode, func) \<in> set fuse_ll_ops" by (rule map_of_SomeD [OF assms(1)])
  then show ?thesis
    using assms(2,3)
    by (auto simp: fuse_ll_ops_def do_setlk_def do_setlkw_def
        dest: released_names released_made released_files released_attributes released_destroy released_init
          released_batch_forget)
qed

lemma dispatch_released:
  "dispatch os ops p ih ia inarg buf (se, s) = Some (se', s') \<Longrightarrow> ih_opcode ih \<noteq> FUSE_INTERRUPT \<Longrightarrow>
   ih_opcode ih \<noteq> FUSE_NOTIFY_REPLY \<Longrightarrow> released p se se'"
  by (auto simp: dispatch_def split: if_splits option.splits dest: released_write_buf func_released)

lemma notify_reply_released:
  assumes "do_notify_reply os ops p nodeid ia inarg buf (se, s) = Some (se', s')"
  shows "released p se se' \<or> same_reqs se se'"
proof -
  have r: "released p se1 se'" if "fuse_ll_retrieve_reply os ops nreq p nodeid ia inarg buf (se1, s1) = Some (se', s')" for se1 s1 nreq
    using that unfolding fuse_ll_retrieve_reply_def Let_def
    by (auto elim!: stepE split: if_splits dest!: retrieve_released fuse_reply_none_released clear_pipe_same
        elim!: released_same simp: same_reqs_def)
  have "same_reqs se (se\<lparr>se_nreqs := h\<rparr>)" for h by (simp add: same_reqs_def)
  then show ?thesis using assms unfolding do_notify_reply_def Let_def
    by (auto elim!: stepE dest!: r intro: same_released split: option.splits)
qed

lemma process_message_keeps:
  assumes st: "stands_for se xs is {} P I" and run: "process_message os ops buf bufv ia n (se, s) = Some (se', s')"
  shows "\<exists>ih xs' is' P' I'. get_in_header (read_mem s ia n) = Some ih \<and> stands_for se' xs' is' {} P' I' \<and>
    (xs' = xs \<or> ih_opcode ih = FUSE_NOTIFY_REPLY \<and> xs' = xs @ [se_brk se])"
  using run
proof (cases rule: process_message_cases)
  case (no_memory ih)
  then show ?thesis using stands_for_same [OF st] by blast
next
  case (refused ih err s1)
  let ?p = "se_brk se"
  have x: "?p \<notin> set xs" using st sess_dom(1) [of se xs "is" "{}"] by (auto simp: stands_for_def sess_ok_def)
  note m = stands_for_message(1) [OF st, of ih]
  from releasedD [OF reply_err_out_released [OF refused(3)] m] x
  have "\<exists>P' I'. stands_for se' xs is {} P' I'" by auto
  with refused(1) show ?thesis by blast
next
  case (served ih se1 s1 s2)
  let ?p = "se_brk se"
  have x: "?p \<notin> set xs" using st sess_dom(1) [of se xs "is" "{}"] by (auto simp: stands_for_def sess_ok_def)
  note m = stands_for_message(1) [OF st, of ih]
  show ?thesis
  proof (cases "ih_opcode ih = FUSE_INTERRUPT")
    case True
    then have se1: "se1 = with_req ih se" using served(3) by simp
    have q: "se_reqs (with_req ih se) ?p = Some (message_req ih ?p)" by simp
    from served(4) have "\<exists>is' P' I'. stands_for se' xs is' {} P' I'"
    proof (elim disjE exE)
      fix err s3
      assume "reply_err_out os ?p err buf (se1, s3) = Some (se', s')"
      from releasedD [OF reply_err_out_released [OF this [unfolded se1]] m] x
      show ?thesis by auto
    next
      fix ia' inarg s3
      assume d: "dispatch os ops ?p ih ia' inarg buf (se1, s3) = Some (se', s')"
      then obtain u where u: "get64 inarg 0 = Some u"
        by (auto simp: dispatch_interrupt [OF True] do_interrupt_def elim!: stepE)
      from do_interrupt_stands_for [OF m _ q u, of os ops "ih_nodeid ih" s3] d se1
      show ?thesis by (auto simp: dispatch_interrupt [OF True])
    qed
    with served(1) show ?thesis by blast
  next
    case False
    then have "enter_req os ?p (with_req ih se, s1) = Some (se1, s2)" using served(3) by simp
    with request_enters [OF st, of ih os s1] obtain is' P' I' where st1: "stands_for se1 (xs @ [?p]) is' {} P' I'" by auto
    have out: "\<exists>P' I'. stands_for se' xs is' {} P' I'" if "released ?p se1 se'"
      using releasedD [OF that st1] x by auto
    show ?thesis
    proof (cases "ih_opcode ih = FUSE_NOTIFY_REPLY")
      case True
      from served(4) have "released ?p se1 se' \<or> same_reqs se1 se'"
        by (auto simp: dispatch_def True FUSE_NOTIFY_REPLY_def FUSE_WRITE_def dest: reply_err_out_released notify_reply_released)
      then show ?thesis using out stands_for_same [OF st1] served(1) True by blast
    next
      case F: False
      from served(4) False F have "released ?p se1 se'"
        by (auto dest: reply_err_out_released dispatch_released)
      then show ?thesis using out served(1) by blast
    qed
  qed
qed

lemma process_buf_ready:
  assumes "ready se" "fuse_session_process_buf_int os ops buf (se, s) = Some (se', s')"
  shows "ready se'"
proof -
  have m: "ready se'" if "process_message os ops buf bufv ia n (se, s1) = Some (se', s')" for bufv ia n s1
    using assms(1) process_message_keeps [OF _ that] unfolding ready_def by blast
  show ?thesis using assms unfolding fuse_session_process_buf_int_def Let_def
    by (auto elim!: stepE split: if_splits prod.splits dest!: m clear_pipe_same dest: ready_same)
qed

lemma loop_from_ready:
  assumes "session_loop_from os' ops' res fbuf st = Some y" "os' = os" "ops' = ops" "ready (fst st)"
  shows "ready (fst (snd y))"
  using assms
proof (induction rule: session_loop_from.raw_induct [rotated, consumes 1, case_names step])
  case (step f os' ops' res fbuf st y)
  obtain se s where st: "st = (se, s)" by force
  show ?case
  proof (cases "fuse_session_exited se")
    case True
    then show ?thesis using step(2,5) by (auto simp: st)
  next
    case False
    then obtain r b se1 s1 where r: "fuse_session_receive_buf_int os fbuf (se, s) = Some (r, b, se1, s1)"
      and go: "(if r = - EINTR then f os ops r b (se1, s1) else if r \<le> 0 then Some (r, se1, s1)
        else do { st \<leftarrow> fuse_session_process_buf_int os ops b (se1, s1); f os ops r b st }) = Some y"
      using step(2-4) by (auto simp: st elim!: stepE)
    have "ready se" using step(5) by (simp add: st)
    then have rd: "ready se1" by (rule ready_same [OF _ receive_same [OF r]])
    have go': "ready (fst (snd y))" if "f os ops r b (se2, s2) = Some y" "ready se2" for se2 s2
      using step(1) [OF that(1)] that(2) by simp
    show ?thesis using go rd
      by (auto split: if_splits elim!: stepE intro: go' process_buf_ready)
  qed
qed

lemma loop_ready:
  assumes "fuse_session_loop os ops (se, s) = Some (r, se', s')" "ready se"
  shows "ready se'"
  using assms unfolding fuse_session_loop_def Let_def
  by (auto elim!: stepE dest!: loop_from_ready intro: ready_same simp: same_reqs_def fuse_session_reset_def)

end

end
