(* ===== verification/Uds_Client.thy ===== *)
theory Uds_Client
  imports Posix
begin

text \<open>
  The client side of the transfer protocol, \<^verbatim>\<open>f3/fuse/uds_client.cc\<close>: the connections to the local
  transfer client and server over Unix domain sockets, the notification that a file has been
  written, and the request for a download. The operations work on any machine (the transfer client
  uses no other state). \<open>None\<close> stands for undefined behaviour: reading past the end of an array.
\<close>

section \<open>Operations\<close>

text \<open>\<open>sizeof(addr.sun_path) - 1\<close>: longer socket paths are cut off by \<open>strncpy\<close>.\<close>

definition SUN_PATH_LEN :: nat where [const_defs]: "SUN_PATH_LEN = 107"

definition setup_conn :: "'w os \<Rightarrow> string \<Rightarrow> ('w, 'x) machine_scheme \<Rightarrow>
    int \<times> ('w, 'x) machine_scheme" where
  "setup_conn os uds_path s =
     (let (r, s) = sys os Socket s in
      case r of Inl e \<Rightarrow> (- e, s)
      | Inr fd \<Rightarrow>
          (let (r, s) = sys os (Connect fd (take SUN_PATH_LEN uds_path)) s in
           case r of Inl e \<Rightarrow> (- e, s) | Inr _ \<Rightarrow> (fd, s)))"

text \<open>\<open>write(fd, buf, len)\<close> out of a local array of \<open>n\<close> bytes that \<open>snprintf\<close> filled with \<open>t\<close>.\<close>

definition write_formatted :: "'w os \<Rightarrow> fdesc \<Rightarrow> nat \<Rightarrow> string \<Rightarrow> ('w, 'x) machine_scheme \<Rightarrow>
    ((errno + int) \<times> ('w, 'x) machine_scheme) option" where
  "write_formatted os fd n t s =
     (if length t \<le> n then Some (sys os (WriteFd fd (take (length t) (snprintf_buf n t))) s)
      else None)"

definition send_fname_done :: "'w os \<Rightarrow> fdesc \<Rightarrow> string \<Rightarrow> ('w, 'x) machine_scheme \<Rightarrow>
    (int \<times> ('w, 'x) machine_scheme) option" where
  "send_fname_done os fd fname s = do {
     (r, s) \<leftarrow> write_formatted os fd PATH_MAX (fname @ ''\<newline>'') s;
     Some (case r of Inl _ \<Rightarrow> -1 | Inr _ \<Rightarrow> 0, s) }"

definition DOWNLOAD_BUF :: nat where [const_defs]: "DOWNLOAD_BUF = 100"

definition download_request :: "string \<Rightarrow> u64 \<Rightarrow> string \<Rightarrow> string" where
  "download_request path end_byte servers =
     path @ '','' @ show_nat (unat end_byte) @ '','' @ servers @ ''\<newline>''"

definition download_file :: "'w os \<Rightarrow> fdesc \<Rightarrow> string \<Rightarrow> string \<Rightarrow> u64 \<Rightarrow>
    ('w, 'x) machine_scheme \<Rightarrow> (int \<times> ('w, 'x) machine_scheme) option" where
  "download_file os fd path servers end_byte s = do {
     (r, s) \<leftarrow> write_formatted os fd DOWNLOAD_BUF (download_request path end_byte servers) s;
     case r of
       Inl e \<Rightarrow> Some (- e, s)
     | Inr _ \<Rightarrow> do {
         let (r, s) = sys_data os (ReadFd fd DOWNLOAD_BUF) s;
         case r of
           Inl e \<Rightarrow> Some (- e, s)
         | Inr bs \<Rightarrow> do {
             let buf = zero_padded DOWNLOAD_BUF bs;
             if buf ! 0 = CHR ''N'' then Some (-1, s)
             else do {
               pos \<leftarrow> cstr (drop 2 buf);
               Some (strtol pos, s) } } } }"

section \<open>Frame\<close>

lemma core_setup_conn [core_dest]: "setup_conn os path s = (r, s') \<Longrightarrow> core s' = core s"
  by (auto simp: setup_conn_def Let_def elim!: stepE dest!: core_dest split: asm_splits)

lemma core_write_formatted [core_dest]: "write_formatted os d n t s = Some (r, s') \<Longrightarrow> core s' = core s"
  by (auto simp: write_formatted_def elim!: stepE dest!: core_dest split: asm_splits)

lemma core_send_fname_done [core_dest]: "send_fname_done os d t s = Some (r, s') \<Longrightarrow> core s' = core s"
  by (auto simp: send_fname_done_def elim!: stepE dest!: core_dest)

lemma core_download_file [core_dest]: "download_file os d p v n s = Some (r, s') \<Longrightarrow> core s' = core s"
  by (auto simp: download_file_def Let_def elim!: stepE dest!: core_dest split: asm_splits)

end
