(* ===== verification/F3_State.thy ===== *)
theory F3_State
  imports Uds_Client
begin

text \<open>
  The state of the F3 driver, \<^verbatim>\<open>f3/fuse/f3.cc\<close>: the \<^verbatim>\<open>Inode\<close> objects, the table \<^verbatim>\<open>fs.inodes\<close> that
  finds them by the identity of the backing file, the open directory handles, the download threads
  that have been started, and the configuration in \<^verbatim>\<open>struct Fs\<close>.

  An \<^verbatim>\<open>Inode\<close> lives in a node of \<^verbatim>\<open>std::unordered_map\<close>, whose address never changes, and that address
  is the inode number the kernel is given. So the objects are kept in a heap from addresses to
  inodes and the table maps to addresses; a new object takes the next unused address. Following an
  address whose object is gone, and \<^verbatim>\<open>abort()\<close>, end the run: \<open>None\<close>.
\<close>

section \<open>Data\<close>

type_synonym srcid = "u64 \<times> u64"

record inode =
  i_fd :: fdesc
  i_id_fd :: fdesc
  i_src_dev :: u64
  i_src_ino :: u64
  i_generation :: u32
  i_nopen :: u64
  i_nlookup :: u64
  i_is_id :: bool
  i_needs_download :: bool
  i_bytes_downloaded :: u64
  i_servers :: "string option"
  i_fname :: "string option"
  i_client_fd :: "fdesc option"
  i_download_done :: bool
  i_size :: u64
  i_target_size :: u64

text \<open>The default constructor; the members it leaves uninitialised are \<open>None\<close>.\<close>

definition new_inode :: inode where
  "new_inode = \<lparr>i_fd = -1, i_id_fd = -1, i_src_dev = 0, i_src_ino = 0, i_generation = 0,
     i_nopen = 0, i_nlookup = 0, i_is_id = False, i_needs_download = False,
     i_bytes_downloaded = 0, i_servers = None, i_fname = None, i_client_fd = None,
     i_download_done = False, i_size = 0, i_target_size = 0\<rparr>"

definition INODE :: "inode \<Rightarrow> fdesc" where
  "INODE i = (if i_is_id i then i_id_fd i else i_fd i)"

record dirhandle =
  dh_dp :: "int option"
  dh_offset :: u64

record download_info =
  dl_fd :: fdesc
  dl_path :: string
  dl_servers :: string
  dl_end_byte :: u64
  dl_done :: addr

record 'w f3 = "'w machine" +
  inodes :: "srcid \<rightharpoonup> addr"
  heap :: "addr \<rightharpoonup> inode"
  dirs :: "addr \<rightharpoonup> dirhandle"
  next_addr :: addr
  threads :: "download_info list"
  timeout :: rat
  source :: string
  idroot :: string
  fs_src_dev :: u64
  nosplice :: bool
  address :: string
  server_fd :: fdesc
  client_uds_path :: string

text \<open>
  The object \<^verbatim>\<open>fs.root\<close> is static; its address is some number that is neither \<open>NULL\<close> nor the inode
  number \<^const>\<open>FUSE_ROOT_ID\<close> under which the kernel knows it.
\<close>

definition root_addr :: addr where
  "root_addr = 2"

section \<open>Inode objects\<close>

definition deref :: "addr \<Rightarrow> ('w, 'x) f3_scheme \<Rightarrow> inode option" where
  "deref p s = heap s p"

definition put_inode :: "addr \<Rightarrow> inode \<Rightarrow> ('w, 'x) f3_scheme \<Rightarrow> ('w, 'x) f3_scheme" where
  "put_inode p i s = s\<lparr>heap := (heap s)(p \<mapsto> i)\<rparr>"

definition upd_inode :: "addr \<Rightarrow> (inode \<Rightarrow> inode) \<Rightarrow> ('w, 'x) f3_scheme \<Rightarrow> ('w, 'x) f3_scheme" where
  "upd_inode p f s = s\<lparr>heap := (heap s)(p := map_option f (heap s p))\<rparr>"

definition get_inode :: "addr \<Rightarrow> ('w, 'x) f3_scheme \<Rightarrow> addr option" where
  "get_inode ino s =
     (if ino = FUSE_ROOT_ID then Some root_addr
      else do {
        i \<leftarrow> deref ino s;
        if i_fd i = -1 then None else Some ino })"

definition get_fs_fd :: "addr \<Rightarrow> ('w, 'x) f3_scheme \<Rightarrow> fdesc option" where
  "get_fs_fd ino s = do { p \<leftarrow> get_inode ino s; i \<leftarrow> deref p s; Some (i_fd i) }"

definition get_fs_id_fd :: "addr \<Rightarrow> ('w, 'x) f3_scheme \<Rightarrow> fdesc option" where
  "get_fs_id_fd ino s = do { p \<leftarrow> get_inode ino s; i \<leftarrow> deref p s; Some (i_id_fd i) }"

text \<open>\<open>fs.inodes[id]\<close>: the object of \<open>id\<close>, made by the default constructor if there is none.\<close>

definition inodes_at :: "srcid \<Rightarrow> ('w, 'x) f3_scheme \<Rightarrow> addr \<times> ('w, 'x) f3_scheme" where
  "inodes_at k s = (case inodes s k of
       Some p \<Rightarrow> (p, s)
     | None \<Rightarrow> (next_addr s, s\<lparr>inodes := (inodes s)(k \<mapsto> next_addr s),
                               heap := (heap s)(next_addr s \<mapsto> new_inode),
                               next_addr := Suc (next_addr s)\<rparr>))"

text \<open>
  \<open>fs.inodes.erase(id)\<close>: the destructor \<^verbatim>\<open>~Inode\<close> closes \<open>fd\<close> (and only \<open>fd\<close>) if it is positive.
\<close>

definition inodes_erase :: "'w os \<Rightarrow> srcid \<Rightarrow> ('w, 'x) f3_scheme \<Rightarrow> ('w, 'x) f3_scheme" where
  "inodes_erase os k s = (case inodes s k of
       None \<Rightarrow> s
     | Some p \<Rightarrow>
         let s' = s\<lparr>inodes := (inodes s)(k := None), heap := (heap s)(p := None)\<rparr> in
         case heap s p of
           Some i \<Rightarrow> if i_fd i > 0 then sys_ignore os (Close (i_fd i)) s' else s'
         | None \<Rightarrow> s')"

section \<open>Replies\<close>

definition reply :: "reply \<Rightarrow> ('w, 'x) machine_scheme \<Rightarrow> ('w, 'x) machine_scheme" where
  "reply r = emit (Reply r)"

text \<open>The macro \<^verbatim>\<open>F3_REPLY_ERR\<close>: both of its branches reply with the given error (one also logs it).\<close>

definition F3_REPLY_ERR :: "errno \<Rightarrow> ('w, 'x) machine_scheme \<Rightarrow> ('w, 'x) machine_scheme" where
  "F3_REPLY_ERR err = reply (ReplyErr err)"

section \<open>Frame\<close>

text \<open>A function that keeps \<^const>\<open>core\<close> keeps every component of the driver's state.\<close>

lemma core_f3: 
  fixes s s' :: "('w, 'x) f3_scheme"
  assumes "core s' = core s"
  shows "heap s' = heap s" "inodes s' = inodes s" "dirs s' = dirs s" "next_addr s' = next_addr s"
    "threads s' = threads s" "timeout s' = timeout s" "fs_src_dev s' = fs_src_dev s" "nosplice s' = nosplice s"
    "address s' = address s" "server_fd s' = server_fd s" "client_uds_path s' = client_uds_path s"
    "source s' = source s" "idroot s' = idroot s" "f3.more s' = f3.more s"
  using assms by (cases s; cases s'; simp add: core_def)+

lemma replies_steps [simp]:
  "replies (trace (reply r s)) = replies (trace s) @ [r]"
  "replies (trace (F3_REPLY_ERR e s)) = replies (trace s) @ [ReplyErr e]"
  "replies (trace (lock m s)) = replies (trace s)"
  "replies (trace (unlock m s)) = replies (trace s)"
  "replies (trace (sys_ignore os c s)) = replies (trace s)"
  by (simp_all add: reply_def F3_REPLY_ERR_def lock_def unlock_def emit_def core_replies [OF core_sys_ignore])

lemma replies_steps_f3 [simp]:
  "replies (trace (upd_inode p f t)) = replies (trace t)"
  "replies (trace (put_inode p i t)) = replies (trace t)"
  by (simp_all add: upd_inode_def put_inode_def)

lemma replies_inodes_at [reply_dest]: "inodes_at k s = (p, s') \<Longrightarrow> replies (trace s') = replies (trace s)"
  by (auto simp: inodes_at_def split: option.splits)

lemma replies_inodes_erase [simp]: "replies (trace (inodes_erase os k s)) = replies (trace s)"
  by (auto simp: inodes_erase_def Let_def split: option.splits)

section \<open>One reply\<close>

text \<open>Between two states the driver has sent exactly one reply.\<close>

definition one_reply :: "('w, 'x) machine_scheme \<Rightarrow> ('w, 'x) machine_scheme \<Rightarrow> bool" where
  "one_reply s s' \<longleftrightarrow> (\<exists>r. replies (trace s') = replies (trace s) @ [r])"

end
