(* ===== verification/F3_Id.thy ===== *)
theory F3_Id
  imports F3_State
begin

text \<open>
  Identification of intermediate data ("ID") files and their metadata in extended attributes:
  the \<^verbatim>\<open>f3_*\<close> helper functions of \<^verbatim>\<open>f3.cc\<close>. The source tree's file carries the attributes
  \<^verbatim>\<open>user.f3.id\<close>, \<^verbatim>\<open>user.f3.servers\<close>, \<^verbatim>\<open>user.f3.filepath\<close> and \<^verbatim>\<open>user.f3.size\<close>; the contents live in
  the local ID tree. The helpers reopen an \<open>O_PATH\<close> descriptor through \<^verbatim>\<open>/proc/self/fd\<close> first.
\<close>

section \<open>Paths and descriptors\<close>

definition proc_path :: "fdesc \<Rightarrow> string" where
  "proc_path fd = ''/proc/self/fd/'' @ show_int fd"

definition f3_is_id_ext :: "string \<Rightarrow> bool" where
  "f3_is_id_ext name = (case strrchr name CHR ''.'' of
       None \<Rightarrow> False
     | Some ext \<Rightarrow> strncmp_eq (tl ext) ''id'' 3)"

definition f3_get_rel_path :: "'w os \<Rightarrow> fdesc \<Rightarrow> ('w, 'x) machine_scheme \<Rightarrow>
    (errno + string) \<times> ('w, 'x) machine_scheme" where
  "f3_get_rel_path os fd = sys_data os (Readlink (proc_path fd) PATH_MAX)"

definition f3_get_full_fd :: "'w os \<Rightarrow> fdesc \<Rightarrow> u32 \<Rightarrow> ('w, 'x) machine_scheme \<Rightarrow>
    (errno + int) \<times> ('w, 'x) machine_scheme" where
  "f3_get_full_fd os fd mode = sys os (Open (proc_path fd) mode)"

section \<open>Marking and recognising ID files\<close>

text \<open>The three attributes are set in turn; the first failure ends the function after \<open>close\<close>.\<close>

definition f3_mark_as_id :: "'w os \<Rightarrow> fdesc \<Rightarrow> nat \<Rightarrow> ('w, 'x) f3_scheme \<Rightarrow>
    (int \<times> ('w, 'x) f3_scheme) option" where
  "f3_mark_as_id os fd root_dir_len s = do {
     let (r, s) = f3_get_full_fd os fd O_RDONLY s;
     case r of
       Inl _ \<Rightarrow> Some (0, s)
     | Inr newfd \<Rightarrow> do {
         (res, s) \<leftarrow> do {
           let (r, s) = sys os (Fsetxattr newfd ''user.f3.id'' (''true'' @ [NUL])) s;
           case r of Inl _ \<Rightarrow> Some (-1, s) | Inr _ \<Rightarrow> do {
             let (r, s) = sys os (Fsetxattr newfd ''user.f3.servers'' (address s)) s;
             case r of Inl _ \<Rightarrow> Some (-1, s) | Inr _ \<Rightarrow> do {
               let (r, s) = f3_get_rel_path os newfd s;
               case r of Inl _ \<Rightarrow> Some (-1, s) | Inr full_path \<Rightarrow> do {
                 rel \<leftarrow> cstr (drop root_dir_len (zero_padded PATH_MAX full_path));
                 let (r, s) = sys os (Fsetxattr fd ''user.f3.filepath'' rel) s;
                 Some (c_int r, s) } } } };
         Some (res, sys_ignore os (Close newfd) s) } }"

definition f3_mark_write_done :: "'w os \<Rightarrow> fdesc \<Rightarrow> ('w, 'x) machine_scheme \<Rightarrow>
    int \<times> ('w, 'x) machine_scheme" where
  "f3_mark_write_done os fd s =
     (let (r, s) = f3_get_full_fd os fd O_RDONLY s in
      case r of
        Inl _ \<Rightarrow> (0, s)
      | Inr newfd \<Rightarrow>
          (let (r, s) = sys os (Fsetxattr newfd ''user.f3.writedone'' (''done'' @ [NUL])) s in
           (c_int r, sys_ignore os (Close newfd) s)))"

definition f3_is_id :: "'w os \<Rightarrow> fdesc \<Rightarrow> ('w, 'x) machine_scheme \<Rightarrow>
    int \<times> ('w, 'x) machine_scheme" where
  "f3_is_id os fd s =
     (let (r, s) = f3_get_full_fd os fd O_RDONLY s in
      case r of
        Inl _ \<Rightarrow> (0, s)
      | Inr newfd \<Rightarrow>
          (let (r, s) = sys_data os (Fgetxattr newfd ''user.f3.id'' 10) s;
               ret = (case r of Inl _ \<Rightarrow> 0 | Inr v \<Rightarrow> int (length v)) in
           (ret, sys_ignore os (Close newfd) s)))"

definition f3_is_new_id :: "'w os \<Rightarrow> addr \<Rightarrow> string \<Rightarrow> ('w, 'x) f3_scheme \<Rightarrow>
    (bool \<times> ('w, 'x) f3_scheme) option" where
  "f3_is_new_id os parent name s = do {
     p \<leftarrow> get_inode parent s;
     inode_p \<leftarrow> deref p s;
     let (r, s) = f3_is_id os (i_fd inode_p) s;
     Some (r > 0 \<or> f3_is_id_ext name, s) }"

section \<open>Reading metadata\<close>

text \<open>
  \<open>f3_get_servers\<close> and \<open>f3_get_filepath\<close> fill a zeroed buffer of \<open>n\<close> bytes; the caller reads it
  as a C string. The result here is the buffer's contents.
\<close>

definition f3_get_attr :: "'w os \<Rightarrow> string \<Rightarrow> fdesc \<Rightarrow> nat \<Rightarrow> ('w, 'x) machine_scheme \<Rightarrow>
    char list \<times> ('w, 'x) machine_scheme" where
  "f3_get_attr os attr fd n s =
     (let (r, s) = f3_get_full_fd os fd O_RDONLY s in
      case r of
        Inl _ \<Rightarrow> (zero_padded n [], s)
      | Inr newfd \<Rightarrow>
          (let (r, s) = sys_data os (Fgetxattr newfd attr n) s;
               bs = (case r of Inl _ \<Rightarrow> [] | Inr v \<Rightarrow> v) in
           (zero_padded n bs, sys_ignore os (Close newfd) s)))"

definition f3_get_servers :: "'w os \<Rightarrow> fdesc \<Rightarrow> nat \<Rightarrow> ('w, 'x) machine_scheme \<Rightarrow>
    char list \<times> ('w, 'x) machine_scheme" where
  "f3_get_servers os = f3_get_attr os ''user.f3.servers''"

definition f3_get_filepath :: "'w os \<Rightarrow> fdesc \<Rightarrow> nat \<Rightarrow> ('w, 'x) machine_scheme \<Rightarrow>
    char list \<times> ('w, 'x) machine_scheme" where
  "f3_get_filepath os = f3_get_attr os ''user.f3.filepath''"

definition SIZE_STR :: nat where [const_defs]: "SIZE_STR = 23"

definition f3_update_size_xattr :: "'w os \<Rightarrow> fdesc \<Rightarrow> u64 \<Rightarrow> ('w, 'x) machine_scheme \<Rightarrow>
    ('w, 'x) machine_scheme" where
  "f3_update_size_xattr os fd n s =
     (let size_str = show_nat (unat n);
          (r, s) = f3_get_full_fd os fd O_RDONLY s in
      case r of
        Inl _ \<Rightarrow> s
      | Inr newfd \<Rightarrow>
          sys_ignore os (Close newfd)
            (sys_ignore os (Fsetxattr newfd ''user.f3.size''
                (take (length size_str) (snprintf_buf SIZE_STR size_str))) s))"

text \<open>
  The check \<open>ret < 0\<close> on the unsigned \<open>ret\<close> never holds, and its branch would be overwritten anyway:
  after a failed \<open>fgetxattr\<close> the function parses the zeroed buffer, i.e. returns 0.
\<close>

definition f3_get_size_xattr :: "'w os \<Rightarrow> fdesc \<Rightarrow> ('w, 'x) machine_scheme \<Rightarrow>
    (u64 \<times> ('w, 'x) machine_scheme) option" where
  "f3_get_size_xattr os fd s = do {
     let (r, s) = f3_get_full_fd os fd O_RDONLY s;
     case r of
       Inl _ \<Rightarrow> Some (0, s)
     | Inr newfd \<Rightarrow> do {
         let (r, s) = sys_data os (Fgetxattr newfd ''user.f3.size'' SIZE_STR) s;
         size_str \<leftarrow> cstr (zero_padded SIZE_STR (case r of Inl _ \<Rightarrow> [] | Inr v \<Rightarrow> v));
         Some (word_of_int (strtol size_str), sys_ignore os (Close newfd) s) } }"

section \<open>Turning an ID file into a regular file\<close>

partial_function (option) sendfile_loop :: "'w os \<Rightarrow> fdesc \<Rightarrow> fdesc \<Rightarrow> u64 \<Rightarrow> ('w, 'x) machine_scheme \<Rightarrow>
    ((errno + int) \<times> ('w, 'x) machine_scheme) option" where
  "sendfile_loop os fs_fd id_fd offset s =
     (case sys os (Sendfile fs_fd id_fd offset 4096) s of
        (Inl e, s') \<Rightarrow> Some (Inl e, s')
      | (Inr n, s') \<Rightarrow>
          if n > 0 then sendfile_loop os fs_fd id_fd (offset + word_of_int n) s'
          else Some (Inr n, s'))"

definition f3_make_id_fs :: "'w os \<Rightarrow> addr \<Rightarrow> ('w, 'x) f3_scheme \<Rightarrow>
    (errno \<times> ('w, 'x) f3_scheme) option" where
  "f3_make_id_fs os ino s = do {
     p \<leftarrow> get_inode ino s;
     inode \<leftarrow> deref p s;
     let (r, s) = f3_get_full_fd os (i_fd inode) O_RDWR s;
     let fs_fd = c_int r;
     let (r, s) = f3_get_full_fd os (i_id_fd inode) O_RDWR s;
     let id_fd = c_int r;
     (r, s) \<leftarrow> sendfile_loop os fs_fd id_fd 0 s;
     (saverr, s) \<leftarrow> (case r of
         Inl e \<Rightarrow> Some (e, s)
       | Inr _ \<Rightarrow> do {
           let (r, s) = sys os (Ftruncate id_fd 0) s;
           Some (errno_of r, upd_inode p (\<lambda>i. i\<lparr>i_is_id := False\<rparr>) s) });
     Some (saverr, sys_ignore os (Close id_fd) (sys_ignore os (Close fs_fd) s)) }"

section \<open>Frame\<close>

lemma core_f3_get_full_fd [core_dest]: "f3_get_full_fd os d m s = (r, s') \<Longrightarrow> core s' = core s"
  unfolding f3_get_full_fd_def by (rule core_sys)

lemma core_f3_get_rel_path [core_dest]: "f3_get_rel_path os d s = (r, s') \<Longrightarrow> core s' = core s"
  unfolding f3_get_rel_path_def by (rule core_sys_data)

lemma core_f3_is_id [core_dest]: "f3_is_id os d s = (r, s') \<Longrightarrow> core s' = core s"
  by (auto simp: f3_is_id_def Let_def elim!: stepE dest!: core_dest split: asm_splits)

lemma core_f3_mark_as_id [core_dest]: "f3_mark_as_id os d n s = Some (r, s') \<Longrightarrow> core s' = core s"
  by (auto simp: f3_mark_as_id_def Let_def elim!: stepE dest!: core_dest split: asm_splits)

lemma core_f3_is_new_id [core_dest]: "f3_is_new_id os p n s = Some (r, s') \<Longrightarrow> core s' = core s"
  by (auto simp: f3_is_new_id_def Let_def elim!: stepE dest!: core_dest split: asm_splits)

lemma core_f3_get_attr [core_dest]: "f3_get_attr os a d n s = (r, s') \<Longrightarrow> core s' = core s"
  by (auto simp: f3_get_attr_def Let_def elim!: stepE dest!: core_dest split: asm_splits)

lemma core_f3_get_servers [core_dest]: "f3_get_servers os d n s = (r, s') \<Longrightarrow> core s' = core s"
  unfolding f3_get_servers_def by (rule core_f3_get_attr)

lemma core_f3_get_filepath [core_dest]: "f3_get_filepath os d n s = (r, s') \<Longrightarrow> core s' = core s"
  unfolding f3_get_filepath_def by (rule core_f3_get_attr)

lemma core_f3_update_size_xattr [simp]: "core (f3_update_size_xattr os d n s) = core s"
  by (auto simp: f3_update_size_xattr_def Let_def elim!: stepE dest!: core_dest split: prod.split sum.split)

lemma core_f3_get_size_xattr [core_dest]: "f3_get_size_xattr os d s = Some (r, s') \<Longrightarrow> core s' = core s"
  by (auto simp: f3_get_size_xattr_def Let_def elim!: stepE dest!: core_dest split: asm_splits)

lemma core_sendfile_loop_snd:
  assumes "sendfile_loop os a b off s = Some y"
  shows "core (snd y) = core s"
  using assms
proof (induction rule: sendfile_loop.raw_induct [rotated, consumes 1, case_names step])
  case (step f os a b off s y)
  from step(2) show ?case
    by (elim stepE) (auto dest!: core_dest step(1))
qed

lemmas core_sendfile_loop [core_dest] = core_sendfile_loop_snd [where y = "(r, s')" for r s', unfolded snd_conv]

lemma replies_f3_update_size_xattr [simp]:
  "replies (trace (f3_update_size_xattr os fd n s)) = replies (trace s)"
  by (rule core_replies) simp

declare core_dest [THEN core_replies, reply_dest]

end
