(* ===== verification/F3_Lookup.thy ===== *)
theory F3_Lookup
  imports F3_Id
begin

text \<open>
  The inode table of \<^verbatim>\<open>f3.cc\<close>: \<^verbatim>\<open>do_lookup\<close>, which finds or makes the object of a directory entry
  and hands the kernel a reference to it, and \<^verbatim>\<open>forget_one\<close>, which takes references back.
\<close>

section \<open>Lookup\<close>

definition open_id :: "'w os \<Rightarrow> addr \<Rightarrow> string \<Rightarrow> ('w, 'x) f3_scheme \<Rightarrow>
    ((errno + int) \<times> ('w, 'x) f3_scheme) option" where
  "open_id os parent name s = do {
     d \<leftarrow> get_fs_id_fd parent s;
     Some (sys os (Openat d name (O_PATH OR O_NOFOLLOW) 0) s) }"

text \<open>A local placeholder has been created for an ID file of another node: note how to fetch it.\<close>

definition prepare_download :: "'w os \<Rightarrow> addr \<Rightarrow> ('w, 'x) f3_scheme \<Rightarrow>
    ('w, 'x) f3_scheme option" where
  "prepare_download os p s = do {
     i \<leftarrow> deref p s;
     if i_is_id i then do {
       let (fname, s) = f3_get_filepath os (i_fd i) PATH_MAX s;
       let (servers, s) = f3_get_servers os (i_fd i) 100 s;
       let (conn, s) = setup_conn os (client_uds_path s) s;
       Some (upd_inode p (\<lambda>i. i\<lparr>i_needs_download := True, i_fname := Some fname,
                                i_servers := Some servers, i_client_fd := Some conn\<rparr>) s) }
     else Some s }"

text \<open>The descriptor of the entry in the ID tree; a missing entry is created first.\<close>

definition lookup_id_fd :: "'w os \<Rightarrow> addr \<Rightarrow> string \<Rightarrow> u32 \<Rightarrow> addr \<Rightarrow> ('w, 'x) f3_scheme \<Rightarrow>
    (fdesc \<times> ('w, 'x) f3_scheme) option" where
  "lookup_id_fd os parent name mode p s = do {
     (r, s) \<leftarrow> open_id os parent name s;
     case r of
       Inr id_fd \<Rightarrow> Some (id_fd, s)
     | Inl err \<Rightarrow>
         if err \<noteq> ENOENT then Some (-1, s)
         else if S_ISDIR mode then do {
           d \<leftarrow> get_fs_id_fd parent s;
           let s = sys_ignore os (Mkdirat d name mode) s;
           (r, s) \<leftarrow> open_id os parent name s;
           Some (c_int r, s) }
         else do {
           d \<leftarrow> get_fs_id_fd parent s;
           let (r, s) = sys os (Openat d name (O_CREAT AND NOT O_NOFOLLOW) mode) s;
           let s = sys_ignore os (Close (c_int r)) s;
           (r, s) \<leftarrow> open_id os parent name s;
           s \<leftarrow> prepare_download os p s;
           Some (c_int r, s) } }"

definition do_lookup_new :: "'w os \<Rightarrow> addr \<Rightarrow> string \<Rightarrow> fdesc \<Rightarrow> stat \<Rightarrow> addr \<Rightarrow>
    ('w, 'x) f3_scheme \<Rightarrow> ('w, 'x) f3_scheme option" where
  "do_lookup_new os parent name newfd attr p s = do {
     let s = lock (InodeMutex p) s;
     let s = upd_inode p (\<lambda>i. i\<lparr>i_src_ino := st_ino attr, i_src_dev := st_dev attr,
                               i_nlookup := i_nlookup i + 1, i_fd := newfd\<rparr>) s;
     (new_id, s) \<leftarrow> f3_is_new_id os parent name s;
     let s = (if new_id then upd_inode p (\<lambda>i. i\<lparr>i_is_id := True\<rparr>) s else s);
     (id_fd, s) \<leftarrow> lookup_id_fd os parent name (st_mode attr) p s;
     let s = upd_inode p (\<lambda>i. i\<lparr>i_id_fd := id_fd\<rparr>) s;
     Some (unlock (InodeMutex p) (unlock FsMutex s)) }"

definition do_lookup_known :: "'w os \<Rightarrow> fdesc \<Rightarrow> addr \<Rightarrow> ('w, 'x) f3_scheme \<Rightarrow>
    ('w, 'x) f3_scheme" where
  "do_lookup_known os newfd p s =
     (let s = unlock FsMutex s;
          s = lock (InodeMutex p) s;
          s = upd_inode p (\<lambda>i. i\<lparr>i_nlookup := i_nlookup i + 1\<rparr>) s;
          s = sys_ignore os (Close newfd) s
      in unlock (InodeMutex p) s)"

text \<open>For an ID file the attributes come from the ID tree, with the size the producer recorded.\<close>

definition do_lookup_id_attr :: "'w os \<Rightarrow> fdesc \<Rightarrow> fuse_entry_param \<Rightarrow> addr \<Rightarrow>
    ('w, 'x) f3_scheme \<Rightarrow> (errno \<times> fuse_entry_param \<times> ('w, 'x) f3_scheme) option" where
  "do_lookup_id_attr os newfd e p s = do {
     i \<leftarrow> deref p s;
     if \<not> i_is_id i then Some (0, e, s)
     else do {
       let (r, s) = sys_stat os (Fstatat (i_id_fd i)) s;
       case r of
         Inl err \<Rightarrow> Some (err, e, sys_ignore os (Close newfd) s)
       | Inr st \<Rightarrow> do {
           (xattr_size, s) \<leftarrow> f3_get_size_xattr os (i_fd i) s;
           let attr = (if sint xattr_size > sint (st_size st) then st\<lparr>st_size := xattr_size\<rparr> else st);
           let s = upd_inode p (\<lambda>i. i\<lparr>i_src_ino := st_ino attr, i_src_dev := st_dev attr\<rparr>) s;
           Some (0, e\<lparr>e_attr := attr\<rparr>, s) } } }"

text \<open>The object of a file that has been opened and checked, with one more reference.\<close>

definition do_lookup_inode :: "'w os \<Rightarrow> addr \<Rightarrow> string \<Rightarrow> fdesc \<Rightarrow> fuse_entry_param \<Rightarrow>
    ('w, 'x) f3_scheme \<Rightarrow> (errno \<times> fuse_entry_param \<times> ('w, 'x) f3_scheme) option" where
  "do_lookup_inode os parent name newfd e s = do {
     let k = (st_ino (e_attr e), st_dev (e_attr e));
     let s = lock FsMutex s;
     let (ok, s) = (if inodes s k = None then alloc os s else (True, s));
     if \<not> ok then Some (ENOMEM, e, unlock FsMutex s)
     else do {
       let (p, s) = inodes_at k s;
       i \<leftarrow> deref p s;
       let e = e\<lparr>e_ino := p, e_generation := scast (i_generation i)\<rparr>;
       s \<leftarrow> (if i_fd i > 0 then Some (do_lookup_known os newfd p s)
            else do_lookup_new os parent name newfd (e_attr e) p s);
       do_lookup_id_attr os newfd e p s } }"

definition do_lookup :: "'w os \<Rightarrow> addr \<Rightarrow> string \<Rightarrow> ('w, 'x) f3_scheme \<Rightarrow>
    (errno \<times> fuse_entry_param \<times> ('w, 'x) f3_scheme) option" where
  "do_lookup os parent name s = do {
     let e = zero_entry\<lparr>e_attr_timeout := timeout s, e_entry_timeout := timeout s\<rparr>;
     d \<leftarrow> get_fs_fd parent s;
     let (r, s) = sys os (Openat d name (O_PATH OR O_NOFOLLOW) 0) s;
     case r of
       Inl err \<Rightarrow> Some (err, e, s)
     | Inr newfd \<Rightarrow> do {
         let (r, s) = sys_stat os (Fstatat newfd) s;
         case r of
           Inl err \<Rightarrow> Some (err, e, sys_ignore os (Close newfd) s)
         | Inr attr \<Rightarrow> do {
             let e = e\<lparr>e_attr := attr\<rparr>;
             if st_dev attr \<noteq> fs_src_dev s then Some (ENOTSUP, e, s)
             else if st_ino attr = of_nat FUSE_ROOT_ID then Some (EIO, e, s)
             else do_lookup_inode os parent name newfd e s } } }"

definition sfs_lookup :: "'w os \<Rightarrow> addr \<Rightarrow> string \<Rightarrow> ('w, 'x) f3_scheme \<Rightarrow>
    ('w, 'x) f3_scheme option" where
  "sfs_lookup os parent name s = do {
     (err, e, s) \<leftarrow> do_lookup os parent name s;
     if err = ENOENT then
       Some (reply (ReplyEntry (e\<lparr>e_attr_timeout := timeout s, e_entry_timeout := timeout s,
                                  e_ino := 0, e_attr := (e_attr e)\<lparr>st_ino := 0\<rparr>\<rparr>)) s)
     else if err \<noteq> 0 then Some (F3_REPLY_ERR err s)
     else Some (reply (ReplyEntry e) s) }"

section \<open>Forget\<close>

definition forget_one :: "'w os \<Rightarrow> addr \<Rightarrow> u64 \<Rightarrow> ('w, 'x) f3_scheme \<Rightarrow>
    ('w, 'x) f3_scheme option" where
  "forget_one os ino n s = do {
     p \<leftarrow> get_inode ino s;
     let s = lock (InodeMutex p) s;
     inode \<leftarrow> deref p s;
     if n > i_nlookup inode then None
     else do {
       let s = upd_inode p (\<lambda>i. i\<lparr>i_nlookup := i_nlookup i - n\<rparr>) s;
       if i_nlookup inode - n = 0 then do {
         let s = lock FsMutex s;
         let s = unlock (InodeMutex p) s;
         let s = inodes_erase os (i_src_ino inode, i_src_dev inode) s;
         Some (unlock FsMutex s) }
       else Some (unlock (InodeMutex p) s) } }"

definition sfs_forget :: "'w os \<Rightarrow> addr \<Rightarrow> u64 \<Rightarrow> ('w, 'x) f3_scheme \<Rightarrow>
    ('w, 'x) f3_scheme option" where
  "sfs_forget os ino nlookup s = do {
     s \<leftarrow> forget_one os ino nlookup s;
     Some (reply ReplyNone s) }"

fun forget_all :: "'w os \<Rightarrow> (addr \<times> u64) list \<Rightarrow> ('w, 'x) f3_scheme \<Rightarrow>
    ('w, 'x) f3_scheme option" where
  "forget_all os [] s = Some s"
| "forget_all os ((ino, n) # fs) s = do { s \<leftarrow> forget_one os ino n s; forget_all os fs s }"

definition sfs_forget_multi :: "'w os \<Rightarrow> (addr \<times> u64) list \<Rightarrow> ('w, 'x) f3_scheme \<Rightarrow>
    ('w, 'x) f3_scheme option" where
  "sfs_forget_multi os forgets s = do {
     s \<leftarrow> forget_all os forgets s;
     Some (reply ReplyNone s) }"

section \<open>Replies\<close>

lemma replies_prepare_download [reply_dest]:
  "prepare_download os p s = Some s' \<Longrightarrow> replies (trace s') = replies (trace s)"
  unfolding prepare_download_def by (elim stepE) (auto dest!: reply_dest split: asm_splits)

lemma replies_open_id [reply_dest]:
  "open_id os p n s = Some (r, s') \<Longrightarrow> replies (trace s') = replies (trace s)"
  unfolding open_id_def by (elim stepE) (auto dest!: reply_dest split: asm_splits)

lemma replies_lookup_id_fd [reply_dest]:
  "lookup_id_fd os p n m q s = Some (r, s') \<Longrightarrow> replies (trace s') = replies (trace s)"
  unfolding lookup_id_fd_def by (elim stepE) (auto dest!: reply_dest split: asm_splits)

lemma replies_do_lookup_new [reply_dest]:
  "do_lookup_new os p n nf attr q s = Some s' \<Longrightarrow> replies (trace s') = replies (trace s)"
  unfolding do_lookup_new_def by (elim stepE) (auto dest!: reply_dest split: asm_splits)

lemma replies_do_lookup_known [simp]:
  "replies (trace (do_lookup_known os n q s)) = replies (trace s)"
  by (auto simp: do_lookup_known_def Let_def)

lemma replies_do_lookup_id_attr [reply_dest]:
  "do_lookup_id_attr os n e q s = Some (r, e', s') \<Longrightarrow> replies (trace s') = replies (trace s)"
  unfolding do_lookup_id_attr_def by (elim stepE) (auto dest!: reply_dest split: asm_splits)

lemma replies_do_lookup_inode [reply_dest]:
  "do_lookup_inode os q n nf e s = Some (r, e', s') \<Longrightarrow> replies (trace s') = replies (trace s)"
  unfolding do_lookup_inode_def by (elim stepE) (auto dest!: reply_dest split: asm_splits)

lemma replies_do_lookup [reply_dest]:
  "do_lookup os q n s = Some (r, e', s') \<Longrightarrow> replies (trace s') = replies (trace s)"
  unfolding do_lookup_def by (elim stepE) (auto dest!: reply_dest split: asm_splits)

lemma replies_forget_one [reply_dest]:
  "forget_one os q n s = Some s' \<Longrightarrow> replies (trace s') = replies (trace s)"
  unfolding forget_one_def by (elim stepE) (auto dest!: reply_dest split: asm_splits)

lemma replies_forget_all [reply_dest]: "forget_all os fs s = Some s' \<Longrightarrow> replies (trace s') = replies (trace s)"
  by (induction os fs s rule: forget_all.induct) (auto elim!: stepE dest: reply_dest)

lemma one_reply_sfs_lookup: "sfs_lookup os p n s = Some s' \<Longrightarrow> one_reply s s'"
  unfolding sfs_lookup_def one_reply_def by (elim stepE) (auto dest!: reply_dest)

lemma one_reply_sfs_forget: "sfs_forget os p n s = Some s' \<Longrightarrow> one_reply s s'"
  unfolding sfs_forget_def one_reply_def by (elim stepE) (auto dest!: reply_dest)

lemma one_reply_sfs_forget_multi: "sfs_forget_multi os fs s = Some s' \<Longrightarrow> one_reply s s'"
  unfolding sfs_forget_multi_def one_reply_def by (elim stepE) (auto dest!: reply_dest)

end
