(* ===== verification/F3_Meta.thy ===== *)
theory F3_Meta
  imports F3_Lookup
begin

text \<open>
  The handlers of \<^verbatim>\<open>f3.cc\<close> for attributes, names and extended attributes. Each changes the source
  tree first and the ID tree second. A handler that the source lets run on after an error reply does
  so here as well.
\<close>

section \<open>Attributes\<close>

definition sfs_getattr :: "'w os \<Rightarrow> addr \<Rightarrow> ('w, 'x) f3_scheme \<Rightarrow> ('w, 'x) f3_scheme option" where
  "sfs_getattr os ino s = do {
     p \<leftarrow> get_inode ino s;
     inode \<leftarrow> deref p s;
     let (r, s) = sys_stat os (Fstatat (INODE inode)) s;
     case r of
       Inl err \<Rightarrow> Some (F3_REPLY_ERR err s)
     | Inr attr \<Rightarrow>
         let attr = (if i_is_id inode \<and> sint (i_target_size inode) > sint (st_size attr)
                     then attr\<lparr>st_size := i_target_size inode\<rparr> else attr)
         in Some (reply (ReplyAttr attr (timeout s)) s) }"

definition setattr_time :: "u32 \<Rightarrow> u32 \<Rightarrow> u32 \<Rightarrow> timespec \<Rightarrow> timespec" where
  "setattr_time valid now_flag flag t =
     (if valid AND now_flag \<noteq> 0 then \<lparr>tv_sec = 0, tv_nsec = UTIME_NOW\<rparr>
      else if valid AND flag \<noteq> 0 then t
      else \<lparr>tv_sec = 0, tv_nsec = UTIME_OMIT\<rparr>)"

text \<open>
  The four groups of changes of \<^verbatim>\<open>do_setattr\<close>, in order. \<open>fh\<close> is the handle of an open file, if the
  kernel passed one. Without a handle the times are refused: the driver is built without
  \<open>HAVE_UTIMENSAT\<close>.
\<close>

definition setattr_mode :: "'w os \<Rightarrow> fdesc \<Rightarrow> stat \<Rightarrow> u32 \<Rightarrow> fdesc option \<Rightarrow> ('w, 'x) machine_scheme \<Rightarrow>
    (errno + int) \<times> ('w, 'x) machine_scheme" where
  "setattr_mode os ifd attr valid fh s =
     (if valid AND FUSE_SET_ATTR_MODE = 0 then (Inr 0, s)
      else case fh of
        Some d \<Rightarrow> sys os (Fchmod d (st_mode attr)) s
      | None \<Rightarrow> sys os (Chmod (proc_path ifd) (st_mode attr)) s)"

definition setattr_owner :: "'w os \<Rightarrow> fdesc \<Rightarrow> stat \<Rightarrow> u32 \<Rightarrow> ('w, 'x) machine_scheme \<Rightarrow>
    (errno + int) \<times> ('w, 'x) machine_scheme" where
  "setattr_owner os ifd attr valid s =
     (if valid AND (FUSE_SET_ATTR_UID OR FUSE_SET_ATTR_GID) = 0 then (Inr 0, s)
      else
        let uid = (if valid AND FUSE_SET_ATTR_UID \<noteq> 0 then st_uid attr else -1);
            gid = (if valid AND FUSE_SET_ATTR_GID \<noteq> 0 then st_gid attr else -1)
        in sys os (Fchownat ifd uid gid) s)"

definition setattr_size :: "'w os \<Rightarrow> fdesc \<Rightarrow> stat \<Rightarrow> u32 \<Rightarrow> fdesc option \<Rightarrow> ('w, 'x) machine_scheme \<Rightarrow>
    (errno + int) \<times> ('w, 'x) machine_scheme" where
  "setattr_size os ifd attr valid fh s =
     (if valid AND FUSE_SET_ATTR_SIZE = 0 then (Inr 0, s)
      else case fh of
        Some d \<Rightarrow> sys os (Ftruncate d (st_size attr)) s
      | None \<Rightarrow> sys os (Truncate (proc_path ifd) (st_size attr)) s)"

definition setattr_times :: "'w os \<Rightarrow> stat \<Rightarrow> u32 \<Rightarrow> fdesc option \<Rightarrow> ('w, 'x) machine_scheme \<Rightarrow>
    (errno + int) \<times> ('w, 'x) machine_scheme" where
  "setattr_times os attr valid fh s =
     (if valid AND (FUSE_SET_ATTR_ATIME OR FUSE_SET_ATTR_MTIME) = 0 then (Inr 0, s)
      else case fh of
        Some d \<Rightarrow> sys os (Futimens d
            (setattr_time valid FUSE_SET_ATTR_ATIME_NOW FUSE_SET_ATTR_ATIME (st_atim attr))
            (setattr_time valid FUSE_SET_ATTR_MTIME_NOW FUSE_SET_ATTR_MTIME (st_mtim attr))) s
      | None \<Rightarrow> (Inl EOPNOTSUPP, s))"

definition do_setattr :: "'w os \<Rightarrow> addr \<Rightarrow> stat \<Rightarrow> u32 \<Rightarrow> fuse_file_info option \<Rightarrow>
    ('w, 'x) f3_scheme \<Rightarrow> ('w, 'x) f3_scheme option" where
  "do_setattr os ino attr valid fi s = do {
     p \<leftarrow> get_inode ino s;
     inode \<leftarrow> deref p s;
     let ifd = INODE inode;
     let fh = map_option fi_fh fi;
     let (r, s) = setattr_mode os ifd attr valid fh s;
     case r of Inl e \<Rightarrow> Some (F3_REPLY_ERR e s) | Inr _ \<Rightarrow> do {
       let (r, s) = setattr_owner os ifd attr valid s;
       case r of Inl e \<Rightarrow> Some (F3_REPLY_ERR e s) | Inr _ \<Rightarrow> do {
         let (r, s) = setattr_size os ifd attr valid fh s;
         case r of Inl e \<Rightarrow> Some (F3_REPLY_ERR e s) | Inr _ \<Rightarrow> do {
           let (r, s) = setattr_times os attr valid fh s;
           case r of Inl e \<Rightarrow> Some (F3_REPLY_ERR e s) | Inr _ \<Rightarrow> sfs_getattr os ino s } } } }"

definition sfs_setattr :: "'w os \<Rightarrow> addr \<Rightarrow> stat \<Rightarrow> u32 \<Rightarrow> fuse_file_info option \<Rightarrow>
    ('w, 'x) f3_scheme \<Rightarrow> ('w, 'x) f3_scheme option" where
  "sfs_setattr os ino attr valid fi s = do_setattr os ino attr valid fi s"

section \<open>Making and removing names\<close>

definition make_node :: "'w os \<Rightarrow> fdesc \<Rightarrow> string \<Rightarrow> u32 \<Rightarrow> u64 \<Rightarrow> string \<Rightarrow> ('w, 'x) machine_scheme \<Rightarrow>
    (errno + int) \<times> ('w, 'x) machine_scheme" where
  "make_node os d name mode rdev link s =
     (if S_ISDIR mode then sys os (Mkdirat d name mode) s
      else if S_ISLNK mode then sys os (Symlinkat link d name) s
      else sys os (Mknodat d name mode rdev) s)"

text \<open>\<open>openat\<close>, \<^const>\<open>f3_mark_as_id\<close>, \<open>close\<close> of a new directory in one of the trees.\<close>

definition mark_dir :: "'w os \<Rightarrow> fdesc \<Rightarrow> string \<Rightarrow> nat \<Rightarrow> ('w, 'x) f3_scheme \<Rightarrow>
    ('w, 'x) f3_scheme option" where
  "mark_dir os d name root_len s = do {
     let (r, s) = sys os (Openat d name (O_PATH OR O_NOFOLLOW) 0) s;
     (_, s) \<leftarrow> f3_mark_as_id os (c_int r) root_len s;
     Some (sys_ignore os (Close (c_int r)) s) }"

text \<open>
  The entry in the ID tree: a directory (marked in both trees if it is an ID directory) or a
  symbolic link. Other nodes get theirs from \<^const>\<open>do_lookup\<close>.
\<close>

definition make_id_node :: "'w os \<Rightarrow> addr \<Rightarrow> inode \<Rightarrow> string \<Rightarrow> u32 \<Rightarrow> string \<Rightarrow> ('w, 'x) f3_scheme \<Rightarrow>
    ((errno + unit) \<times> ('w, 'x) f3_scheme) option" where
  "make_id_node os parent inode_p name mode link s =
     (if S_ISDIR mode then do {
        let (r, s) = sys os (Mkdirat (i_id_fd inode_p) name mode) s;
        case r of
          Inl e \<Rightarrow> Some (Inl e, s)
        | Inr _ \<Rightarrow> do {
            (new_id, s) \<leftarrow> f3_is_new_id os parent name s;
            if new_id then do {
              s \<leftarrow> mark_dir os (i_fd inode_p) name (length (source s)) s;
              s \<leftarrow> mark_dir os (i_id_fd inode_p) name (length (idroot s)) s;
              Some (Inr (), s) }
            else Some (Inr (), s) } }
      else if S_ISLNK mode then do {
        let (r, s) = sys os (Symlinkat link (i_id_fd inode_p) name) s;
        case r of Inl e \<Rightarrow> Some (Inl e, s) | Inr _ \<Rightarrow> Some (Inr (), s) }
      else Some (Inr (), s))"

definition mknod_symlink :: "'w os \<Rightarrow> addr \<Rightarrow> string \<Rightarrow> u32 \<Rightarrow> u64 \<Rightarrow> string \<Rightarrow> ('w, 'x) f3_scheme \<Rightarrow>
    ('w, 'x) f3_scheme option" where
  "mknod_symlink os parent name mode rdev link s = do {
     p \<leftarrow> get_inode parent s;
     inode_p \<leftarrow> deref p s;
     let (r, s) = make_node os (i_fd inode_p) name mode rdev link s;
     case r of
       Inl e \<Rightarrow> Some (F3_REPLY_ERR e s)
     | Inr _ \<Rightarrow> do {
         (r, s) \<leftarrow> make_id_node os parent inode_p name mode link s;
         case r of
           Inl e \<Rightarrow> Some (F3_REPLY_ERR e s)
         | Inr _ \<Rightarrow> do {
             (saverr, e, s) \<leftarrow> do_lookup os parent name s;
             if saverr \<noteq> 0 then Some (F3_REPLY_ERR saverr s)
             else Some (reply (ReplyEntry e) s) } } }"

definition sfs_mknod :: "'w os \<Rightarrow> addr \<Rightarrow> string \<Rightarrow> u32 \<Rightarrow> u64 \<Rightarrow> ('w, 'x) f3_scheme \<Rightarrow>
    ('w, 'x) f3_scheme option" where
  "sfs_mknod os parent name mode rdev s = mknod_symlink os parent name mode rdev [] s"

definition sfs_mkdir :: "'w os \<Rightarrow> addr \<Rightarrow> string \<Rightarrow> u32 \<Rightarrow> ('w, 'x) f3_scheme \<Rightarrow>
    ('w, 'x) f3_scheme option" where
  "sfs_mkdir os parent name mode s = mknod_symlink os parent name (S_IFDIR OR mode) 0 [] s"

definition sfs_symlink :: "'w os \<Rightarrow> string \<Rightarrow> addr \<Rightarrow> string \<Rightarrow> ('w, 'x) f3_scheme \<Rightarrow>
    ('w, 'x) f3_scheme option" where
  "sfs_symlink os link parent name s = mknod_symlink os parent name S_IFLNK 0 link s"

definition sfs_link :: "'w os \<Rightarrow> addr \<Rightarrow> addr \<Rightarrow> string \<Rightarrow> ('w, 'x) f3_scheme \<Rightarrow>
    ('w, 'x) f3_scheme option" where
  "sfs_link os ino parent name s = do {
     p \<leftarrow> get_inode ino s;
     inode \<leftarrow> deref p s;
     pp \<leftarrow> get_inode parent s;
     inode_p \<leftarrow> deref pp s;
     let e = zero_entry\<lparr>e_attr_timeout := timeout s, e_entry_timeout := timeout s\<rparr>;
     let (r, s) = sys os (Linkat (proc_path (i_fd inode)) (i_fd inode_p) name AT_SYMLINK_FOLLOW) s;
     case r of Inl err \<Rightarrow> Some (F3_REPLY_ERR err s) | Inr _ \<Rightarrow> do {
       let (r, s) = sys os (Linkat (proc_path (i_id_fd inode)) (i_id_fd inode_p) name
                              AT_SYMLINK_FOLLOW) s;
       case r of Inl err \<Rightarrow> Some (F3_REPLY_ERR err s) | Inr _ \<Rightarrow> do {
         let (r, s) = sys_stat os (Fstatat (INODE inode)) s;
         case r of Inl err \<Rightarrow> Some (F3_REPLY_ERR err s) | Inr attr \<Rightarrow> do {
           let e = e\<lparr>e_attr := attr, e_ino := p\<rparr>;
           let s = lock (InodeMutex p) s;
           let s = upd_inode p (\<lambda>i. i\<lparr>i_nlookup := i_nlookup i + 1\<rparr>) s;
           let s = unlock (InodeMutex p) s;
           Some (reply (ReplyEntry e) s) } } } }"

text \<open>\<open>if (res == -1) F3_REPLY_ERR(req, errno);\<close> with no \<open>return\<close>.\<close>

definition reply_if_failed :: "errno + 'a \<Rightarrow> ('w, 'x) machine_scheme \<Rightarrow> ('w, 'x) machine_scheme" where
  "reply_if_failed r s = (case r of Inl e \<Rightarrow> F3_REPLY_ERR e s | Inr _ \<Rightarrow> s)"

definition sfs_rmdir :: "'w os \<Rightarrow> addr \<Rightarrow> string \<Rightarrow> ('w, 'x) f3_scheme \<Rightarrow>
    ('w, 'x) f3_scheme option" where
  "sfs_rmdir os parent name s = do {
     p \<leftarrow> get_inode parent s;
     inode_p \<leftarrow> deref p s;
     let s = lock (InodeMutex p) s;
     let (r, s) = sys os (Unlinkat (i_fd inode_p) name AT_REMOVEDIR) s;
     let s = reply_if_failed r s;
     let (r, s) = sys os (Unlinkat (i_id_fd inode_p) name AT_REMOVEDIR) s;
     let s = F3_REPLY_ERR (errno_of r) s;
     Some (unlock (InodeMutex p) s) }"

definition sfs_rename :: "'w os \<Rightarrow> addr \<Rightarrow> string \<Rightarrow> addr \<Rightarrow> string \<Rightarrow> u32 \<Rightarrow> ('w, 'x) f3_scheme \<Rightarrow>
    ('w, 'x) f3_scheme option" where
  "sfs_rename os parent name newparent newname flags s = do {
     p \<leftarrow> get_inode parent s;
     inode_p \<leftarrow> deref p s;
     np \<leftarrow> get_inode newparent s;
     inode_np \<leftarrow> deref np s;
     if flags \<noteq> 0 then Some (F3_REPLY_ERR EINVAL s)
     else do {
       let (r, s) = sys os (Renameat (i_fd inode_p) name (i_fd inode_np) newname) s;
       let s = reply_if_failed r s;
       let (r, s) = sys os (Renameat (i_id_fd inode_p) name (i_id_fd inode_np) newname) s;
       Some (F3_REPLY_ERR (errno_of r) s) } }"

text \<open>
  Without caching, the last name of a file with no open handle gives up the descriptors first and
  gives the inode object a new generation.
\<close>

definition unlink_release :: "'w os \<Rightarrow> fuse_entry_param \<Rightarrow> ('w, 'x) f3_scheme \<Rightarrow>
    ('w, 'x) f3_scheme option" where
  "unlink_release os e s =
     (if st_nlink (e_attr e) = 1 then do {
        p \<leftarrow> get_inode (e_ino e) s;
        let s = lock (InodeMutex p) s;
        inode \<leftarrow> deref p s;
        if i_fd inode > 0 \<and> i_nopen inode = 0 then do {
          let s = lock FsMutex s;
          let s = sys_ignore os (Close (i_fd inode)) s;
          let s = sys_ignore os (Close (i_id_fd inode)) s;
          let s = upd_inode p (\<lambda>i. i\<lparr>i_fd := - ENOENT, i_id_fd := - ENOENT,
                                    i_generation := i_generation i + 1\<rparr>) s;
          Some (unlock (InodeMutex p) (unlock FsMutex s)) }
        else Some (unlock (InodeMutex p) s) }
      else Some s)"

definition sfs_unlink :: "'w os \<Rightarrow> addr \<Rightarrow> string \<Rightarrow> ('w, 'x) f3_scheme \<Rightarrow>
    ('w, 'x) f3_scheme option" where
  "sfs_unlink os parent name s = do {
     p \<leftarrow> get_inode parent s;
     (err, s) \<leftarrow> (if timeout s = 0 then do {
                    (err, e, s) \<leftarrow> do_lookup os parent name s;
                    if err \<noteq> 0 then Some (err, s)
                    else do { s \<leftarrow> unlink_release os e s; Some (0, s) } }
                  else Some (0, s));
     if err \<noteq> 0 then Some (F3_REPLY_ERR err s)
     else do {
       inode_p \<leftarrow> deref p s;
       let (r, s) = sys os (Unlinkat (i_fd inode_p) name 0) s;
       let s = reply_if_failed r s;
       let (r, s) = sys os (Unlinkat (i_id_fd inode_p) name 0) s;
       let s = reply_if_failed r s;
       Some (F3_REPLY_ERR 0 s) } }"

definition sfs_readlink :: "'w os \<Rightarrow> addr \<Rightarrow> ('w, 'x) f3_scheme \<Rightarrow> ('w, 'x) f3_scheme option" where
  "sfs_readlink os ino s = do {
     p \<leftarrow> get_inode ino s;
     inode \<leftarrow> deref p s;
     let (r, s) = sys_data os (Readlinkat (INODE inode) (PATH_MAX + 1)) s;
     Some (case r of
         Inl err \<Rightarrow> F3_REPLY_ERR err s
       | Inr buf \<Rightarrow> if length buf = PATH_MAX + 1 then F3_REPLY_ERR ENAMETOOLONG s
                    else reply (ReplyReadlink buf) s) }"

definition sfs_statfs :: "'w os \<Rightarrow> addr \<Rightarrow> ('w, 'x) f3_scheme \<Rightarrow> ('w, 'x) f3_scheme option" where
  "sfs_statfs os ino s = do {
     d \<leftarrow> get_fs_fd ino s;
     let (r, s) = sys_statvfs os d s;
     Some (case r of Inl err \<Rightarrow> F3_REPLY_ERR err s | Inr stbuf \<Rightarrow> reply (ReplyStatfs stbuf) s) }"

section \<open>Extended attributes\<close>

text \<open>
  \<^verbatim>\<open>sfs_getxattr\<close> and \<^verbatim>\<open>sfs_listxattr\<close> answer alike: with a size, the value or an error (an empty
  value is answered with error 0); without, the size the caller needs.
\<close>

definition reply_xattr_value :: "'w os \<Rightarrow> (nat \<Rightarrow> data_call) \<Rightarrow> nat \<Rightarrow> ('w, 'x) machine_scheme \<Rightarrow>
    ('w, 'x) machine_scheme" where
  "reply_xattr_value os query n s =
     (if n \<noteq> 0 then
        (let (ok, s) = alloc os s in
         if \<not> ok then F3_REPLY_ERR ENOMEM s
         else
           (let (r, s) = sys_data os (query n) s in
            case r of
              Inl err \<Rightarrow> F3_REPLY_ERR err s
            | Inr v \<Rightarrow> if v = [] then F3_REPLY_ERR 0 s else reply (ReplyBuf v) s))
      else
        (let (r, s) = sys_data os (query 0) s in
         case r of
           Inl err \<Rightarrow> F3_REPLY_ERR err s
         | Inr v \<Rightarrow> reply (ReplyXattr (length v)) s))"

definition sfs_getxattr :: "'w os \<Rightarrow> addr \<Rightarrow> string \<Rightarrow> nat \<Rightarrow> ('w, 'x) f3_scheme \<Rightarrow>
    ('w, 'x) f3_scheme option" where
  "sfs_getxattr os ino name n s = do {
     p \<leftarrow> get_inode ino s;
     inode \<leftarrow> deref p s;
     Some (reply_xattr_value os (Getxattr (proc_path (INODE inode)) name) n s) }"

definition sfs_listxattr :: "'w os \<Rightarrow> addr \<Rightarrow> nat \<Rightarrow> ('w, 'x) f3_scheme \<Rightarrow>
    ('w, 'x) f3_scheme option" where
  "sfs_listxattr os ino n s = do {
     p \<leftarrow> get_inode ino s;
     inode \<leftarrow> deref p s;
     Some (reply_xattr_value os (Listxattr (proc_path (INODE inode))) n s) }"

definition sfs_setxattr :: "'w os \<Rightarrow> addr \<Rightarrow> string \<Rightarrow> string \<Rightarrow> u32 \<Rightarrow> ('w, 'x) f3_scheme \<Rightarrow>
    ('w, 'x) f3_scheme option" where
  "sfs_setxattr os ino name val flags s = do {
     p \<leftarrow> get_inode ino s;
     inode \<leftarrow> deref p s;
     let (r, s) = sys os (Setxattr (proc_path (i_fd inode)) name val flags) s;
     let s = reply_if_failed r s;
     let (r, s) = sys os (Setxattr (proc_path (i_id_fd inode)) name val flags) s;
     Some (F3_REPLY_ERR (errno_of r) s) }"

definition sfs_removexattr :: "'w os \<Rightarrow> addr \<Rightarrow> string \<Rightarrow> ('w, 'x) f3_scheme \<Rightarrow>
    ('w, 'x) f3_scheme option" where
  "sfs_removexattr os ino name s = do {
     p \<leftarrow> get_inode ino s;
     inode \<leftarrow> deref p s;
     let (r, s) = sys os (Removexattr (proc_path (i_fd inode)) name) s;
     let s = reply_if_failed r s;
     let (r, s) = sys os (Removexattr (proc_path (i_id_fd inode)) name) s;
     let s = reply_if_failed r s;
     (ret, s) \<leftarrow> (if strncmp_eq name ''user.f3.id'' 11 then f3_make_id_fs os ino s else Some (0, s));
     Some (F3_REPLY_ERR ret s) }"

section \<open>Replies\<close>

lemma one_reply_sfs_getattr: "sfs_getattr os p s = Some s' \<Longrightarrow> one_reply s s'"
  unfolding sfs_getattr_def one_reply_def by (elim stepE) (auto dest!: reply_dest)

lemma core_setattr [core_dest]:
  "setattr_mode os d a v fh s = (r, s') \<Longrightarrow> core s' = core s"
  "setattr_owner os d a v s = (r, s') \<Longrightarrow> core s' = core s"
  "setattr_size os d a v fh s = (r, s') \<Longrightarrow> core s' = core s"
  "setattr_times os a v fh s = (r, s') \<Longrightarrow> core s' = core s"
  by (auto simp: setattr_mode_def setattr_owner_def setattr_size_def setattr_times_def Let_def
      dest!: core_dest split: asm_splits)

declare core_setattr [THEN core_replies, reply_dest]

lemma one_reply_sfs_setattr: "sfs_setattr os p a v fi s = Some s' \<Longrightarrow> one_reply s s'"
  unfolding sfs_setattr_def do_setattr_def one_reply_def
  by (elim stepE) (auto dest!: reply_dest one_reply_sfs_getattr simp: one_reply_def)

lemma core_make_node [core_dest]: "make_node os d n m v l s = (r, s') \<Longrightarrow> core s' = core s"
  by (auto simp: make_node_def dest!: core_dest split: asm_splits)

lemma core_mark_dir [core_dest]: "mark_dir os d n l s = Some s' \<Longrightarrow> core s' = core s"
  unfolding mark_dir_def by (elim stepE) (auto dest!: core_dest)

lemma core_make_id_node [core_dest]: "make_id_node os q d n m l s = Some (r, s') \<Longrightarrow> core s' = core s"
  unfolding make_id_node_def by (elim stepE) (auto dest!: core_dest)

declare core_make_node [THEN core_replies, reply_dest] core_mark_dir [THEN core_replies, reply_dest]
  core_make_id_node [THEN core_replies, reply_dest]

lemma one_reply_mknod_symlink: "mknod_symlink os p n m rd l s = Some s' \<Longrightarrow> one_reply s s'"
  unfolding mknod_symlink_def one_reply_def by (elim stepE) (auto dest!: reply_dest)

lemma one_reply_sfs_link: "sfs_link os p q n s = Some s' \<Longrightarrow> one_reply s s'"
  unfolding sfs_link_def one_reply_def by (elim stepE) (auto dest!: reply_dest)

lemma one_reply_sfs_readlink: "sfs_readlink os p s = Some s' \<Longrightarrow> one_reply s s'"
  unfolding sfs_readlink_def one_reply_def by (elim stepE) (auto dest!: reply_dest split: sum.split)

lemma one_reply_sfs_statfs: "sfs_statfs os p s = Some s' \<Longrightarrow> one_reply s s'"
  unfolding sfs_statfs_def one_reply_def by (elim stepE) (auto dest!: reply_dest split: sum.split)

lemma one_reply_reply_xattr_value: "one_reply s (reply_xattr_value os q n s)"
  unfolding reply_xattr_value_def one_reply_def by (auto simp: Let_def dest!: reply_dest split: prod.split sum.split)

lemma one_reply_sfs_getxattr: "sfs_getxattr os p n m s = Some s' \<Longrightarrow> one_reply s s'"
  unfolding sfs_getxattr_def by (elim stepE) (auto simp: one_reply_reply_xattr_value)

lemma one_reply_sfs_listxattr: "sfs_listxattr os p m s = Some s' \<Longrightarrow> one_reply s s'"
  unfolding sfs_listxattr_def by (elim stepE) (auto simp: one_reply_reply_xattr_value)

end
