(* ===== verification/F3_Dir.thy ===== *)
theory F3_Dir
  imports F3_Lookup Fuse_Wire
begin

text \<open>
  The directory handlers of \<^verbatim>\<open>f3.cc\<close>: \<^verbatim>\<open>DirHandle\<close> objects, which \<^verbatim>\<open>sfs_opendir\<close> makes and
  \<^verbatim>\<open>sfs_releasedir\<close> destroys, and \<^verbatim>\<open>do_readdir\<close>, which fills a buffer with directory entries.
\<close>

section \<open>Handles\<close>

definition get_dir_handle :: "fuse_file_info \<Rightarrow> addr" where
  "get_dir_handle fi = nat (fi_fh fi)"

definition new_dirhandle :: "('w, 'x) f3_scheme \<Rightarrow> addr \<times> ('w, 'x) f3_scheme" where
  "new_dirhandle s = (next_addr s,
     s\<lparr>dirs := (dirs s)(next_addr s \<mapsto> \<lparr>dh_dp = None, dh_offset = 0\<rparr>),
       next_addr := Suc (next_addr s)\<rparr>)"

text \<open>\<open>delete d\<close>: the destructor closes the directory stream, if there is one.\<close>

definition delete_dirhandle :: "'w os \<Rightarrow> addr \<Rightarrow> ('w, 'x) f3_scheme \<Rightarrow>
    ('w, 'x) f3_scheme option" where
  "delete_dirhandle os d s = do {
     h \<leftarrow> dirs s d;
     let s = (case dh_dp h of Some dp \<Rightarrow> sys_ignore os (Closedir dp) s | None \<Rightarrow> s);
     Some (s\<lparr>dirs := (dirs s)(d := None)\<rparr>) }"

definition sfs_opendir :: "'w os \<Rightarrow> addr \<Rightarrow> fuse_file_info \<Rightarrow> ('w, 'x) f3_scheme \<Rightarrow>
    ('w, 'x) f3_scheme option" where
  "sfs_opendir os ino fi s = do {
     p \<leftarrow> get_inode ino s;
     let (ok, s) = alloc os s;
     if \<not> ok then Some (F3_REPLY_ERR ENOMEM s)
     else do {
       let (d, s) = new_dirhandle s;
       let s = lock (InodeMutex p) s;
       inode \<leftarrow> deref p s;
       let (r, s) = sys os (Openat (INODE inode) ''.'' O_RDONLY 0) s;
       let (r, s) = (case r of Inl e \<Rightarrow> (Inl e, s) | Inr fd \<Rightarrow> sys os (Fdopendir fd) s);
       s \<leftarrow> (case r of
           Inl e \<Rightarrow> do { s \<leftarrow> delete_dirhandle os d s; Some (F3_REPLY_ERR e s) }
         | Inr dp \<Rightarrow>
             let s = s\<lparr>dirs := (dirs s)(d \<mapsto> \<lparr>dh_dp = Some dp, dh_offset = 0\<rparr>)\<rparr>;
                 fi = fi\<lparr>fi_fh := int d\<rparr>;
                 fi = (if timeout s \<noteq> 0 then fi\<lparr>fi_keep_cache := True, fi_cache_readdir := True\<rparr>
                       else fi)
             in Some (reply (ReplyOpen fi) s));
       Some (unlock (InodeMutex p) s) } }"

definition sfs_releasedir :: "'w os \<Rightarrow> fuse_file_info \<Rightarrow> ('w, 'x) f3_scheme \<Rightarrow>
    ('w, 'x) f3_scheme option" where
  "sfs_releasedir os fi s = do {
     s \<leftarrow> delete_dirhandle os (get_dir_handle fi) s;
     Some (reply (ReplyErr 0) s) }"

definition sfs_fsyncdir :: "'w os \<Rightarrow> bool \<Rightarrow> fuse_file_info \<Rightarrow> ('w, 'x) f3_scheme \<Rightarrow>
    ('w, 'x) f3_scheme option" where
  "sfs_fsyncdir os datasync fi s = do {
     h \<leftarrow> dirs s (get_dir_handle fi);
     dp \<leftarrow> dh_dp h;
     let (r, s) = sys os (Dirfd dp) s;
     let (r, s) = sys os (if datasync then Fdatasync (c_int r) else Fsync (c_int r)) s;
     Some (F3_REPLY_ERR (errno_of r) s) }"

section \<open>Reading a directory\<close>

definition is_dot_or_dotdot :: "string \<Rightarrow> bool" where
  "is_dot_or_dotdot name \<longleftrightarrow>
     (case name @ [NUL] of
        c0 # rest \<Rightarrow> c0 = CHR ''.'' \<and>
          (case rest of
             c1 # rest' \<Rightarrow> c1 = NUL \<or> (c1 = CHR ''.'' \<and>
               (case rest' of c2 # _ \<Rightarrow> c2 = NUL | [] \<Rightarrow> False))
           | [] \<Rightarrow> False)
      | [] \<Rightarrow> False)"

definition set_dir_offset :: "addr \<Rightarrow> u64 \<Rightarrow> ('w, 'x) f3_scheme \<Rightarrow> ('w, 'x) f3_scheme" where
  "set_dir_offset d off s = s\<lparr>dirs := (dirs s)(d := map_option (\<lambda>h. h\<lparr>dh_offset := off\<rparr>) (dirs s d))\<rparr>"

text \<open>
  One entry goes into the buffer, or does not fit (\<open>None\<close> in the first component: the loop ends
  without error), or its lookup fails (the error ends the loop).
\<close>

definition add_entry :: "'w os \<Rightarrow> bool \<Rightarrow> addr \<Rightarrow> u64 \<Rightarrow> dirent \<Rightarrow> ('w, 'x) f3_scheme \<Rightarrow>
    ((errno + (u64 \<times> char list) option) \<times> ('w, 'x) f3_scheme) option" where
  "add_entry os pl ino rem entry s =
     (if pl then do {
        (err, e, s) \<leftarrow> do_lookup os ino (d_name entry) s;
        if err \<noteq> 0 then Some (Inl err, s)
        else do {
          let (entsize, bytes) = fuse_add_direntry_plus rem (d_name entry) e (d_off entry);
          if entsize > rem then do {
            s \<leftarrow> forget_one os (e_ino e) 1 s;
            Some (Inr None, s) }
          else Some (Inr (Some (entsize, bytes)), s) } }
      else do {
        let attr = zero_stat\<lparr>st_ino := d_ino entry, st_mode := push_bit 12 (ucast (d_type entry))\<rparr>;
        let (entsize, bytes) = fuse_add_direntry rem (d_name entry) attr (d_off entry);
        if entsize > rem then Some (Inr None, s)
        else Some (Inr (Some (entsize, bytes)), s) })"

text \<open>The loop: what remains of the buffer, the bytes so far, and the error that ended it (0 if none).\<close>

partial_function (option) readdir_loop :: "'w os \<Rightarrow> bool \<Rightarrow> addr \<Rightarrow> addr \<Rightarrow> int \<Rightarrow> u64 \<Rightarrow> char list \<Rightarrow>
    ('w, 'x) f3_scheme \<Rightarrow> (errno \<times> u64 \<times> char list \<times> ('w, 'x) f3_scheme) option" where
  "readdir_loop os pl ino d dp rem buf s =
     (case sys_readdir os dp s of
        (Inl err, s1) \<Rightarrow> Some (err, rem, buf, s1)
      | (Inr None, s1) \<Rightarrow> Some (0, rem, buf, s1)
      | (Inr (Some entry), s1) \<Rightarrow>
          let s2 = set_dir_offset d (d_off entry) s1 in
          if is_dot_or_dotdot (d_name entry) then readdir_loop os pl ino d dp rem buf s2
          else
            (case add_entry os pl ino rem entry s2 of
               None \<Rightarrow> None
             | Some (Inl err, s3) \<Rightarrow> Some (err, rem, buf, s3)
             | Some (Inr None, s3) \<Rightarrow> Some (0, rem, buf, s3)
             | Some (Inr (Some (entsize, bytes)), s3) \<Rightarrow>
                 readdir_loop os pl ino d dp (rem - entsize) (buf @ bytes) s3))"

definition do_readdir :: "'w os \<Rightarrow> addr \<Rightarrow> u64 \<Rightarrow> u64 \<Rightarrow> fuse_file_info \<Rightarrow> bool \<Rightarrow> ('w, 'x) f3_scheme \<Rightarrow>
    ('w, 'x) f3_scheme option" where
  "do_readdir os ino bufsize offset fi pl s = do {
     let d = get_dir_handle fi;
     p \<leftarrow> get_inode ino s;
     let s = lock (InodeMutex p) s;
     let (ok, s) = alloc os s;
     if \<not> ok then Some (unlock (InodeMutex p) (F3_REPLY_ERR ENOMEM s))
     else do {
       h \<leftarrow> dirs s d;
       dp \<leftarrow> dh_dp h;
       let s = (if offset \<noteq> dh_offset h
                then set_dir_offset d offset (sys_ignore os (Seekdir dp offset) s) else s);
       (err, rem, buf, s) \<leftarrow> readdir_loop os pl ino d dp bufsize [] s;
       let s = (if err \<noteq> 0 \<and> rem = bufsize then F3_REPLY_ERR err s else reply (ReplyBuf buf) s);
       Some (unlock (InodeMutex p) s) } }"

definition sfs_readdir :: "'w os \<Rightarrow> addr \<Rightarrow> u64 \<Rightarrow> u64 \<Rightarrow> fuse_file_info \<Rightarrow> ('w, 'x) f3_scheme \<Rightarrow>
    ('w, 'x) f3_scheme option" where
  "sfs_readdir os ino bufsize offset fi s = do_readdir os ino bufsize offset fi False s"

definition sfs_readdirplus :: "'w os \<Rightarrow> addr \<Rightarrow> u64 \<Rightarrow> u64 \<Rightarrow> fuse_file_info \<Rightarrow> ('w, 'x) f3_scheme \<Rightarrow>
    ('w, 'x) f3_scheme option" where
  "sfs_readdirplus os ino bufsize offset fi s = do_readdir os ino bufsize offset fi True s"

section \<open>Replies\<close>

lemma replies_set_dir_offset [simp]:
  "replies (trace (set_dir_offset d off s)) = replies (trace s)"
  by (simp add: set_dir_offset_def)

lemma replies_new_dirhandle [reply_dest]: "new_dirhandle s = (d, s') \<Longrightarrow> replies (trace s') = replies (trace s)"
  by (auto simp: new_dirhandle_def)

lemma replies_delete_dirhandle [reply_dest]: "delete_dirhandle os d s = Some s' \<Longrightarrow> replies (trace s') = replies (trace s)"
  unfolding delete_dirhandle_def by (elim stepE) (auto split: option.split)

lemma one_reply_sfs_opendir: "sfs_opendir os p fi s = Some s' \<Longrightarrow> one_reply s s'"
  unfolding sfs_opendir_def one_reply_def by (elim stepE) (auto dest!: reply_dest simp: Let_def split: sum.splits)

lemma one_reply_sfs_releasedir: "sfs_releasedir os fi s = Some s' \<Longrightarrow> one_reply s s'"
  unfolding sfs_releasedir_def one_reply_def by (elim stepE) (auto dest!: reply_dest)

lemma one_reply_sfs_fsyncdir: "sfs_fsyncdir os b fi s = Some s' \<Longrightarrow> one_reply s s'"
  unfolding sfs_fsyncdir_def one_reply_def by (elim stepE) (auto dest!: reply_dest)

lemma replies_add_entry [reply_dest]: "add_entry os pl p rem e s = Some (r, s') \<Longrightarrow> replies (trace s') = replies (trace s)"
  unfolding add_entry_def by (elim stepE) (auto dest!: reply_dest)

lemma replies_readdir_loop_snd:
  assumes "readdir_loop os pl p d dp rem buf s = Some y"
  shows "replies (trace (snd (snd (snd y)))) = replies (trace s)"
  using assms
proof (induction rule: readdir_loop.raw_induct [rotated, consumes 1, case_names step])
  case (step f os pl p d dp rem buf s y)
  from step(2) show ?case
    by (elim stepE) (auto dest!: reply_dest step(1))
qed

lemmas replies_readdir_loop [reply_dest] = replies_readdir_loop_snd [where y = "(a, b, c, d)" for a b c d, unfolded snd_conv]

lemma one_reply_do_readdir: "do_readdir os p n off fi b s = Some s' \<Longrightarrow> one_reply s s'"
  unfolding do_readdir_def one_reply_def by (elim stepE) (auto dest!: reply_dest simp: Let_def)

end
