(* ===== verification/F3_File.thy ===== *)
theory F3_File
  imports F3_Lookup Fuse_Buf
begin

text \<open>
  The file handlers of \<^verbatim>\<open>f3.cc\<close>: creating, opening and releasing files, which decides between the
  source file and its ID copy, and reading and writing, which waits for a running download and
  keeps track of the size of an ID file.
\<close>

section \<open>Create, open, release\<close>

definition sfs_create :: "'w os \<Rightarrow> addr \<Rightarrow> string \<Rightarrow> u32 \<Rightarrow> fuse_file_info \<Rightarrow> ('w, 'x) f3_scheme \<Rightarrow>
    ('w, 'x) f3_scheme option" where
  "sfs_create os parent name mode fi s = do {
     p \<leftarrow> get_inode parent s;
     inode_p \<leftarrow> deref p s;
     let flags = (fi_flags fi OR O_CREAT) AND NOT O_NOFOLLOW;
     let (r, s) = sys os (Openat (i_fd inode_p) name flags mode) s;
     case r of Inl err \<Rightarrow> Some (F3_REPLY_ERR err s) | Inr fd \<Rightarrow> do {
       let (r, s) = sys os (Openat (i_id_fd inode_p) name flags mode) s;
       case r of Inl err \<Rightarrow> Some (F3_REPLY_ERR err s) | Inr id_fd \<Rightarrow> do {
         (new_id, s) \<leftarrow> f3_is_new_id os parent name s;
         (fh, s) \<leftarrow> (if new_id then do {
             (_, s) \<leftarrow> f3_mark_as_id os fd (length (source s)) s;
             (_, s) \<leftarrow> f3_mark_as_id os id_fd (length (idroot s)) s;
             Some (id_fd, sys_ignore os (Close fd) s) }
           else Some (fd, s));
         (err, e, s) \<leftarrow> do_lookup os parent name s;
         if err \<noteq> 0 then Some (F3_REPLY_ERR err s)
         else do {
           q \<leftarrow> get_inode (e_ino e) s;
           let s = lock (InodeMutex q) s;
           let s = upd_inode q (\<lambda>i. i\<lparr>i_nopen := i_nopen i + 1\<rparr>) s;
           let s = reply (ReplyCreate e (fi\<lparr>fi_fh := fh\<rparr>)) s;
           Some (unlock (InodeMutex q) s) } } } }"

text \<open>The changes \<^verbatim>\<open>sfs_open\<close> makes to the flags when the writeback cache is on.\<close>

definition open_flags :: "rat \<Rightarrow> u32 \<Rightarrow> u32" where
  "open_flags tmo flags =
     (let flags = (if tmo \<noteq> 0 \<and> flags AND O_ACCMODE = O_WRONLY
                   then (flags AND NOT O_ACCMODE) OR O_RDWR else flags)
      in if tmo \<noteq> 0 \<and> flags AND O_APPEND \<noteq> 0 then flags AND NOT O_APPEND else flags)"

text \<open>
  Starting the download of a placeholder: a thread runs \<^const>\<open>download_file\<close> with the recorded path and
  servers, and the size the producer recorded becomes the size to wait for.
\<close>

definition start_download :: "'w os \<Rightarrow> addr \<Rightarrow> ('w, 'x) f3_scheme \<Rightarrow> ('w, 'x) f3_scheme option" where
  "start_download os p s = do {
     inode \<leftarrow> deref p s;
     let (buf, s) = f3_get_filepath os (i_fd inode) PATH_MAX s;
     rel_path \<leftarrow> cstr buf;
     let (buf, s) = f3_get_servers os (i_fd inode) 100 s;
     servers \<leftarrow> cstr buf;
     client_fd \<leftarrow> i_client_fd inode;
     let dl_info = \<lparr>dl_fd = client_fd, dl_path = rel_path, dl_servers = servers,
                    dl_end_byte = 0, dl_done = p\<rparr>;
     let (r, s) = sys os PthreadCreate s;
     let s = (case r of Inr _ \<Rightarrow> s\<lparr>threads := threads s @ [dl_info]\<rparr> | Inl _ \<Rightarrow> s);
     (target, s) \<leftarrow> f3_get_size_xattr os (i_fd inode) s;
     Some (upd_inode p (\<lambda>i. i\<lparr>i_target_size := target\<rparr>) s) }"

definition sfs_open :: "'w os \<Rightarrow> addr \<Rightarrow> fuse_file_info \<Rightarrow> ('w, 'x) f3_scheme \<Rightarrow>
    ('w, 'x) f3_scheme option" where
  "sfs_open os ino fi s = do {
     p \<leftarrow> get_inode ino s;
     let flags = open_flags (timeout s) (fi_flags fi);
     inode \<leftarrow> deref p s;
     s \<leftarrow> (if i_needs_download inode then start_download os p s else Some s);
     inode \<leftarrow> deref p s;
     let (r, s) = sys os (Open (proc_path (INODE inode)) (flags AND NOT O_NOFOLLOW)) s;
     case r of
       Inl err \<Rightarrow> Some (F3_REPLY_ERR err s)
     | Inr fd \<Rightarrow> do {
         let s = lock (InodeMutex p) s;
         let s = upd_inode p (\<lambda>i. i\<lparr>i_nopen := i_nopen i + 1\<rparr>) s;
         let s = reply (ReplyOpen (fi\<lparr>fi_flags := flags, fi_keep_cache := (timeout s \<noteq> 0),
                                     fi_fh := fd\<rparr>)) s;
         Some (unlock (InodeMutex p) s) } }"

definition sfs_release :: "'w os \<Rightarrow> addr \<Rightarrow> fuse_file_info \<Rightarrow> ('w, 'x) f3_scheme \<Rightarrow>
    ('w, 'x) f3_scheme option" where
  "sfs_release os ino fi s = do {
     p \<leftarrow> get_inode ino s;
     let s = lock (InodeMutex p) s;
     inode \<leftarrow> deref p s;
     let (r, s) = sys os (FcntlGetfl (fi_fh fi)) s;
     let fl = (word_of_int (c_int r) :: u32);
     let s = (if fl AND O_RDWR \<noteq> 0 \<or> fl AND O_WRONLY \<noteq> 0
              then f3_update_size_xattr os (i_fd inode) (i_size inode) s else s);
     s \<leftarrow> (if \<not> i_needs_download inode then do {
             let (buf, s) = f3_get_filepath os (i_fd inode) PATH_MAX s;
             rel_path \<leftarrow> cstr buf;
             (_, s) \<leftarrow> send_fname_done os (server_fd s) rel_path s;
             Some s }
           else Some s);
     let s = upd_inode p (\<lambda>i. i\<lparr>i_nopen := i_nopen i - 1\<rparr>) s;
     let s = sys_ignore os (Close (fi_fh fi)) s;
     let s = F3_REPLY_ERR 0 s;
     Some (unlock (InodeMutex p) s) }"

text \<open>
  A started download thread runs to its end: \<^verbatim>\<open>download_file_thread\<close>. Its last step writes through the
  pointer to the inode's \<open>download_done\<close>.
\<close>

definition download_file_thread :: "'w os \<Rightarrow> download_info \<Rightarrow> ('w, 'x) f3_scheme \<Rightarrow>
    ('w, 'x) f3_scheme option" where
  "download_file_thread os dl_info s = do {
     (ret, s) \<leftarrow> download_file os (dl_fd dl_info) (dl_path dl_info) (dl_servers dl_info)
                   (dl_end_byte dl_info) s;
     _ \<leftarrow> deref (dl_done dl_info) s;
     Some (upd_inode (dl_done dl_info) (\<lambda>i. i\<lparr>i_download_done := True\<rparr>) s) }"

section \<open>Synchronisation and locks\<close>

definition sfs_flush :: "'w os \<Rightarrow> fuse_file_info \<Rightarrow> ('w, 'x) f3_scheme \<Rightarrow> ('w, 'x) f3_scheme option" where
  "sfs_flush os fi s = do {
     let (r, s) = sys os (Dup (fi_fh fi)) s;
     let (r, s) = sys os (Close (c_int r)) s;
     Some (F3_REPLY_ERR (errno_of r) s) }"

definition sfs_fsync :: "'w os \<Rightarrow> bool \<Rightarrow> fuse_file_info \<Rightarrow> ('w, 'x) f3_scheme \<Rightarrow>
    ('w, 'x) f3_scheme option" where
  "sfs_fsync os datasync fi s = do {
     let (r, s) = sys os (if datasync then Fdatasync (fi_fh fi) else Fsync (fi_fh fi)) s;
     Some (F3_REPLY_ERR (errno_of r) s) }"

definition sfs_fallocate :: "'w os \<Rightarrow> u32 \<Rightarrow> u64 \<Rightarrow> u64 \<Rightarrow> fuse_file_info \<Rightarrow> ('w, 'x) f3_scheme \<Rightarrow>
    ('w, 'x) f3_scheme option" where
  "sfs_fallocate os mode offset len fi s =
     (if mode \<noteq> 0 then Some (F3_REPLY_ERR EOPNOTSUPP s)
      else
        let (r, s) = sys os (PosixFallocate (fi_fh fi) offset len) s
        in Some (F3_REPLY_ERR (errno_of r) s))"

definition sfs_flock :: "'w os \<Rightarrow> fuse_file_info \<Rightarrow> u32 \<Rightarrow> ('w, 'x) f3_scheme \<Rightarrow>
    ('w, 'x) f3_scheme option" where
  "sfs_flock os fi op s = do {
     let (r, s) = sys os (Flock (fi_fh fi) op) s;
     Some (F3_REPLY_ERR (errno_of r) s) }"

section \<open>Reading and writing\<close>

definition FUSE_BUF_COPY_FLAGS :: "('w, 'x) f3_scheme \<Rightarrow> u32" where
  "FUSE_BUF_COPY_FLAGS s = (if nosplice s then FUSE_BUF_NO_SPLICE else 0)"

text \<open>The vector \<open>FUSE_BUFVEC_INIT(size)\<close> made to refer to the position \<open>off\<close> of a descriptor.\<close>

definition fd_bufvec :: "u64 \<Rightarrow> fdesc \<Rightarrow> u64 \<Rightarrow> fuse_bufvec" where
  "fd_bufvec n fd off = (FUSE_BUFVEC_INIT n)\<lparr>v_buf := map (\<lambda>b. b\<lparr>
     b_flags := FUSE_BUF_IS_FD OR FUSE_BUF_FD_SEEK, b_fd := fd, b_pos := off\<rparr>)
       (v_buf (FUSE_BUFVEC_INIT n))\<rparr>"

definition do_read :: "u64 \<Rightarrow> u64 \<Rightarrow> fuse_file_info \<Rightarrow> ('w, 'x) f3_scheme \<Rightarrow> ('w, 'x) f3_scheme" where
  "do_read n off fi s = reply (ReplyData (fd_bufvec n (fi_fh fi) off) (FUSE_BUF_COPY_FLAGS s)) s"

text \<open>
  While the download has not reached the end of the requested range, and the range lies inside the
  file, wait half a second and look again, at most 24 times. A failing \<open>fstatat\<close> leaves the old size
  in place.
\<close>

definition still_waiting :: "u64 \<Rightarrow> u64 \<Rightarrow> u64 \<Rightarrow> u64 \<Rightarrow> bool" where
  "still_waiting cur off n target \<longleftrightarrow> cur < off + n \<and> off + n < target"

fun read_wait :: "'w os \<Rightarrow> nat \<Rightarrow> addr \<Rightarrow> u64 \<Rightarrow> u64 \<Rightarrow> u64 \<Rightarrow> ('w, 'x) f3_scheme \<Rightarrow>
    (u64 \<times> ('w, 'x) f3_scheme) option" where
  "read_wait os 0 p cur off n s = Some (cur, s)"
| "read_wait os (Suc t) p cur off n s = do {
     inode \<leftarrow> deref p s;
     if still_waiting cur off n (i_target_size inode) then do {
       let s = sys_ignore os (Usleep 500000) s;
       let (r, s) = sys_stat os (Fstatat (i_id_fd inode)) s;
       read_wait os t p (case r of Inl _ \<Rightarrow> cur | Inr st \<Rightarrow> st_size st) off n s }
     else Some (cur, s) }"

definition READ_TIMEOUT :: nat where [const_defs]: "READ_TIMEOUT = 24"

text \<open>The first \<open>fstatat\<close> is not checked: if it fails, the loop reads an uninitialised \<open>stat\<close>.\<close>

definition sfs_read :: "'w os \<Rightarrow> addr \<Rightarrow> u64 \<Rightarrow> u64 \<Rightarrow> fuse_file_info \<Rightarrow> ('w, 'x) f3_scheme \<Rightarrow>
    ('w, 'x) f3_scheme option" where
  "sfs_read os ino n off fi s = do {
     p \<leftarrow> get_inode ino s;
     inode \<leftarrow> deref p s;
     let (r, s) = sys_stat os (Fstatat (i_id_fd inode)) s;
     case r of
       Inl _ \<Rightarrow> None
     | Inr st \<Rightarrow> do {
         (_, s) \<leftarrow> read_wait os READ_TIMEOUT p (st_size st) off n s;
         Some (do_read n off fi s) } }"

text \<open>Writing; the first component of the result is what is left of the input vector.\<close>

definition do_write_buf :: "'w os \<Rightarrow> u64 \<Rightarrow> u64 \<Rightarrow> fuse_bufvec \<Rightarrow> fuse_file_info \<Rightarrow> addr \<Rightarrow>
    ('w, 'x) f3_scheme \<Rightarrow> (fuse_bufvec \<times> ('w, 'x) f3_scheme) option" where
  "do_write_buf os n off in_buf fi p s = do {
     let out_buf = fd_bufvec n (fi_fh fi) off;
     (res, _, in_buf, s) \<leftarrow> fuse_buf_copy os out_buf in_buf (FUSE_BUF_COPY_FLAGS s) s;
     if res < 0 then Some (in_buf, F3_REPLY_ERR (- res) s)
     else do {
       inode \<leftarrow> deref p s;
       let s = (if i_is_id inode then
                  (let s = lock (InodeMutex p) s;
                       e = off + word_of_int res;
                       s = (if e > i_size inode then upd_inode p (\<lambda>i. i\<lparr>i_size := e\<rparr>) s else s)
                   in unlock (InodeMutex p) s)
                else s);
       Some (in_buf, reply (ReplyWrite (word_of_int res)) s) } }"

definition sfs_write_buf :: "'w os \<Rightarrow> addr \<Rightarrow> fuse_bufvec \<Rightarrow> u64 \<Rightarrow> fuse_file_info \<Rightarrow>
    ('w, 'x) f3_scheme \<Rightarrow> (fuse_bufvec \<times> ('w, 'x) f3_scheme) option" where
  "sfs_write_buf os ino in_buf off fi s = do {
     p \<leftarrow> get_inode ino s;
     do_write_buf os (fuse_buf_size in_buf) off in_buf fi p s }"

section \<open>Replies\<close>

lemma one_reply_sfs_create: "sfs_create os p n m fi s = Some s' \<Longrightarrow> one_reply s s'"
  unfolding sfs_create_def one_reply_def by (elim stepE) (auto dest!: reply_dest)

lemma replies_start_download [reply_dest]: "start_download os p s = Some s' \<Longrightarrow> replies (trace s') = replies (trace s)"
  unfolding start_download_def by (elim stepE) (auto dest!: reply_dest split: sum.splits)

lemma one_reply_sfs_open: "sfs_open os p fi s = Some s' \<Longrightarrow> one_reply s s'"
  unfolding sfs_open_def one_reply_def by (elim stepE) (auto dest!: reply_dest)

lemma one_reply_sfs_release: "sfs_release os p fi s = Some s' \<Longrightarrow> one_reply s s'"
  unfolding sfs_release_def one_reply_def by (elim stepE) (auto dest!: reply_dest simp: Let_def)

lemma one_reply_sfs_flush: "sfs_flush os fi s = Some s' \<Longrightarrow> one_reply s s'"
  unfolding sfs_flush_def one_reply_def by (elim stepE) (auto dest!: reply_dest)

lemma one_reply_sfs_fsync: "sfs_fsync os b fi s = Some s' \<Longrightarrow> one_reply s s'"
  unfolding sfs_fsync_def one_reply_def by (elim stepE) (auto dest!: reply_dest)

lemma one_reply_sfs_fallocate: "sfs_fallocate os m off len fi s = Some s' \<Longrightarrow> one_reply s s'"
  unfolding sfs_fallocate_def one_reply_def by (elim stepE) (auto dest!: reply_dest)

lemma one_reply_sfs_flock: "sfs_flock os fi m s = Some s' \<Longrightarrow> one_reply s s'"
  unfolding sfs_flock_def one_reply_def by (elim stepE) (auto dest!: reply_dest)

lemma core_read_wait [core_dest]: "read_wait os t p cur off n s = Some (r, s') \<Longrightarrow> core s' = core s"
  by (induction t arbitrary: cur s) (auto elim!: stepE dest!: core_dest)

declare core_read_wait [THEN core_replies, reply_dest]

lemma one_reply_sfs_read: "sfs_read os p n off fi s = Some s' \<Longrightarrow> one_reply s s'"
  unfolding sfs_read_def do_read_def one_reply_def by (elim stepE) (auto dest!: reply_dest)

lemma one_reply_sfs_write_buf: "map_option snd (sfs_write_buf os p b off fi s) = Some s' \<Longrightarrow> one_reply s s'"
  unfolding sfs_write_buf_def do_write_buf_def one_reply_def by (elim stepE) (auto dest!: reply_dest simp: Let_def)

end
