(* ===== verification/Sample_Kernel.thy ===== *)
theory Sample_Kernel
  imports F3_State Sample_Os
begin

text \<open>
  A freshly mounted driver over the sample operating system, and the driver's state before \<^verbatim>\<open>main\<close>
  runs.
\<close>

definition sample_root :: inode where
  "sample_root = new_inode\<lparr>i_fd := 3, i_id_fd := 4, i_nlookup := 9999\<rparr>"

definition sample_state :: "unit f3" where
  "sample_state = \<lparr>world = (), mem = (\<lambda>_. NUL), brk = 0, trace = [],
     inodes = Map.empty, heap = [root_addr \<mapsto> sample_root], dirs = Map.empty, next_addr = 3,
     threads = [], timeout = 0, source = ''/src'', idroot = ''/id'', fs_src_dev = 1,
     nosplice = True, address = ''10.0.0.1'', server_fd = 6, client_uds_path = ''/sock''\<rparr>"

text \<open>The driver's state before \<^verbatim>\<open>main\<close> runs.\<close>

definition sample_blank :: "unit f3" where
  "sample_blank = sample_state\<lparr>heap := Map.empty\<rparr>"

end
