(* ===== verification/F3_Main.thy ===== *)
theory F3_Main
  imports F3_Meta F3_Dir F3_File Fuse_Kernel Sample_Kernel
begin

text \<open>
  The driver as a whole, \<^verbatim>\<open>f3.cc\<close>: start-up (options, the connection to the transfer server, the
  descriptors of the two roots), the capabilities negotiated by \<^verbatim>\<open>sfs_init\<close>, and the table of
  handlers that \<^verbatim>\<open>assign_operations\<close> gives to libfuse, as one function from requests to handlers.
\<close>

section \<open>Start-up\<close>

record options =
  opt_help :: bool
  opt_nocache :: bool
  opt_nosplice :: bool
  opt_address :: "string option"
  opt_idroot :: "string option"
  opt_client_socket_path :: "string option"
  opt_server_socket_path :: "string option"

text \<open>
  Up to \<open>t\<close> attempts, one second apart, as long as the server refuses the connection; the last
  result stays in \<open>server_fd\<close>.
\<close>

fun connect_server :: "'w os \<Rightarrow> nat \<Rightarrow> string \<Rightarrow> ('w, 'x) f3_scheme \<Rightarrow> ('w, 'x) f3_scheme" where
  "connect_server os 0 path s = s"
| "connect_server os (Suc t) path s =
     (let (c, s) = setup_conn os path s;
          s = s\<lparr>server_fd := c\<rparr> in
      if c < 0 then
        if - c \<noteq> ECONNREFUSED then s
        else connect_server os t path (sys_ignore os (Sleep 1) s)
      else s)"

text \<open>
  What \<^verbatim>\<open>parse_options\<close> does with the parsed command line: \<open>Inl\<close> is the code given to \<open>exit\<close>. A failing
  \<open>realpath\<close> makes a string of a null pointer: undefined.
\<close>

definition parse_options :: "'w os \<Rightarrow> options \<Rightarrow> int \<Rightarrow> string \<Rightarrow> ('w, 'x) f3_scheme \<Rightarrow>
    (int + ('w, 'x) f3_scheme) option" where
  "parse_options os opts argc arg1 s =
     (if opt_help opts then Some (Inl 0)
      else if argc \<noteq> 3 then Some (Inl 2)
      else do {
        let s = (case opt_address opts of Some a \<Rightarrow> s\<lparr>address := a\<rparr> | None \<Rightarrow> s);
        let s = (case opt_idroot opts of Some d \<Rightarrow> s\<lparr>idroot := d\<rparr> | None \<Rightarrow> s);
        let s = (case opt_client_socket_path opts of
                   Some c \<Rightarrow> s\<lparr>client_uds_path := c\<rparr> | None \<Rightarrow> s);
        let s = (case opt_server_socket_path opts of
                   Some c \<Rightarrow> connect_server os 10 c s | None \<Rightarrow> s);
        let s = s\<lparr>nosplice := opt_nosplice opts\<rparr>;
        let (r, s) = sys_data os (Realpath arg1) s;
        case r of Inl _ \<Rightarrow> None | Inr resolved_path \<Rightarrow> Some (Inr (s\<lparr>source := resolved_path\<rparr>)) })"

definition maximize_fd_limit :: "'w os \<Rightarrow> ('w, 'x) machine_scheme \<Rightarrow> ('w, 'x) machine_scheme" where
  "maximize_fd_limit os s =
     (let (r, s) = sys os Getrlimit s in
      case r of Inl _ \<Rightarrow> s | Inr rlim_max \<Rightarrow> sys_ignore os (Setrlimit (word_of_int rlim_max)) s)"

text \<open>
  The part of \<^verbatim>\<open>main\<close> before the FUSE session: the root inode with its lookup count of 9999, the
  caching timeout, and the descriptors of the two root directories. \<open>Inl\<close> is the exit code.
\<close>

definition main_setup :: "'w os \<Rightarrow> options \<Rightarrow> int \<Rightarrow> string \<Rightarrow> ('w, 'x) f3_scheme \<Rightarrow>
    (int + ('w, 'x) f3_scheme) option" where
  "main_setup os opts argc arg1 s = do {
     r \<leftarrow> parse_options os opts argc arg1 s;
     case r of
       Inl code \<Rightarrow> Some (Inl code)
     | Inr s \<Rightarrow> do {
         let s = maximize_fd_limit os s;
         let s = put_inode root_addr (new_inode\<lparr>i_nlookup := 9999\<rparr>) s;
         let s = s\<lparr>timeout := (if opt_nocache opts then 0 else 1 / 1000000000)\<rparr>;
         let (r, s) = sys_stat os (Lstat (source s)) s;
         case r of
           Inl _ \<Rightarrow> Some (Inl 1)
         | Inr st \<Rightarrow>
             if \<not> S_ISDIR (st_mode st) then Some (Inl 1)
             else do {
               let s = s\<lparr>fs_src_dev := st_dev st\<rparr>;
               let (r, s) = sys os (Open (source s) O_PATH) s;
               case r of
                 Inl _ \<Rightarrow> Some (Inl 1)
               | Inr fd \<Rightarrow> do {
                   let s = upd_inode root_addr (\<lambda>i. i\<lparr>i_fd := fd\<rparr>) s;
                   let (r, s) = sys os (Open (idroot s) O_PATH) s;
                   case r of
                     Inl _ \<Rightarrow> Some (Inl 1)
                   | Inr id_fd \<Rightarrow> Some (Inr (upd_inode root_addr (\<lambda>i. i\<lparr>i_id_fd := id_fd\<rparr>) s)) } } } }"

section \<open>Capabilities\<close>

definition want_if :: "bool \<Rightarrow> u32 \<Rightarrow> fuse_conn_info \<Rightarrow> fuse_conn_info" where
  "want_if c cap conn =
     (if c \<and> conn_capable conn AND cap \<noteq> 0 then conn\<lparr>conn_want := conn_want conn OR cap\<rparr> else conn)"

definition sfs_init :: "('w, 'x) f3_scheme \<Rightarrow> fuse_conn_info \<Rightarrow> fuse_conn_info" where
  "sfs_init s conn =
     (let conn = want_if True FUSE_CAP_EXPORT_SUPPORT conn;
          conn = want_if (timeout s \<noteq> 0) FUSE_CAP_WRITEBACK_CACHE conn;
          conn = want_if True FUSE_CAP_FLOCK_LOCKS conn;
          conn = want_if (\<not> nosplice s) FUSE_CAP_SPLICE_WRITE conn
      in want_if (\<not> nosplice s) FUSE_CAP_SPLICE_READ conn)"

section \<open>Requests\<close>

datatype (plugins only: size code) request =
    Lookup addr string
  | Mkdir addr string u32
  | Mknod addr string u32 u64
  | Symlink string addr string
  | Link addr addr string
  | Unlink addr string
  | Rmdir addr string
  | Rename addr string addr string u32
  | Forget addr u64
  | ForgetMulti "(addr \<times> u64) list"
  | Getattr addr
  | Setattr addr stat u32 "fuse_file_info option"
  | ReadlinkReq addr
  | Opendir addr fuse_file_info
  | ReaddirReq addr u64 u64 fuse_file_info
  | Readdirplus addr u64 u64 fuse_file_info
  | Releasedir fuse_file_info
  | Fsyncdir bool fuse_file_info
  | Create addr string u32 fuse_file_info
  | OpenReq addr fuse_file_info
  | Release addr fuse_file_info
  | Flush fuse_file_info
  | FsyncReq bool fuse_file_info
  | ReadReq addr u64 u64 fuse_file_info
  | WriteBuf addr fuse_bufvec u64 fuse_file_info
  | Statfs addr
  | FlockReq fuse_file_info u32
  | SetxattrReq addr string string u32
  | GetxattrReq addr string nat
  | ListxattrReq addr nat
  | RemovexattrReq addr string

fun sfs_oper :: "'w os \<Rightarrow> request \<Rightarrow> ('w, 'x) f3_scheme \<Rightarrow> ('w, 'x) f3_scheme option" where
  "sfs_oper os (Lookup parent name) s = sfs_lookup os parent name s"
| "sfs_oper os (Mkdir parent name mode) s = sfs_mkdir os parent name mode s"
| "sfs_oper os (Mknod parent name mode rdev) s = sfs_mknod os parent name mode rdev s"
| "sfs_oper os (Symlink link parent name) s = sfs_symlink os link parent name s"
| "sfs_oper os (Link ino parent name) s = sfs_link os ino parent name s"
| "sfs_oper os (Unlink parent name) s = sfs_unlink os parent name s"
| "sfs_oper os (Rmdir parent name) s = sfs_rmdir os parent name s"
| "sfs_oper os (Rename parent name newparent newname flags) s =
     sfs_rename os parent name newparent newname flags s"
| "sfs_oper os (Forget ino n) s = sfs_forget os ino n s"
| "sfs_oper os (ForgetMulti fs) s = sfs_forget_multi os fs s"
| "sfs_oper os (Getattr ino) s = sfs_getattr os ino s"
| "sfs_oper os (Setattr ino attr valid fi) s = sfs_setattr os ino attr valid fi s"
| "sfs_oper os (ReadlinkReq ino) s = sfs_readlink os ino s"
| "sfs_oper os (Opendir ino fi) s = sfs_opendir os ino fi s"
| "sfs_oper os (ReaddirReq ino n off fi) s = sfs_readdir os ino n off fi s"
| "sfs_oper os (Readdirplus ino n off fi) s = sfs_readdirplus os ino n off fi s"
| "sfs_oper os (Releasedir fi) s = sfs_releasedir os fi s"
| "sfs_oper os (Fsyncdir datasync fi) s = sfs_fsyncdir os datasync fi s"
| "sfs_oper os (Create parent name mode fi) s = sfs_create os parent name mode fi s"
| "sfs_oper os (OpenReq ino fi) s = sfs_open os ino fi s"
| "sfs_oper os (Release ino fi) s = sfs_release os ino fi s"
| "sfs_oper os (Flush fi) s = sfs_flush os fi s"
| "sfs_oper os (FsyncReq datasync fi) s = sfs_fsync os datasync fi s"
| "sfs_oper os (ReadReq ino n off fi) s = sfs_read os ino n off fi s"
| "sfs_oper os (WriteBuf ino in_buf off fi) s = map_option snd (sfs_write_buf os ino in_buf off fi s)"
| "sfs_oper os (Statfs ino) s = sfs_statfs os ino s"
| "sfs_oper os (FlockReq fi op) s = sfs_flock os fi op s"
| "sfs_oper os (SetxattrReq ino name val flags) s = sfs_setxattr os ino name val flags s"
| "sfs_oper os (GetxattrReq ino name n) s = sfs_getxattr os ino name n s"
| "sfs_oper os (ListxattrReq ino n) s = sfs_listxattr os ino n s"
| "sfs_oper os (RemovexattrReq ino name) s = sfs_removexattr os ino name s"

text \<open>A session serves requests in the order in which libfuse hands them over.\<close>

fun serve :: "'w os \<Rightarrow> request list \<Rightarrow> ('w, 'x) f3_scheme \<Rightarrow> ('w, 'x) f3_scheme option" where
  "serve os [] s = Some s"
| "serve os (req # reqs) s = do { s \<leftarrow> sfs_oper os req s; serve os reqs s }"

section \<open>One reply for every request\<close>

text \<open>
  libfuse frees a request when it is answered, so a handler has to answer every request exactly once.
  What this gives for a session is proved once, for any dispatcher that keeps the contract on
  the requests \<open>ok\<close>.
\<close>

locale responder =
  fixes oper :: "'req \<Rightarrow> 's \<Rightarrow> 's option"
    and ok :: "'req \<Rightarrow> bool"
    and answers :: "'s \<Rightarrow> reply list"
    and run :: "'req list \<Rightarrow> 's \<Rightarrow> 's option"
  assumes one_answer: "ok req \<Longrightarrow> oper req s = Some s' \<Longrightarrow> \<exists>r. answers s' = answers s @ [r]"
    and run_Nil: "run [] s = Some s"
    and run_Cons: "run (req # reqs) s = Option.bind (oper req s) (run reqs)"
begin

lemma run_answers:
  "run reqs s = Some s' \<Longrightarrow> list_all ok reqs \<Longrightarrow>
   \<exists>rs. length rs = length reqs \<and> answers s' = answers s @ rs"
proof (induction reqs arbitrary: s)
  case Nil
  then show ?case by (simp add: run_Nil)
next
  case (Cons req reqs)
  from Cons.prems obtain s1 where s1: "oper req s = Some s1" "run reqs s1 = Some s'"
    by (auto simp: run_Cons elim: stepE)
  with Cons.prems obtain r where "answers s1 = answers s @ [r]"
    using one_answer by fastforce
  moreover from Cons.IH [OF s1(2)] Cons.prems obtain rs
    where "length rs = length reqs" "answers s' = answers s1 @ rs" by auto
  ultimately have "length (r # rs) = length (req # reqs) \<and> answers s' = answers s @ (r # rs)"
    by simp
  then show ?case by blast
qed

end

text \<open>The requests whose handlers go on after they have replied with an error.\<close>

fun goes_on_after_error :: "request \<Rightarrow> bool" where
  "goes_on_after_error (Unlink _ _) = True"
| "goes_on_after_error (Rmdir _ _) = True"
| "goes_on_after_error (Rename _ _ _ _ _) = True"
| "goes_on_after_error (SetxattrReq _ _ _ _) = True"
| "goes_on_after_error (RemovexattrReq _ _) = True"
| "goes_on_after_error _ = False"

lemmas one_reply_handlers =
  one_reply_sfs_lookup one_reply_sfs_forget one_reply_sfs_forget_multi one_reply_sfs_getattr
  one_reply_sfs_setattr one_reply_mknod_symlink one_reply_sfs_link one_reply_sfs_readlink
  one_reply_sfs_statfs one_reply_sfs_getxattr one_reply_sfs_listxattr one_reply_sfs_opendir
  one_reply_sfs_releasedir one_reply_sfs_fsyncdir one_reply_do_readdir one_reply_sfs_create
  one_reply_sfs_open one_reply_sfs_release one_reply_sfs_flush one_reply_sfs_fsync
  one_reply_sfs_flock one_reply_sfs_read one_reply_sfs_write_buf

lemma one_reply_sfs_oper:
  assumes "\<not> goes_on_after_error req" and "sfs_oper os req s = Some s'"
  shows "one_reply s s'"
  using assms
  by (cases req) (simp_all add: sfs_mkdir_def sfs_mknod_def sfs_symlink_def sfs_readdir_def
      sfs_readdirplus_def one_reply_handlers)

interpretation session: responder "sfs_oper os" "\<lambda>req. \<not> goes_on_after_error req"
  "\<lambda>s. replies (trace s)" "serve os"
  by unfold_locales (auto simp: one_reply_def dest: one_reply_sfs_oper)

text \<open>
  C1. Whatever the operating system answers, a session of requests other than \<^verbatim>\<open>unlink\<close>, \<^verbatim>\<open>rmdir\<close>,
  \<^verbatim>\<open>rename\<close>, \<^verbatim>\<open>setxattr\<close> and \<^verbatim>\<open>removexattr\<close> sends exactly one reply for every request: the replies
  added to the trace are as many as the requests.
\<close>

theorem session_one_reply_each:
  assumes "serve os reqs s = Some s'"
    and "list_all (\<lambda>req. \<not> goes_on_after_error req) reqs"
  shows "\<exists>rs. length rs = length reqs \<and> replies (trace s') = replies (trace s) @ rs"
  using assms by (rule session.run_answers)

theorem session_one_reply_each_witness:
  "\<exists>s' rs. serve sample_os [Getattr 1, Lookup 1 ''a''] sample_state = Some s' \<and>
     length rs = 2 \<and> replies (trace s') = replies (trace sample_state) @ rs"
proof -
  have "\<not> Option.is_none (serve sample_os [Getattr 1, Lookup 1 ''a''] sample_state)"
    by code_simp
  then obtain s' where s': "serve sample_os [Getattr 1, Lookup 1 ''a''] sample_state = Some s'"
    by (auto simp: Option.is_none_def)
  have "list_all (\<lambda>req. \<not> goes_on_after_error req) [Getattr 1, Lookup 1 ''a'']"
    by simp
  from session_one_reply_each [OF s' this] s' show ?thesis
    by auto
qed

end
