(* ===== verification/F3_Table.thy ===== *)
theory F3_Table
  imports F3_Lookup
begin

text \<open>
  What the inode table is for: it counts the references the kernel holds on every object and keeps
  an object as long as there are any. This theory gives the specification (a table of reference counts with
  the operations "one more reference to the file with this identity" and "give back \<open>n\<close>
  references") and shows that \<^const>\<open>do_lookup\<close> and \<^const>\<open>forget_one\<close> implement it for
  files that are not ID files.
\<close>

section \<open>The specification\<close>

text \<open>An object's reference count, the identity it was found under, and whether it is an ID file.\<close>

record ref =
  r_count :: u64
  r_key :: srcid
  r_id :: bool

record table =
  t_ids :: "srcid \<rightharpoonup> addr"
  t_refs :: "addr \<rightharpoonup> ref"
  t_next :: addr

text \<open>Changing the entry of one object.\<close>

definition t_upd :: "addr \<Rightarrow> (ref \<Rightarrow> ref) \<Rightarrow> table \<Rightarrow> table" where
  "t_upd p g t = t\<lparr>t_refs := (t_refs t)(p := map_option g (t_refs t p))\<rparr>"

definition bump :: "ref \<Rightarrow> ref" where
  "bump r = r\<lparr>r_count := r_count r + 1\<rparr>"

definition t_new :: "srcid \<Rightarrow> table \<Rightarrow> table" where
  "t_new k t = t\<lparr>t_ids := (t_ids t)(k \<mapsto> t_next t), t_refs := (t_refs t)(t_next t \<mapsto> \<lparr>r_count = 0, r_key = (0, 0), r_id = False\<rparr>),
                 t_next := Suc (t_next t)\<rparr>"

text \<open>One more reference to the file with identity \<open>k\<close>: to its object, or to a new one.\<close>

definition ref_get :: "srcid \<Rightarrow> table \<Rightarrow> addr \<times> table" where
  "ref_get k t = (case t_ids t k of
       Some p \<Rightarrow> (p, t_upd p bump t)
     | None \<Rightarrow> (t_next t, t\<lparr>t_ids := (t_ids t)(k \<mapsto> t_next t),
                             t_refs := (t_refs t)(t_next t \<mapsto> \<lparr>r_count = 1, r_key = k, r_id = False\<rparr>),
                             t_next := Suc (t_next t)\<rparr>))"

text \<open>\<open>n\<close> references given back; the last one takes the object out of the table.\<close>

definition t_erase :: "srcid \<Rightarrow> table \<Rightarrow> table" where
  "t_erase k t = (case t_ids t k of None \<Rightarrow> t
     | Some q \<Rightarrow> t\<lparr>t_ids := (t_ids t)(k := None), t_refs := (t_refs t)(q := None)\<rparr>)"

definition ref_put :: "addr \<Rightarrow> u64 \<Rightarrow> table \<Rightarrow> table option" where
  "ref_put p n t = (case t_refs t p of
       None \<Rightarrow> None
     | Some r \<Rightarrow>
         if n > r_count r then None
         else let t' = t_upd p (\<lambda>r. r\<lparr>r_count := r_count r - n\<rparr>) t
              in Some (if r_count r - n = 0 then t_erase (r_key r) t' else t'))"

text \<open>
  The table and the objects belong together: every entry of the table leads to an object with that
  identity and every object but the root is found under its identity.
\<close>

definition tab_ok :: "table \<Rightarrow> bool" where
  "tab_ok t \<longleftrightarrow>
     root_addr < t_next t \<and> t_refs t root_addr \<noteq> None \<and>
     (\<forall>p. t_refs t p \<noteq> None \<longrightarrow> p < t_next t \<and> root_addr \<le> p) \<and>
     (\<forall>k p. t_ids t k = Some p \<longleftrightarrow> p \<noteq> root_addr \<and> (\<exists>r. t_refs t p = Some r \<and> r_key r = k))"

definition no_ids :: "table \<Rightarrow> bool" where
  "no_ids t \<longleftrightarrow> (\<forall>p r. t_refs t p = Some r \<longrightarrow> \<not> r_id r)"

definition cnt :: "table \<Rightarrow> addr \<Rightarrow> nat" where
  "cnt t p = (case t_refs t p of None \<Rightarrow> 0 | Some r \<Rightarrow> unat (r_count r))"

text \<open>The kernel holds no more references than the table has counted, and no count exceeds \<open>n\<close>.\<close>

definition held_ok :: "nat \<Rightarrow> table \<Rightarrow> (addr \<Rightarrow> nat) \<Rightarrow> bool" where
  "held_ok n t held \<longleftrightarrow> tab_ok t \<and> held root_addr = 0 \<and> (\<forall>p. held p \<le> cnt t p) \<and> (\<forall>p. cnt t p \<le> n)"

text \<open>What a request may do to the table, with the list of references it hands to the kernel.\<close>

inductive tab_step :: "table \<Rightarrow> addr list \<Rightarrow> table \<Rightarrow> bool" where
  tab_same: "tab_step t [] t"
| tab_dir: "tab_step t [] (t\<lparr>t_next := Suc (t_next t)\<rparr>)"
| tab_get: "ref_get k t = (p, t') \<Longrightarrow> tab_step t [p] t'"
| tab_keep: "ref_get k t = (p, t') \<Longrightarrow> tab_step t [] t'"
| tab_link: "t_refs t p \<noteq> None \<Longrightarrow> p \<noteq> root_addr \<Longrightarrow> tab_step t [p] (t_upd p bump t)"

section \<open>The table of a driver state\<close>

definition ref_of :: "inode \<Rightarrow> ref" where
  "ref_of i = \<lparr>r_count = i_nlookup i, r_key = (i_src_ino i, i_src_dev i), r_id = i_is_id i\<rparr>"

definition table_of :: "('w, 'x) f3_scheme \<Rightarrow> table" where
  "table_of s = \<lparr>t_ids = inodes s, t_refs = map_option ref_of \<circ> heap s, t_next = next_addr s\<rparr>"

section \<open>Laws of the specification\<close>

lemma t_upd_id [simp]: "t_upd p (\<lambda>r. r) t = t"
  by (simp add: t_upd_def option.map_ident)

lemma t_upd_twice [simp]: "t_upd p g (t_upd p h t) = t_upd p (g \<circ> h) t"
  by (simp add: t_upd_def option.map_comp)

lemma t_upd_idem: "map_option g (t_refs t p) = t_refs t p \<Longrightarrow> t_upd p g t = t"
  by (cases t) (simp add: t_upd_def fun_upd_idem)

lemma t_upd_new_bump:
  assumes "t_refs t p = Some r" and "r_key r = k"
  shows "t_upd p (\<lambda>r. r\<lparr>r_count := r_count r + 1, r_key := k, r_id := r_id r \<or> False\<rparr>) t = t_upd p bump t"
  using assms by (cases r) (auto simp: t_upd_def bump_def)

lemma cnt_upd: "cnt (t_upd p g t) q = (if q = p then (case t_refs t p of None \<Rightarrow> 0 | Some r \<Rightarrow> unat (r_count (g r))) else cnt t q)"
  by (auto simp: cnt_def t_upd_def split: option.splits)

lemma tab_okI:
  assumes "root_addr < t_next t" "t_refs t root_addr \<noteq> None"
    "\<And>p r. t_refs t p = Some r \<Longrightarrow> p < t_next t \<and> root_addr \<le> p"
    "\<And>k p. t_ids t k = Some p \<Longrightarrow> p \<noteq> root_addr \<and> (\<exists>r. t_refs t p = Some r \<and> r_key r = k)"
    "\<And>p r. p \<noteq> root_addr \<Longrightarrow> t_refs t p = Some r \<Longrightarrow> t_ids t (r_key r) = Some p"
  shows "tab_ok t"
  using assms unfolding tab_ok_def by (metis option.collapse)

lemma tab_okD:
  assumes "tab_ok t"
  shows "root_addr < t_next t" "t_refs t root_addr \<noteq> None"
    "t_refs t p = Some r \<Longrightarrow> p < t_next t \<and> root_addr \<le> p"
    "t_ids t k = Some p \<Longrightarrow> p \<noteq> root_addr \<and> (\<exists>r. t_refs t p = Some r \<and> r_key r = k)"
    "p \<noteq> root_addr \<Longrightarrow> t_refs t p = Some r \<Longrightarrow> t_ids t (r_key r) = Some p"
  using assms unfolding tab_ok_def by blast+

lemma tab_ok_ids:
  assumes "tab_ok t" and "t_ids t k = Some p"
  obtains r where "p \<noteq> root_addr" "t_refs t p = Some r" "r_key r = k" "p < t_next t" "root_addr \<le> p"
  using assms unfolding tab_ok_def by blast

lemma ref_get_nonzero:
  assumes "tab_ok t" "ref_get k t = (p, t')" shows "p \<noteq> 0"
proof (cases "t_ids t k")
  case None
  with assms show ?thesis by (auto simp: ref_get_def tab_ok_def root_addr_def)
next
  case (Some q)
  with assms show ?thesis by (auto simp: ref_get_def root_addr_def elim: tab_ok_ids)
qed

lemma tab_ok_upd:
  assumes "tab_ok t" "\<And>r. r_key (g r) = r_key r"
  shows "tab_ok (t_upd p g t)"
proof (rule tab_okI)
  note D = tab_okD [OF assms(1)]
  show "root_addr < t_next (t_upd p g t)" "t_refs (t_upd p g t) root_addr \<noteq> None"
    using D(1,2) by (auto simp: t_upd_def)
  show "q < t_next (t_upd p g t) \<and> root_addr \<le> q" if "t_refs (t_upd p g t) q = Some r" for q r
    using that D(3) by (auto simp: t_upd_def split: if_splits)
  show "q \<noteq> root_addr \<and> (\<exists>r. t_refs (t_upd p g t) q = Some r \<and> r_key r = k)"
    if "t_ids (t_upd p g t) k = Some q" for k q
    using that D(4) [of k q] assms(2) by (auto simp: t_upd_def)
  show "t_ids (t_upd p g t) (r_key r) = Some q"
    if "q \<noteq> root_addr" "t_refs (t_upd p g t) q = Some r" for q r
    using that D(5) assms(2) by (auto simp: t_upd_def split: if_splits)
qed

lemma tab_ok_next: "tab_ok t \<Longrightarrow> tab_ok (t\<lparr>t_next := Suc (t_next t)\<rparr>)"
  unfolding tab_ok_def by (auto intro: less_SucI)

lemma fresh_not_in: "tab_ok t \<Longrightarrow> t_refs t (t_next t) = None"
  using tab_okD(3) by fastforce

lemma tab_ok_ref_get:
  assumes "tab_ok t" "ref_get k t = (p, t')"
  shows "tab_ok t'"
proof (cases "t_ids t k")
  case (Some q)
  with assms show ?thesis by (auto simp: ref_get_def bump_def intro: tab_ok_upd)
next
  case None
  note D = tab_okD [OF assms(1)]
  from None assms have t': "t' = t\<lparr>t_ids := (t_ids t)(k \<mapsto> t_next t),
      t_refs := (t_refs t)(t_next t \<mapsto> \<lparr>r_count = 1, r_key = k, r_id = False\<rparr>),
      t_next := Suc (t_next t)\<rparr>"
    by (auto simp: ref_get_def)
  show ?thesis
  proof (rule tab_okI)
    show "root_addr < t_next t'" "t_refs t' root_addr \<noteq> None"
      using D(1,2) by (auto simp: t')
    show "q < t_next t' \<and> root_addr \<le> q" if "t_refs t' q = Some r" for q r
      using that D(1) D(3) [of q r] by (auto simp: t' split: if_splits)
    show "q \<noteq> root_addr \<and> (\<exists>r. t_refs t' q = Some r \<and> r_key r = j)" if "t_ids t' j = Some q" for j q
      using that D(1) D(4) [of j q] fresh_not_in [OF assms(1)] by (auto simp: t' split: if_splits)
    show "t_ids t' (r_key r) = Some q" if "q \<noteq> root_addr" "t_refs t' q = Some r" for q r
      using that D(5) [of q r] None by (auto simp: t' split: if_splits)
  qed
qed

lemma tab_ok_erase:
  assumes "tab_ok t" "t_ids t k = Some p"
  shows "tab_ok (t_erase k t)"
proof -
  note D = tab_okD [OF assms(1)]
  from D(4) [OF assms(2)] obtain r where r: "p \<noteq> root_addr" "t_refs t p = Some r" "r_key r = k" by blast
  have e: "t_erase k t = t\<lparr>t_ids := (t_ids t)(k := None), t_refs := (t_refs t)(p := None)\<rparr>"
    by (simp add: t_erase_def assms(2))
  show ?thesis
  proof (rule tab_okI)
    show "root_addr < t_next (t_erase k t)" "t_refs (t_erase k t) root_addr \<noteq> None"
      using D(1,2) r by (auto simp: e)
    show "q < t_next (t_erase k t) \<and> root_addr \<le> q" if "t_refs (t_erase k t) q = Some r" for q r
      using that D(3) [of q r] by (auto simp: e split: if_splits)
    show "q \<noteq> root_addr \<and> (\<exists>r. t_refs (t_erase k t) q = Some r \<and> r_key r = j)"
      if "t_ids (t_erase k t) j = Some q" for j q
      using that D(4) [of j q] r by (auto simp: e split: if_splits)
    show "t_ids (t_erase k t) (r_key r') = Some q" if "q \<noteq> root_addr" "t_refs (t_erase k t) q = Some r'" for q r'
      using that D(5) [of q r'] assms(2) by (auto simp: e split: if_splits)
  qed
qed

lemma cnt_bump:
  assumes "cnt t p < 2 ^ 64 - 1" "t_refs t p \<noteq> None"
  shows "cnt (t_upd p bump t) q = (if q = p then Suc (cnt t q) else cnt t q)"
proof -
  from assms obtain r where r: "t_refs t p = Some r" "unat (r_count r) < 2 ^ 64 - 1"
    by (auto simp: cnt_def)
  have "unat (r_count r + 1) = Suc (unat (r_count r))"
    using r(2) by (subst unat_word_ariths) (simp add: unat_word_ariths)
  with r show ?thesis by (auto simp: cnt_upd bump_def) (auto simp: cnt_def)
qed

lemma cnt_ref_get:
  assumes "tab_ok t" "ref_get k t = (p, t')" "\<And>q. cnt t q < 2 ^ 64 - 1"
  shows "cnt t' q = (if q = p then Suc (cnt t q) else cnt t q)" "p \<noteq> root_addr"
proof -
  show "cnt t' q = (if q = p then Suc (cnt t q) else cnt t q)"
  proof (cases "t_ids t k")
    case None
    with assms fresh_not_in [OF assms(1)] show ?thesis by (auto simp: ref_get_def cnt_def)
  next
    case (Some r)
    with assms tab_okD(4) [OF assms(1) Some] show ?thesis
      by (auto simp: ref_get_def cnt_bump simp del: One_nat_def)
  qed
  show "p \<noteq> root_addr"
    using assms(2) tab_okD(1) [OF assms(1)] tab_okD(4) [OF assms(1), of k p]
    by (auto simp: ref_get_def split: option.splits)
qed

lemma held_ok_step:
  assumes "tab_step t gs t'" "held_ok n t held" "Suc n < 2 ^ 64"
  shows "held_ok (Suc n) t' (\<lambda>p. held p + count_list gs p)"
proof -
  note H = assms(2) [unfolded held_ok_def]
  have small: "cnt t q < 2 ^ 64 - 1" for q
  proof -
    from H have "cnt t q \<le> n" by blast
    with assms(3) show ?thesis by simp
  qed
  from assms(1) show ?thesis
  proof cases
    case tab_same
    then show ?thesis using H by (simp add: held_ok_def le_SucI)
  next
    case tab_dir
    then show ?thesis using H by (simp add: held_ok_def cnt_def tab_ok_next le_SucI)
  next
    case (tab_get k p)
    from H have ok: "tab_ok t" by simp
    note C = cnt_ref_get [OF ok tab_get(2) small]
    show ?thesis unfolding held_ok_def
      using H C tab_ok_ref_get [OF ok tab_get(2)] by (simp add: tab_get(1) le_SucI)
  next
    case (tab_keep k p)
    from H have ok: "tab_ok t" by simp
    note C = cnt_ref_get [OF ok tab_keep(2) small]
    show ?thesis unfolding held_ok_def
      using H C tab_ok_ref_get [OF ok tab_keep(2)] by (simp add: tab_keep(1) le_SucI)
  next
    case (tab_link p)
    from H have ok: "tab_ok t'" by (auto simp: tab_link bump_def intro: tab_ok_upd)
    show ?thesis unfolding held_ok_def
      using H ok cnt_bump [OF small tab_link(3)] tab_link by (simp add: le_SucI)
  qed
qed

lemma held_ok_put:
  assumes "held_ok n t held" "ref_put p k t = Some t'" "unat k \<le> held p" "p \<noteq> root_addr"
  shows "held_ok n t' (held(p := held p - unat k))"
proof -
  from assms(2) obtain r where r: "t_refs t p = Some r" "k \<le> r_count r"
    by (auto simp: ref_put_def split: option.splits if_splits)
  let ?t = "t_upd p (\<lambda>r. r\<lparr>r_count := r_count r - k\<rparr>) t"
  note H = assms(1) [unfolded held_ok_def]
  have c: "unat (r_count r) = cnt t p" using r by (simp add: cnt_def)
  have sub: "unat (r_count r - k) = unat (r_count r) - unat k"
    using r(2) by (simp add: unat_sub)
  have t: "held_ok n ?t (held(p := held p - unat k))"
    unfolding held_ok_def
  proof (intro conjI allI)
    show "tab_ok ?t" using assms(1) by (auto simp: held_ok_def intro: tab_ok_upd)
    show "(held(p := held p - unat k)) root_addr = 0" using assms(1,4) by (auto simp: held_ok_def)
    fix q
    show "(held(p := held p - unat k)) q \<le> cnt ?t q"
      using H r sub c by (cases "q = p") (simp_all add: cnt_upd diff_le_mono)
    show "cnt ?t q \<le> n"
      using H r sub c by (cases "q = p") (auto simp: cnt_upd intro: le_trans [OF diff_le_self])
  qed
  show ?thesis
  proof (cases "r_count r - k = 0")
    case False
    with assms(2) r t show ?thesis by (auto simp: ref_put_def Let_def split: if_splits)
  next
    case True
    then have eq: "unat (r_count r) = unat k" "cnt t p = unat k" using r by (auto simp: cnt_def)
    have ids: "t_ids ?t (r_key r) = Some p"
      using tab_okD(5) [of t p r] assms(1,4) r by (simp add: held_ok_def t_upd_def)
    from True assms(2) r have t': "t' = t_erase (r_key r) ?t"
      by (auto simp: ref_put_def Let_def split: if_splits)
    have cnt': "cnt t' q = (if q = p then 0 else cnt t q)" for q
      using ids by (auto simp: t' t_erase_def cnt_def t_upd_def)
    have "tab_ok t'" unfolding t' using t ids by (auto simp: held_ok_def intro: tab_ok_erase)
    moreover have "held p = unat k" using H assms(3) eq by (metis le_antisym)
    ultimately show ?thesis using assms(1,4) by (auto simp: held_ok_def cnt')
  qed
qed

lemma held_ok_mono: "held_ok n t held \<Longrightarrow> n \<le> m \<Longrightarrow> held_ok m t held"
  by (auto simp: held_ok_def intro: le_trans)

lemma held_live:
  assumes "held_ok n t held" "0 < held p"
  shows "p \<noteq> root_addr" "p \<noteq> FUSE_ROOT_ID" "p \<noteq> 0" "t_refs t p \<noteq> None"
proof -
  have "held p \<le> cnt t p" "tab_ok t" "held root_addr = 0" using assms(1) by (auto simp: held_ok_def)
  moreover from this assms(2) have "p \<noteq> root_addr" by auto
  ultimately obtain r where r: "t_refs t p = Some r" "p \<noteq> root_addr"
    using assms(2) by (cases "t_refs t p") (auto simp: cnt_def)
  then have "root_addr \<le> p" using tab_okD(3) \<open>tab_ok t\<close> by blast
  with r show "p \<noteq> root_addr" "p \<noteq> FUSE_ROOT_ID" "p \<noteq> 0" "t_refs t p \<noteq> None"
    by (auto simp: root_addr_def FUSE_ROOT_ID_def)
qed

section \<open>The driver implements the specification\<close>

named_theorems drv_dest

named_theorems table_dest

lemma core_drv:
  fixes s s' :: "('w, 'x) f3_scheme"
  assumes "core s' = core s"
  shows "heap s' = heap s \<and> inodes s' = inodes s \<and> next_addr s' = next_addr s"
  using core_f3 [OF assms] by simp

declare core_dest [THEN core_drv, drv_dest]

lemma drv_steps [simp]:
  fixes s :: "('w, 'x) f3_scheme"
  shows
  "heap (lock m s) = heap s" "heap (unlock m s) = heap s" "heap (reply r s) = heap s" "heap (F3_REPLY_ERR e s) = heap s"
  "inodes (lock m s) = inodes s" "inodes (unlock m s) = inodes s" "inodes (reply r s) = inodes s" "inodes (F3_REPLY_ERR e s) = inodes s"
  "next_addr (lock m s) = next_addr s" "next_addr (unlock m s) = next_addr s" "next_addr (reply r s) = next_addr s" "next_addr (F3_REPLY_ERR e s) = next_addr s"
  "heap (sys_ignore os c s) = heap s" "inodes (sys_ignore os c s) = inodes s" "next_addr (sys_ignore os c s) = next_addr s"
  "heap (f3_update_size_xattr os d n s) = heap s" "inodes (f3_update_size_xattr os d n s) = inodes s" "next_addr (f3_update_size_xattr os d n s) = next_addr s"
  using core_f3 [OF core_sys_ignore, of os c s]  core_f3 [OF core_f3_update_size_xattr, of os d n s]
  by (simp_all add: lock_def unlock_def reply_def F3_REPLY_ERR_def emit_def)

lemma drv_upd_inode [simp]:
  "heap (upd_inode p f s) = (heap s)(p := map_option f (heap s p))"
  "inodes (upd_inode p f s) = inodes s"
  "next_addr (upd_inode p f s) = next_addr s"
  by (simp_all add: upd_inode_def)

lemma core_table:
  fixes s s' :: "('w, 'x) f3_scheme"
  shows "core s' = core s \<Longrightarrow> table_of s' = table_of s"
  by (drule core_drv) (simp add: table_of_def)

declare core_dest [THEN core_table, table_dest]

lemma table_steps [simp]:
  "table_of (lock m s) = table_of s" "table_of (unlock m s) = table_of s"
  "table_of (reply r s) = table_of s" "table_of (F3_REPLY_ERR e s) = table_of s"
  "table_of (sys_ignore os c s) = table_of s" "table_of (f3_update_size_xattr os d n s) = table_of s"
  by (simp_all add: table_of_def)

lemma table_upd:
  assumes "\<And>i. ref_of (f i) = g (ref_of i)"
  shows "table_of (upd_inode p f s) = t_upd p g (table_of s)"
  using assms by (auto simp: table_of_def t_upd_def fun_eq_iff option.map_comp intro!: option.map_cong)

lemma table_upd_same [simp]:
  "(\<And>i. ref_of (f i) = ref_of i) \<Longrightarrow> table_of (upd_inode p f s) = table_of s"
  using table_upd [of f "\<lambda>r. r"] by simp

lemma ref_of_updates [simp]:
  "ref_of (i\<lparr>i_fd := a\<rparr>) = ref_of i" "ref_of (i\<lparr>i_id_fd := a\<rparr>) = ref_of i" 
  "ref_of (i\<lparr>i_generation := g\<rparr>) = ref_of i" "ref_of (i\<lparr>i_nopen := n\<rparr>) = ref_of i"
  "ref_of (i\<lparr>i_needs_download := b\<rparr>) = ref_of i" "ref_of (i\<lparr>i_servers := sv\<rparr>) = ref_of i"
  "ref_of (i\<lparr>i_fname := sv\<rparr>) = ref_of i" "ref_of (i\<lparr>i_client_fd := c\<rparr>) = ref_of i"
  "ref_of (i\<lparr>i_download_done := b\<rparr>) = ref_of i" "ref_of (i\<lparr>i_size := n\<rparr>) = ref_of i" "ref_of (i\<lparr>i_target_size := n\<rparr>) = ref_of i"
  by (simp_all add: ref_of_def)

lemma table_prepare_download [table_dest]:
  "prepare_download os p s = Some s' \<Longrightarrow> table_of s' = table_of s"
  unfolding prepare_download_def by (elim stepE) (auto dest!: table_dest)

lemma table_open_id [table_dest]: "open_id os q n s = Some (r, s') \<Longrightarrow> table_of s' = table_of s"
  unfolding open_id_def by (elim stepE) (auto dest!: table_dest)

lemma table_lookup_id_fd [table_dest]:
  "lookup_id_fd os parent name mode p s = Some (d, s') \<Longrightarrow> table_of s' = table_of s"
  unfolding lookup_id_fd_def by (elim stepE) (auto dest!: table_dest)

lemma table_bump [simp]:
  "table_of (upd_inode p (\<lambda>i. i\<lparr>i_nlookup := i_nlookup i + 1\<rparr>) s) = t_upd p bump (table_of s)"
  by (rule table_upd) (simp add: bump_def ref_of_def)

lemma table_do_lookup_known [simp]:
  "table_of (do_lookup_known os newfd p s) = t_upd p bump (table_of s)"
  by (simp add: do_lookup_known_def Let_def)

lemma table_do_lookup_new:
  assumes "do_lookup_new os parent name newfd attr p s = Some s'"
  shows "\<exists>new_id. table_of s' =
    t_upd p (\<lambda>r. r\<lparr>r_count := r_count r + 1, r_key := (st_ino attr, st_dev attr), r_id := r_id r \<or> new_id\<rparr>) (table_of s)"
proof -
  have 1: "table_of (upd_inode p (\<lambda>i. i\<lparr>i_src_ino := st_ino attr, i_src_dev := st_dev attr,
             i_nlookup := i_nlookup i + 1, i_fd := newfd\<rparr>) s) =
           t_upd p (\<lambda>r. r\<lparr>r_count := r_count r + 1, r_key := (st_ino attr, st_dev attr)\<rparr>) (table_of s)" for s :: "('a, 'b) f3_scheme"
    by (rule table_upd) (simp add: ref_of_def)
  have 2: "table_of (upd_inode p (\<lambda>i. i\<lparr>i_is_id := True\<rparr>) s) = t_upd p (\<lambda>r. r\<lparr>r_id := True\<rparr>) (table_of s)"
    for s :: "('a, 'b) f3_scheme"
    by (rule table_upd) (simp add: ref_of_def)
  have "table_of s' = t_upd p (\<lambda>r. r\<lparr>r_count := r_count r + 1, r_key := (st_ino attr, st_dev attr)\<rparr>) (table_of s) \<or>
    table_of s' = t_upd p (\<lambda>r. r\<lparr>r_id := True\<rparr>)
      (t_upd p (\<lambda>r. r\<lparr>r_count := r_count r + 1, r_key := (st_ino attr, st_dev attr)\<rparr>) (table_of s))"
    using assms unfolding do_lookup_new_def
    by (elim stepE) (auto dest!: table_dest simp: 1 2 split: if_splits)
  then show ?thesis
  proof
    assume "table_of s' = t_upd p (\<lambda>r. r\<lparr>r_count := r_count r + 1, r_key := (st_ino attr, st_dev attr)\<rparr>) (table_of s)"
    then show ?thesis by (intro exI [where x = False]) simp
  next
    assume "table_of s' = t_upd p (\<lambda>r. r\<lparr>r_id := True\<rparr>)
      (t_upd p (\<lambda>r. r\<lparr>r_count := r_count r + 1, r_key := (st_ino attr, st_dev attr)\<rparr>) (table_of s))"
    then show ?thesis by (intro exI [where x = True]) (simp add: comp_def)
  qed
qed

lemma inodes_at_table:
  assumes "inodes_at k s = (p, s')"
  shows "(case t_ids (table_of s) k of
            Some q \<Rightarrow> p = q \<and> s' = s
          | None \<Rightarrow> p = t_next (table_of s) \<and> table_of s' = t_new k (table_of s) \<and> heap s' p = Some new_inode)"
  using assms by (auto simp: inodes_at_def table_of_def t_new_def ref_of_def new_inode_def fun_eq_iff split: option.splits)

lemma t_refs_table_of: "t_refs (table_of s) p = map_option ref_of (heap s p)"
  by (simp add: table_of_def)

lemma do_lookup_id_attr_plain:
  assumes "do_lookup_id_attr os newfd e p s = Some (err, e', s')"
    and "no_ids (table_of s')"
  shows "err = 0 \<and> e' = e \<and> s' = s"
proof -
  obtain i where i: "heap s p = Some i"
    using assms(1) unfolding do_lookup_id_attr_def deref_def by (elim stepE) auto
  have "t_refs (table_of s') p = None \<or> r_id (the (t_refs (table_of s') p)) = i_is_id i"
    using assms(1) i unfolding do_lookup_id_attr_def deref_def
    by (elim stepE) (auto dest!: drv_dest simp: t_refs_table_of ref_of_def)
  moreover have "t_refs (table_of s') p \<noteq> None"
    using assms(1) i unfolding do_lookup_id_attr_def deref_def
    by (elim stepE) (auto dest!: drv_dest simp: t_refs_table_of ref_of_def)
  ultimately have "\<not> i_is_id i"
    using assms(2) by (force simp: no_ids_def)
  with assms(1) i show ?thesis
    unfolding do_lookup_id_attr_def deref_def by (elim stepE) auto
qed

lemma lookup_step_refines:
  assumes at: "inodes_at k s1 = (p, s2)" and i: "heap s2 p = Some i"
    and s3: "0 < i_fd i \<and> s3 = do_lookup_known os newfd p s2 \<or>
      \<not> 0 < i_fd i \<and> do_lookup_new os parent name newfd attr p s2 = Some s3"
    and k: "k = (st_ino attr, st_dev attr)"
    and ok: "tab_ok (table_of s1)" and no: "no_ids (table_of s3)"
  shows "ref_get k (table_of s1) = (p, table_of s3)"
proof -
  have new: "table_of s3 = t_upd p (\<lambda>r. r\<lparr>r_count := r_count r + 1, r_key := k, r_id := r_id r \<or> False\<rparr>) (table_of s2)"
    if "\<not> 0 < i_fd i"
  proof -
    from s3 that obtain new_id
      where n: "table_of s3 = t_upd p (\<lambda>r. r\<lparr>r_count := r_count r + 1, r_key := k, r_id := r_id r \<or> new_id\<rparr>) (table_of s2)"
      using table_do_lookup_new k by fastforce
    moreover have "t_refs (table_of s2) p \<noteq> None"
      using i by (simp add: t_refs_table_of)
    ultimately obtain r where "t_refs (table_of s3) p = Some r" "new_id \<longrightarrow> r_id r"
      by (auto simp: t_upd_def)
    then have "\<not> new_id"
      using no unfolding no_ids_def by blast
    with n show ?thesis by simp
  qed
  show ?thesis
  proof (cases "t_ids (table_of s1) k")
    case None
    with inodes_at_table [OF at] have p: "p = t_next (table_of s1)"
        "table_of s2 = t_new k (table_of s1)" "i = new_inode"
      using i by auto
    with new have "table_of s3 = t_upd p (\<lambda>r. r\<lparr>r_count := r_count r + 1, r_key := k, r_id := r_id r \<or> False\<rparr>) (table_of s2)"
      by (simp add: new_inode_def)
    with p None show ?thesis
      by (simp add: ref_get_def t_new_def t_upd_def)
  next
    case (Some q)
    with inodes_at_table [OF at] have p: "p = q" "s2 = s1" by auto
    from ok Some obtain r where "t_refs (table_of s1) q = Some r" "r_key r = k"
      unfolding tab_ok_def by blast
    from t_upd_new_bump [OF this] have "table_of s3 = t_upd p bump (table_of s1)"
      using s3 new p by (auto split: if_splits)
    with Some p show ?thesis by (simp add: ref_get_def)
  qed
qed

lemma do_lookup_inode_refines:
  assumes run: "do_lookup_inode os parent name newfd e s = Some (err, e', s')"
    and ok: "tab_ok (table_of s)" and no: "no_ids (table_of s')" and e: "e_ino e = 0"
  shows "table_of s' = table_of s \<and> e_ino e' = 0 \<or>
    err = 0 \<and> ref_get (st_ino (e_attr e'), st_dev (e_attr e')) (table_of s) = (e_ino e', table_of s')"
proof -
  let ?k = "(st_ino (e_attr e), st_dev (e_attr e))"
  have step: "err = 0 \<and>
      ref_get (st_ino (e_attr e'), st_dev (e_attr e')) (table_of s) = (e_ino e', table_of s')"
    if "(if inodes (lock FsMutex s) ?k = None then alloc os (lock FsMutex s)
         else (True, lock FsMutex s)) = (a, b)"
      and at: "inodes_at ?k b = (p, s2)" and i: "heap s2 p = Some i"
      and id: "do_lookup_id_attr os newfd (e\<lparr>e_ino := p, e_generation := g\<rparr>) p s3 = Some (err, e', s')"
      and s3: "0 < i_fd i \<and> s3 = do_lookup_known os newfd p s2 \<or>
        \<not> 0 < i_fd i \<and> do_lookup_new os parent name newfd (e_attr e) p s2 = Some s3"
    for a b p s2 i g s3
  proof -
    have t: "table_of b = table_of s" using that(1) by (auto dest!: table_dest split: if_splits)
    from do_lookup_id_attr_plain [OF id no] have r: "err = 0" "e_ino e' = p" "s' = s3" "e_attr e' = e_attr e"
      by auto
    from lookup_step_refines [OF at i s3 refl] ok no r t show ?thesis by simp
  qed
  from run show ?thesis unfolding do_lookup_inode_def deref_def
  proof (elim stepE, goal_cases)
    case 1
    then show ?case using e by (auto dest!: table_dest split: if_splits)
  next
    case 2
    then show ?case using step [OF 2(1,3,4,5)] by simp
  next
    case 3
    then show ?case using step [OF 3(1,3,4,5)] by simp
  qed
qed

lemma do_lookup_refines:
  assumes run: "do_lookup os parent name s = Some (err, e, s')"
    and ok: "tab_ok (table_of s)" and no: "no_ids (table_of s')"
  shows "table_of s' = table_of s \<and> e_ino e = 0 \<or>
    err = 0 \<and> ref_get (st_ino (e_attr e), st_dev (e_attr e)) (table_of s) = (e_ino e, table_of s')"
  using run unfolding do_lookup_def
  apply (elim stepE)
  apply (auto dest!: table_dest simp: zero_entry_def)[4]
  apply (drule do_lookup_inode_refines)
  apply (use ok no in \<open>auto dest!: table_dest simp: zero_entry_def\<close>)
  done

lemma table_inodes_erase [simp]: "table_of (inodes_erase os k s) = t_erase k (table_of s)"
  by (auto simp: inodes_erase_def t_erase_def table_of_def fun_eq_iff Let_def split: option.splits)

lemma table_drop:
  "table_of (upd_inode p (\<lambda>i. i\<lparr>i_nlookup := i_nlookup i - n\<rparr>) s) = t_upd p (\<lambda>r. r\<lparr>r_count := r_count r - n\<rparr>) (table_of s)"
  by (rule table_upd) (simp add: ref_of_def)

lemma table_forget_one:
  assumes "forget_one os ino n s = Some s'" 
  shows "\<exists>p. get_inode ino s = Some p \<and> ref_put p n (table_of s) = Some (table_of s')"
  using assms unfolding forget_one_def deref_def
  by (elim stepE) (auto simp: ref_put_def t_refs_table_of ref_of_def table_drop Let_def)

end
