(* ===== verification/F3_Session.thy ===== *)
theory F3_Session
  imports F3_Main F3_Table
begin

text \<open>
  Sessions: what the kernel and the driver know of each other's references over any sequence of
  requests. Every handler is shown to change the table of references in one of the ways the
  specification allows, and to hand out exactly the references its reply mentions.
\<close>

section \<open>References handed out\<close>

fun granted :: "reply \<Rightarrow> addr list" where
  "granted (ReplyEntry e) = (if e_ino e = 0 then [] else [e_ino e])"
| "granted (ReplyCreate e _) = (if e_ino e = 0 then [] else [e_ino e])"
| "granted _ = []"

definition grants :: "('w, 'x) f3_scheme \<Rightarrow> addr list" where
  "grants s = concat (map granted (replies (trace s)))"

text \<open>What matters of a state here: the table and the references handed out so far.\<close>

definition view :: "('w, 'x) f3_scheme \<Rightarrow> table \<times> addr list" where
  "view s = (table_of s, grants s)"

definition tab_effect :: "('w, 'x) f3_scheme \<Rightarrow> ('w, 'x) f3_scheme \<Rightarrow> bool" where
  "tab_effect s s' \<longleftrightarrow> (\<exists>gs. tab_step (table_of s) gs (table_of s') \<and> grants s' = grants s @ gs)"

section \<open>Legal sessions\<close>

text \<open>The state of the program before \<^verbatim>\<open>main\<close> fills it in, and the table after it has.\<close>

definition blank :: "('w, 'x) f3_scheme \<Rightarrow> bool" where
  "blank s \<longleftrightarrow> inodes s = Map.empty \<and> heap s = Map.empty \<and> next_addr s = Suc root_addr"

definition root_table :: table where
  "root_table = \<lparr>t_ids = Map.empty,
     t_refs = [root_addr \<mapsto> \<lparr>r_count = 9999, r_key = (0, 0), r_id = False\<rparr>], t_next = Suc root_addr\<rparr>"

text \<open>
  What the kernel may ask: it gives back only references it holds, and asks for a hard link only to
  an object it holds. Requests for \<^verbatim>\<open>readdirplus\<close>, whose references are inside the reply buffer, are left out.
\<close>

fun forgets :: "request \<Rightarrow> (addr \<times> u64) list" where
  "forgets (Forget p n) = [(p, n)]"
| "forgets (ForgetMulti fs) = fs"
| "forgets _ = []"

fun legal_forgets :: "(addr \<times> u64) list \<Rightarrow> (addr \<Rightarrow> nat) \<Rightarrow> bool" where
  "legal_forgets [] held = True"
| "legal_forgets ((p, n) # fs) held \<longleftrightarrow>
     0 < held p \<and> unat n \<le> held p \<and> legal_forgets fs (held(p := held p - unat n))"

fun drop_refs :: "(addr \<times> u64) list \<Rightarrow> (addr \<Rightarrow> nat) \<Rightarrow> addr \<Rightarrow> nat" where
  "drop_refs [] held = held"
| "drop_refs ((p, n) # fs) held = drop_refs fs (held(p := held p - unat n))"

fun legal :: "request \<Rightarrow> (addr \<Rightarrow> nat) \<Rightarrow> bool" where
  "legal (Link p q name) held \<longleftrightarrow> 0 < held p"
| "legal (Readdirplus p n off fi) held \<longleftrightarrow> False"
| "legal req held \<longleftrightarrow> legal_forgets (forgets req) held"

definition held_after :: "request \<Rightarrow> ('w, 'x) f3_scheme \<Rightarrow> ('w, 'x) f3_scheme \<Rightarrow> (addr \<Rightarrow> nat) \<Rightarrow> addr \<Rightarrow> nat" where
  "held_after req s s' held p =
     drop_refs (forgets req) held p + count_list (drop (length (grants s)) (grants s')) p"

text \<open>
  A session of \<open>n\<close> requests in which no file is an ID file, with the references the kernel holds after
  it.
\<close>

inductive session :: "'w os \<Rightarrow> nat \<Rightarrow> ('w, 'x) f3_scheme \<Rightarrow> (addr \<Rightarrow> nat) \<Rightarrow> bool" for os where
  session_start: "blank s0 \<Longrightarrow> main_setup os opts argc arg1 s0 = Some (Inr s) \<Longrightarrow> session os 0 s (\<lambda>_. 0)"
| session_serve: "session os n s held \<Longrightarrow> legal req held \<Longrightarrow> sfs_oper os req s = Some s' \<Longrightarrow>
    no_ids (table_of s') \<Longrightarrow> session os (Suc n) s' (held_after req s s' held)"

section \<open>Handlers that leave the table alone\<close>

named_theorems view_dest

lemma core_view:
  fixes s s' :: "('w, 'x) f3_scheme"
  shows "core s' = core s \<Longrightarrow> view s' = view s"
  by (frule core_table) (drule core_replies, simp add: view_def grants_def)

declare core_dest [THEN core_view, view_dest]

lemma view_steps [simp]:
  "view (lock m s) = view s" "view (unlock m s) = view s"
  "view (F3_REPLY_ERR e s) = view s"
  "view (sys_ignore os c s) = view s" "view (f3_update_size_xattr os d n s) = view s"
  by (simp_all add: view_def grants_def)

lemma view_reply: "view (reply r s) = (table_of s, grants s @ granted r)"
  by (simp add: view_def grants_def)

lemma view_reply_quiet [simp]: "granted r = [] \<Longrightarrow> view (reply r s) = view s"
  by (simp add: view_def grants_def)

lemma view_upd_same [simp]:
  "(\<And>i. ref_of (f i) = ref_of i) \<Longrightarrow> view (upd_inode p f s) = view s"
  by (simp add: view_def grants_def)

lemma view_sfs_getattr [view_dest]: "sfs_getattr os p s = Some s' \<Longrightarrow> view s' = view s"
  unfolding sfs_getattr_def by (elim stepE) (auto dest!: view_dest)

lemma view_sfs_setattr: "sfs_setattr os p a v fi s = Some s' \<Longrightarrow> view s' = view s"
  unfolding sfs_setattr_def do_setattr_def
  by (elim stepE) (auto dest!: view_dest)

lemma view_reply_if_failed [simp]: "view (reply_if_failed r s) = view s"
  by (auto simp: reply_if_failed_def split: sum.split)

lemma view_sfs_rmdir: "sfs_rmdir os p n s = Some s' \<Longrightarrow> view s' = view s"
  unfolding sfs_rmdir_def by (elim stepE) (auto dest!: view_dest)

lemma view_sfs_rename: "sfs_rename os p n q m f s = Some s' \<Longrightarrow> view s' = view s"
  unfolding sfs_rename_def by (elim stepE) (auto dest!: view_dest)

lemma view_sfs_readlink: "sfs_readlink os p s = Some s' \<Longrightarrow> view s' = view s"
  unfolding sfs_readlink_def by (elim stepE) (auto dest!: view_dest split: sum.split)

lemma view_sfs_statfs: "sfs_statfs os p s = Some s' \<Longrightarrow> view s' = view s"
  unfolding sfs_statfs_def by (elim stepE) (auto dest!: view_dest split: sum.split)

lemma view_reply_xattr_value [simp]:
  fixes s :: "('w, 'x) f3_scheme"
  shows "view (reply_xattr_value os q n s) = view s"
  unfolding reply_xattr_value_def by (auto simp: Let_def dest!: view_dest split: prod.split sum.split)

lemma view_sfs_getxattr: "sfs_getxattr os p n m s = Some s' \<Longrightarrow> view s' = view s"
  unfolding sfs_getxattr_def by (elim stepE) auto

lemma view_sfs_listxattr: "sfs_listxattr os p m s = Some s' \<Longrightarrow> view s' = view s"
  unfolding sfs_listxattr_def by (elim stepE) auto

lemma view_sfs_setxattr: "sfs_setxattr os p n v f s = Some s' \<Longrightarrow> view s' = view s"
  unfolding sfs_setxattr_def by (elim stepE) (auto dest!: view_dest)

lemma view_unmark:
  assumes "no_ids (fst (view s))"
  shows "view (upd_inode p (\<lambda>i. i\<lparr>i_is_id := False\<rparr>) s) = view s"
proof -
  have "table_of (upd_inode p (\<lambda>i. i\<lparr>i_is_id := False\<rparr>) s) = t_upd p (\<lambda>r. r\<lparr>r_id := False\<rparr>) (table_of s)"
    by (rule table_upd) (simp add: ref_of_def)
  also have "\<dots> = table_of s"
    using assms by (intro t_upd_idem) (cases "t_refs (table_of s) p"; fastforce simp: no_ids_def view_def)
  finally show ?thesis by (simp add: view_def grants_def)
qed

lemma view_f3_make_id_fs:
  assumes "f3_make_id_fs os p s = Some (r, s')" and "no_ids (fst (view s))"
  shows "view s' = view s"
  using assms unfolding f3_make_id_fs_def by (elim stepE) (auto dest!: view_dest simp: view_unmark)

lemma view_sfs_removexattr:
  assumes "sfs_removexattr os p n s = Some s'" and "no_ids (fst (view s))" shows "view s' = view s"
  using assms unfolding sfs_removexattr_def
  by (elim stepE) (auto dest!: view_dest view_f3_make_id_fs split: if_splits)

lemma view_set_dir_offset [simp]: "view (set_dir_offset d off s) = view s"
  by (simp add: view_def grants_def table_of_def set_dir_offset_def)

lemma view_dirs [simp]: "view (s\<lparr>dirs := d\<rparr>) = view s" "view (s\<lparr>threads := th\<rparr>) = view s"
  by (simp_all add: view_def grants_def table_of_def)

lemma view_delete_dirhandle [view_dest]: "delete_dirhandle os d s = Some s' \<Longrightarrow> view s' = view s"
  unfolding delete_dirhandle_def by (elim stepE) (auto split: option.split)

lemma view_sfs_releasedir: "sfs_releasedir os fi s = Some s' \<Longrightarrow> view s' = view s"
  unfolding sfs_releasedir_def by (elim stepE) (auto dest!: view_dest)

lemma view_sfs_fsyncdir: "sfs_fsyncdir os b fi s = Some s' \<Longrightarrow> view s' = view s"
  unfolding sfs_fsyncdir_def by (elim stepE) (auto dest!: view_dest)

lemma view_readdir_loop_snd:
  assumes "readdir_loop os pl p d dp rem buf s = Some y" and "\<not> pl"
  shows "view (snd (snd (snd y))) = view s"
  using assms
proof (induction rule: readdir_loop.raw_induct [rotated, consumes 1, case_names step])
  case (step f os pl p d dp rem buf s y)
  from step(2,3) show ?case unfolding add_entry_def
    by (elim stepE) (auto dest!: view_dest step(1))
qed

lemma view_sfs_readdir: "sfs_readdir os p n off fi s = Some s' \<Longrightarrow> view s' = view s"
  unfolding sfs_readdir_def do_readdir_def by (elim stepE) (auto dest!: view_dest view_readdir_loop_snd simp: Let_def)

lemma view_start_download [view_dest]: "start_download os p s = Some s' \<Longrightarrow> view s' = view s"
  unfolding start_download_def by (elim stepE) (auto dest!: view_dest split: sum.splits)

lemma view_sfs_open: "sfs_open os p fi s = Some s' \<Longrightarrow> view s' = view s"
  unfolding sfs_open_def by (elim stepE) (auto dest!: view_dest)

lemma view_sfs_release: "sfs_release os p fi s = Some s' \<Longrightarrow> view s' = view s"
  unfolding sfs_release_def by (elim stepE) (auto dest!: view_dest simp: Let_def)

lemma view_sfs_flush: "sfs_flush os fi s = Some s' \<Longrightarrow> view s' = view s"
  unfolding sfs_flush_def by (elim stepE) (auto dest!: view_dest)

lemma view_sfs_fsync: "sfs_fsync os b fi s = Some s' \<Longrightarrow> view s' = view s"
  unfolding sfs_fsync_def by (elim stepE) (auto dest!: view_dest)

lemma view_sfs_flock: "sfs_flock os fi m s = Some s' \<Longrightarrow> view s' = view s"
  unfolding sfs_flock_def by (elim stepE) (auto dest!: view_dest)

lemma view_sfs_read: "sfs_read os p n off fi s = Some s' \<Longrightarrow> view s' = view s"
  unfolding sfs_read_def do_read_def by (elim stepE) (auto dest!: view_dest)

lemma view_sfs_write_buf: "sfs_write_buf os p b off fi s = Some (b', s') \<Longrightarrow> view s' = view s"
  unfolding sfs_write_buf_def do_write_buf_def by (elim stepE) (auto dest!: view_dest simp: Let_def)

section \<open>Handlers that take references\<close>

lemma tab_effect_same: "view s' = view s \<Longrightarrow> tab_effect s s'"
  by (auto simp: tab_effect_def view_def intro: tab_same)

lemma grants_reply: "grants (reply r s) = grants s @ granted r" by (simp add: grants_def)

lemma grants_dest: "replies (trace s') = replies (trace s) \<Longrightarrow> grants s' = grants s"
  by (simp add: grants_def)

lemma do_lookup_view:
  assumes "do_lookup os parent name s = Some (err, e, s')"
    and "tab_ok (table_of s)" and "no_ids (table_of s')"
  shows "view s' = view s \<and> e_ino e = 0 \<or>
    err = 0 \<and> e_ino e \<noteq> 0 \<and> grants s' = grants s \<and> (\<exists>k. ref_get k (table_of s) = (e_ino e, table_of s'))"
proof -
  have "grants s' = grants s" using assms(1) by (auto dest!: reply_dest simp: grants_def)
  with do_lookup_refines [OF assms] ref_get_nonzero assms(2) show ?thesis
    by (auto simp: view_def)
qed

lemma effect_do_lookup_reply:
  assumes run: "do_lookup os parent name s1 = Some (err, e, s2)"
    and s1: "view s1 = view s" and ok: "tab_ok (table_of s)" and no: "no_ids (table_of s')"
    and t: "table_of s' = table_of s2"
    and g: "grants s' = grants s2 @ (if err \<noteq> 0 \<or> e_ino e = 0 then [] else [e_ino e])"
  shows "tab_effect s s'"
proof -
  from s1 have "table_of s1 = table_of s" "grants s1 = grants s" by (simp_all add: view_def)
  then show ?thesis
    using do_lookup_view [OF run] ok no t g
    by (auto simp: tab_effect_def view_def intro: tab_same tab_get)
qed

lemma effect_sfs_lookup:
  assumes "sfs_lookup os p n s = Some s'" "tab_ok (table_of s)" "no_ids (table_of s')"
  shows "tab_effect s s'"
  using assms unfolding sfs_lookup_def
  by (elim stepE) (auto intro!: effect_do_lookup_reply simp: grants_def ENOENT_def)

lemma effect_mknod_symlink:
  "mknod_symlink os p n m rd l s = Some s' \<Longrightarrow> tab_ok (table_of s) \<Longrightarrow> no_ids (table_of s') \<Longrightarrow>
   tab_effect s s'"
  unfolding mknod_symlink_def
  by (elim stepE; ((auto dest!: view_dest intro!: tab_effect_same; fail)
    | (clarsimp, erule effect_do_lookup_reply; auto dest!: view_dest simp: grants_def; fail)))

lemma effect_sfs_create:
  "sfs_create os p n m fi s = Some s' \<Longrightarrow> tab_ok (table_of s) \<Longrightarrow> no_ids (table_of s') \<Longrightarrow>
   tab_effect s s'"
  unfolding sfs_create_def
  by (elim stepE; ((auto dest!: view_dest intro!: tab_effect_same; fail)
    | (clarsimp, erule effect_do_lookup_reply; auto dest!: view_dest simp: grants_def; fail)))

lemma effect_link_reply:
  assumes "view s1 = view s" "t_refs (table_of s) p \<noteq> None" "p \<noteq> root_addr" "p \<noteq> 0" "e_ino e = p"
  shows "tab_effect s (reply (ReplyEntry e) (unlock m' (upd_inode p (\<lambda>i. i\<lparr>i_nlookup := i_nlookup i + 1\<rparr>) (lock m s1))))"
  using assms by (auto simp: tab_effect_def view_def grants_def intro: tab_link)

lemma effect_sfs_link:
  "sfs_link os p q n s = Some s' \<Longrightarrow> p \<noteq> root_addr \<Longrightarrow> p \<noteq> FUSE_ROOT_ID \<Longrightarrow> p \<noteq> 0 \<Longrightarrow> tab_effect s s'"
  unfolding sfs_link_def get_inode_def deref_def
  by (elim stepE; ((auto dest!: view_dest intro!: tab_effect_same; fail)
    | (auto dest!: view_dest simp: t_refs_table_of intro!: effect_link_reply; fail)))

lemma view_unlink_release [view_dest]: "unlink_release os e s = Some s' \<Longrightarrow> view s' = view s"
  unfolding unlink_release_def by (elim stepE) (auto dest!: view_dest)

lemma effect_kept:
  assumes run: "do_lookup os parent name s = Some (err, e, s2)" and v: "view s' = view s2"
    and ok: "tab_ok (table_of s)" and no: "no_ids (table_of s')"
  shows "tab_effect s s'"
proof -
  from v have "table_of s' = table_of s2" "grants s' = grants s2" by (simp_all add: view_def)
  then show ?thesis
    using do_lookup_view [OF run ok] no
    by (auto simp: tab_effect_def view_def intro: tab_same tab_keep)
qed

lemma effect_sfs_unlink:
  "sfs_unlink os p n s = Some s' \<Longrightarrow> tab_ok (table_of s) \<Longrightarrow> no_ids (table_of s') \<Longrightarrow> tab_effect s s'"
  unfolding sfs_unlink_def
  by (elim stepE; ((auto dest!: view_dest intro!: tab_effect_same; fail)
    | (clarsimp, erule effect_kept; auto dest!: view_dest; fail)))

lemma new_dirhandle_table:
  "new_dirhandle s = (d, s') \<Longrightarrow>
   table_of s' = (table_of s)\<lparr>t_next := Suc (t_next (table_of s))\<rparr> \<and> grants s' = grants s"
  by (auto simp: new_dirhandle_def table_of_def grants_def)

lemma effect_new_dirhandle:
  "new_dirhandle s1 = (d, s2) \<Longrightarrow> view s1 = view s \<Longrightarrow> view s' = view s2 \<Longrightarrow> tab_effect s s'"
  by (drule new_dirhandle_table) (auto simp: tab_effect_def view_def intro: tab_dir)

lemma effect_sfs_opendir: "sfs_opendir os p fi s = Some s' \<Longrightarrow> tab_effect s s'"
  unfolding sfs_opendir_def
  by (elim stepE; ((auto dest!: view_dest intro!: tab_effect_same; fail)
    | (erule effect_new_dirhandle; auto dest!: view_dest split: sum.split_asm; fail)))

section \<open>Start-up\<close>

lemma drv_config [simp]:
  "table_of (s\<lparr>server_fd := c\<rparr>) = table_of s" "table_of (s\<lparr>address := a\<rparr>) = table_of s"
  "table_of (s\<lparr>idroot := a\<rparr>) = table_of s" "table_of (s\<lparr>client_uds_path := a\<rparr>) = table_of s"
  "table_of (s\<lparr>nosplice := b\<rparr>) = table_of s" "table_of (s\<lparr>source := a\<rparr>) = table_of s"
  "table_of (s\<lparr>timeout := t\<rparr>) = table_of s" "table_of (s\<lparr>fs_src_dev := d\<rparr>) = table_of s"
  by (simp_all add: table_of_def)

lemma table_connect_server [simp]:
  "table_of (connect_server os t path s) = table_of s"
proof (induction os t path s rule: connect_server.induct)
  case (2 os t path s)
  obtain c s1 where c: "setup_conn os path s = (c, s1)" by (cases "setup_conn os path s")
  then have "table_of s1 = table_of s" by (auto dest: table_dest)
  with 2 c show ?case by (auto simp: Let_def)
qed simp

lemma table_parse_options [table_dest]:
  "parse_options os opts argc arg1 s = Some (Inr s') \<Longrightarrow> table_of s' = table_of s"
  unfolding parse_options_def
  by (elim stepE) (auto dest!: table_dest split: option.split)

lemma table_maximize_fd_limit [simp]:
  fixes s :: "('w, 'x) f3_scheme"
  shows "table_of (maximize_fd_limit os s) = table_of s"
  by (auto simp: maximize_fd_limit_def Let_def dest!: table_dest split: prod.split sum.split)

lemma main_setup_table:
  assumes "main_setup os opts argc arg1 s = Some (Inr s')" and "blank s"
  shows "table_of s' = root_table"
proof -
  have "table_of (put_inode root_addr (new_inode\<lparr>i_nlookup := 9999\<rparr>) s1) = root_table"
    if "table_of s1 = table_of s" for s1 :: "('a, 'b) f3_scheme"
    using that assms(2) 
    by (auto simp: table_of_def blank_def root_table_def put_inode_def ref_of_def new_inode_def fun_eq_iff)
  with assms(1) show ?thesis unfolding main_setup_def
    by (elim stepE) (auto dest!: table_dest)
qed

section \<open>The references held are counted\<close>

lemma get_inode_addr: "get_inode ino s = Some p \<Longrightarrow> ino \<noteq> FUSE_ROOT_ID \<Longrightarrow> p = ino"
  by (auto simp: get_inode_def elim!: stepE split: if_splits)

lemma held_ok_forget_all:
  assumes "forget_all os fs s = Some s'" "held_ok n (table_of s) held" "legal_forgets fs held"
  shows "held_ok n (table_of s') (drop_refs fs held)"
  using assms
proof (induction fs arbitrary: s held)
  case (Cons f fs)
  obtain p k where f: "f = (p, k)" by (cases f)
  from Cons.prems(1) obtain s1 where s1: "forget_one os p k s = Some s1" "forget_all os fs s1 = Some s'"
    by (auto simp: f elim!: stepE)
  from Cons.prems(3) have l: "0 < held p" "unat k \<le> held p" "legal_forgets fs (held(p := held p - unat k))"
    by (auto simp: f)
  note live = held_live [OF Cons.prems(2) l(1)]
  from table_forget_one [OF s1(1)] get_inode_addr live(2) have "ref_put p k (table_of s) = Some (table_of s1)"
    by blast
  from held_ok_put [OF Cons.prems(2) this l(2) live(1)] Cons.IH [OF s1(2)] l(3) show ?case
    by (simp add: f)
qed simp

lemma grants_forget_all: "forget_all os fs s = Some s' \<Longrightarrow> grants s' = grants s"
  by (auto dest!: reply_dest simp: grants_def)

lemmas view_handlers =
  view_sfs_getattr view_sfs_setattr view_sfs_rmdir view_sfs_rename view_sfs_readlink view_sfs_statfs
  view_sfs_getxattr view_sfs_listxattr view_sfs_setxattr view_sfs_releasedir view_sfs_fsyncdir
  view_sfs_readdir view_sfs_open view_sfs_release view_sfs_flush view_sfs_fsync view_sfs_flock
  view_sfs_read view_sfs_write_buf

lemma effect_sfs_oper:
  assumes run: "sfs_oper os req s = Some s'" and leg: "legal req held"
    and h: "held_ok n (table_of s) held"
    and no: "no_ids (table_of s)" and no': "no_ids (table_of s')"
    and nf: "\<And>p k. req \<noteq> Forget p k" "\<And>fs. req \<noteq> ForgetMulti fs"
  shows "tab_effect s s'"
proof -
  have ok: "tab_ok (table_of s)" using h by (simp add: held_ok_def)
  show ?thesis
  proof (cases req)
    case (Link p q name)
    with run leg held_live [OF h] show ?thesis by (auto intro: effect_sfs_link)
  next
    case (RemovexattrReq p name)
    with run no show ?thesis
      by (auto intro!: tab_effect_same view_sfs_removexattr simp: view_def)
  qed (use run ok no no' leg nf in \<open>auto simp: sfs_mkdir_def sfs_mknod_def sfs_symlink_def
      intro: tab_effect_same view_handlers effect_sfs_lookup effect_mknod_symlink effect_sfs_create
        effect_sfs_unlink effect_sfs_opendir\<close>)
qed

lemma held_ok_root_table: "held_ok 9999 root_table (\<lambda>_. 0)"
  by (auto simp: held_ok_def root_table_def cnt_def tab_ok_def)

lemma session_invariant:
  assumes "session os n s held" and "n + 10000 < 2 ^ 64"
  shows "held_ok (9999 + n) (table_of s) held \<and> no_ids (table_of s)"
  using assms
proof (induction rule: session.induct)
  case (session_start s0 opts argc arg1 s)
  from main_setup_table [OF session_start.hyps(2,1)] have "table_of s = root_table" .
  with held_ok_root_table show ?case by (simp add: no_ids_def) (simp add: root_table_def)
next
  case (session_serve n s held req s')
  then have h: "held_ok (9999 + n) (table_of s) held" and no: "no_ids (table_of s)" by auto
  have mono: "held_ok (9999 + Suc n) t h" if "held_ok (9999 + n) t h" for t h
    using that by (rule held_ok_mono) simp
  have forget: "held_ok (9999 + Suc n) (table_of s') (held_after req s s' held)"
    if "forget_all os fs s = Some s1" "s' = reply ReplyNone s1" "forgets req = fs" "legal_forgets fs held" for fs s1
  proof -
    have "held_after req s s' held = drop_refs fs held" "table_of s' = table_of s1"
      using that grants_forget_all [OF that(1)] by (simp_all add: held_after_def [abs_def] grants_reply)
    with mono [OF held_ok_forget_all [OF that(1) h that(4)]] show ?thesis by simp
  qed
  consider p k where "req = Forget p k" | fs where "req = ForgetMulti fs"
    | "\<And>p k. req \<noteq> Forget p k" "\<And>fs. req \<noteq> ForgetMulti fs"
    by blast
  then have "held_ok (9999 + Suc n) (table_of s') (held_after req s s' held)"
  proof cases
    case 1
    with session_serve.hyps obtain s1 where "forget_all os [(p, k)] s = Some s1" "s' = reply ReplyNone s1"
      by (auto simp: sfs_forget_def elim!: stepE)
    from forget [OF this] 1 session_serve.hyps show ?thesis by simp
  next
    case 2
    with session_serve.hyps obtain s1 where "forget_all os fs s = Some s1" "s' = reply ReplyNone s1"
      by (auto simp: sfs_forget_multi_def elim!: stepE)
    from forget [OF this] 2 session_serve.hyps show ?thesis by simp
  next
    case 3
    with session_serve.hyps h no have "tab_effect s s'" by (blast intro: effect_sfs_oper)
    then obtain gs where gs: "tab_step (table_of s) gs (table_of s')" "grants s' = grants s @ gs"
      by (auto simp: tab_effect_def)
    have "forgets req = []" using 3 by (cases req) auto
    with gs held_ok_step [OF gs(1) h] session_serve.prems show ?thesis
      by (simp add: held_after_def [abs_def])
  qed
  with session_serve.hyps show ?case by simp
qed

section \<open>Properties\<close>

text \<open>A mounted driver and the same driver after one lookup, on the sample operating system.\<close>

definition sample_options :: options where
  "sample_options = \<lparr>opt_help = False, opt_nocache = True, opt_nosplice = True, opt_address = None,
     opt_idroot = None, opt_client_socket_path = None, opt_server_socket_path = None\<rparr>"

definition sample_mounted :: "unit f3" where
  "sample_mounted = (case main_setup sample_os sample_options 3 ''/src'' sample_blank of
     Some (Inr s) \<Rightarrow> s | _ \<Rightarrow> sample_blank)"

definition sample_looked_up :: "unit f3" where
  "sample_looked_up = the (sfs_oper sample_os (Lookup 1 ''a'') sample_mounted)"

definition sample_refs :: "addr \<Rightarrow> nat" where
  "sample_refs = held_after (Lookup 1 ''a'') sample_mounted sample_looked_up (\<lambda>_. 0)"

lemma sample_blank: "blank sample_blank"
  by (simp add: blank_def sample_blank_def sample_state_def root_addr_def)

lemma sample_main_setup:
  "main_setup sample_os sample_options 3 ''/src'' sample_blank = Some (Inr sample_mounted)"
proof -
  have "case main_setup sample_os sample_options 3 ''/src'' sample_blank of
      Some (Inr s) \<Rightarrow> True | _ \<Rightarrow> False"
    by code_simp
  then show ?thesis
    by (auto simp: sample_mounted_def split: option.splits sum.splits)
qed

lemma sample_lookup: "sfs_oper sample_os (Lookup 1 ''a'') sample_mounted = Some sample_looked_up"
proof -
  have "\<not> Option.is_none (sfs_oper sample_os (Lookup 1 ''a'') sample_mounted)"
    by code_simp
  then show ?thesis by (auto simp: sample_looked_up_def Option.is_none_def)
qed

lemma sample_no_ids: "no_ids (table_of sample_looked_up)"
proof -
  have "map_option i_is_id (heap sample_looked_up p) \<noteq> Some True" for p
    by (code_simp, simp split: if_splits)
  then show ?thesis by (auto simp: no_ids_def t_refs_table_of ref_of_def)
qed

lemma sample_session: "session sample_os 1 sample_looked_up sample_refs"
  using session_serve [OF session_start [OF sample_blank sample_main_setup] _ sample_lookup sample_no_ids]
  by (simp add: sample_refs_def)

lemma sample_held: "sample_refs 3 = 1"
  by code_simp

text \<open>
  C2. No reference outlives its object. In every session of a mounted driver with any operating system, in
  which the kernel gives back only references it holds and no file is an ID file, every
  inode number the kernel still holds is the address of a live object, and the object's lookup count is
  at least the number of references held. (The counter has 64 bits: the claim is for fewer than
  \<open>2\<^sup>6\<^sup>4 - 10000\<close> requests.)
\<close>

theorem session_references_live:
  assumes "session os n s held" and "n + 10000 < 2 ^ 64" and "0 < held p"
  shows "\<exists>i. heap s p = Some i \<and> held p \<le> unat (i_nlookup i)"
proof -
  from session_invariant [OF assms(1,2)] have "held_ok (9999 + n) (table_of s) held" by simp
  with held_live(4) [OF this assms(3)] show ?thesis
    by (auto simp: held_ok_def cnt_def t_refs_table_of ref_of_def split: option.splits)
qed

theorem session_references_live_witness:
  "\<exists>s held i. session sample_os 1 (s :: unit f3) held \<and> 0 < held 3 \<and>
     heap s 3 = Some i \<and> held 3 \<le> unat (i_nlookup i)"
proof -
  have held: "0 < sample_refs 3" by (simp add: sample_held)
  have "(1::nat) + 10000 < 2 ^ 64" by simp
  from session_references_live [OF sample_session this held] sample_session held show ?thesis
    by blast
qed






section \<open>ID files break the counting\<close>



end
