(* ===== verification/F3_Lowlevel.thy ===== *)
theory F3_Lowlevel
  imports Fuse_Serving F3_Session
begin

text \<open>
  The driver behind libfuse: \<^verbatim>\<open>assign_operations\<close> of \<^verbatim>\<open>f3.cc\<close> puts the handlers into the table through which
  libfuse calls them, and every reply of a handler is a call of one of libfuse's \<^verbatim>\<open>fuse_reply_*\<close> functions,
  which writes to the device and frees the request. A handler's replies are sent when it returns: what the
  handlers still do after a reply is to unlock mutexes, apart from the five of
  \<^const>\<open>goes_on_after_error\<close>.
\<close>

section \<open>Replies\<close>

fun fuse_reply :: "'w os \<Rightarrow> addr \<Rightarrow> reply \<Rightarrow> ('w, 'x) ll \<Rightarrow> ('w, 'x) ll option" where
  "fuse_reply os req (ReplyErr e) st = ignore_res (fuse_reply_err os req e st)"
| "fuse_reply os req ReplyNone st = fuse_reply_none req st"
| "fuse_reply os req (ReplyEntry e) st = ignore_res (fuse_reply_entry os req e st)"
| "fuse_reply os req (ReplyCreate e fi) st = ignore_res (fuse_reply_create os req e fi st)"
| "fuse_reply os req (ReplyAttr a t) st = ignore_res (fuse_reply_attr os req a t st)"
| "fuse_reply os req (ReplyReadlink l) st = ignore_res (fuse_reply_readlink os req l st)"
| "fuse_reply os req (ReplyOpen fi) st = ignore_res (fuse_reply_open os req fi st)"
| "fuse_reply os req (ReplyWrite n) st = ignore_res (fuse_reply_write os req n st)"
| "fuse_reply os req (ReplyBuf b) st = ignore_res (fuse_reply_buf os req b st)"
| "fuse_reply os req (ReplyData v fl) st = ignore_res (fuse_reply_data os req v fl st)"
| "fuse_reply os req (ReplyStatfs v) st = ignore_res (fuse_reply_statfs os req v st)"
| "fuse_reply os req (ReplyXattr n) st = ignore_res (fuse_reply_xattr os req (of_nat n) st)"

fun fuse_replies :: "'w os \<Rightarrow> addr \<Rightarrow> reply list \<Rightarrow> ('w, 'x) ll \<Rightarrow> ('w, 'x) ll option" where
  "fuse_replies os req [] st = Some st"
| "fuse_replies os req (r # rs) st = do { st \<leftarrow> fuse_reply os req r st; fuse_replies os req rs st }"

section \<open>The table of handlers\<close>

text \<open>An operation as a request to the driver; the other operations are not in the table.\<close>

fun f3_request :: "oper \<Rightarrow> request option" where
  "f3_request (OpLookup parent name) = Some (Lookup (unat parent) name)"
| "f3_request (OpMkdir parent name mode) = Some (Mkdir (unat parent) name mode)"
| "f3_request (OpMknod parent name mode rdev) = Some (Mknod (unat parent) name mode (ucast rdev))"
| "f3_request (OpSymlink target parent name) = Some (Symlink target (unat parent) name)"
| "f3_request (OpLink ino parent name) = Some (Link (unat ino) (unat parent) name)"
| "f3_request (OpUnlink parent name) = Some (Unlink (unat parent) name)"
| "f3_request (OpRmdir parent name) = Some (Rmdir (unat parent) name)"
| "f3_request (OpRename parent name newparent newname flags) =
     Some (Rename (unat parent) name (unat newparent) newname flags)"
| "f3_request (OpForget ino n) = Some (Forget (unat ino) n)"
| "f3_request (OpForgetMulti fs) = Some (ForgetMulti (map (\<lambda>(ino, n). (unat ino, n)) fs))"
| "f3_request (OpGetattr ino fi) = Some (Getattr (unat ino))"
| "f3_request (OpSetattr ino attr valid fi) = Some (Setattr (unat ino) attr valid fi)"
| "f3_request (OpReadlink ino) = Some (ReadlinkReq (unat ino))"
| "f3_request (OpOpendir ino fi) = Some (Opendir (unat ino) fi)"
| "f3_request (OpReaddir ino n off fi) = Some (ReaddirReq (unat ino) n off fi)"
| "f3_request (OpReaddirplus ino n off fi) = Some (Readdirplus (unat ino) n off fi)"
| "f3_request (OpReleasedir ino fi) = Some (Releasedir fi)"
| "f3_request (OpFsyncdir ino datasync fi) = Some (Fsyncdir datasync fi)"
| "f3_request (OpCreate parent name mode fi) = Some (Create (unat parent) name mode fi)"
| "f3_request (OpOpen ino fi) = Some (OpenReq (unat ino) fi)"
| "f3_request (OpRelease ino fi) = Some (Release (unat ino) fi)"
| "f3_request (OpFlush ino fi) = Some (Flush fi)"
| "f3_request (OpFsync ino datasync fi) = Some (FsyncReq datasync fi)"
| "f3_request (OpRead ino n off fi) = Some (ReadReq (unat ino) n off fi)"
| "f3_request (OpStatfs ino) = Some (Statfs (unat ino))"
| "f3_request (OpFlock ino fi op) = Some (FlockReq fi op)"
| "f3_request (OpSetxattr ino name v flags) = Some (SetxattrReq (unat ino) name v flags)"
| "f3_request (OpGetxattr ino name n) = Some (GetxattrReq (unat ino) name (unat n))"
| "f3_request (OpListxattr ino n) = Some (ListxattrReq (unat ino) (unat n))"
| "f3_request (OpRemovexattr ino name) = Some (RemovexattrReq (unat ino) name)"
| "f3_request _ = None"

definition new_replies :: "('w, 'x) machine_scheme \<Rightarrow> ('w, 'x) machine_scheme \<Rightarrow> reply list" where
  "new_replies s s' = drop (length (replies (trace s))) (replies (trace s'))"

definition f3_run :: "'w os \<Rightarrow> addr \<Rightarrow> request \<Rightarrow> fuse_session \<times> ('w, 'x) f3_scheme \<Rightarrow>
    (fuse_session \<times> ('w, 'x) f3_scheme) option" where
  "f3_run os req r = (\<lambda>(se, s). do {
     s' \<leftarrow> sfs_oper os r s;
     fuse_replies os req (new_replies s s') (se, s') })"

definition f3_write_buf :: "'w os \<Rightarrow> addr \<Rightarrow> u64 \<Rightarrow> fuse_bufvec \<Rightarrow> u64 \<Rightarrow> fuse_file_info \<Rightarrow>
    fuse_session \<times> ('w, 'x) f3_scheme \<Rightarrow> (fuse_bufvec \<times> fuse_session \<times> ('w, 'x) f3_scheme) option" where
  "f3_write_buf os req ino in_buf off fi = (\<lambda>(se, s). do {
     (in_buf, s') \<leftarrow> sfs_write_buf os (unat ino) in_buf off fi s;
     st \<leftarrow> fuse_replies os req (new_replies s s') (se, s');
     Some (in_buf, st) })"

definition f3_ops where
  "f3_ops os = \<lparr>
     op_set = [''init'', ''lookup'', ''mkdir'', ''mknod'', ''symlink'', ''link'', ''unlink'', ''rmdir'', ''rename'',
       ''forget'', ''forget_multi'', ''getattr'', ''setattr'', ''readlink'', ''opendir'', ''readdir'', ''readdirplus'',
       ''releasedir'', ''fsyncdir'', ''create'', ''open'', ''release'', ''flush'', ''fsync'', ''read'', ''write_buf'',
       ''statfs'', ''flock'', ''setxattr'', ''getxattr'', ''listxattr'', ''removexattr''],
     op_run = (\<lambda>req op st. do { r \<leftarrow> f3_request op; f3_run os req r st }),
     op_write_buf = f3_write_buf os,
     op_retrieve_reply = (\<lambda>req cookie ino off bufv st. None),
     op_init = (\<lambda>conn s. Some (sfs_init s conn, s)),
     op_func = (\<lambda>f req d st. None)\<rparr>"

section \<open>Every reply releases its request\<close>

lemma released_replies [releases]:
  "fuse_reply_entry os p e (se, s) = Some (r, se', s') \<Longrightarrow> released p se se'"
  "fuse_reply_create os p e fi (se, s) = Some (r, se', s') \<Longrightarrow> released p se se'"
  "fuse_reply_attr os p a t (se, s) = Some (r, se', s') \<Longrightarrow> released p se se'"
  "fuse_reply_readlink os p l (se, s) = Some (r, se', s') \<Longrightarrow> released p se se'"
  "fuse_reply_write os p n (se, s) = Some (r, se', s') \<Longrightarrow> released p se se'"
  "fuse_reply_buf os p b (se, s) = Some (r, se', s') \<Longrightarrow> released p se se'"
  "fuse_reply_xattr os p n (se, s) = Some (r, se', s') \<Longrightarrow> released p se se'"
  unfolding fuse_reply_entry_def fuse_reply_create_def fuse_reply_attr_def fuse_reply_readlink_def fuse_reply_write_def
    fuse_reply_buf_def fuse_reply_xattr_def Let_def
  by (auto split: if_splits dest: send_reply_ok_released fuse_reply_err_released)

lemma fuse_send_msg_same: "fuse_send_msg os err uniq iov (se, s) = (res, se', s') \<Longrightarrow> same_reqs se se'"
  by (auto dest: fuse_send_msg_calls)

lemma send_fallback_same:
  "fuse_send_data_iov_fallback os err uniq iov buf len (se, s) = Some (r, se', s') \<Longrightarrow> same_reqs se se'"
  unfolding fuse_send_data_iov_fallback_def
  by (auto elim!: stepE split: if_splits dest!: fuse_send_msg_same)

lemma send_rest_same:
  "send_rest os err uniq iov buf len hl llp nl (se, s) = Some (r, se', s') \<Longrightarrow> same_reqs se se'"
  unfolding send_rest_def
  by (auto elim!: stepE split: if_splits dest!: fuse_send_msg_same)

lemma splice_to_device_same:
  "splice_to_device os err uniq iov hl fl llp len (se, s) = (r, se', s') \<Longrightarrow> same_reqs se se'"
  unfolding splice_to_device_def Let_def
  by (auto split: prod.splits sum.splits if_splits dest!: clear_pipe_same)

lemma send_pipe_same:
  "send_through_pipe os err uniq iov buf fl len hl llp (se, s) = Some (r, se', s') \<Longrightarrow> same_reqs se se'"
  unfolding send_through_pipe_def Let_def
  by (auto elim!: stepE split: if_splits prod.splits sum.splits bool.splits
      dest!: clear_pipe_same send_fallback_same send_rest_same splice_to_device_same
      intro: same_reqs_trans simp: same_reqs_def)

lemma send_data_same:
  assumes "fuse_send_data_iov os err uniq iov buf fl (se, s) = Some (r, se', s')"
  shows "same_reqs se se'"
proof -
  obtain llp se1 s1 where g: "fuse_ll_get_pipe os (se, s) = (llp, se1, s1)" by (metis prod_cases3)
  have g': "same_reqs se se1" by (rule get_pipe_same [OF g])
  show ?thesis using assms g g' unfolding fuse_send_data_iov_def Let_def
    by (auto split: if_splits option.splits prod.splits dest!: ensure_pipe_size_same send_fallback_same send_pipe_same
        intro: same_reqs_trans)
qed

lemma fuse_reply_data_released [releases]:
  "fuse_reply_data os p v fl (se, s) = Some (r, se', s') \<Longrightarrow> released p se se'"
  unfolding fuse_reply_data_def
  by (auto elim!: stepE split: if_splits dest!: send_data_same fuse_free_req_released fuse_reply_err_released
      intro: same_released)

lemma fuse_reply_released: "fuse_reply os p r (se, s) = Some (se', s') \<Longrightarrow> released p se se'"
  by (cases r) (auto simp: ignore_res_Some dest: releases)

section \<open>A second reply\<close>

lemma fuse_reply_gone: "se_reqs se p = None \<Longrightarrow> fuse_reply os p r (se, s) = None"
  by (cases r) (simp_all add: ignore_res_def fuse_reply_err_def fuse_reply_none_def fuse_free_req_def
      fuse_reply_entry_def fuse_reply_create_def fuse_reply_attr_def fuse_reply_readlink_def fuse_reply_open_def
      fuse_reply_write_def fuse_reply_buf_def fuse_reply_data_def fuse_reply_statfs_def fuse_reply_xattr_def Let_def
      send_reply_ok_def send_reply_def send_reply_iov_gone)

lemma released_gone:
  assumes "released p se se'" "stands_for se xs is E P I" "p \<in> set xs \<or> p \<in> E"
  shows "se_reqs se' p = None"
proof -
  have "stands_for se' (removeAll p xs) is (E - {p}) (view_reqs (se_reqs se) (removeAll p xs)) I"
    by (rule releasedD [OF assms])
  then have "rings (se_reqs se') SE_LIST (removeAll p xs) SE_INTERRUPTS is (E - {p})"
    by (simp add: stands_for_def sess_ok_def)
  then have "dom (se_reqs se') = set (SE_LIST # removeAll p xs) \<union> set (SE_INTERRUPTS # is) \<union> (E - {p})"
    by (rule rings_disj(7))
  moreover have "p \<noteq> SE_LIST" "p \<noteq> SE_INTERRUPTS" "p \<notin> set is"
    using assms(2,3) sess_dom [of se xs "is" E] by (auto simp: stands_for_def)
  ultimately show ?thesis by auto
qed

lemma second_reply:
  assumes "stands_for se xs is E P I" "p \<in> set xs \<or> p \<in> E"
  shows "fuse_replies os p (r # r' # rs) (se, s) = None"
proof (cases "fuse_reply os p r (se, s)")
  case (Some st)
  obtain se1 s1 where st: "st = (se1, s1)" by force
  have "se_reqs se1 p = None"
    by (rule released_gone [OF fuse_reply_released [OF Some [unfolded st]] assms])
  then show ?thesis by (simp add: Some st fuse_reply_gone)
qed simp

lemma fuse_replies_released:
  assumes "fuse_replies os p rs (se, s) = Some (se', s')" "rs \<noteq> []"
  shows "released p se se'"
  unfolding released_def
proof (intro allI impI)
  fix xs "is" E P I
  assume st: "stands_for se xs is E P I" "p \<in> set xs \<or> p \<in> E"
  obtain r rs' where rs: "rs = r # rs'" using assms(2) by (cases rs) auto
  have "rs' = []"
    using assms(1) second_reply [OF st, of os r "hd rs'" "tl rs'" s] by (cases rs') (auto simp: rs)
  then have "released p se se'" using assms(1) by (auto simp: rs elim!: stepE dest: fuse_reply_released)
  then show "stands_for se' (removeAll p xs) is (E - {p}) (view_reqs (se_reqs se) (removeAll p xs)) I"
    using st by (rule releasedD)
qed

section \<open>Every handler replies\<close>

lemma replies_make_id_fs [reply_dest]:
  "f3_make_id_fs os ino s = Some (r, s') \<Longrightarrow> replies (trace s') = replies (trace s)"
  unfolding f3_make_id_fs_def by (elim stepE) (auto dest!: reply_dest split: if_splits)

lemma replies_unlink_release [reply_dest]:
  "unlink_release os e s = Some s' \<Longrightarrow> replies (trace s') = replies (trace s)"
  unfolding unlink_release_def by (elim stepE) (auto dest!: reply_dest split: if_splits)

lemma some_reply_going_on:
  "sfs_unlink os p n s = Some s' \<Longrightarrow> length (replies (trace s)) < length (replies (trace s'))"
  "sfs_rmdir os p n s = Some s' \<Longrightarrow> length (replies (trace s)) < length (replies (trace s'))"
  "sfs_rename os p n q m fl s = Some s' \<Longrightarrow> length (replies (trace s)) < length (replies (trace s'))"
  "sfs_setxattr os p n v fl s = Some s' \<Longrightarrow> length (replies (trace s)) < length (replies (trace s'))"
  "sfs_removexattr os p n s = Some s' \<Longrightarrow> length (replies (trace s)) < length (replies (trace s'))"
  unfolding sfs_unlink_def sfs_rmdir_def sfs_rename_def sfs_setxattr_def sfs_removexattr_def reply_if_failed_def
  by (elim stepE; auto dest!: reply_dest simp: F3_REPLY_ERR_def split: sum.splits if_splits)+

lemma some_reply_sfs_oper:
  assumes "sfs_oper os req s = Some s'"
  shows "new_replies s s' \<noteq> []"
proof (cases "goes_on_after_error req")
  case False
  then show ?thesis using one_reply_sfs_oper [OF False assms] by (auto simp: one_reply_def new_replies_def)
next
  case True
  then show ?thesis using assms
    by (cases req) (auto simp: new_replies_def dest!: some_reply_going_on)
qed

lemma some_reply_write_buf:
  "sfs_write_buf os ino v off fi s = Some (v', s') \<Longrightarrow> new_replies s s' \<noteq> []"
  using some_reply_sfs_oper [of os "WriteBuf ino v off fi" s s'] by simp

interpretation f3: answering os "f3_ops os"
  by unfold_locales
    (auto simp: f3_ops_def f3_run_def f3_write_buf_def elim!: stepE
      dest: some_reply_sfs_oper some_reply_write_buf intro: fuse_replies_released)

end
