(* ===== verification/F3_Lowlevel_Spec.thy ===== *)
theory F3_Lowlevel_Spec
  imports F3_Lowlevel
begin

text \<open>
  The driver and libfuse together: what becomes of a message from the kernel once the driver's handlers run
  behind libfuse's session.
\<close>

section \<open>One message goes out\<close>












section \<open>Setting up\<close>






section \<open>The properties\<close>







text \<open>
  C27. The type of the session's data holds whenever the loop returns: started with well-formed lists, \<^verbatim>\<open>fuse_session_loop\<close>
  with the driver behind it ends with two disjoint circular lists that hold every request object there is,
  each counted once, however many messages there were and whatever was in them.
\<close>

theorem f3_loop_well_formed:
  assumes "fuse_session_loop os (f3_ops os) (se, s) = Some (r, se', s')" "ready se"
  shows "ready se'"
  using assms by (rule f3.loop_ready)

definition gone_os :: "unit os" where
  "gone_os = sample_os\<lparr>os_data := (\<lambda>_ w. (Inl ENODEV, w))\<rparr>"

lemma gone_read:
  "\<not> se_exited se \<Longrightarrow> \<exists>s'. receive_read gone_os b (se, s) = Some (0, b, fuse_session_exit se, s')"
  by (subst receive_read.simps)
    (simp add: gone_os_def sys_data_def invoke_def fuse_session_exited_def receive_failed_def ENODEV_def ENOENT_def)

lemma gone_receive:
  "\<not> se_exited se \<Longrightarrow> proto_minor se < 14 \<Longrightarrow>
   \<exists>b' se' s'. fuse_session_receive_buf_int gone_os b (se, s) = Some (0, b', se', s')"
  using gone_read [of se]
  by (auto simp: fuse_session_receive_buf_int_def receive_fallback_def ensure_mem_def Let_def gone_os_def alloc_def invoke_def
      sample_os_def split: prod.splits) blast+

lemma gone_loop:
  assumes "\<not> se_exited se" "proto_minor se < 14"
  shows "\<exists>y. fuse_session_loop gone_os ops (se, s) = Some y"
proof -
  let ?b = "\<lparr>b_size = 0, b_flags = 0, b_mem = 0, b_fd = 0, b_pos = 0\<rparr>"
  obtain b' se' s' where "fuse_session_receive_buf_int gone_os ?b (se, s) = Some (0, b', se', s')"
    using gone_receive [OF assms, of ?b s] by blast
  then have "session_loop_from gone_os ops 0 ?b (se, s) = Some (0, se', s')"
    using assms(1) by (subst session_loop_from.simps) (simp add: fuse_session_exited_def EINTR_def)
  then show ?thesis by (simp add: fuse_session_loop_def)
qed

theorem f3_loop_well_formed_witness:
  "\<exists>r se' s'. fuse_session_loop gone_os (f3_ops gone_os) (sample_session, sample_state) = Some (r, se', s') \<and> ready se'"
proof -
  have "\<not> se_exited sample_session" "proto_minor sample_session < 14" by code_simp+
  from gone_loop [OF this, of "f3_ops gone_os" sample_state]
  obtain r se' s' where r: "fuse_session_loop gone_os (f3_ops gone_os) (sample_session, sample_state) = Some (r, se', s')"
    by (metis prod_cases3)
  have "ready sample_session" using stands_for_sample unfolding ready_def by blast
  from f3_loop_well_formed [OF r this] r show ?thesis by blast
qed






end
