(* ===== verification/Fuse_Opt_Spec.thy ===== *)
theory Fuse_Opt_Spec
  imports Fuse_Opt Sample_Os
begin

text \<open>
  What the option parser of theory \<open>Fuse_Opt\<close> does: the in-place treatment of an option group equals
  splitting it into a list, groups built with escapes are read back, templates match exactly the
  arguments the documentation lists, and parsing always returns.
\<close>

section \<open>Option groups: the in-place parser and its specification\<close>

text \<open>
  A group as a list of options: commas separate, a backslash quotes the next character or starts
  three octal digits. The options are then processed in order up to the first failure.
\<close>

definition octal_head :: "string \<Rightarrow> (char \<times> string) option" where
  "octal_head cs = (case cs of
       a # b # c # rest \<Rightarrow>
         if digit_in 4 a \<and> digit_in 8 b \<and> digit_in 8 c
         then Some (char_of ((of_char a - 48) * 64 + (of_char b - 48) * 8 + (of_char c - 48) :: nat), rest)
         else None
     | _ \<Rightarrow> None)"

lemma octal_head_length [termination_simp]: "octal_head cs = Some (x, rest) \<Longrightarrow> length rest < length cs"
  by (auto simp: octal_head_def split: list.splits if_splits)

fun split_group :: "string \<Rightarrow> string \<Rightarrow> string list" where
  "split_group [] acc = [acc]"
| "split_group (c # cs) acc =
     (if c = CHR '','' then acc # split_group cs []
      else if c = CHR 0x5C \<and> cs \<noteq> [] then
        (case octal_head cs of
           Some (x, rest) \<Rightarrow> split_group rest (acc @ [x])
         | None \<Rightarrow> split_group (tl cs) (acc @ [hd cs]))
      else split_group cs (acc @ [c]))"

fun run_opts :: "(string \<Rightarrow> 'c \<Rightarrow> (int \<times> 'c) option) \<Rightarrow> string list \<Rightarrow> 'c \<Rightarrow> (int \<times> 'c) option" where
  "run_opts gopt [] ctx = Some (0, ctx)"
| "run_opts gopt (opt # opts) ctx = do {
     (res, ctx) \<leftarrow> gopt opt ctx;
     if res = -1 then Some (-1, ctx) else run_opts gopt opts ctx }"

lemma nth_opt_drop: "drop i buf = xs \<Longrightarrow> i \<le> length buf \<Longrightarrow> nth_opt buf (i + j) = nth_opt xs j"
  by (auto simp: nth_opt_def)

lemma digit_in_NUL [simp]: "\<not> digit_in b NUL"
  by (simp add: digit_in_def NUL_def)

lemma octal_at_head:
  assumes "drop i buf = cs @ [NUL]"
  shows "octal_at buf i = Some (map_option fst (octal_head cs))"
proof -
  have le: "i \<le> length buf"
    using assms by (cases "i \<le> length buf") auto
  have n: "nth_opt buf (i + j) = nth_opt (cs @ [NUL]) j" for j
    by (rule nth_opt_drop [OF assms le])
  from n [of 0] n [of 1] n [of 2] show ?thesis
    by (cases cs; cases "tl cs"; cases "tl (tl cs)")
      (auto simp: octal_at_def octal_head_def nth_opt_def split: list.splits)
qed

lemma cstr_cut:
  assumes "take d buf = acc" "d < length buf"
  shows "cstr (buf[d := NUL]) = Some (cut_nul acc)"
proof -
  have "buf[d := NUL] = acc @ NUL # drop (Suc d) buf"
    using assms by (simp add: upd_conv_take_nth_drop)
  then show ?thesis by (simp add: cstr_def cut_nul_def takeWhile_tail)
qed

lemma drop_update: "d < i \<Longrightarrow> drop i (buf[d := x]) = drop i buf"
  by (simp add: drop_update_cancel)

lemma take_update: "d < length buf \<Longrightarrow> take d buf = acc \<Longrightarrow> take (Suc d) (buf[d := x]) = acc @ [x]"
  by (simp add: take_Suc_conv_app_nth)

lemma comma_NUL: "CHR '','' \<noteq> NUL"
  by (simp add: NUL_def)

lemma octal_head_drop: "octal_head cs = Some (x, rest) \<Longrightarrow> drop 3 cs = rest \<and> 3 \<le> length cs"
  by (auto simp: octal_head_def split: list.splits if_splits)

lemma option_group_loop_split:
  assumes "drop i buf = cs @ [NUL]" "take d buf = acc" "d \<le> i" "NUL \<notin> set cs"
  shows "option_group_loop gopt buf i d ctx = run_opts gopt (map cut_nul (split_group cs acc)) ctx"
  using assms
proof (induction cs acc arbitrary: buf i d ctx rule: split_group.induct)
  case (1 acc)
  then have "i < length buf" "buf ! i = NUL"
    using nth_via_drop [of i buf NUL "[]"] by (auto simp: not_le intro: ccontr)
  with 1 show ?case
    by (subst option_group_loop.simps) (auto simp: cstr_cut Let_def cong: if_cong split: option.splits)
next
  case (2 c cs acc)
  have i: "i < length buf" "buf ! i = c" "drop (Suc i) buf = cs @ [NUL]"
    using 2(5) by (auto simp: not_le nth_via_drop drop_Suc [symmetric] intro: ccontr)
      (metis drop_Suc list.sel(3) tl_drop)
  have acc: "take (Suc d) (buf[d := x]) = acc @ [x]" for x
    using 2(6,7) i by (intro take_update) auto
  have nxt: "nth_opt buf (Suc i) = nth_opt (cs @ [NUL]) 0"
    using nth_opt_drop [OF i(3), of 0] i(1) by simp
  have oct: "octal_at buf (Suc i) = Some (map_option fst (octal_head cs))"
    by (rule octal_at_head [OF i(3)])
  show ?case
  proof (cases "c = CHR '',''")
    case True
    then show ?thesis
      using 2(1) [OF True, of "Suc i" "buf[d := NUL]" 0] 2(5-8) i comma_NUL
      by (subst option_group_loop.simps) (simp add: cstr_cut Let_def drop_update cong: if_cong)
  next
    case nc: False
    show ?thesis
    proof (cases "c = CHR 0x5C \<and> cs \<noteq> []")
      case True
      then obtain h t where cs: "cs = h # t" by (cases cs) auto
      have h: "h \<noteq> NUL" "nth_opt buf (Suc i) = Some h" "buf ! Suc i = h"
        using nxt 2(8) cs by (auto simp: nth_opt_def split: if_splits)
      have dr: "drop (i + Suc k) (buf[d := x]) = drop k (cs @ [NUL])" for k x
        using 2(7) arg_cong [OF i(3), of "drop k"] by (simp add: drop_update add.commute)
      show ?thesis
      proof (cases "octal_head cs")
        case None
        with True show ?thesis
          using 2(2) [OF nc True None, of "i + 2" "buf[d := h]" "Suc d"] 2(5-8) i nc acc oct h cs dr [of 1 h]
          by (subst option_group_loop.simps) (simp add: NUL_def)
      next
        case (Some a)
        obtain x rest where a: "octal_head cs = Some (x, rest)" using Some by (cases a) auto
        have r: "drop 3 (cs @ [NUL]) = rest @ [NUL]" "NUL \<notin> set rest"
          using octal_head_drop [OF a] 2(8) by (auto dest: in_set_dropD)
        show ?thesis
          using 2(3) [OF nc True a refl, of "i + 4" "buf[d := x]" "Suc d"] 2(5-8) i nc acc oct h a r dr [of 3 x] True
          by (subst option_group_loop.simps) (simp add: NUL_def)
      qed
    next
      case False
      then show ?thesis
        using 2(4) [OF nc False, of "Suc i" "buf[d := c]" "Suc d"] 2(5-8) i nc acc nxt
        by (subst option_group_loop.simps) (auto simp: drop_update nth_opt_def)
    qed
  qed
qed


lemma option_group_in_place:
  assumes "NUL \<notin> set grp"
  shows "process_real_option_group os opts proc (grp @ [NUL]) ctx =
    run_opts (\<lambda>arg. process_gopt os opts proc arg True) (map cut_nul (split_group grp [])) ctx"
  unfolding process_real_option_group_def
  by (rule option_group_loop_split) (use assms in auto)

lemma octal_head_special: "c = CHR '','' \<or> c = CHR 0x5C \<Longrightarrow> octal_head (c # cs) = None"
  by (auto simp: octal_head_def digit_in_def split: list.splits)

lemma split_escape_append:
  assumes "rest = [] \<or> hd rest = CHR '',''"
  shows "split_group (escape_opt True opt @ rest) acc = split_group rest (acc @ opt)"
  using assms by (induction opt arbitrary: acc) (auto simp: octal_head_special)

lemma escape_opt_nonempty [simp]: "escape_opt b opt = [] \<longleftrightarrow> opt = []"
  by (cases opt) auto

fun add_opts_escaped :: "'w os \<Rightarrow> string list \<Rightarrow> string option \<Rightarrow> ('w, 'x) machine_scheme \<Rightarrow>
    int \<times> string option \<times> ('w, 'x) machine_scheme" where
  "add_opts_escaped os [] opts s = (0, opts, s)"
| "add_opts_escaped os (x # xs) opts s =
     (let (res, opts, s) = fuse_opt_add_opt_escaped os opts x s
      in if res = -1 then (-1, opts, s) else add_opts_escaped os xs opts s)"

lemma add_opts_joined:
  assumes "add_opts_escaped os xs (Some t) s = (0, opts, s')" "t \<noteq> []"
  shows "opts = Some (t @ concat (map (\<lambda>opt. CHR '','' # escape_opt True opt) xs))"
  using assms
proof (induction xs arbitrary: t s)
  case (Cons x xs)
  from Cons(2,3) obtain s1 where "add_opts_escaped os xs (Some (t @ CHR '','' # escape_opt True x)) s1 = (0, opts, s')"
    by (auto simp: fuse_opt_add_opt_escaped_def add_opt_common_def join_opt_def Let_def split: prod.splits if_splits)
  from Cons(1) [OF this] show ?case by simp
qed simp

lemma joined_head:
  "concat (map (\<lambda>opt. CHR '','' # f opt) xs) = [] \<or> hd (concat (map (\<lambda>opt. CHR '','' # f opt) xs)) = CHR '',''"
  by (cases xs) auto

lemma split_joined:
  "split_group (concat (map (\<lambda>opt. CHR '','' # escape_opt True opt) xs)) acc = acc # xs"
  by (induction xs arbitrary: acc) (simp_all add: split_escape_append [OF joined_head])

lemma set_escape_opt: "NUL \<notin> set opt \<Longrightarrow> NUL \<notin> set (escape_opt b opt)"
  by (induction opt) (auto simp: NUL_def)

lemma add_opts_split:
  assumes "add_opts_escaped os (x # xs) None s = (0, opts, s')" "x \<noteq> []"
    "\<forall>y \<in> set (x # xs). NUL \<notin> set y"
  obtains t where "opts = Some t" "split_group t [] = x # xs" "NUL \<notin> set t"
proof -
  let ?t = "escape_opt True x @ concat (map (\<lambda>opt. CHR '','' # escape_opt True opt) xs)"
  have "opts = Some ?t"
    using assms(1,2) by (auto simp: fuse_opt_add_opt_escaped_def add_opt_common_def join_opt_def
        dest!: add_opts_joined split: prod.splits if_splits)
  moreover have "split_group ?t [] = x # xs"
    by (simp add: split_joined split_escape_append [OF joined_head])
  moreover have "NUL \<notin> set ?t"
    using assms(3) comma_NUL by (auto simp: set_escape_opt)
  ultimately show thesis by (rule that)
qed

lemma cut_nul_id: "NUL \<notin> set t \<Longrightarrow> cut_nul t = t"
  by (induction t) (auto simp: cut_nul_def)


lemma update_moved:
  "pos < length xs \<Longrightarrow> (take (Suc pos) xs @ ys)[pos := y] = take pos xs @ y # ys"
  by (simp add: take_Suc_conv_app_nth list_update_append)

lemma insert_arg_place:
  assumes "fuse_opt_insert_arg os args pos arg s = Some (0, args', s')"
  shows "fa_list args' = take pos (fa_list args) @ arg # drop pos (fa_list args)"
  using assms by (auto simp: fuse_opt_insert_arg_def fuse_opt_add_arg_def fa_argc_def fa_list_def Let_def update_moved
        split: if_splits option.splits prod.splits)

lemma insert_arg_failed:
  assumes "fuse_opt_insert_arg os args pos arg s = Some (res, args', s')" "res \<noteq> 0"
  shows "fa_list args' = fa_list args"
  using assms by (auto simp: fuse_opt_insert_arg_def fuse_opt_add_arg_def Let_def split: if_splits prod.splits)

definition key_template :: "string \<Rightarrow> char \<Rightarrow> string \<Rightarrow> bool" where
  "key_template t c key \<longleftrightarrow> c \<notin> set key \<and> (t = key @ [c] \<or> take (length key + 2) t = key @ [c, CHR ''%''])"

lemma takeWhile_first: "c \<notin> set key \<Longrightarrow> takeWhile (\<lambda>x. x \<noteq> c) (key @ c # rest) = key"
  by (induction key) auto

lemma strchr_pos_first: "c \<notin> set key \<Longrightarrow> strchr_pos (key @ c # rest) c = Some (length key)"
  by (simp add: strchr_pos_def takeWhile_first)

lemma key_template_first:
  assumes "c \<notin> set key"
  shows "key_template (key @ c # rest) c k \<longleftrightarrow> k = key \<and> (rest = [] \<or> hd rest = CHR ''%'')"
proof -
  have uniq: "k = key" if "c \<notin> set k" "k @ c # r = key @ c # rest" for r
    using that assms by (metis takeWhile_first)
  have "key_template (key @ c # rest) c k \<Longrightarrow> k = key"
    unfolding key_template_def
    by (metis append_take_drop_id append_Cons append_assoc append_Nil uniq)
  moreover have "key_template (key @ c # rest) c key \<longleftrightarrow> rest = [] \<or> hd rest = CHR ''%''"
    using assms by (cases rest) (auto simp: key_template_def)
  ultimately show ?thesis by blast
qed

lemma key_template_mem: "key_template t c key \<Longrightarrow> c \<in> set t"
  unfolding key_template_def by (metis in_set_conv_decomp in_set_takeD append_Cons append_Nil list.set_intros(1))

lemma strncmp_eq_take: "n \<le> length s \<Longrightarrow> n \<le> length t \<Longrightarrow> strncmp_eq s t n \<longleftrightarrow> take n s = take n t"
  by (simp add: strncmp_eq_def)

lemma take_eq_prefix: "take (length p) s = p \<longleftrightarrow> length p \<le> length s \<and> take (length p) s = take (length p) (p @ q)"
  by (auto simp: min_def dest: arg_cong [where f = length] split: if_splits)

lemma match_template_eq:
  assumes "CHR ''='' \<notin> set key"
  shows "match_template (key @ CHR ''='' # rest) arg \<noteq> None \<longleftrightarrow>
    key @ CHR ''='' # rest = arg \<or> (rest = [] \<or> hd rest = CHR ''%'') \<and> take (length key + 1) arg = key @ ''=''"
  using assms take_eq_prefix [of "key @ ''=''" arg rest]
  by (cases rest) (auto simp: match_template_def strchr_pos_first Let_def strncmp_eq_take nth_append split: if_splits)

lemma match_template_space:
  assumes "CHR '' '' \<notin> set key" "CHR ''='' \<notin> set (key @ CHR '' '' # rest)"
  shows "match_template (key @ CHR '' '' # rest) arg \<noteq> None \<longleftrightarrow>
    key @ CHR '' '' # rest = arg \<or> (rest = [] \<or> hd rest = CHR ''%'') \<and> take (length key) arg = key"
proof -
  have "strchr_pos (key @ CHR '' '' # rest) (CHR ''='') = None"
    using assms(2) by (simp add: strchr_pos_def)
  with assms take_eq_prefix [of key arg "CHR '' '' # rest"] show ?thesis
    by (cases rest) (auto simp: match_template_def strchr_pos_first Let_def strncmp_eq_take nth_append split: if_splits)
qed

lemma match_template_plain:
  "CHR ''='' \<notin> set t \<Longrightarrow> CHR '' '' \<notin> set t \<Longrightarrow> match_template t arg \<noteq> None \<longleftrightarrow> t = arg"
  by (simp add: match_template_def strchr_pos_def)

lemma match_template_iff:
  "match_template t arg \<noteq> None \<longleftrightarrow>
     t = arg
   \<or> (\<exists>key. key_template t (CHR ''='') key \<and> take (length key + 1) arg = key @ ''='')
   \<or> (CHR ''='' \<notin> set t \<and> (\<exists>key. key_template t (CHR '' '') key \<and> take (length key) arg = key))"
proof -
  consider (eq) key rest where "t = key @ CHR ''='' # rest" "CHR ''='' \<notin> set key"
    | (space) key rest where "t = key @ CHR '' '' # rest" "CHR '' '' \<notin> set key" "CHR ''='' \<notin> set t"
    | (plain) "CHR ''='' \<notin> set t" "CHR '' '' \<notin> set t"
    by (metis split_list_first)
  then show ?thesis
  proof cases
    case eq
    then show ?thesis by (auto simp: match_template_eq key_template_first simp del: not_None_eq)
  next
    case space
    then show ?thesis
      by (auto simp: match_template_space key_template_first simp del: not_None_eq dest: key_template_mem)
  next
    case plain
    then show ?thesis by (auto simp: match_template_plain simp del: not_None_eq dest: key_template_mem)
  qed
qed

section \<open>Parsing returns\<close>

definition args_fine :: "fuse_args \<Rightarrow> bool" where
  "args_fine args \<longleftrightarrow> fa_allocated args \<and> 1 \<le> fa_argc args"

definition proc_fine :: "'w optproc option \<Rightarrow> bool" where
  "proc_fine proc \<longleftrightarrow> (\<forall>f d arg key args w. proc = Some f \<longrightarrow> args_fine args \<longrightarrow>
     args_fine (fst (snd (snd (f d arg key args w)))))"

definition format_fine :: "string \<Rightarrow> bool" where
  "format_fine t \<longleftrightarrow> take 2 t = ''%s'' \<or> t = ''%u'' \<or> t = ''%d'' \<or> t = ''%o''"

definition opt_fine :: "fuse_opt \<Rightarrow> bool" where
  "opt_fine opt \<longleftrightarrow> offset opt = OFFSET_NONE \<or>
     (\<forall>i < length (templ opt) - 1. templ opt ! Suc i = CHR ''%'' \<longrightarrow> format_fine (drop (Suc i) (templ opt)))"

definition ctx_fine :: "('w, 'x) fuse_opt_context_scheme \<Rightarrow> bool" where
  "ctx_fine ctx \<longleftrightarrow> args_fine (octx_outargs ctx) \<and> (\<forall>arg \<in> set (octx_argv ctx). NUL \<notin> set arg)"

definition follows :: "('w, 'x) fuse_opt_context_scheme \<Rightarrow> ('w, 'x) fuse_opt_context_scheme \<Rightarrow> bool" where
  "follows c c' \<longleftrightarrow> ctx_fine c' \<and> octx_argv c' = octx_argv c \<and> octx_argctr c \<le> octx_argctr c'"

definition goes :: "('w, 'x) fuse_opt_context_scheme \<Rightarrow> (int \<times> ('w, 'x) fuse_opt_context_scheme) option \<Rightarrow> bool" where
  "goes c m \<longleftrightarrow> (case m of None \<Rightarrow> False | Some (r, c') \<Rightarrow> follows c c')"

lemma goes_Some [simp]: "goes c (Some p) \<longleftrightarrow> follows c (snd p)"
  by (cases p) (simp add: goes_def)

lemma follows_refl: "ctx_fine c \<Longrightarrow> follows c c"
  by (simp add: follows_def)

lemma goes_bind:
  "goes c m \<Longrightarrow> (\<And>r c'. follows c c' \<Longrightarrow> goes c (f r c')) \<Longrightarrow> goes c (m \<bind> (\<lambda>(r, c'). f r c'))"
  by (cases m) (auto simp: goes_def)

lemma if_cases: "(b \<Longrightarrow> goes c m) \<Longrightarrow> (\<not> b \<Longrightarrow> goes c n) \<Longrightarrow> goes c (if b then m else n)"
  by simp

lemma goes_trans: "goes c' m \<Longrightarrow> follows c c' \<Longrightarrow> goes c m"
  by (auto simp: goes_def follows_def split: option.splits)

lemma follows_fine: "follows c c' \<Longrightarrow> ctx_fine c'"
  by (simp add: follows_def)

lemma alloc_frame:
  "alloc os ctx = (ok, ctx') \<Longrightarrow> octx_outargs ctx' = octx_outargs ctx \<and> octx_argv ctx' = octx_argv ctx \<and>
     octx_argctr ctx' = octx_argctr ctx \<and> octx_opts ctx' = octx_opts ctx"
  by (auto simp: alloc_def invoke_def emit_def Let_def split: prod.splits)

lemma add_arg_total:
  "fa_argv args = None \<or> fa_allocated args \<Longrightarrow> \<exists>r args' c'. fuse_opt_add_arg os args arg (c :: ('w, 'x) fuse_opt_context_scheme) = Some (r, args', c') \<and>
     octx_argv c' = octx_argv c \<and> octx_argctr c' = octx_argctr c \<and> octx_opts c' = octx_opts c \<and>
     (r = -1 \<and> args' = args \<or> r = 0 \<and> args' = \<lparr>fa_argv = Some (fa_list args @ [arg]), fa_allocated = True\<rparr>)"
  by (auto simp: fuse_opt_add_arg_def Let_def dest!: alloc_frame split: prod.splits)

lemma add_arg_goes: "ctx_fine c \<Longrightarrow> goes c (add_arg os c arg)"
  using add_arg_total [of "octx_outargs c" os arg c]
  by (auto simp: add_arg_def ctx_fine_def follows_def args_fine_def fa_argc_def fa_list_def)

lemma add_opt_goes: "ctx_fine c \<Longrightarrow> goes c (Some (add_opt os c opt))"
  by (auto simp: add_opt_def add_opt_common_def Let_def follows_def ctx_fine_def dest!: alloc_frame split: prod.splits)

lemma proc_fineD: "proc_fine (Some f) \<Longrightarrow> args_fine args \<Longrightarrow> f d arg key args w = (r, d', args', w') \<Longrightarrow> args_fine args'"
  unfolding proc_fine_def by (metis fst_conv snd_conv)

lemma call_proc_goes:
  assumes "proc_fine proc" "ctx_fine c"
  shows "goes c (call_proc os proc c arg key is_o)"
proof -
  define m where "m = (case proc of
            Some f \<Rightarrow>
              if key \<noteq> FUSE_OPT_KEY_KEEP then
                (let (res, d, args, w) = f (octx_data c) arg key (octx_outargs c) (world c)
                 in (res, c\<lparr>octx_data := d, octx_outargs := args, world := w\<rparr>))
              else (1, c)
          | None \<Rightarrow> (1, c))"
  obtain r c' where m: "m = (r, c')" by (cases m)
  have f: "follows c c'"
    using assms m unfolding m_def
    by (auto simp: follows_def ctx_fine_def dest: proc_fineD split: option.splits if_splits prod.splits)
  show ?thesis
    using m follows_refl [OF assms(2)] f add_opt_goes [OF follows_fine [OF f], THEN goes_trans, OF f]
      add_arg_goes [OF follows_fine [OF f], THEN goes_trans, OF f]
    unfolding call_proc_def m_def [symmetric] by simp
qed

lemma next_arg_follows: "ctx_fine c \<Longrightarrow> next_arg c = (r, c') \<Longrightarrow> follows c c'"
  by (auto simp: next_arg_def follows_def ctx_fine_def split: if_splits)

lemma process_opt_param_str:
  "ctx_fine c \<Longrightarrow> goes c (process_opt_param os var (CHR ''%'' # CHR ''s'' # rest) param c)"
  by (auto simp: process_opt_param_def follows_def ctx_fine_def dest!: alloc_frame split: prod.splits)

lemma process_opt_param_num:
  "ctx_fine c \<Longrightarrow> fmt = ''%u'' \<or> fmt = ''%d'' \<or> fmt = ''%o'' \<Longrightarrow> goes c (process_opt_param os var fmt param c)"
  by (cases "scan_int 10 param"; cases "scan_int 8 param")
    (auto simp: process_opt_param_def follows_def ctx_fine_def sscanf_def)

lemma process_opt_param_goes:
  assumes "format_fine fmt" "ctx_fine c"
  shows "goes c (process_opt_param os var fmt param c)"
proof (cases "take 2 fmt = ''%s''")
  case True
  then obtain rest where "fmt = CHR ''%'' # CHR ''s'' # rest"
    by (cases fmt; cases "tl fmt") (auto simp: numeral_2_eq_2)
  with assms(2) show ?thesis by (simp add: process_opt_param_str)
next
  case False
  with assms show ?thesis by (simp add: format_fine_def process_opt_param_num)
qed

lemma process_opt_goes:
  assumes "proc_fine proc" "opt_fine opt" "match_template (templ opt) arg = Some sep" "ctx_fine c"
  shows "goes c (process_opt os proc opt sep arg' is_o c)"
proof -
  have "format_fine (drop (Suc sep) (templ opt))"
    if "offset opt \<noteq> OFFSET_NONE" "sep \<noteq> 0" "Suc sep < length (templ opt)"
    using assms(2,3) that by (auto simp: opt_fine_def match_template_def Let_def split: if_splits option.splits)
  note param = process_opt_param_goes [OF this assms(4)]
  note proc = call_proc_goes [OF assms(1,4)]
  show ?thesis
    unfolding process_opt_def Let_def
    by (intro conjI impI if_cases goes_bind proc param) (use assms(4) in \<open>auto simp: follows_def ctx_fine_def\<close>)
qed


lemma process_opt_sep_arg_goes:
  assumes "proc_fine proc" "opt_fine opt" "match_template (templ opt) arg = Some sep" "ctx_fine c"
  shows "goes c (process_opt_sep_arg os proc opt sep arg is_o c)"
proof -
  obtain r c1 where n: "next_arg c = (r, c1)" by (cases "next_arg c")
  obtain ok c2 where a: "alloc os c1 = (ok, c2)" by (cases "alloc os c1")
  have f1: "follows c c1" using next_arg_follows [OF assms(4) n] .
  have f2: "follows c c2" using f1 alloc_frame [OF a] by (simp add: follows_def ctx_fine_def)
  from f1 f2 process_opt_goes [OF assms(1-3) follows_fine [OF f2], THEN goes_trans, OF f2] show ?thesis
    by (simp add: process_opt_sep_arg_def n a)
qed

lemma process_matches_goes:
  assumes "proc_fine proc" "\<forall>opt \<in> set opts. opt_fine opt" "ctx_fine c"
  shows "goes c (process_matches os proc opts arg is_o c)"
  using assms(2,3)
proof (induction opts arbitrary: c)
  case Nil
  then show ?case by (simp add: follows_refl)
next
  case (Cons opt opts)
  show ?case
  proof (cases "match_template (templ opt) arg")
    case None
    with Cons show ?thesis by simp
  next
    case (Some sep)
    have opt: "opt_fine opt" and rest: "goes c (process_matches os proc opts arg is_o c')" if "follows c c'" for c'
      using Cons that by (auto intro: goes_trans dest: follows_fine)
    have "opt_fine opt" using Cons by simp
    then show ?thesis
      unfolding process_matches.simps Some option.case
      by (intro goes_bind if_cases process_opt_sep_arg_goes process_opt_goes rest)
        (use assms(1) Cons(3) Some in \<open>auto\<close>)
  qed
qed

lemma process_gopt_goes:
  assumes "proc_fine proc" "\<forall>opt \<in> set opts. opt_fine opt" "ctx_fine c"
  shows "goes c (process_gopt os opts proc arg is_o c)"
  using assms by (simp add: process_gopt_def process_matches_goes call_proc_goes split: option.splits)

lemma run_opts_goes:
  assumes "\<And>opt c. ctx_fine c \<Longrightarrow> goes c (gopt opt c)" "ctx_fine c"
  shows "goes c (run_opts gopt opts c)"
  using assms(2)
proof (induction opts arbitrary: c)
  case (Cons opt opts)
  have "goes c (run_opts gopt opts c')" if "follows c c'" for c'
    by (rule goes_trans [OF Cons(1) that]) (rule follows_fine [OF that])
  with assms(1) [OF Cons(2)] show ?case by (auto intro!: goes_bind)
qed (simp add: follows_refl)

lemma process_option_group_goes:
  assumes "proc_fine proc" "\<forall>opt \<in> set opts. opt_fine opt" "ctx_fine c" "NUL \<notin> set grp"
  shows "goes c (process_option_group os opts proc grp c)"
proof -
  obtain ok c1 where a: "alloc os c = (ok, c1)" by (cases "alloc os c")
  have f: "follows c c1" using assms(3) alloc_frame [OF a] by (simp add: follows_def ctx_fine_def)
  have "goes c1 (run_opts (\<lambda>arg. process_gopt os opts proc arg True) xs c1)" for xs
    by (rule run_opts_goes) (use assms(1,2) follows_fine [OF f] in \<open>auto intro: process_gopt_goes\<close>)
  from f goes_trans [OF this f] show ?thesis by (simp add: process_option_group_def a option_group_in_place [OF assms(4)])
qed

lemma process_one_goes:
  assumes "proc_fine proc" "\<forall>opt \<in> set opts. opt_fine opt" "ctx_fine c" "NUL \<notin> set arg"
  shows "goes c (process_one os opts proc arg c)"
proof -
  obtain r c1 where n: "next_arg c = (r, c1)" by (cases "next_arg c")
  have f: "follows c c1" using next_arg_follows [OF assms(3) n] .
  have "NUL \<notin> set (octx_argv c1 ! octx_argctr c1)" if "r \<noteq> -1"
    using n that assms(3) by (auto simp: next_arg_def ctx_fine_def split: if_splits)
  then have "r \<noteq> -1 \<Longrightarrow> goes c (process_option_group os opts proc (octx_argv c1 ! octx_argctr c1) c1)"
    using assms f by (blast intro: goes_trans process_option_group_goes follows_fine)
  moreover have "goes c (process_option_group os opts proc (drop 2 arg) c)"
    using assms by (auto intro!: process_option_group_goes dest: in_set_dropD)
  moreover have "goes c (add_arg os c ''--'' \<bind> (\<lambda>(res, ctx).
        if res = -1 then Some (-1, ctx)
        else Some (0, ctx\<lparr>octx_nonopt := fa_argc (octx_outargs ctx)\<rparr>)))"
    using add_arg_goes [OF assms(3)] by (rule goes_bind) (simp add: follows_def ctx_fine_def)
  ultimately show ?thesis
    using f assms by (simp add: process_one_def n call_proc_goes process_gopt_goes)
qed

lemma parse_loop_goes:
  assumes "proc_fine proc" "\<forall>opt \<in> set opts. opt_fine opt" "ctx_fine c"
  shows "goes c (parse_loop os opts proc c)"
  using assms(3)
proof (induction "length (octx_argv c) - octx_argctr c" arbitrary: c rule: less_induct)
  case less
  show ?case
  proof (cases "octx_argctr c < length (octx_argv c)")
    case True
    then have "NUL \<notin> set (octx_argv c ! octx_argctr c)"
      using less(2) by (simp add: ctx_fine_def)
    note one = process_one_goes [OF assms(1,2) less(2) this]
    have "goes c (parse_loop os opts proc (c1\<lparr>octx_argctr := octx_argctr c1 + 1\<rparr>))" if "follows c c1" for c1
      using that True less(2)
      by (intro goes_trans [OF less(1)]) (auto simp: follows_def ctx_fine_def)
    with True one show ?thesis
      by (subst parse_loop.simps) (auto intro!: goes_bind)
  next
    case False
    with less(2) show ?thesis by (subst parse_loop.simps) (simp add: follows_refl)
  qed
qed

lemma insert_arg_total:
  assumes "fa_allocated args" "pos \<le> fa_argc args"
  shows "\<exists>r args' c'. fuse_opt_insert_arg os args pos arg (c :: ('w, 'x) fuse_opt_context_scheme) = Some (r, args', c') \<and>
     octx_opts c' = octx_opts c \<and> octx_argctr c' = octx_argctr c \<and> octx_argv c' = octx_argv c \<and> fa_allocated args' \<and> (r = -1 \<and> args' = args \<or> r = 0 \<and> fa_argc args' = fa_argc args + 1)"
proof -
  obtain r args' c' where a: "fuse_opt_add_arg os args arg c = Some (r, args', c')"
     "octx_argv c' = octx_argv c" "octx_argctr c' = octx_argctr c" "octx_opts c' = octx_opts c"
     "r = -1 \<and> args' = args \<or> r = 0 \<and> args' = \<lparr>fa_argv = Some (fa_list args @ [arg]), fa_allocated = True\<rparr>"
    using add_arg_total [of args os arg c] assms(1) by blast
  from a(5) show ?thesis
    using assms a(1-4) by (auto simp: fuse_opt_insert_arg_def Let_def fa_argc_def fa_list_def)
qed

lemma insert_opts_total:
  assumes "ctx_fine c"
  shows "\<exists>r c'. insert_opts os c = Some (r, c')"
proof (cases "octx_opts c")
  case (Some t)
  obtain r args' c' where 1: "fuse_opt_insert_arg os (octx_outargs c) 1 ''-o'' c = Some (r, args', c')"
     "fa_allocated args'" "r = -1 \<or> fa_argc args' = fa_argc (octx_outargs c) + 1"
    using insert_arg_total [of "octx_outargs c" 1 os "''-o''" c] assms
    by (auto simp: ctx_fine_def args_fine_def)
  have "2 \<le> fa_argc args'" if "r \<noteq> -1"
    using 1(3) that assms by (simp add: ctx_fine_def args_fine_def)
  then show ?thesis
    using 1 Some insert_arg_total [of args' 2 os t "c'\<lparr>octx_outargs := args'\<rparr>"]
    by (cases "r = -1") (auto simp: insert_opts_def Let_def)
qed (simp add: insert_opts_def)

lemma opt_parse_total:
  assumes "proc_fine proc" "\<forall>opt \<in> set opts. opt_fine opt" "\<forall>arg \<in> set (octx_argv c). NUL \<notin> set arg"
    "octx_argv c \<noteq> []" "fa_argv (octx_outargs c) = None"
  shows "\<exists>r c'. opt_parse os opts proc c = Some (r, c') \<and> (r = 0 \<or> r = -1)"
proof -
  obtain arg rest where argv: "octx_argv c = arg # rest" using assms(4) by (cases "octx_argv c") auto
  obtain r args' c' where a: "fuse_opt_add_arg os (octx_outargs c) arg c = Some (r, args', c')" "octx_argv c' = octx_argv c"
    "r = -1 \<or> args_fine args'"
    using add_arg_total [of "octx_outargs c" os arg c] assms(5)
    by (auto simp: args_fine_def fa_argc_def fa_list_def)
  define c1 where "c1 = c'\<lparr>octx_outargs := args', octx_argctr := 1\<rparr>"
  show ?thesis
  proof (cases "r = -1")
    case True
    then show ?thesis using a argv by (simp add: opt_parse_def add_arg_def)
  next
    case False
    then have "ctx_fine c1" using a(2,3) assms(3) by (simp add: c1_def ctx_fine_def)
    from parse_loop_goes [OF assms(1,2) this, of os] obtain r2 c2 where
      2: "parse_loop os opts proc c1 = Some (r2, c2)" "ctx_fine c2"
      by (auto simp: goes_def dest: follows_fine split: option.splits)
    obtain r3 c3 where "insert_opts os c2 = Some (r3, c3)" using insert_opts_total [OF 2(2)] by blast
    with 2(1) a False argv show ?thesis
      by (auto simp: opt_parse_def add_arg_def c1_def)
  qed
qed

lemma fuse_opt_parse_total:
  assumes "\<forall>arg \<in> set (fa_list args). NUL \<notin> set arg" "\<forall>opt \<in> set opts. opt_fine opt" "proc_fine proc"
  shows "\<exists>res args' dat' ctx. fuse_opt_parse os args dat opts proc s = Some (res, args', dat', ctx) \<and>
    (res = 0 \<or> res = -1 \<and> args' = args)"
proof -
  define c where "c = \<lparr>world = world s, mem = mem s, brk = brk s, trace = trace s, octx_data = dat,
             octx_argctr = 0, octx_argv = fa_list args,
             octx_outargs = \<lparr>fa_argv = None, fa_allocated = False\<rparr>, octx_opts = None, octx_nonopt = 0\<rparr>"
  show ?thesis
    using opt_parse_total [OF assms(3,2), of c os] assms(1)
    by (cases "fa_list args = []") (auto simp: fuse_opt_parse_def Let_def c_def [symmetric], auto simp: c_def)
qed

section \<open>Properties\<close>

text \<open>A processing function and a table like those of the session: keep everything not in the table.\<close>

definition sample_opts :: "fuse_opt list" where
  "sample_opts =
     [\<lparr>templ = ''debug'', offset = 0, val = 1\<rparr>,
      \<lparr>templ = ''max_read=%u'', offset = 8, val = 0\<rparr>,
      \<lparr>templ = ''fsname=%s'', offset = 16, val = 0\<rparr>]"

definition keep_proc :: "unit optproc" where
  "keep_proc dat arg key args w = (1, dat, args, w)"

definition sample_args :: "string list \<Rightarrow> fuse_args" where
  "sample_args xs = \<lparr>fa_argv = Some xs, fa_allocated = False\<rparr>"

definition sample_machine :: "unit machine" where
  "sample_machine = \<lparr>world = (), mem = (\<lambda>_. NUL), brk = 0, trace = []\<rparr>"

text \<open>
  C9. Parsing always returns. When the arguments are C strings, the table's formats are among
  \<^verbatim>\<open>%s %u %d %o\<close> and the processing function hands back an allocated, non-empty vector, \<^verbatim>\<open>fuse_opt_parse\<close> fails
  no assertion, reads nothing outside a group's buffer, ends, and returns 0, or \<open>-1\<close> with the caller's arguments
  as they were; this holds for every pattern of failing allocations.
\<close>

theorem fuse_opt_parse_returns:
  assumes "\<forall>arg \<in> set (fa_list args). NUL \<notin> set arg"
    and "\<forall>opt \<in> set opts. opt_fine opt"
    and "proc_fine proc"
  shows "\<exists>res args' dat' ctx. fuse_opt_parse os args dat opts proc s = Some (res, args', dat', ctx) \<and>
    (res = 0 \<or> res = -1 \<and> args' = args)"
  using assms by (rule fuse_opt_parse_total)

lemma sample_opts_fine: "\<forall>opt \<in> set sample_opts. opt_fine opt"
  by code_simp

lemma keep_proc_fine: "proc_fine (Some keep_proc)"
  by (simp add: proc_fine_def keep_proc_def)

lemma sample_args_fine: "\<forall>arg \<in> set (fa_list (sample_args [''f3'', ''-o'', ''allow_other,max_read=7''])). NUL \<notin> set arg"
  by code_simp

theorem fuse_opt_parse_returns_witness:
  "\<exists>res args' dat' ctx. fuse_opt_parse sample_os (sample_args [''f3'', ''-o'', ''allow_other,max_read=7''])
      (\<lambda>_. OptInt 0) sample_opts (Some keep_proc) sample_machine = Some (res, args', dat', ctx) \<and>
    (res = 0 \<or> res = -1 \<and> args' = sample_args [''f3'', ''-o'', ''allow_other,max_read=7''])"
  by (rule fuse_opt_parse_returns [OF sample_args_fine sample_opts_fine keep_proc_fine])

text \<open>
  C10. The in-place parser of an option group, which overwrites the buffer it reads while it removes escapes,
  does the same as splitting the group into a list of unescaped options first and processing them one by one up
  to the first failure (an option ends at an escaped zero byte, as every C string does).
\<close>

theorem option_group_equiv:
  assumes "NUL \<notin> set grp"
  shows "process_real_option_group os opts proc (grp @ [NUL]) ctx =
    run_opts (\<lambda>arg. process_gopt os opts proc arg True) (map cut_nul (split_group grp [])) ctx"
  using assms by (rule option_group_in_place)

definition sample_ctx :: "unit fuse_opt_context" where
  "sample_ctx = \<lparr>world = (), mem = (\<lambda>_. NUL), brk = 0, trace = [], octx_data = (\<lambda>_. OptInt 0),
     octx_argctr = 1, octx_argv = [''f3''], octx_outargs = \<lparr>fa_argv = Some [''f3''], fa_allocated = True\<rparr>,
     octx_opts = None, octx_nonopt = 0\<rparr>"

theorem option_group_equiv_witness:
  "process_real_option_group sample_os sample_opts None (''a,b'' @ [NUL]) sample_ctx =
    run_opts (\<lambda>arg. process_gopt sample_os sample_opts None arg True) (map cut_nul (split_group ''a,b'' [])) sample_ctx"
  by (rule option_group_equiv) (simp add: NUL_def)

text \<open>
  C11. Options survive the way through a group. A list of options with a non-empty first one, added one by one with
  \<^verbatim>\<open>fuse_opt_add_opt_escaped\<close> (commas and backslashes escaped), is handed to the processing of single options
  unchanged and in order when the group is parsed.
\<close>

theorem escaped_group_roundtrip:
  assumes "add_opts_escaped os (x # xs) None s = (0, opts, s')" "x \<noteq> []"
    and "\<forall>y \<in> set (x # xs). NUL \<notin> set y"
  shows "\<exists>t. opts = Some t \<and> process_real_option_group os tab proc (t @ [NUL]) ctx =
    run_opts (\<lambda>arg. process_gopt os tab proc arg True) (x # xs) ctx"
proof -
  obtain t where t: "opts = Some t" "split_group t [] = x # xs" "NUL \<notin> set t"
    using assms by (rule add_opts_split)
  have "map cut_nul (x # xs) = x # xs"
    using assms(3) by (intro map_idI) (auto simp: cut_nul_id)
  with t(1) option_group_in_place [OF t(3), of os tab proc ctx] show ?thesis
    unfolding t(2) by (simp only: option.inject) simp
qed

definition sample_added :: "int \<times> string option \<times> unit machine" where
  "sample_added = add_opts_escaped sample_os [''a,b'', ''c''] None sample_machine"

lemma sample_added_ok: "fst sample_added = 0"
  by code_simp

theorem escaped_group_roundtrip_witness:
  "\<exists>t. fst (snd sample_added) = Some t \<and>
    process_real_option_group sample_os sample_opts None (t @ [NUL]) sample_ctx =
    run_opts (\<lambda>arg. process_gopt sample_os sample_opts None arg True) [''a,b'', ''c''] sample_ctx"
proof (rule escaped_group_roundtrip)
  show "add_opts_escaped sample_os [''a,b'', ''c''] None sample_machine = (0, fst (snd sample_added), snd (snd sample_added))"
    using sample_added_ok by (simp only: sample_added_def [symmetric]) (metis prod.collapse)
qed (simp_all add: NUL_def)

text \<open>
  C12. Template matching does what \<^verbatim>\<open>fuse_opt.h\<close> documents. A template without a parameter matches the equal
  argument only. A template \<open>key=\<close> or \<open>key=%...\<close> matches every argument that starts with \<open>key=\<close>, and a template
  \<open>key \<close> or \<open>key %...\<close> every argument that starts with \<open>key\<close>; the first \<open>=\<close> decides, and a blank only in its absence.
\<close>

theorem match_template_spec:
  "match_template t arg \<noteq> None \<longleftrightarrow>
     t = arg
   \<or> (\<exists>key. key_template t (CHR ''='') key \<and> take (length key + 1) arg = key @ ''='')
   \<or> (CHR ''='' \<notin> set t \<and> (\<exists>key. key_template t (CHR '' '') key \<and> take (length key) arg = key))"
  by (rule match_template_iff)

text \<open>
  C13. \<^verbatim>\<open>fuse_opt_insert_arg\<close> puts the argument at the position asked for and moves the later ones up; when an
  allocation fails the vector stays as it was.
\<close>

theorem insert_arg_at:
  assumes "fuse_opt_insert_arg os args pos arg s = Some (res, args', s')"
  shows "fa_list args' = (if res = 0 then take pos (fa_list args) @ arg # drop pos (fa_list args) else fa_list args)"
  using assms by (auto dest: insert_arg_place insert_arg_failed)

definition sample_inserted :: "(int \<times> fuse_args \<times> unit machine) option" where
  "sample_inserted = fuse_opt_insert_arg sample_os \<lparr>fa_argv = Some [''f3'', ''-f''], fa_allocated = True\<rparr> 1 ''-o'' sample_machine"

lemma sample_inserted_defined: "sample_inserted \<noteq> None"
  by code_simp

theorem insert_arg_at_witness:
  "\<exists>res args' s'. sample_inserted = Some (res, args', s') \<and>
     fa_list args' = (if res = 0 then take 1 [''f3'', ''-f''] @ ''-o'' # drop 1 [''f3'', ''-f''] else [''f3'', ''-f''])"
proof -
  obtain res args' s' where e: "sample_inserted = Some (res, args', s')"
    using sample_inserted_defined by (cases sample_inserted) auto
  show ?thesis
    using e insert_arg_at [OF e [unfolded sample_inserted_def]] by (intro exI conjI) (auto simp: fa_list_def)
qed



end
