(* ===== verification/Hl_Slab.thy ===== *)
theory Hl_Slab
  imports Posix
begin

text \<open>
  The allocator of nodes of libfuse's high-level library, \<^verbatim>\<open>libfuse/lib/fuse.c\<close>: nodes are cells of slabs, pages from
  \<^verbatim>\<open>mmap\<close> with a list of their free cells. A slab is known by the address of its page. The two lists of slabs of
  \<^verbatim>\<open>struct fuse\<close>, those with free cells and those without, are lists of such addresses. The invariant says that the cells
  of the slabs are partly free and partly in use, and which is which.
\<close>

section \<open>The code\<close>

record slab =
  sl_free :: "addr list"
  sl_used :: int

record slab_pool =
  sp_slabs :: "addr \<Rightarrow> slab option"
  sp_partial :: "addr list"
  sp_full :: "addr list"

text \<open>\<open>sizeof(struct node_slab)\<close> on a 64-bit machine: two list heads, a counter and its padding.\<close>

definition SLAB_HEAD :: nat where
  "SLAB_HEAD = 40"

text \<open>\<^verbatim>\<open>mmap\<close> of one page: a fresh page, aligned to its size.\<close>

definition mmap_page :: "'w os \<Rightarrow> nat \<Rightarrow> ('w, 'x) machine_scheme \<Rightarrow> addr option \<times> ('w, 'x) machine_scheme" where
  "mmap_page os ps s =
     (let (ok, s) = alloc os s in
      if ok then
        let base = (brk s + ps - 1) div ps * ps in (Some base, s\<lparr>brk := base + ps\<rparr>)
      else (None, s))"

definition slab_cells :: "nat \<Rightarrow> nat \<Rightarrow> addr \<Rightarrow> addr list" where
  "slab_cells ps ns base =
     (let num = (ps - SLAB_HEAD) div ns;
          start = base + ps - num * ns in
      map (\<lambda>i. start + i * ns) [0..<num])"

definition alloc_slab :: "'w os \<Rightarrow> nat \<Rightarrow> nat \<Rightarrow> slab_pool \<Rightarrow> ('w, 'x) machine_scheme \<Rightarrow>
    int \<times> slab_pool \<times> ('w, 'x) machine_scheme" where
  "alloc_slab os ps ns sp s =
     (let (page, s) = mmap_page os ps s in
      case page of
        None \<Rightarrow> (-1, sp, s)
      | Some base \<Rightarrow>
          (0, sp\<lparr>sp_slabs := (sp_slabs sp)(base \<mapsto> \<lparr>sl_free = slab_cells ps ns base, sl_used = 0\<rparr>),
                sp_partial := sp_partial sp @ [base]\<rparr>, s))"

text \<open>Taking the first free cell of the first slab that has one.\<close>

definition take_cell :: "slab_pool \<Rightarrow> (addr \<times> slab_pool) option" where
  "take_cell sp = (case sp_partial sp of
       [] \<Rightarrow> None
     | base # rest \<Rightarrow> do {
         sl \<leftarrow> sp_slabs sp base;
         case sl_free sl of
           [] \<Rightarrow> None
         | p # free \<Rightarrow>
             let sp = sp\<lparr>sp_slabs := (sp_slabs sp)(base \<mapsto> \<lparr>sl_free = free, sl_used = sl_used sl + 1\<rparr>)\<rparr> in
             Some (p, if free = [] then sp\<lparr>sp_partial := rest, sp_full := sp_full sp @ [base]\<rparr> else sp) })"

definition alloc_node :: "'w os \<Rightarrow> nat \<Rightarrow> nat \<Rightarrow> slab_pool \<Rightarrow> ('w, 'x) machine_scheme \<Rightarrow>
    (addr option \<times> slab_pool \<times> ('w, 'x) machine_scheme) option" where
  "alloc_node os ps ns sp s =
     (let (res, sp, s) = (if sp_partial sp = [] then alloc_slab os ps ns sp s else (0, sp, s)) in
      if res \<noteq> 0 then Some (None, sp, s)
      else do {
        (p, sp) \<leftarrow> take_cell sp;
        Some (Some p, sp, s) })"

text \<open>\<^verbatim>\<open>list_del\<close> takes a slab out of whichever list it is in.\<close>

definition slab_list_del :: "addr \<Rightarrow> slab_pool \<Rightarrow> slab_pool" where
  "slab_list_del base sp = sp\<lparr>sp_partial := remove1 base (sp_partial sp), sp_full := remove1 base (sp_full sp)\<rparr>"

definition free_slab :: "addr \<Rightarrow> slab_pool \<Rightarrow> slab_pool" where
  "free_slab base sp = (slab_list_del base sp)\<lparr>sp_slabs := (sp_slabs sp)(base := None)\<rparr>"

definition node_to_slab :: "nat \<Rightarrow> addr \<Rightarrow> addr" where
  "node_to_slab ps p = p div ps * ps"

definition free_node_mem :: "nat \<Rightarrow> addr \<Rightarrow> slab_pool \<Rightarrow> slab_pool option" where
  "free_node_mem ps p sp = do {
     let base = node_to_slab ps p;
     sl \<leftarrow> sp_slabs sp base;
     if sl_used sl - 1 \<noteq> 0 then
       let sp' = (if sl_free sl = [] then
           (slab_list_del base sp)\<lparr>sp_partial := remove1 base (sp_partial sp) @ [base]\<rparr> else sp) in
       Some (sp'\<lparr>sp_slabs := (sp_slabs sp)(base \<mapsto> \<lparr>sl_free = p # sl_free sl, sl_used = sl_used sl - 1\<rparr>)\<rparr>)
     else Some (free_slab base sp) }"

section \<open>The cells of a slab\<close>

lemma slab_cells_in_page:
  assumes "p \<in> set (slab_cells ps ns base)" "0 < ns" "base mod ps = 0"
  shows "base \<le> p" "p + ns \<le> base + ps" "node_to_slab ps p = base"
proof -
  define num where "num = (ps - SLAB_HEAD) div ns"
  have n: "num * ns \<le> ps" unfolding num_def by (meson diff_le_self div_times_less_eq_dividend order_trans)
  obtain i where i: "i < num" "p = base + ps - num * ns + i * ns"
    using assms(1) by (auto simp: slab_cells_def Let_def num_def)
  have "i * ns + ns \<le> num * ns" using i(1) by (metis Suc_leI add.commute mult_Suc mult_le_mono1)
  with i n show 1: "base \<le> p" "p + ns \<le> base + ps" by linarith+
  obtain k where k: "base = ps * k" using assms(3) by auto
  have "p < ps * k + ps" using 1(2) assms(2) k by linarith
  then have "p div ps = k" using 1(1) k by (intro div_nat_eqI) (auto simp: algebra_simps)
  then show "node_to_slab ps p = base" using k by (simp add: node_to_slab_def mult.commute)
qed

lemma slab_cells_distinct: "0 < ns \<Longrightarrow> distinct (slab_cells ps ns base)"
  by (auto simp: slab_cells_def Let_def distinct_map inj_on_def)

lemma slab_cells_not_Nil: "0 < ns \<Longrightarrow> SLAB_HEAD + ns \<le> ps \<Longrightarrow> slab_cells ps ns base \<noteq> []"
  by (simp add: slab_cells_def Let_def div_greater_zero_iff)

section \<open>The invariant\<close>

text \<open>
  \<open>live\<close> are the cells in use and \<open>b\<close> is the end of the memory used so far.
\<close>

definition slab_ok :: "nat \<Rightarrow> nat \<Rightarrow> addr set \<Rightarrow> nat \<Rightarrow> addr \<Rightarrow> slab \<Rightarrow> bool" where
  "slab_ok ps ns live b base sl \<longleftrightarrow> base mod ps = 0 \<and> base + ps \<le> b \<and> distinct (sl_free sl) \<and>
     set (sl_free sl) = set (slab_cells ps ns base) - live \<and>
     sl_used sl = int (card (set (slab_cells ps ns base) \<inter> live))"

definition pool_ok :: "nat \<Rightarrow> nat \<Rightarrow> addr set \<Rightarrow> nat \<Rightarrow> slab_pool \<Rightarrow> bool" where
  "pool_ok ps ns live b sp \<longleftrightarrow> 0 < ns \<and> SLAB_HEAD + ns \<le> ps \<and> distinct (sp_partial sp) \<and> distinct (sp_full sp) \<and>
     live \<subseteq> (\<Union>base \<in> dom (sp_slabs sp). set (slab_cells ps ns base)) \<and>
     set (sp_partial sp) \<subseteq> dom (sp_slabs sp) \<and> set (sp_full sp) \<subseteq> dom (sp_slabs sp) \<and>
     (\<forall>base sl. sp_slabs sp base = Some sl \<longrightarrow> slab_ok ps ns live b base sl \<and>
       (base \<in> set (sp_partial sp) \<longleftrightarrow> sl_free sl \<noteq> []) \<and> (base \<in> set (sp_full sp) \<longleftrightarrow> sl_free sl = []))"

lemma pool_slab:
  assumes "pool_ok ps ns live b sp" "sp_slabs sp base = Some sl"
  shows "slab_ok ps ns live b base sl" "base mod ps = 0" "base + ps \<le> b" "distinct (sl_free sl)"
    "set (sl_free sl) = set (slab_cells ps ns base) - live"
    "base \<in> set (sp_partial sp) \<longleftrightarrow> sl_free sl \<noteq> []" "base \<in> set (sp_full sp) \<longleftrightarrow> sl_free sl = []"
  using assms unfolding pool_ok_def slab_ok_def by blast+

text \<open>Cells of different slabs are different.\<close>

lemma cells_disjoint:
  assumes "pool_ok ps ns live b sp" "sp_slabs sp base = Some sl" "sp_slabs sp base' = Some sl'"
    and "p \<in> set (slab_cells ps ns base)" "p \<in> set (slab_cells ps ns base')"
  shows "base = base'"
proof -
  have ns: "0 < ns" using assms(1) by (simp add: pool_ok_def)
  show ?thesis
    using slab_cells_in_page(3) [OF assms(4) ns pool_slab(2) [OF assms(1,2)]]
      slab_cells_in_page(3) [OF assms(5) ns pool_slab(2) [OF assms(1,3)]] by simp
qed

lemma live_slab:
  assumes "pool_ok ps ns live b sp" "p \<in> live"
  obtains sl where "sp_slabs sp (node_to_slab ps p) = Some sl" "p \<in> set (slab_cells ps ns (node_to_slab ps p))"
proof -
  have "p \<in> (\<Union>base \<in> dom (sp_slabs sp). set (slab_cells ps ns base))" using assms unfolding pool_ok_def by blast
  then obtain base sl where b: "sp_slabs sp base = Some sl" "p \<in> set (slab_cells ps ns base)" by (auto simp: dom_def)
  moreover have "node_to_slab ps p = base"
    using slab_cells_in_page(3) [OF b(2) _ pool_slab(2) [OF assms(1) b(1)]] assms(1) by (simp add: pool_ok_def)
  ultimately show ?thesis using that by blast
qed

lemma slab_ok_other:
  assumes "slab_ok ps ns live b base sl" "p \<notin> set (slab_cells ps ns base)"
  shows "slab_ok ps ns (insert p live) b base sl" "slab_ok ps ns (live - {p}) b base sl"
proof -
  have "set (slab_cells ps ns base) \<inter> insert p live = set (slab_cells ps ns base) \<inter> live"
    "set (slab_cells ps ns base) \<inter> (live - {p}) = set (slab_cells ps ns base) \<inter> live" using assms(2) by auto
  then show "slab_ok ps ns (insert p live) b base sl" "slab_ok ps ns (live - {p}) b base sl"
    using assms unfolding slab_ok_def by auto
qed

lemma slab_ok_brk: "slab_ok ps ns live b base sl \<Longrightarrow> b \<le> b' \<Longrightarrow> slab_ok ps ns live b' base sl"
  by (simp add: slab_ok_def)

lemma slab_ok_take:
  assumes "slab_ok ps ns live b base sl" "sl_free sl = p # free"
  shows "slab_ok ps ns (insert p live) b base \<lparr>sl_free = free, sl_used = sl_used sl + 1\<rparr>"
proof -
  have p: "p \<in> set (slab_cells ps ns base)" "p \<notin> live" "p \<notin> set free"
    "insert p (set free) = set (slab_cells ps ns base) - live" using assms by (auto simp: slab_ok_def)
  then have "set (slab_cells ps ns base) \<inter> insert p live = insert p (set (slab_cells ps ns base) \<inter> live)" by auto
  moreover have "set free = set (slab_cells ps ns base) - insert p live" using p by auto
  ultimately show ?thesis using assms p(2) by (simp add: slab_ok_def)
qed

lemma slab_ok_give:
  assumes "slab_ok ps ns live b base sl" "p \<in> live" "p \<in> set (slab_cells ps ns base)"
  shows "slab_ok ps ns (live - {p}) b base \<lparr>sl_free = p # sl_free sl, sl_used = sl_used sl - 1\<rparr>"
proof -
  let ?C = "set (slab_cells ps ns base)"
  have "?C \<inter> (live - {p}) = ?C \<inter> live - {p}" "p \<in> ?C \<inter> live" using assms by auto
  then have "int (card (?C \<inter> (live - {p}))) = int (card (?C \<inter> live)) - 1"
    by (metis List.finite_set card.remove finite_Int of_nat_Suc add_diff_cancel_left' of_nat_1)
  moreover have "set (p # sl_free sl) = ?C - (live - {p})" using assms by (auto simp: slab_ok_def)
  ultimately show ?thesis using assms by (simp add: slab_ok_def)
qed

section \<open>Allocating and freeing\<close>

lemma take_cell_ok:
  assumes ok: "pool_ok ps ns live b sp" and ne: "sp_partial sp \<noteq> []"
  shows "\<exists>p sp'. take_cell sp = Some (p, sp') \<and> p \<notin> live \<and> pool_ok ps ns (insert p live) b sp'"
proof -
  obtain base rest where part: "sp_partial sp = base # rest" using ne by (cases "sp_partial sp") auto
  then obtain sl where sl: "sp_slabs sp base = Some sl" using ok by (fastforce simp: pool_ok_def)
  note S = pool_slab [OF ok sl]
  obtain p free where f: "sl_free sl = p # free" using S(6) part by (cases "sl_free sl") auto
  have p: "p \<in> set (slab_cells ps ns base)" "p \<notin> live" using S(5) f by auto
  let ?sl = "\<lparr>sl_free = free, sl_used = sl_used sl + 1\<rparr>"
  let ?sp = "sp\<lparr>sp_slabs := (sp_slabs sp)(base \<mapsto> ?sl)\<rparr>"
  let ?sp' = "if free = [] then ?sp\<lparr>sp_partial := rest, sp_full := sp_full sp @ [base]\<rparr> else ?sp"
  have t: "take_cell sp = Some (p, ?sp')" by (simp add: take_cell_def part sl f Let_def)
  have full: "base \<notin> set (sp_full sp)" using S(7) f by simp
  have other: "p \<notin> set (slab_cells ps ns base')" if "sp_slabs sp base' = Some sl'" "base' \<noteq> base" for base' sl'
    using cells_disjoint [OF ok sl that(1) p(1)] that(2) by blast
  have "slab_ok ps ns (insert p live) b base' sl'" if "sp_slabs ?sp base' = Some sl'" for base' sl'
    using that slab_ok_take [OF S(1) f] slab_ok_other(1) [OF pool_slab(1) [OF ok] other] by (auto split: if_splits)
  then have slabs: "slab_ok ps ns (insert p live) b base' sl'" if "sp_slabs ?sp' base' = Some sl'" for base' sl'
    using that by (auto split: if_splits)
  have "insert p live \<subseteq> (\<Union>base \<in> dom (sp_slabs ?sp'). set (slab_cells ps ns base))"
    using ok p(1) by (auto simp: pool_ok_def)
  moreover have "set (sp_partial ?sp') \<subseteq> dom (sp_slabs ?sp')" "set (sp_full ?sp') \<subseteq> dom (sp_slabs ?sp')"
    "distinct (sp_partial ?sp')" "distinct (sp_full ?sp')"
    using ok full part by (auto simp: pool_ok_def)
  moreover have "(base' \<in> set (sp_partial ?sp') \<longleftrightarrow> sl_free sl' \<noteq> []) \<and> (base' \<in> set (sp_full ?sp') \<longleftrightarrow> sl_free sl' = [])"
    if "sp_slabs ?sp' base' = Some sl'" for base' sl'
  proof (cases "base' = base")
    case True
    then show ?thesis using that full part ok by (auto simp: pool_ok_def)
  next
    case False
    then show ?thesis using that pool_slab(6,7) [OF ok, of base'] part by (auto split: if_splits)
  qed
  ultimately have "pool_ok ps ns (insert p live) b ?sp'"
    using slabs ok unfolding pool_ok_def by blast
  then show ?thesis using t p(2) by blast
qed

lemma alloc_slab_ok:
  assumes "pool_ok ps ns live (brk s) sp" "sp_partial sp = []" "alloc_slab os ps ns sp s = (r, sp', s')"
  shows "pool_ok ps ns live (brk s') sp'" "r = 0 \<Longrightarrow> sp_partial sp' \<noteq> []" "r \<noteq> 0 \<Longrightarrow> sp' = sp"
proof -
  obtain ok s1 where a: "alloc os s = (ok, s1)" by fastforce
  have b: "brk s1 = brk s" using a by (auto simp: alloc_def invoke_def emit_def split: prod.splits)
  have ps: "0 < ns" "SLAB_HEAD + ns \<le> ps" using assms(1) by (simp_all add: pool_ok_def)
  define base where "base = (brk s + ps - 1) div ps * ps"
  have base: "brk s \<le> base" "base mod ps = 0"
    using dividend_less_div_times [of ps "brk s + ps - 1"] ps by (simp_all add: base_def)
  have free: "slab_cells ps ns base \<noteq> []" "distinct (slab_cells ps ns base)"
    using ps by (simp_all add: slab_cells_not_Nil slab_cells_distinct)
  have old: "p < brk s" if p: "p \<in> live" for p
  proof (rule live_slab [OF assms(1) p])
    fix sl assume sl: "sp_slabs sp (node_to_slab ps p) = Some sl" "p \<in> set (slab_cells ps ns (node_to_slab ps p))"
    show ?thesis using slab_cells_in_page(2) [OF sl(2) ps(1) pool_slab(2) [OF assms(1) sl(1)]] pool_slab(3) [OF assms(1) sl(1)] ps(1)
      by linarith
  qed
  have new: "p \<notin> live" if "p \<in> set (slab_cells ps ns base)" for p
    using slab_cells_in_page(1) [OF that ps(1) base(2)] old [of p] base(1) by linarith
  have fresh: "sp_slabs sp base = None"
    using pool_slab(3) [OF assms(1), of base] base(1) ps by (cases "sp_slabs sp base") fastforce+
  have "slab_ok ps ns live (base + ps) base \<lparr>sl_free = slab_cells ps ns base, sl_used = 0\<rparr>"
    using base(2) free(2) new by (auto simp: slab_ok_def)
  moreover have "slab_ok ps ns live (base + ps) base' sl" if "sp_slabs sp base' = Some sl" for base' sl
    using slab_ok_brk [OF pool_slab(1) [OF assms(1) that]] base(1) by simp
  ultimately have slabs: "slab_ok ps ns live (base + ps) base' sl"
    if "((sp_slabs sp)(base \<mapsto> \<lparr>sl_free = slab_cells ps ns base, sl_used = 0\<rparr>)) base' = Some sl" for base' sl
    using that by (auto split: if_splits)
  have "pool_ok ps ns live (base + ps) (sp\<lparr>sp_slabs := (sp_slabs sp)(base \<mapsto> \<lparr>sl_free = slab_cells ps ns base, sl_used = 0\<rparr>),
      sp_partial := [base]\<rparr>)" (is "pool_ok _ _ _ _ ?sp")
  proof -
    have "(base' \<in> set (sp_partial ?sp) \<longleftrightarrow> sl_free sl' \<noteq> []) \<and> (base' \<in> set (sp_full ?sp) \<longleftrightarrow> sl_free sl' = [])"
      if "sp_slabs ?sp base' = Some sl'" for base' sl'
      using that free(1) fresh pool_slab(6,7) [OF assms(1), of base' sl'] assms(1,2)
      by (cases "base' = base") (auto simp: pool_ok_def)
    moreover have "live \<subseteq> (\<Union>base \<in> dom (sp_slabs ?sp). set (slab_cells ps ns base))" "set (sp_full ?sp) \<subseteq> dom (sp_slabs ?sp)"
      using assms(1) by (auto simp: pool_ok_def)
    ultimately show ?thesis using slabs ps assms(1) unfolding pool_ok_def by (simp add: subset_iff)
  qed
  moreover have "(ok \<and> r = 0 \<and> brk s' = base + ps \<and>
        sp' = sp\<lparr>sp_slabs := (sp_slabs sp)(base \<mapsto> \<lparr>sl_free = slab_cells ps ns base, sl_used = 0\<rparr>), sp_partial := [base]\<rparr>) \<or>
      (r = -1 \<and> sp' = sp \<and> brk s' = brk s)"
    using assms(2,3) a b by (auto simp: alloc_slab_def mmap_page_def base_def Let_def split: if_splits)
  ultimately show "pool_ok ps ns live (brk s') sp'" "r = 0 \<Longrightarrow> sp_partial sp' \<noteq> []" "r \<noteq> 0 \<Longrightarrow> sp' = sp"
    using assms(1) by auto
qed

text \<open>What allocation leaves alone: everything but the world, the trace and the end of the memory.\<close>

definition same_but_brk :: "('w, 'x) machine_scheme \<Rightarrow> ('w, 'x) machine_scheme \<Rightarrow> bool" where
  "same_but_brk s s' \<longleftrightarrow> mem s' = mem s \<and> machine.more s' = machine.more s"

lemma slab_alloc_same: "alloc os s = (ok, s') \<Longrightarrow> same_but_brk s s' \<and> brk s' = brk s"
  by (auto simp: alloc_def invoke_def emit_def same_but_brk_def split: prod.splits)

lemma alloc_slab_same: "alloc_slab os ps ns sp s = (r, sp', s') \<Longrightarrow> same_but_brk s s'"
  by (auto simp: alloc_slab_def mmap_page_def Let_def same_but_brk_def dest!: slab_alloc_same split: prod.splits if_splits option.splits)

lemma alloc_node_ok:
  assumes "pool_ok ps ns live (brk s) sp"
  obtains p sp' s' where "alloc_node os ps ns sp s = Some (p, sp', s')" "same_but_brk s s'"
    "case p of None \<Rightarrow> pool_ok ps ns live (brk s') sp' | Some p \<Rightarrow> p \<notin> live \<and> pool_ok ps ns (insert p live) (brk s') sp'"
proof -
  obtain r sp1 s1 where a: "(if sp_partial sp = [] then alloc_slab os ps ns sp s else (0, sp, s)) = (r, sp1, s1)"
    by (metis prod_cases3)
  have 1: "pool_ok ps ns live (brk s1) sp1" "r = 0 \<Longrightarrow> sp_partial sp1 \<noteq> []" "same_but_brk s s1"
    using a assms alloc_slab_ok [OF assms, of os r sp1 s1] alloc_slab_same [of os ps ns sp s r sp1 s1]
    by (auto simp: same_but_brk_def split: if_splits)
  show thesis
  proof (cases "r = 0")
    case True
    obtain p sp' where "take_cell sp1 = Some (p, sp')" "p \<notin> live" "pool_ok ps ns (insert p live) (brk s1) sp'"
      using take_cell_ok [OF 1(1) 1(2) [OF True]] by (elim exE conjE)
    with a True 1(3) show thesis by (intro that [of "Some p" sp' s1]) (simp_all add: alloc_node_def)
  next
    case False
    with a 1 show thesis by (intro that [of None sp1 s1]) (simp_all add: alloc_node_def)
  qed
qed

lemma free_node_mem_ok:
  assumes ok: "pool_ok ps ns live b sp" and p: "p \<in> live"
  obtains sp' where "free_node_mem ps p sp = Some sp'" "pool_ok ps ns (live - {p}) b sp'"
proof -
  let ?base = "node_to_slab ps p"
  obtain sl where sl: "sp_slabs sp ?base = Some sl" and cell: "p \<in> set (slab_cells ps ns ?base)" by (rule live_slab [OF ok p])
  note S = pool_slab [OF ok sl]
  have other: "p \<notin> set (slab_cells ps ns base')" if "sp_slabs sp base' = Some sl'" "base' \<noteq> ?base" for base' sl'
    using cells_disjoint [OF ok sl that(1) cell] that(2) by blast
  have rest: "slab_ok ps ns (live - {p}) b base' sl'" if "sp_slabs sp base' = Some sl'" "base' \<noteq> ?base" for base' sl'
    using slab_ok_other(2) [OF pool_slab(1) [OF ok that(1)] other [OF that]] .
  show thesis
  proof (cases "sl_used sl - 1 = 0")
    case True
    then have "card (set (slab_cells ps ns ?base) \<inter> live) = 1" using S(1) by (simp add: slab_ok_def)
    then obtain q where q: "set (slab_cells ps ns ?base) \<inter> live = {q}" by (auto simp: card_1_singleton_iff)
    then have "q = p" using cell p by (metis IntI singletonD)
    with q have one: "set (slab_cells ps ns ?base) \<inter> live = {p}" by simp
    have "pool_ok ps ns (live - {p}) b (free_slab ?base sp)" (is "pool_ok _ _ _ _ ?sp")
    proof -
      have "live - {p} \<subseteq> (\<Union>base \<in> dom (sp_slabs ?sp). set (slab_cells ps ns base))"
        using ok one by (fastforce simp: pool_ok_def free_slab_def slab_list_del_def)
      then show ?thesis using ok rest by (auto simp: pool_ok_def free_slab_def slab_list_del_def split: if_splits)
    qed
    then show thesis using sl True by (intro that [of "free_slab ?base sp"]) (simp_all add: free_node_mem_def)
  next
    case False
    define sl' where "sl' = \<lparr>sl_free = p # sl_free sl, sl_used = sl_used sl - 1\<rparr>"
    define sp' where "sp' = (if sl_free sl = [] then
        (slab_list_del ?base sp)\<lparr>sp_partial := remove1 ?base (sp_partial sp) @ [?base]\<rparr> else sp)
      \<lparr>sp_slabs := (sp_slabs sp)(?base \<mapsto> sl')\<rparr>"
    have f: "free_node_mem ps p sp = Some sp'" using False sl by (simp add: free_node_mem_def sp'_def sl'_def Let_def)
    have slabs: "sp_slabs sp' = (sp_slabs sp)(?base \<mapsto> sl')" by (simp add: sp'_def slab_list_del_def)
    have lists: "set (sp_partial sp') = insert ?base (set (sp_partial sp))" "set (sp_full sp') = set (sp_full sp) - {?base}"
      "distinct (sp_partial sp')" "distinct (sp_full sp')"
      using ok S(6,7) by (auto simp: sp'_def slab_list_del_def pool_ok_def)
    have "slab_ok ps ns (live - {p}) b base' sl''" if "sp_slabs sp' base' = Some sl''" for base' sl''
      using that slab_ok_give [OF S(1) p cell] rest by (auto simp: slabs sl'_def split: if_splits)
    moreover have "(base' \<in> set (sp_partial sp') \<longleftrightarrow> sl_free sl'' \<noteq> []) \<and> (base' \<in> set (sp_full sp') \<longleftrightarrow> sl_free sl'' = [])"
      if "sp_slabs sp' base' = Some sl''" for base' sl''
      using that pool_slab(6,7) [OF ok, of base' sl''] unfolding lists slabs by (auto simp: sl'_def split: if_splits)
    moreover have "live - {p} \<subseteq> (\<Union>base \<in> dom (sp_slabs sp'). set (slab_cells ps ns base))"
      "set (sp_partial sp') \<subseteq> dom (sp_slabs sp')" "set (sp_full sp') \<subseteq> dom (sp_slabs sp')"
      using ok unfolding lists slabs by (auto simp: pool_ok_def)
    ultimately have "pool_ok ps ns (live - {p}) b sp'" using ok lists(3,4) unfolding pool_ok_def by blast
    with f show thesis by (rule that)
  qed
qed

end
