(* ===== verification/Hl_Table.thy ===== *)
theory Hl_Table
  imports Posix
begin

text \<open>
  The hash tables of nodes of libfuse's high-level library, \<^verbatim>\<open>libfuse/lib/fuse.c\<close>: linear hashing, where the buckets below
  \<^verbatim>\<open>split\<close> have already been divided between the lower and the upper half of the array. The two tables,
  by number and by name, have the same code but for the hash function and the link they use, so the code is modelled once, for
  a function \<open>raw\<close> that hashes the node at an address to a number (\<open>None\<close> where the code would read freed
  memory). A bucket is the list of the nodes chained in it. The array is the function from indices to buckets.
\<close>

section \<open>The code\<close>

record node_table =
  t_array :: "nat \<Rightarrow> addr list"
  t_use :: u64
  t_size :: nat
  t_split :: nat

definition NODE_TABLE_MIN_SIZE :: nat where
  "NODE_TABLE_MIN_SIZE = 8192"

definition node_table_init :: node_table where
  "node_table_init = \<lparr>t_array = (\<lambda>_. []), t_use = 0, t_size = NODE_TABLE_MIN_SIZE, t_split = 0\<rparr>"

text \<open>The bucket of a hash value, the common end of \<^verbatim>\<open>id_hash\<close> and \<^verbatim>\<open>name_hash\<close>.\<close>

definition table_slot :: "node_table \<Rightarrow> nat \<Rightarrow> nat" where
  "table_slot t h =
     (let hash = h mod t_size t;
          oldhash = hash mod (t_size t div 2) in
      if oldhash \<ge> t_split t then oldhash else hash)"

definition node_table_reduce :: "'w os \<Rightarrow> node_table \<Rightarrow> ('w, 'x) machine_scheme \<Rightarrow>
    node_table \<times> ('w, 'x) machine_scheme" where
  "node_table_reduce os t s =
     (let newsize = t_size t div 2 in
      if newsize < NODE_TABLE_MIN_SIZE then (t, s)
      else let (_, s) = alloc os s in (t\<lparr>t_size := newsize, t_split := newsize div 2\<rparr>, s))"

fun remerge_loop :: "nat \<Rightarrow> node_table \<Rightarrow> node_table" where
  "remerge_loop 0 t = t"
| "remerge_loop (Suc iter) t =
     (if t_split t > 0 then
        let t = t\<lparr>t_split := t_split t - 1\<rparr>;
            upper = t_split t + t_size t div 2 in
        if t_array t upper \<noteq> [] then
          t\<lparr>t_array := (t_array t)(t_split t := t_array t (t_split t) @ t_array t upper, upper := [])\<rparr>
        else remerge_loop iter t
      else t)"

definition remerge :: "'w os \<Rightarrow> node_table \<Rightarrow> ('w, 'x) machine_scheme \<Rightarrow> node_table \<times> ('w, 'x) machine_scheme" where
  "remerge os t s =
     (let (t, s) = (if t_split t = 0 then node_table_reduce os t s else (t, s)) in
      (remerge_loop 8 t, s))"

definition node_table_resize :: "'w os \<Rightarrow> node_table \<Rightarrow> ('w, 'x) machine_scheme \<Rightarrow>
    node_table \<times> ('w, 'x) machine_scheme" where
  "node_table_resize os t s =
     (let (ok, s) = alloc os s in
      if \<not> ok then (t, s)
      else (t\<lparr>t_array := (\<lambda>i. if t_size t \<le> i \<and> i < 2 * t_size t then [] else t_array t i),
              t_size := t_size t * 2, t_split := 0\<rparr>, s))"

text \<open>A node that belongs elsewhere is unlinked and put at the front of its new bucket.\<close>

fun rehash_loop :: "(addr \<Rightarrow> nat option) \<Rightarrow> nat \<Rightarrow> addr list \<Rightarrow> node_table \<Rightarrow> node_table option" where
  "rehash_loop raw hash [] t = Some t"
| "rehash_loop raw hash (p # ps) t = do {
     h \<leftarrow> raw p;
     let newhash = table_slot t h;
     if newhash \<noteq> hash then
       let a = (t_array t)(hash := remove1 p (t_array t hash)) in
       rehash_loop raw hash ps (t\<lparr>t_array := a(newhash := p # a newhash)\<rparr>)
     else rehash_loop raw hash ps t }"

definition rehash :: "'w os \<Rightarrow> (addr \<Rightarrow> nat option) \<Rightarrow> node_table \<Rightarrow> ('w, 'x) machine_scheme \<Rightarrow>
    (node_table \<times> ('w, 'x) machine_scheme) option" where
  "rehash os raw t s =
     (if t_split t = t_size t div 2 then Some (t, s)
      else do {
        let hash = t_split t;
        t \<leftarrow> rehash_loop raw hash (t_array t hash) (t\<lparr>t_split := t_split t + 1\<rparr>);
        Some (if t_split t = t_size t div 2 then node_table_resize os t s else (t, s)) })"

text \<open>Linking a node into the bucket of its hash value, and unlinking it.\<close>

definition table_insert :: "'w os \<Rightarrow> (addr \<Rightarrow> nat option) \<Rightarrow> nat \<Rightarrow> addr \<Rightarrow> node_table \<Rightarrow> ('w, 'x) machine_scheme \<Rightarrow>
    (node_table \<times> ('w, 'x) machine_scheme) option" where
  "table_insert os raw h p t s =
     (let hash = table_slot t h;
          t = t\<lparr>t_array := (t_array t)(hash := p # t_array t hash), t_use := t_use t + 1\<rparr> in
      if unat (t_use t) \<ge> t_size t div 2 then rehash os raw t s else Some (t, s))"

definition table_unlink :: "nat \<Rightarrow> addr \<Rightarrow> node_table \<Rightarrow> node_table" where
  "table_unlink h p t = t\<lparr>t_array := (t_array t)(table_slot t h := remove1 p (t_array t (table_slot t h)))\<rparr>"

definition table_shrink :: "'w os \<Rightarrow> node_table \<Rightarrow> ('w, 'x) machine_scheme \<Rightarrow> node_table \<times> ('w, 'x) machine_scheme" where
  "table_shrink os t s =
     (let t = t\<lparr>t_use := t_use t - 1\<rparr> in
      if unat (t_use t) < t_size t div 4 then remerge os t s else (t, s))"

text \<open>The search along a chain; \<open>P\<close> looks at one node.\<close>

fun chain_find :: "(addr \<Rightarrow> bool option) \<Rightarrow> addr list \<Rightarrow> addr option option" where
  "chain_find P [] = Some None"
| "chain_find P (p # ps) = do { b \<leftarrow> P p; if b then Some (Some p) else chain_find P ps }"

section \<open>The invariant\<close>

definition members :: "node_table \<Rightarrow> addr set" where
  "members t = (\<Union>i. set (t_array t i))"

lemma membersI: "p \<in> set (t_array t i) \<Longrightarrow> p \<in> members t"
  by (auto simp: members_def)

lemma membersE: "p \<in> members t \<Longrightarrow> (\<And>i. p \<in> set (t_array t i) \<Longrightarrow> P) \<Longrightarrow> P"
  by (auto simp: members_def)

text \<open>
  The size is the minimal size times a power of two, and every node is exactly once in the table, in the bucket where
  its hash value leads.
\<close>

definition table_ok :: "(addr \<Rightarrow> nat option) \<Rightarrow> node_table \<Rightarrow> bool" where
  "table_ok raw t \<longleftrightarrow> (\<exists>k. t_size t = NODE_TABLE_MIN_SIZE * 2 ^ k) \<and> t_split t \<le> t_size t div 2 \<and>
     (\<forall>i. distinct (t_array t i)) \<and> (\<forall>i. \<forall>p \<in> set (t_array t i). \<exists>h. raw p = Some h \<and> table_slot t h = i)"

lemma table_size:
  assumes "table_ok raw t"
  shows "0 < t_size t" "4 dvd t_size t" "2 dvd t_size t" "0 < t_size t div 2"
  using assms unfolding table_ok_def NODE_TABLE_MIN_SIZE_def
  by (auto intro: dvd_mult2)

lemma table_ok_init: "table_ok raw node_table_init" "members node_table_init = {}"
  by (auto simp: table_ok_def node_table_init_def members_def intro!: exI [of _ 0])

lemma table_slot_less: "table_ok raw t \<Longrightarrow> table_slot t h < t_size t"
  using table_size [of raw t] by (simp add: table_slot_def Let_def) (meson div_le_dividend less_le_trans mod_less_divisor)

lemma table_empty_above: "table_ok raw t \<Longrightarrow> t_size t \<le> i \<Longrightarrow> t_array t i = []"
  using table_slot_less [of raw t] unfolding table_ok_def by (metis not_less set_empty2 ex_in_conv)

text \<open>The bucket in the two ends of a round, and after one step of it.\<close>

lemma mod_half: "even n \<Longrightarrow> h mod n mod (n div 2) = h mod (n div (2 :: nat))"
  by (rule mod_mod_cancel) (metis dvd_mult_div_cancel dvd_triv_right)

lemma slot_at_0:
  assumes "even (t_size t)" "t_split t = 0" shows "table_slot t h = h mod (t_size t div 2)"
  using assms by (simp add: table_slot_def Let_def mod_half)

lemma slot_at_half:
  assumes "0 < t_size t div 2" "t_split t = t_size t div 2" shows "table_slot t h = h mod t_size t"
proof -
  have "h mod t_size t mod (t_size t div 2) < t_split t" using assms by simp
  then show ?thesis by (simp add: table_slot_def Let_def)
qed

lemma slot_split:
  assumes "even (t_size t)"
  shows "table_slot (t\<lparr>t_split := k\<rparr>) h = (if h mod (t_size t div 2) \<ge> k then h mod (t_size t div 2) else h mod t_size t)"
  using assms by (simp add: table_slot_def Let_def mod_half)

lemma table_slot_upd [simp]:
  "table_slot (t\<lparr>t_array := a\<rparr>) = table_slot t" "table_slot (t\<lparr>t_use := u\<rparr>) = table_slot t"
  by (simp_all add: table_slot_def fun_eq_iff)

text \<open>A node is in at most one bucket.\<close>

lemma one_bucket: "table_ok raw t \<Longrightarrow> p \<in> set (t_array t i) \<Longrightarrow> p \<in> set (t_array t j) \<Longrightarrow> i = j"
  unfolding table_ok_def by (metis option.inject)

lemma member_bucket: "table_ok raw t \<Longrightarrow> raw p = Some h \<Longrightarrow> p \<in> members t \<longleftrightarrow> p \<in> set (t_array t (table_slot t h))"
  unfolding table_ok_def members_def by (metis UN_iff UNIV_I option.inject)

lemma table_ok_use [simp]: "table_ok raw (t\<lparr>t_use := u\<rparr>) = table_ok raw t" "members (t\<lparr>t_use := u\<rparr>) = members t"
  by (simp_all add: table_ok_def members_def)

lemma table_ok_raw:
  assumes "table_ok raw t" "\<And>p. p \<in> members t \<Longrightarrow> raw' p = raw p"
  shows "table_ok raw' t"
  using assms unfolding table_ok_def members_def by (metis UN_I UNIV_I)

section \<open>Growing and shrinking\<close>

lemma alloc_data: "alloc os s = (ok, s') \<Longrightarrow> mem s' = mem s \<and> brk s' = brk s \<and> machine.more s' = machine.more s"
  by (auto simp: alloc_def invoke_def emit_def split: prod.splits)

lemma table_okI:
  assumes "t_size t' = NODE_TABLE_MIN_SIZE * 2 ^ k" "t_split t' \<le> t_size t' div 2" "\<And>i. distinct (t_array t' i)"
    and "\<And>i p. p \<in> set (t_array t' i) \<Longrightarrow> \<exists>h. raw p = Some h \<and> table_slot t' h = i"
  shows "table_ok raw t'"
  using assms unfolding table_ok_def by blast

lemma bucket_hash:
  assumes "table_ok raw t" "p \<in> set (t_array t i)"
  obtains h where "raw p = Some h" "table_slot t h = i"
  using assms unfolding table_ok_def by blast

lemma reduce_ok:
  assumes ok: "table_ok raw t" and "t_split t = 0" "node_table_reduce os t s = (t', s')"
  shows "table_ok raw t'" "members t' = members t"
proof -
  obtain k where k: "t_size t = NODE_TABLE_MIN_SIZE * 2 ^ k" using ok by (auto simp: table_ok_def)
  have "table_ok raw (t\<lparr>t_size := t_size t div 2, t_split := t_size t div 2 div 2\<rparr>)" (is "table_ok _ ?t")
    if big: "\<not> t_size t div 2 < NODE_TABLE_MIN_SIZE"
  proof -
    obtain k' where k': "k = Suc k'" using k big by (cases k) (auto simp: NODE_TABLE_MIN_SIZE_def)
    have "0 < t_size ?t div 2" using big by (simp add: NODE_TABLE_MIN_SIZE_def)
    then have slot: "table_slot ?t h = table_slot t h" for h
      using slot_at_half [of ?t h] slot_at_0 [of t h] table_size(3) [OF ok] assms(2) by simp
    show ?thesis
      by (rule table_okI [of _ k']) (use ok k k' slot in \<open>auto simp: table_ok_def\<close>)
  qed
  then show "table_ok raw t'" "members t' = members t"
    using assms by (auto simp: node_table_reduce_def Let_def members_def split: if_splits prod.splits)
qed

lemma resize_ok:
  assumes ok: "table_ok raw t" and "t_split t = t_size t div 2" "node_table_resize os t s = (t', s')"
  shows "table_ok raw t'" "members t' = members t"
proof -
  obtain k where k: "t_size t = NODE_TABLE_MIN_SIZE * 2 ^ k" using ok by (auto simp: table_ok_def)
  have arr: "(\<lambda>i. if t_size t \<le> i \<and> i < 2 * t_size t then [] else t_array t i) = t_array t"
    using table_empty_above [OF ok] by auto
  have slot: "table_slot (t\<lparr>t_size := t_size t * 2, t_split := 0\<rparr>) h = table_slot t h" for h
    using slot_at_half [OF table_size(4) [OF ok] assms(2), of h] slot_at_0 [of "t\<lparr>t_size := t_size t * 2, t_split := 0\<rparr>" h] by simp
  have "table_ok raw (t\<lparr>t_size := t_size t * 2, t_split := 0\<rparr>)"
    by (rule table_okI [of _ "Suc k"]) (use ok k slot in \<open>auto simp: table_ok_def\<close>)
  moreover have "t' = t \<or> t' = t\<lparr>t_size := t_size t * 2, t_split := 0\<rparr>"
    using assms(3) arr by (auto simp: node_table_resize_def split: prod.splits if_splits)
  ultimately show "table_ok raw t'" "members t' = members t" using ok by (auto simp: members_def)
qed

text \<open>One step back: the upper bucket is appended to the lower one.\<close>

lemma unsplit_ok:
  assumes ok: "table_ok raw t" and split: "0 < t_split t"
  defines "k \<equiv> t_split t - 1"
  defines "u \<equiv> k + t_size t div 2"
  shows "table_ok raw (t\<lparr>t_split := k, t_array := (t_array t)(k := t_array t k @ t_array t u, u := [])\<rparr>)" (is "table_ok raw ?t")
    "members (t\<lparr>t_split := k, t_array := (t_array t)(k := t_array t k @ t_array t u, u := [])\<rparr>) = members t"
proof -
  have ev: "even (t_size t)" "0 < t_size t div 2" using table_size [OF ok] by auto
  have k: "t_split t = Suc k" "k < t_size t div 2" "u \<noteq> k" using split ok by (auto simp: k_def u_def table_ok_def)
  obtain n where n: "t_size t = NODE_TABLE_MIN_SIZE * 2 ^ n" using ok by (auto simp: table_ok_def)
  have old: "table_slot t h = (if h mod (t_size t div 2) \<ge> Suc k then h mod (t_size t div 2) else h mod t_size t)" for h
    using ev(1) k(1) by (simp add: table_slot_def Let_def mod_half)
  have new: "table_slot ?t h = (if h mod (t_size t div 2) \<ge> k then h mod (t_size t div 2) else h mod t_size t)" for h
    using ev(1) by (simp add: table_slot_def Let_def mod_half)
  have half: "h mod t_size t = h mod (t_size t div 2) \<or> h mod t_size t = h mod (t_size t div 2) + t_size t div 2" for h
    using mod_mult2_eq [of h "t_size t div 2" 2] ev(1) by (cases "h div (t_size t div 2) mod 2 = 0") auto
  have step: "table_slot ?t h = (if table_slot t h = u then k else table_slot t h)" for h
  proof -
    have "h mod (t_size t div 2) \<noteq> u" using mod_less_divisor [OF ev(2), of h] unfolding u_def by linarith
    then show ?thesis using half [of h] k(2) unfolding old new by (auto simp: u_def)
  qed
  have "x \<in> set (t_array ?t (if i = u then k else i))" if "x \<in> set (t_array t i)" for x i using that k(3) by auto
  moreover have "x \<in> set (t_array t i) \<or> x \<in> set (t_array t u)" if "x \<in> set (t_array ?t i)" for x i
    using that by (auto split: if_splits)
  ultimately show "members ?t = members t" by (intro equalityI subsetI) (elim membersE, blast intro: membersI)+
  show "table_ok raw ?t"
  proof (rule table_okI [of _ n])
    show "distinct (t_array ?t i)" for i
      using ok one_bucket [OF ok, of _ k u] k(3) by (auto simp: table_ok_def)
  next
    fix i p assume "p \<in> set (t_array ?t i)"
    then obtain j where j: "p \<in> set (t_array t j)" "i = (if j = u then k else j)" using k(3) by (auto split: if_splits)
    then obtain h where "raw p = Some h" "table_slot t h = j" using bucket_hash [OF ok] by blast
    then show "\<exists>h. raw p = Some h \<and> table_slot ?t h = i" using step [of h] j(2) by auto
  qed (use n k in \<open>auto\<close>)
qed

lemma remerge_loop_ok:
  "table_ok raw t \<Longrightarrow> table_ok raw (remerge_loop n t) \<and> members (remerge_loop n t) = members t"
proof (induction n t rule: remerge_loop.induct)
  case (2 iter t)
  show ?case
  proof (cases "0 < t_split t")
    case True
    let ?k = "t_split t - 1"
    note u = unsplit_ok [OF 2(2) True]
    show ?thesis
    proof (cases "t_array t (?k + t_size t div 2) = []")
      case empty: True
      then have "t\<lparr>t_split := ?k, t_array := (t_array t)(?k := t_array t ?k @ t_array t (?k + t_size t div 2),
          ?k + t_size t div 2 := [])\<rparr> = t\<lparr>t_split := ?k\<rparr>" by (simp add: fun_upd_idem)
      then have "table_ok raw (t\<lparr>t_split := ?k\<rparr>)" "members (t\<lparr>t_split := ?k\<rparr>) = members t" using u by simp_all
      then show ?thesis using 2(1) [OF True refl refl] empty True by simp
    next
      case False
      then show ?thesis using u True by (simp add: Let_def fun_upd_def)
    qed
  qed (use 2 in simp)
qed simp

lemma remerge_ok:
  assumes "table_ok raw t" "remerge os t s = (t', s')"
  shows "table_ok raw t'" "members t' = members t"
proof -
  obtain t1 s1 where "(if t_split t = 0 then node_table_reduce os t s else (t, s)) = (t1, s1)" by fastforce
  moreover from this have "table_ok raw t1 \<and> members t1 = members t"
    using reduce_ok [OF assms(1), of os s t1 s1] assms(1) by (auto split: if_splits)
  ultimately show "table_ok raw t'" "members t' = members t"
    using assms(2) remerge_loop_ok [of raw t1 8] by (auto simp: remerge_def)
qed

text \<open>One step forward: the loop moves the nodes that belong into the upper bucket.\<close>

lemma rehash_loop_ok:
  assumes "rehash_loop raw hash ps t = Some t'" "distinct ps"
    and "\<And>i. distinct (t_array t i)" "set ps \<subseteq> set (t_array t hash)"
    and "\<And>i p. p \<in> set (t_array t i) \<Longrightarrow> i \<noteq> hash \<or> p \<notin> set ps \<Longrightarrow> \<exists>h. raw p = Some h \<and> table_slot t h = i"
    and "\<And>i p. p \<in> set ps \<Longrightarrow> p \<in> set (t_array t i) \<Longrightarrow> i = hash"
  shows "t_size t' = t_size t \<and> t_split t' = t_split t \<and> members t' = members t \<and> (\<forall>i. distinct (t_array t' i)) \<and>
    (\<forall>i. \<forall>p \<in> set (t_array t' i). \<exists>h. raw p = Some h \<and> table_slot t' h = i)"
  using assms
proof (induction raw hash ps t rule: rehash_loop.induct)
  case (1 raw hash t)
  then show ?case by simp
next
  case (2 raw hash p ps t)
  then obtain h where h: "raw p = Some h" by (auto split: option.splits bind_splits)
  show ?case
  proof (cases "table_slot t h = hash")
    case True
    show ?thesis
    proof (rule 2(2) [OF h refl])
      show "\<not> table_slot t h \<noteq> hash" using True by simp
      show "i = hash" if "q \<in> set ps" "q \<in> set (t_array t i)" for i q using 2(8) [of q i] that by simp
    qed (use 2(3-7) h True in \<open>auto\<close>)
  next
    case False
    let ?n = "table_slot t h"
    let ?a = "(t_array t)(hash := remove1 p (t_array t hash))"
    let ?t = "t\<lparr>t_array := ?a(?n := p # ?a ?n)\<rparr>"
    have p: "p \<in> set (t_array t hash)" "p \<notin> set ps" "\<And>i. p \<in> set (t_array t i) \<Longrightarrow> i = hash" using 2(4,6,8) by auto
    have "x \<in> set (t_array ?t (if x = p then ?n else i))" if "x \<in> set (t_array t i)" for x i
      using that False 2(5) by (auto simp: p(3))
    moreover have "x \<in> set (t_array t (if x = p then hash else i))" if "x \<in> set (t_array ?t i)" for x i
      using that p(1) by (auto split: if_splits dest: notin_set_remove1)
    ultimately have mem: "members ?t = members t" by (intro equalityI subsetI) (elim membersE, blast intro: membersI)+
    have "t_size t' = t_size ?t \<and> t_split t' = t_split ?t \<and> members t' = members ?t \<and> (\<forall>i. distinct (t_array t' i)) \<and>
      (\<forall>i. \<forall>p \<in> set (t_array t' i). \<exists>h. raw p = Some h \<and> table_slot t' h = i)"
    proof (rule 2(1) [OF h refl False refl])
      show "rehash_loop raw hash ps ?t = Some t'" using 2(3) h False by (simp add: Let_def)
      show "i = hash" if "q \<in> set ps" "q \<in> set (t_array ?t i)" for i q
        using 2(8) [of q i] that p(2) 2(8) [of q ?n] False notin_set_remove1 by (auto split: if_splits)
      show "distinct (t_array ?t i)" for i using 2(5) p(3) [of ?n] False by auto
      show "set ps \<subseteq> set (t_array ?t hash)" using 2(5,6) p(2) False by auto
      show "\<exists>h. raw q = Some h \<and> table_slot ?t h = i" if q: "q \<in> set (t_array ?t i)" "i \<noteq> hash \<or> q \<notin> set ps" for i q
      proof (cases "q = p")
        case True
        then have "i = ?n" using q(1) 2(5) p(3) False by (auto split: if_splits)
        then show ?thesis using h True by simp
      next
        case neq: False
        then have "q \<in> set (t_array t i)" using q(1) by (auto split: if_splits dest: notin_set_remove1)
        moreover have "i \<noteq> hash \<or> q \<notin> set (p # ps)" using q(2) neq by auto
        ultimately show ?thesis using 2(7) by simp
      qed
    qed (use 2(4) in simp)
    then show ?thesis using mem by simp
  qed
qed

lemma rehash_loop_Some: "(\<And>p. p \<in> set ps \<Longrightarrow> raw p \<noteq> None) \<Longrightarrow> \<exists>t'. rehash_loop raw hash ps t = Some t'"
  by (induction raw hash ps t rule: rehash_loop.induct) (fastforce simp: Let_def)+

lemma rehash_ok:
  assumes ok: "table_ok raw t"
  obtains t' s' where "rehash os raw t s = Some (t', s')" "table_ok raw t'" "members t' = members t"
proof (cases "t_split t = t_size t div 2")
  case True
  then show thesis using ok by (intro that [of t s]) (simp_all add: rehash_def)
next
  case False
  let ?k = "t_split t" and ?t = "t\<lparr>t_split := t_split t + 1\<rparr>"
  have ev: "even (t_size t)" "0 < t_size t div 2" using table_size [OF ok] by auto
  have k: "?k < t_size t div 2" using ok False by (simp add: table_ok_def)
  obtain n where n: "t_size t = NODE_TABLE_MIN_SIZE * 2 ^ n" using ok by (auto simp: table_ok_def)
  have slot: "table_slot ?t h = table_slot t h" if "table_slot t h \<noteq> ?k" for h
    using that slot_split [OF ev(1), of "Suc ?k" h] slot_split [OF ev(1), of ?k h] by (auto split: if_splits)
  obtain t1 where t1: "rehash_loop raw ?k (t_array t ?k) ?t = Some t1"
    using rehash_loop_Some [of "t_array t ?k" raw] ok unfolding table_ok_def by blast
  have "t_size t1 = t_size ?t \<and> t_split t1 = t_split ?t \<and> members t1 = members ?t \<and> (\<forall>i. distinct (t_array t1 i)) \<and>
    (\<forall>i. \<forall>p \<in> set (t_array t1 i). \<exists>h. raw p = Some h \<and> table_slot t1 h = i)"
  proof (rule rehash_loop_ok [OF t1])
    fix i p assume p: "p \<in> set (t_array ?t i)" "i \<noteq> ?k \<or> p \<notin> set (t_array t ?k)"
    then have i: "i \<noteq> ?k" by auto
    obtain h where "raw p = Some h" "table_slot t h = i" using bucket_hash [OF ok, of p i] p(1) by auto
    then show "\<exists>h. raw p = Some h \<and> table_slot ?t h = i" using slot [of h] i by auto
  qed (use ok one_bucket [OF ok] in \<open>auto simp: table_ok_def\<close>)
  then have 1: "table_ok raw t1" "members t1 = members t" "t_size t1 = t_size t" "t_split t1 = Suc ?k"
    using n k by (auto simp: table_ok_def members_def)
  obtain t' s' where r: "(if t_split t1 = t_size t1 div 2 then node_table_resize os t1 s else (t1, s)) = (t', s')" by fastforce
  then have "table_ok raw t' \<and> members t' = members t"
    using resize_ok [OF 1(1), of os s t' s'] 1 by (auto split: if_splits)
  then show thesis using that [of t' s'] r t1 False by (simp add: rehash_def)
qed

section \<open>Inserting and removing\<close>

lemma table_insert_ok:
  assumes ok: "table_ok raw t" and p: "p \<notin> members t" "raw p = Some h"
  obtains t' s' where "table_insert os raw h p t s = Some (t', s')" "table_ok raw t'" "members t' = insert p (members t)"
proof -
  let ?i = "table_slot t h"
  let ?t = "t\<lparr>t_array := (t_array t)(?i := p # t_array t ?i), t_use := t_use t + 1\<rparr>"
  have slot: "table_slot ?t = table_slot t" by (simp add: table_slot_def fun_eq_iff)
  have 1: "table_ok raw ?t" "members ?t = insert p (members t)"
    using ok p unfolding table_ok_def slot by (auto simp: members_def split: if_splits)
  show thesis
  proof (cases "unat (t_use t + 1) \<ge> t_size t div 2")
    case True
    obtain t' s' where "rehash os raw ?t s = Some (t', s')" "table_ok raw t'" "members t' = members ?t"
      by (rule rehash_ok [OF 1(1)])
    then show thesis using that [of t' s'] 1(2) True by (simp add: table_insert_def Let_def)
  next
    case False
    then show thesis using that [of ?t s] 1 by (simp add: table_insert_def Let_def)
  qed
qed

lemma table_unlink_ok:
  assumes ok: "table_ok raw t" and p: "raw p = Some h"
  shows "table_ok raw (table_unlink h p t)" "members (table_unlink h p t) = members t - {p}"
proof -
  let ?i = "table_slot t h"
  have d: "set (remove1 p (t_array t ?i)) = set (t_array t ?i) - {p}" using ok by (simp add: table_ok_def)
  have slot: "table_slot (table_unlink h p t) = table_slot t" by (simp add: table_unlink_def)
  show "table_ok raw (table_unlink h p t)"
    using ok d unfolding table_ok_def slot by (auto simp: table_unlink_def)
  have "p \<notin> set (t_array t i)" if "i \<noteq> ?i" for i using that bucket_hash [OF ok, of p i] p by auto
  then show "members (table_unlink h p t) = members t - {p}" using d by (auto simp: members_def table_unlink_def split: if_splits)
qed

lemma table_shrink_ok:
  assumes "table_ok raw t" "table_shrink os t s = (t', s')"
  shows "table_ok raw t'" "members t' = members t"
  using assms remerge_ok [of raw "t\<lparr>t_use := t_use t - 1\<rparr>" os s t' s'] by (auto simp: table_shrink_def Let_def split: if_splits)

text \<open>The machine: only allocation touches it.\<close>

definition alloc_only :: "('w, 'x) machine_scheme \<Rightarrow> ('w, 'x) machine_scheme \<Rightarrow> bool" where
  "alloc_only s s' \<longleftrightarrow> mem s' = mem s \<and> brk s' = brk s \<and> machine.more s' = machine.more s"

lemma alloc_only_refl [simp]: "alloc_only s s"
  by (simp add: alloc_only_def)

lemma alloc_only_trans: "alloc_only s s' \<Longrightarrow> alloc_only s' s'' \<Longrightarrow> alloc_only s s''"
  by (simp add: alloc_only_def)

lemma alloc_alloc_only: "alloc os s = (ok, s') \<Longrightarrow> alloc_only s s'"
  using alloc_data [of os s ok s'] by (simp add: alloc_only_def)

lemma table_shrink_only: "table_shrink os t s = (t', s') \<Longrightarrow> alloc_only s s'"
  by (auto simp: table_shrink_def remerge_def node_table_reduce_def Let_def dest: alloc_alloc_only split: if_splits prod.splits)

lemma table_insert_only: "table_insert os raw h p t s = Some (t', s') \<Longrightarrow> alloc_only s s'"
  by (auto simp: table_insert_def rehash_def node_table_resize_def Let_def dest: alloc_alloc_only
      split: if_splits prod.splits bind_splits)

section \<open>Searching\<close>

lemma chain_find_miss: "(\<And>q. q \<in> set ps \<Longrightarrow> P q = Some False) \<Longrightarrow> chain_find P ps = Some None"
  by (induction ps) simp_all

lemma chain_find_hit:
  "p \<in> set ps \<Longrightarrow> P p = Some True \<Longrightarrow> (\<And>q. q \<in> set ps \<Longrightarrow> q \<noteq> p \<Longrightarrow> P q = Some False) \<Longrightarrow>
   chain_find P ps = Some (Some p)"
proof (induction ps)
  case (Cons a ps)
  then show ?case by (cases "a = p") simp_all
qed simp

end
