(* ===== verification/Hl_Locks.thy ===== *)
theory Hl_Locks
  imports Fuse_Ops Sample_Os
begin

text \<open>
  Byte-range locks of libfuse's high-level library, \<^verbatim>\<open>libfuse/lib/fuse.c\<close>: the list of locks a node holds, in which the
  locks of one owner are kept in order and apart. An offset is the integer it denotes; all offsets
  of a list that is well formed (\<open>locks_ok\<close>) and all that are computed from them fit \<^verbatim>\<open>off_t\<close>.
\<close>

section \<open>The code\<close>


definition OFF_MAX :: int where [const_defs]: "OFF_MAX = 0x7FFFFFFFFFFFFFFF"

record hl_lock =
  lk_type :: int
  lk_start :: int
  lk_end :: int
  lk_pid :: u32
  lk_owner :: u64

definition locks_conflict :: "hl_lock list \<Rightarrow> hl_lock \<Rightarrow> hl_lock option" where
  "locks_conflict ls lck = find (\<lambda>l. lk_owner l \<noteq> lk_owner lck \<and>
     lk_start lck \<le> lk_end l \<and> lk_start l \<le> lk_end lck \<and>
     (lk_type l = F_WRLCK \<or> lk_type lck = F_WRLCK)) ls"




definition merged :: "hl_lock \<Rightarrow> hl_lock \<Rightarrow> hl_lock" where
  "merged lck l = lck\<lparr>lk_start := (if lk_start l < lk_start lck then lk_start l else lk_start lck),
     lk_end := (if lk_end lck < lk_end l then lk_end l else lk_end lck)\<rparr>"





section \<open>What a list of locks means\<close>

definition covers :: "hl_lock list \<Rightarrow> u64 \<Rightarrow> int \<Rightarrow> int \<Rightarrow> bool" where
  "covers ls owner ty b \<longleftrightarrow> (\<exists>l \<in> set ls. lk_owner l = owner \<and> lk_type l = ty \<and> lk_start l \<le> b \<and> b \<le> lk_end l)"

definition range_ok :: "hl_lock \<Rightarrow> bool" where
  "range_ok l \<longleftrightarrow> 0 \<le> lk_start l \<and> lk_start l \<le> lk_end l \<and> lk_end l \<le> OFF_MAX"

definition locks_ok :: "hl_lock list \<Rightarrow> bool" where
  "locks_ok ls \<longleftrightarrow> (\<forall>l \<in> set ls. range_ok l \<and> lk_type l \<noteq> F_UNLCK) \<and>
     sorted_wrt (\<lambda>l l'. lk_owner l = lk_owner l' \<longrightarrow> lk_end l < lk_start l') ls"

lemma locks_ok_Cons [simp]:
  "locks_ok (l # ls) \<longleftrightarrow> range_ok l \<and> lk_type l \<noteq> F_UNLCK \<and>
     (\<forall>l' \<in> set ls. lk_owner l = lk_owner l' \<longrightarrow> lk_end l < lk_start l') \<and> locks_ok ls"
  by (auto simp: locks_ok_def)

lemma locks_ok_Nil [simp]: "locks_ok []"
  by (simp add: locks_ok_def)

lemma covers_simps [simp]:
  "\<not> covers [] o' t b"
  "covers (l # ls) o' t b \<longleftrightarrow> lk_owner l = o' \<and> lk_type l = t \<and> lk_start l \<le> b \<and> b \<le> lk_end l \<or> covers ls o' t b"
  by (auto simp: covers_def)


section \<open>The loop\<close>




lemma merged_simps [simp]:
  "lk_owner (merged lck l) = lk_owner lck" "lk_type (merged lck l) = lk_type lck"
  "lk_start (merged lck l) = min (lk_start l) (lk_start lck)" "lk_end (merged lck l) = max (lk_end lck) (lk_end l)"
  by (auto simp: merged_def)










section \<open>The properties\<close>


definition sample_lock :: "int \<Rightarrow> int \<Rightarrow> int \<Rightarrow> u64 \<Rightarrow> hl_lock" where
  "sample_lock ty a b owner = \<lparr>lk_type = ty, lk_start = a, lk_end = b, lk_pid = 1, lk_owner = owner\<rparr>"

lemma sample_locks_ok:
  "locks_ok [sample_lock F_WRLCK 0 99 1, sample_lock F_RDLCK 50 OFF_MAX 2]" "range_ok (sample_lock F_RDLCK 10 19 1)"
  by code_simp+


text \<open>
  C31. \<^verbatim>\<open>locks_conflict\<close> finds a lock exactly if some byte of the range is held by another owner and one of the two locks is a
  write lock.
\<close>

theorem locks_conflict_iff:
  assumes "locks_ok ls" "range_ok lck"
  shows "locks_conflict ls lck \<noteq> None \<longleftrightarrow>
    (\<exists>o' t b. covers ls o' t b \<and> o' \<noteq> lk_owner lck \<and> lk_start lck \<le> b \<and> b \<le> lk_end lck \<and>
      (t = F_WRLCK \<or> lk_type lck = F_WRLCK))"
    (is "?found \<longleftrightarrow> ?clash")
proof
  assume ?found
  then obtain l where l: "l \<in> set ls" "lk_owner l \<noteq> lk_owner lck" "lk_start lck \<le> lk_end l" "lk_start l \<le> lk_end lck"
    "lk_type l = F_WRLCK \<or> lk_type lck = F_WRLCK"
    unfolding locks_conflict_def find_None_iff by blast
  then have "lk_start l \<le> lk_end l" "lk_start lck \<le> lk_end lck" using assms by (auto simp: locks_ok_def range_ok_def)
  with l have "covers ls (lk_owner l) (lk_type l) (max (lk_start l) (lk_start lck))"
    by (auto simp: covers_def)
  with l \<open>lk_start lck \<le> lk_end lck\<close> show ?clash by (metis max.bounded_iff max.cobounded2)
next
  assume ?clash
  then obtain l b where "l \<in> set ls" "lk_owner l \<noteq> lk_owner lck" "lk_start l \<le> b" "b \<le> lk_end l"
    "lk_start lck \<le> b" "b \<le> lk_end lck" "lk_type l = F_WRLCK \<or> lk_type lck = F_WRLCK"
    by (auto simp: covers_def)
  then show ?found unfolding locks_conflict_def find_None_iff not_not by (intro exI [of _ l]) auto
qed

theorem locks_conflict_iff_witness:
  "locks_conflict [sample_lock F_WRLCK 0 99 1, sample_lock F_RDLCK 50 OFF_MAX 2] (sample_lock F_RDLCK 10 19 1) = None \<and>
   \<not> (\<exists>o' t b. covers [sample_lock F_WRLCK 0 99 1, sample_lock F_RDLCK 50 OFF_MAX 2] o' t b \<and> o' \<noteq> 1 \<and> 10 \<le> b \<and> b \<le> 19 \<and>
      (t = F_WRLCK \<or> F_RDLCK = F_WRLCK))"
proof -
  have "locks_conflict [sample_lock F_WRLCK 0 99 1, sample_lock F_RDLCK 50 OFF_MAX 2] (sample_lock F_RDLCK 10 19 1) = None"
    by code_simp
  with locks_conflict_iff [OF sample_locks_ok] show ?thesis by (simp add: sample_lock_def)
qed



end
