(* ===== verification/Hl_Nodes.thy ===== *)
theory Hl_Nodes
  imports Hl_Slab Hl_Table Hl_Locks
begin

text \<open>
  The nodes of libfuse's high-level library, \<^verbatim>\<open>libfuse/lib/fuse.c\<close>: the library knows files by paths and the kernel knows them by
  numbers, and the nodes are in between. A node has a number, a name in a parent node, and the count of the references the
  kernel holds to it. Two hash tables find a node by number and by parent and name. The model keeps nodes in a
  heap; a read of a freed node, a failed assertion and \<^verbatim>\<open>abort\<close> have no result. Requests run one after the
  other, so the wait for a lock that another request holds has no result either.
\<close>

section \<open>State\<close>

text \<open>The part of \<^verbatim>\<open>struct fuse_config\<close> the library reads after it has been set up; the rest chooses signals and messages.\<close>

record fuse_config =
  c_set_gid :: bool
  c_gid :: u32
  c_set_uid :: bool
  c_uid :: u32
  c_set_mode :: bool
  c_umask :: u32
  c_entry_timeout :: rat
  c_negative_timeout :: rat
  c_attr_timeout :: rat
  c_remember :: int
  c_hard_remove :: bool
  c_use_ino :: bool
  c_readdir_ino :: bool
  c_direct_io :: bool
  c_kernel_cache :: bool
  c_auto_cache :: bool
  c_ac_attr_timeout :: rat
  c_nullpath_ok :: bool

text \<open>
  \<^verbatim>\<open>struct node\<close> and \<^verbatim>\<open>struct node_lru\<close>. The links \<^verbatim>\<open>name_next\<close>, \<^verbatim>\<open>id_next\<close> and \<^verbatim>\<open>lru\<close> are in the lists of the tables; the name is
  in \<^verbatim>\<open>inline_name\<close> or in a block of its own.
\<close>

record hl_node =
  n_id :: u64
  n_generation :: u32
  n_refctr :: int
  n_parent :: "addr option"
  n_name :: "string option"
  n_nlookup :: u64
  n_open_count :: int
  n_stat_updated :: timespec
  n_mtime :: timespec
  n_size :: u64
  n_locks :: "hl_lock list"
  n_is_hidden :: bool
  n_cache_valid :: bool
  n_treelock :: int
  n_forget_time :: timespec

definition zero_node :: hl_node where
  "zero_node = \<lparr>n_id = 0, n_generation = 0, n_refctr = 0, n_parent = None, n_name = None, n_nlookup = 0, n_open_count = 0,
     n_stat_updated = zero_time, n_mtime = zero_time, n_size = 0, n_locks = [], n_is_hidden = False, n_cache_valid = False,
     n_treelock = 0, n_forget_time = zero_time\<rparr>"

text \<open>An entry of a directory that was read in whole, and \<^verbatim>\<open>struct fuse_dh\<close>, an open directory.\<close>

record fuse_dh =
  dh_first :: "(string \<times> stat) list"
  dh_contents :: "char list"
  dh_size :: u32
  dh_needlen :: u32
  dh_filled :: bool
  dh_fh :: int
  dh_error :: int
  dh_nodeid :: u64

record 'w hl = "'w machine" +
  hl_nodes :: "addr \<Rightarrow> hl_node option"
  hl_pool :: slab_pool
  name_table :: node_table
  id_table :: node_table
  lru_table :: "addr list"
  hl_ctr :: u64
  hl_generation :: u32
  hl_hidectr :: u32
  hl_conf :: fuse_config
  hl_pagesize :: nat
  hl_dirs :: "addr \<Rightarrow> fuse_dh option"

definition FUSE_UNKNOWN_INO :: u64 where
  "FUSE_UNKNOWN_INO = 0xffffffff"

definition is_root :: "u64 \<Rightarrow> bool" where
  "is_root ino \<longleftrightarrow> unat ino = FUSE_ROOT_ID"

definition lru_enabled :: "('w, 'x) hl_scheme \<Rightarrow> bool" where
  "lru_enabled s \<longleftrightarrow> c_remember (hl_conf s) > 0"

text \<open>The sizes of \<^verbatim>\<open>struct node\<close> and \<^verbatim>\<open>struct node_lru\<close> on a 64-bit machine.\<close>

definition get_node_size :: "('w, 'x) hl_scheme \<Rightarrow> nat" where
  "get_node_size s = (if lru_enabled s then 184 else 152)"

definition upd_node :: "addr \<Rightarrow> (hl_node \<Rightarrow> hl_node) \<Rightarrow> ('w, 'x) hl_scheme \<Rightarrow> ('w, 'x) hl_scheme option" where
  "upd_node p f s = do { n \<leftarrow> hl_nodes s p; Some (s\<lparr>hl_nodes := (hl_nodes s)(p \<mapsto> f n)\<rparr>) }"

section \<open>The table by number\<close>

definition id_key :: "u64 \<Rightarrow> nat" where
  "id_key ino = unat ((ucast ino :: u32) * 2654435761)"

definition id_hash :: "('w, 'x) hl_scheme \<Rightarrow> u64 \<Rightarrow> nat" where
  "id_hash s ino = table_slot (id_table s) (id_key ino)"

text \<open>The hash value of a node of the heap \<open>h\<close>.\<close>

definition id_raw :: "(addr \<Rightarrow> hl_node option) \<Rightarrow> addr \<Rightarrow> nat option" where
  "id_raw h p = do { n \<leftarrow> h p; Some (id_key (n_id n)) }"

definition get_node_nocheck :: "u64 \<Rightarrow> ('w, 'x) hl_scheme \<Rightarrow> addr option option" where
  "get_node_nocheck ino s =
     chain_find (\<lambda>p. do { n \<leftarrow> hl_nodes s p; Some (n_id n = ino) }) (t_array (id_table s) (id_hash s ino))"

definition get_node :: "u64 \<Rightarrow> ('w, 'x) hl_scheme \<Rightarrow> addr option" where
  "get_node ino s = Option.bind (get_node_nocheck ino s) (\<lambda>r. r)"

definition hash_id :: "'w os \<Rightarrow> addr \<Rightarrow> ('w, 'x) hl_scheme \<Rightarrow> ('w, 'x) hl_scheme option" where
  "hash_id os p s = do {
     n \<leftarrow> hl_nodes s p;
     (t, s) \<leftarrow> table_insert os (id_raw (hl_nodes s)) (id_key (n_id n)) p (id_table s) s;
     Some (s\<lparr>id_table := t\<rparr>) }"

definition unhash_id :: "'w os \<Rightarrow> addr \<Rightarrow> ('w, 'x) hl_scheme \<Rightarrow> ('w, 'x) hl_scheme option" where
  "unhash_id os p s = do {
     n \<leftarrow> hl_nodes s p;
     if p \<in> set (t_array (id_table s) (id_hash s (n_id n))) then
       let (t, s) = table_shrink os (table_unlink (id_key (n_id n)) p (id_table s)) s in Some (s\<lparr>id_table := t\<rparr>)
     else Some s }"

section \<open>The table by name\<close>

definition name_key :: "u64 \<Rightarrow> string \<Rightarrow> nat" where
  "name_key parent name = unat (foldl (\<lambda>hash c. hash * 31 + of_nat (of_char c)) parent name)"

definition name_hash :: "('w, 'x) hl_scheme \<Rightarrow> u64 \<Rightarrow> string \<Rightarrow> nat" where
  "name_hash s parent name = table_slot (name_table s) (name_key parent name)"

definition name_raw :: "(addr \<Rightarrow> hl_node option) \<Rightarrow> addr \<Rightarrow> nat option" where
  "name_raw h p = do {
     n \<leftarrow> h p;
     q \<leftarrow> n_parent n;
     parent \<leftarrow> h q;
     name \<leftarrow> n_name n;
     Some (name_key (n_id parent) name) }"

definition lookup_node :: "u64 \<Rightarrow> string \<Rightarrow> ('w, 'x) hl_scheme \<Rightarrow> addr option option" where
  "lookup_node parent name s =
     chain_find (\<lambda>p. do {
         n \<leftarrow> hl_nodes s p;
         q \<leftarrow> n_parent n;
         qn \<leftarrow> hl_nodes s q;
         if n_id qn = parent then do { nm \<leftarrow> n_name n; Some (nm = name) } else Some False })
       (t_array (name_table s) (name_hash s parent name))"

text \<open>\<open>sizeof(node->inline_name)\<close>; a longer name is copied to a block of its own.\<close>

definition INLINE_NAME :: nat where
  "INLINE_NAME = 32"

definition hash_name :: "'w os \<Rightarrow> addr \<Rightarrow> u64 \<Rightarrow> string \<Rightarrow> ('w, 'x) hl_scheme \<Rightarrow> (int \<times> ('w, 'x) hl_scheme) option" where
  "hash_name os p parentid name s = do {
     parent \<leftarrow> get_node parentid s;
     let (ok, s) = (if length name < INLINE_NAME then (True, s) else alloc os s);
     if \<not> ok then do {
       s \<leftarrow> upd_node p (\<lambda>n. n\<lparr>n_name := None\<rparr>) s;
       Some (-1, s) }
     else do {
       s \<leftarrow> upd_node p (\<lambda>n. n\<lparr>n_name := Some name\<rparr>) s;
       s \<leftarrow> upd_node parent (\<lambda>n. n\<lparr>n_refctr := n_refctr n + 1\<rparr>) s;
       s \<leftarrow> upd_node p (\<lambda>n. n\<lparr>n_parent := Some parent\<rparr>) s;
       (t, s) \<leftarrow> table_insert os (name_raw (hl_nodes s)) (name_key parentid name) p (name_table s) s;
       Some (0, s\<lparr>name_table := t\<rparr>) } }"

text \<open>
  \<^verbatim>\<open>unhash_name\<close> up to the call that gives back the reference to the parent, and what follows it. A node without a name is left
  alone.
\<close>

definition detach_name :: "addr \<Rightarrow> ('w, 'x) hl_scheme \<Rightarrow> (addr option \<times> ('w, 'x) hl_scheme) option" where
  "detach_name p s = do {
     n \<leftarrow> hl_nodes s p;
     case n_name n of
       None \<Rightarrow> Some (None, s)
     | Some name \<Rightarrow> do {
         q \<leftarrow> n_parent n;
         parent \<leftarrow> hl_nodes s q;
         let h = name_key (n_id parent) name;
         if p \<in> set (t_array (name_table s) (table_slot (name_table s) h)) then
           Some (Some q, s\<lparr>name_table := table_unlink h p (name_table s)\<rparr>)
         else None } }"

definition clear_name :: "'w os \<Rightarrow> addr \<Rightarrow> ('w, 'x) hl_scheme \<Rightarrow> ('w, 'x) hl_scheme option" where
  "clear_name os p s = do {
     s \<leftarrow> upd_node p (\<lambda>n. n\<lparr>n_name := None, n_parent := None\<rparr>) s;
     let (t, s) = table_shrink os (name_table s) s;
     Some (s\<lparr>name_table := t\<rparr>) }"

section \<open>Deleting nodes\<close>

definition remove_node_lru :: "addr \<Rightarrow> ('w, 'x) hl_scheme \<Rightarrow> ('w, 'x) hl_scheme" where
  "remove_node_lru p s = s\<lparr>lru_table := remove1 p (lru_table s)\<rparr>"

definition curr_time :: "('w \<Rightarrow> timespec \<times> 'w) \<Rightarrow> ('w, 'x) machine_scheme \<Rightarrow> timespec \<times> ('w, 'x) machine_scheme" where
  "curr_time clk s = (let (now, w) = clk (world s) in (now, s\<lparr>world := w\<rparr>))"

definition set_forget_time :: "('w \<Rightarrow> timespec \<times> 'w) \<Rightarrow> addr \<Rightarrow> ('w, 'x) hl_scheme \<Rightarrow> ('w, 'x) hl_scheme option" where
  "set_forget_time clk p s =
     (let s = s\<lparr>lru_table := remove1 p (lru_table s) @ [p]\<rparr>;
          (now, s) = curr_time clk s in
      upd_node p (\<lambda>n. n\<lparr>n_forget_time := now\<rparr>) s)"

definition free_node :: "addr \<Rightarrow> ('w, 'x) hl_scheme \<Rightarrow> ('w, 'x) hl_scheme option" where
  "free_node p s = do {
     pool \<leftarrow> free_node_mem (hl_pagesize s) p (hl_pool s);
     Some (s\<lparr>hl_nodes := (hl_nodes s)(p := None), hl_pool := pool\<rparr>) }"

text \<open>The end of \<^verbatim>\<open>delete_node\<close>, after the name is gone.\<close>

definition delete_rest :: "'w os \<Rightarrow> addr \<Rightarrow> ('w, 'x) hl_scheme \<Rightarrow> ('w, 'x) hl_scheme option" where
  "delete_rest os p s = do {
     let s = (if lru_enabled s then remove_node_lru p s else s);
     s \<leftarrow> unhash_id os p s;
     free_node p s }"

text \<open>
  \<^verbatim>\<open>unref_node\<close>, \<^verbatim>\<open>delete_node\<close> and \<^verbatim>\<open>unhash_name\<close> call each other: a node that is deleted gives back its reference to its parent.
  The first one is the recursive function; the other two are written with it.
\<close>

partial_function (option) unref_node :: "'w os \<Rightarrow> addr \<Rightarrow> ('w, 'x) hl_scheme \<Rightarrow> ('w, 'x) hl_scheme option" where
  "unref_node os p s = do {
     n \<leftarrow> hl_nodes s p;
     if \<not> n_refctr n > 0 then None
     else do {
       s \<leftarrow> upd_node p (\<lambda>n. n\<lparr>n_refctr := n_refctr n - 1\<rparr>) s;
       if n_refctr n - 1 \<noteq> 0 then Some s
       else if n_treelock n \<noteq> 0 then None
       else do {
         (parent, s) \<leftarrow> detach_name p s;
         s \<leftarrow> (case parent of
             None \<Rightarrow> Some s
           | Some q \<Rightarrow> Option.bind (unref_node os q s) (clear_name os p));
         delete_rest os p s } } }"

definition unhash_name :: "'w os \<Rightarrow> addr \<Rightarrow> ('w, 'x) hl_scheme \<Rightarrow> ('w, 'x) hl_scheme option" where
  "unhash_name os p s = do {
     (parent, s) \<leftarrow> detach_name p s;
     case parent of
       None \<Rightarrow> Some s
     | Some q \<Rightarrow> Option.bind (unref_node os q s) (clear_name os p) }"

definition delete_node :: "'w os \<Rightarrow> addr \<Rightarrow> ('w, 'x) hl_scheme \<Rightarrow> ('w, 'x) hl_scheme option" where
  "delete_node os p s = do {
     n \<leftarrow> hl_nodes s p;
     if n_treelock n \<noteq> 0 then None
     else do {
       s \<leftarrow> unhash_name os p s;
       delete_rest os p s } }"

section \<open>Finding and forgetting\<close>

partial_function (option) next_id :: "('w, 'x) hl_scheme \<Rightarrow> (u64 \<times> ('w, 'x) hl_scheme) option" where
  "next_id s =
     (let c = (hl_ctr s + 1) AND 0xffffffff;
          s = s\<lparr>hl_ctr := c, hl_generation := (if c = 0 then hl_generation s + 1 else hl_generation s)\<rparr> in
      if c = 0 \<or> c = FUSE_UNKNOWN_INO then next_id s
      else do {
        r \<leftarrow> get_node_nocheck c s;
        if r \<noteq> None then next_id s else Some (c, s) })"

definition inc_nlookup :: "addr \<Rightarrow> ('w, 'x) hl_scheme \<Rightarrow> ('w, 'x) hl_scheme option" where
  "inc_nlookup p s =
     upd_node p (\<lambda>n. n\<lparr>n_refctr := (if n_nlookup n = 0 then n_refctr n + 1 else n_refctr n), n_nlookup := n_nlookup n + 1\<rparr>) s"

text \<open>The part of \<^verbatim>\<open>find_node\<close> that makes a new node; the result is \<open>None\<close> if there is no memory.\<close>

definition new_node :: "'w os \<Rightarrow> u64 \<Rightarrow> string \<Rightarrow> ('w, 'x) hl_scheme \<Rightarrow> (addr option \<times> ('w, 'x) hl_scheme) option" where
  "new_node os parent name s = do {
     (r, pool, s) \<leftarrow> alloc_node os (hl_pagesize s) (get_node_size s) (hl_pool s) s;
     let s = s\<lparr>hl_pool := pool\<rparr>;
     case r of
       None \<Rightarrow> Some (None, s)
     | Some p \<Rightarrow> do {
         let s = s\<lparr>hl_nodes := (hl_nodes s)(p \<mapsto> zero_node)\<rparr>;
         (nodeid, s) \<leftarrow> next_id s;
         s \<leftarrow> upd_node p (\<lambda>n. n\<lparr>n_id := nodeid, n_generation := hl_generation s\<rparr>) s;
         s \<leftarrow> (if c_remember (hl_conf s) \<noteq> 0 then inc_nlookup p s else Some s);
         (err, s) \<leftarrow> hash_name os p parent name s;
         if err = -1 then do {
           s \<leftarrow> free_node p s;
           Some (None, s) }
         else do {
           s \<leftarrow> hash_id os p s;
           Some (Some p, s) } } }"

definition find_node :: "'w os \<Rightarrow> u64 \<Rightarrow> string option \<Rightarrow> ('w, 'x) hl_scheme \<Rightarrow>
    (addr option \<times> ('w, 'x) hl_scheme) option" where
  "find_node os parent name s = do {
     let s = lock FsMutex s;
     node \<leftarrow> (case name of
         None \<Rightarrow> map_option Some (get_node parent s)
       | Some name \<Rightarrow> lookup_node parent name s);
     (node, s) \<leftarrow> (case (node, name) of
         (None, Some name) \<Rightarrow> new_node os parent name s
       | (None, None) \<Rightarrow> None
       | (Some p, _) \<Rightarrow> do {
           n \<leftarrow> hl_nodes s p;
           Some (Some p, if lru_enabled s \<and> n_nlookup n = 1 then remove_node_lru p s else s) });
     case node of
       None \<Rightarrow> Some (None, unlock FsMutex s)
     | Some p \<Rightarrow> do {
         s \<leftarrow> inc_nlookup p s;
         Some (Some p, unlock FsMutex s) } }"

definition forget_node :: "'w os \<Rightarrow> ('w \<Rightarrow> timespec \<times> 'w) \<Rightarrow> u64 \<Rightarrow> u64 \<Rightarrow> ('w, 'x) hl_scheme \<Rightarrow>
    ('w, 'x) hl_scheme option" where
  "forget_node os clk nodeid nlookup s =
     (if is_root nodeid then Some s
      else do {
        let s = lock FsMutex s;
        p \<leftarrow> get_node nodeid s;
        n \<leftarrow> hl_nodes s p;
        if n_nlookup n = nlookup \<and> n_treelock n \<noteq> 0 then None
        else if \<not> n_nlookup n \<ge> nlookup then None
        else do {
          let left = n_nlookup n - nlookup;
          s \<leftarrow> upd_node p (\<lambda>n. n\<lparr>n_nlookup := left\<rparr>) s;
          s \<leftarrow> (if left = 0 then unref_node os p s
               else if lru_enabled s \<and> left = 1 then set_forget_time clk p s
               else Some s);
          Some (unlock FsMutex s) } })"

section \<open>Removing and renaming\<close>

definition unlink_node :: "'w os \<Rightarrow> addr \<Rightarrow> ('w, 'x) hl_scheme \<Rightarrow> ('w, 'x) hl_scheme option" where
  "unlink_node os p s = do {
     n \<leftarrow> hl_nodes s p;
     if c_remember (hl_conf s) \<noteq> 0 then
       if \<not> n_nlookup n > 1 then None
       else do {
         s \<leftarrow> upd_node p (\<lambda>n. n\<lparr>n_nlookup := n_nlookup n - 1\<rparr>) s;
         unhash_name os p s }
     else unhash_name os p s }"

definition remove_node :: "'w os \<Rightarrow> u64 \<Rightarrow> string \<Rightarrow> ('w, 'x) hl_scheme \<Rightarrow> ('w, 'x) hl_scheme option" where
  "remove_node os dir name s = do {
     let s = lock FsMutex s;
     node \<leftarrow> lookup_node dir name s;
     s \<leftarrow> (case node of None \<Rightarrow> Some s | Some p \<Rightarrow> unlink_node os p s);
     Some (unlock FsMutex s) }"

definition EBUSY :: errno where [const_defs]: "EBUSY = 16"

definition rename_node :: "'w os \<Rightarrow> u64 \<Rightarrow> string \<Rightarrow> u64 \<Rightarrow> string \<Rightarrow> bool \<Rightarrow> ('w, 'x) hl_scheme \<Rightarrow>
    (int \<times> ('w, 'x) hl_scheme) option" where
  "rename_node os olddir oldname newdir newname hide s = do {
     let s = lock FsMutex s;
     node \<leftarrow> lookup_node olddir oldname s;
     newnode \<leftarrow> lookup_node newdir newname s;
     (err, s) \<leftarrow> (case node of
         None \<Rightarrow> Some (0, s)
       | Some p \<Rightarrow>
           if newnode \<noteq> None \<and> hide then Some (- EBUSY, s)
           else do {
             s \<leftarrow> (case newnode of None \<Rightarrow> Some s | Some q \<Rightarrow> unlink_node os q s);
             s \<leftarrow> unhash_name os p s;
             (r, s) \<leftarrow> hash_name os p newdir newname s;
             if r = -1 then Some (- ENOMEM, s)
             else if hide then do {
               s \<leftarrow> upd_node p (\<lambda>n. n\<lparr>n_is_hidden := True\<rparr>) s;
               Some (0, s) }
             else Some (0, s) });
     Some (err, unlock FsMutex s) }"

definition exchange_node :: "'w os \<Rightarrow> u64 \<Rightarrow> string \<Rightarrow> u64 \<Rightarrow> string \<Rightarrow> ('w, 'x) hl_scheme \<Rightarrow>
    (int \<times> ('w, 'x) hl_scheme) option" where
  "exchange_node os olddir oldname newdir newname s = do {
     let s = lock FsMutex s;
     oldnode \<leftarrow> lookup_node olddir oldname s;
     newnode \<leftarrow> lookup_node newdir newname s;
     s \<leftarrow> (case oldnode of None \<Rightarrow> Some s | Some p \<Rightarrow> unhash_name os p s);
     s \<leftarrow> (case newnode of None \<Rightarrow> Some s | Some q \<Rightarrow> unhash_name os q s);
     (r, s) \<leftarrow> (case oldnode of None \<Rightarrow> Some (0, s) | Some p \<Rightarrow> hash_name os p newdir newname s);
     if r = -1 then Some (- ENOMEM, unlock FsMutex s)
     else do {
       (r, s) \<leftarrow> (case newnode of None \<Rightarrow> Some (0, s) | Some q \<Rightarrow> hash_name os q olddir oldname s);
       Some (if r = -1 then - ENOMEM else 0, unlock FsMutex s) } }"

definition set_stat :: "('w, 'x) hl_scheme \<Rightarrow> u64 \<Rightarrow> stat \<Rightarrow> stat" where
  "set_stat s nodeid st =
     (let c = hl_conf s;
          st = (if c_use_ino c then st else st\<lparr>st_ino := nodeid\<rparr>);
          st = (if c_set_mode c then st\<lparr>st_mode := (st_mode st AND S_IFMT) OR (0x1FF AND NOT (c_umask c))\<rparr> else st);
          st = (if c_set_uid c then st\<lparr>st_uid := c_uid c\<rparr> else st) in
      if c_set_gid c then st\<lparr>st_gid := c_gid c\<rparr> else st)"

section \<open>The cleaning of remembered nodes\<close>

definition diff_timespec :: "timespec \<Rightarrow> timespec \<Rightarrow> rat" where
  "diff_timespec t1 t2 = of_int (tv_sec t1 - tv_sec t2) + (of_int (tv_nsec t1) - of_int (tv_nsec t2)) / 1000000000"

definition clean_delay :: "('w, 'x) hl_scheme \<Rightarrow> int" where
  "clean_delay s =
     (let sleep_time = c_remember (hl_conf s) div 10 in
      if sleep_time > 3600 then 3600 else if sleep_time < 60 then 60 else sleep_time)"

fun clean_loop :: "'w os \<Rightarrow> timespec \<Rightarrow> addr list \<Rightarrow> ('w, 'x) hl_scheme \<Rightarrow> ('w, 'x) hl_scheme option" where
  "clean_loop os now [] s = Some s"
| "clean_loop os now (p # ps) s = do {
     n \<leftarrow> hl_nodes s p;
     if diff_timespec now (n_forget_time n) \<le> of_int (c_remember (hl_conf s)) then Some s
     else if n_nlookup n \<noteq> 1 then None
     else if n_refctr n > 1 then clean_loop os now ps s
     else do {
       s \<leftarrow> upd_node p (\<lambda>n. n\<lparr>n_nlookup := 0\<rparr>) s;
       s \<leftarrow> unhash_name os p s;
       s \<leftarrow> unref_node os p s;
       clean_loop os now ps s } }"

definition fuse_clean_cache :: "'w os \<Rightarrow> ('w \<Rightarrow> timespec \<times> 'w) \<Rightarrow> ('w, 'x) hl_scheme \<Rightarrow> (int \<times> ('w, 'x) hl_scheme) option" where
  "fuse_clean_cache os clk s = do {
     let s = lock FsMutex s;
     let (now, s) = curr_time clk s;
     s \<leftarrow> clean_loop os now (lru_table s) s;
     Some (clean_delay s, unlock FsMutex s) }"

end
