(* ===== verification/Hl_Nodes_Inv.thy ===== *)
theory Hl_Nodes_Inv
  imports Hl_Nodes
begin

text \<open>
  The invariant of the nodes and their tables. The nodes form a forest of parents; a node's counter is the number of its
  children, plus one while the kernel holds references. Both tables find every node. In the midst of a deletion some nodes are
  out of the table by name but still have a parent (\<open>L\<close>), and some counters are ahead of the structure (\<open>X\<close>).
\<close>

section \<open>The forest\<close>

definition parent_of :: "(addr \<Rightarrow> hl_node option) \<Rightarrow> addr \<Rightarrow> addr option" where
  "parent_of h p = do { n \<leftarrow> h p; n_parent n }"

definition kids :: "(addr \<Rightarrow> hl_node option) \<Rightarrow> addr set \<Rightarrow> addr \<Rightarrow> addr set" where
  "kids h L q = {p. p \<notin> L \<and> parent_of h p = Some q}"

text \<open>A node is pinned if the kernel holds a reference to it or to a node below it.\<close>

inductive pinned :: "(addr \<Rightarrow> hl_node option) \<Rightarrow> addr set \<Rightarrow> addr \<Rightarrow> bool" for h L where
  held: "h p = Some n \<Longrightarrow> n_nlookup n \<noteq> 0 \<Longrightarrow> pinned h L p"
| below: "pinned h L p \<Longrightarrow> p \<notin> L \<Longrightarrow> parent_of h p = Some q \<Longrightarrow> pinned h L q"

inductive_cases pinnedE: "pinned h L p"

text \<open>\<open>rank\<close> shows that the parents have no cycle.\<close>

definition node_ok :: "(addr \<Rightarrow> nat) \<Rightarrow> (addr \<Rightarrow> hl_node option) \<Rightarrow> addr set \<Rightarrow> (addr \<Rightarrow> int) \<Rightarrow> addr \<Rightarrow> hl_node \<Rightarrow> bool" where
  "node_ok rank h L X p n \<longleftrightarrow>
     n_refctr n = (if n_nlookup n = 0 then 0 else 1) + int (card (kids h L p)) + X p \<and>
     (is_root (n_id n) \<longrightarrow> n_nlookup n \<noteq> 0 \<and> n_parent n = None) \<and>
     (p \<notin> L \<longrightarrow> (case n_parent n of
         None \<Rightarrow> n_name n \<noteq> None \<longrightarrow> is_root (n_id n)
       | Some q \<Rightarrow> h q \<noteq> None \<and> rank q < rank p \<and> n_name n \<noteq> None))"

definition tree_ok :: "(addr \<Rightarrow> nat) \<Rightarrow> (addr \<Rightarrow> hl_node option) \<Rightarrow> addr set \<Rightarrow> (addr \<Rightarrow> int) \<Rightarrow> bool" where
  "tree_ok rank h L X \<longleftrightarrow> finite (dom h) \<and> (\<forall>p n. h p = Some n \<longrightarrow> node_ok rank h L X p n) \<and>
     (\<exists>r n. h r = Some n \<and> is_root (n_id n)) \<and>
     (\<forall>p n p' n'. h p = Some n \<longrightarrow> h p' = Some n' \<longrightarrow> n_id n = n_id n' \<longrightarrow> p = p') \<and>
     (\<forall>p n p' n'. h p = Some n \<longrightarrow> h p' = Some n' \<longrightarrow> p \<notin> L \<longrightarrow> p' \<notin> L \<longrightarrow> n_parent n \<noteq> None \<longrightarrow>
        n_parent n = n_parent n' \<longrightarrow> n_name n = n_name n' \<longrightarrow> p = p')"

section \<open>The whole state\<close>

definition ids_ok :: "(addr \<Rightarrow> hl_node option) \<Rightarrow> node_table \<Rightarrow> bool" where
  "ids_ok h t \<longleftrightarrow> table_ok (id_raw h) t \<and> members t = dom h"

definition names_ok :: "(addr \<Rightarrow> hl_node option) \<Rightarrow> addr set \<Rightarrow> node_table \<Rightarrow> bool" where
  "names_ok h L t \<longleftrightarrow> table_ok (name_raw h) t \<and> members t = {p. parent_of h p \<noteq> None} - L"

definition lru_ok :: "('w, 'x) hl_scheme \<Rightarrow> bool" where
  "lru_ok s \<longleftrightarrow> distinct (lru_table s) \<and> (\<not> lru_enabled s \<longrightarrow> lru_table s = []) \<and>
     (\<forall>p \<in> set (lru_table s). \<exists>n. hl_nodes s p = Some n \<and> n_nlookup n = 1)"

definition hl_ok :: "(addr \<Rightarrow> nat) \<Rightarrow> addr set \<Rightarrow> (addr \<Rightarrow> int) \<Rightarrow> ('w, 'x) hl_scheme \<Rightarrow> bool" where
  "hl_ok rank L X s \<longleftrightarrow> tree_ok rank (hl_nodes s) L X \<and> ids_ok (hl_nodes s) (id_table s) \<and>
     names_ok (hl_nodes s) L (name_table s) \<and> lru_ok s \<and>
     pool_ok (hl_pagesize s) (get_node_size s) (dom (hl_nodes s)) (brk s) (hl_pool s)"

text \<open>The invariant between two operations: nothing is in the midst of a deletion, and every node is needed.\<close>

definition hl_wf :: "('w, 'x) hl_scheme \<Rightarrow> bool" where
  "hl_wf s \<longleftrightarrow> (\<exists>rank. hl_ok rank {} (\<lambda>_. 0) s) \<and> (\<forall>p n. hl_nodes s p = Some n \<longrightarrow> n_refctr n > 0)"

definition locks_pinned :: "(addr \<Rightarrow> hl_node option) \<Rightarrow> addr set \<Rightarrow> bool" where
  "locks_pinned h L \<longleftrightarrow> (\<forall>p n. h p = Some n \<longrightarrow> n_treelock n \<noteq> 0 \<longrightarrow> pinned h L p)"

lemma tree_node: "tree_ok rank h L X \<Longrightarrow> h p = Some n \<Longrightarrow> node_ok rank h L X p n"
  by (simp add: tree_ok_def)

lemma tree_finite: "tree_ok rank h L X \<Longrightarrow> finite (dom h)"
  by (simp add: tree_ok_def)

lemma tree_root: "tree_ok rank h L X \<Longrightarrow> \<exists>r n. h r = Some n \<and> is_root (n_id n)"
  by (simp add: tree_ok_def)

lemma tree_ids: "tree_ok rank h L X \<Longrightarrow> h p = Some n \<Longrightarrow> h p' = Some n' \<Longrightarrow> n_id n = n_id n' \<Longrightarrow> p = p'"
  unfolding tree_ok_def by metis

lemma tree_keys:
  "tree_ok rank h L X \<Longrightarrow> h p = Some n \<Longrightarrow> h p' = Some n' \<Longrightarrow> p \<notin> L \<Longrightarrow> p' \<notin> L \<Longrightarrow> n_parent n = Some q \<Longrightarrow>
   n_parent n' = Some q \<Longrightarrow> n_name n = n_name n' \<Longrightarrow> p = p'"
  unfolding tree_ok_def by (metis option.distinct(1))

lemma tree_okI:
  assumes "finite (dom h)" "\<And>p n. h p = Some n \<Longrightarrow> node_ok rank h L X p n" "\<exists>r n. h r = Some n \<and> is_root (n_id n)"
    and "\<And>p n p' n'. h p = Some n \<Longrightarrow> h p' = Some n' \<Longrightarrow> n_id n = n_id n' \<Longrightarrow> p = p'"
    and "\<And>p n p' n' q. h p = Some n \<Longrightarrow> h p' = Some n' \<Longrightarrow> p \<notin> L \<Longrightarrow> p' \<notin> L \<Longrightarrow> n_parent n = Some q \<Longrightarrow>
      n_parent n' = Some q \<Longrightarrow> n_name n = n_name n' \<Longrightarrow> p = p'"
  shows "tree_ok rank h L X"
proof -
  have "p = p'" if "h p = Some n" "h p' = Some n'" "p \<notin> L" "p' \<notin> L" "n_parent n \<noteq> None" "n_parent n = n_parent n'"
      "n_name n = n_name n'" for p n p' n'
    using that assms(5) by (metis option.exhaust)
  then show ?thesis using assms(1-4) unfolding tree_ok_def by blast
qed

lemma tree_refctr:
  "tree_ok rank h L X \<Longrightarrow> h p = Some n \<Longrightarrow> n_refctr n = (if n_nlookup n = 0 then 0 else 1) + int (card (kids h L p)) + X p"
  using tree_node [of rank h L X p n] by (simp add: node_ok_def)

lemma tree_parent:
  assumes "tree_ok rank h L X" "h p = Some n" "p \<notin> L" "n_parent n = Some q"
  shows "h q \<noteq> None" "rank q < rank p" "n_name n \<noteq> None" "\<not> is_root (n_id n)"
  using tree_node [OF assms(1,2)] assms(3,4) by (auto simp: node_ok_def)

lemma kids_finite: "tree_ok rank h L X \<Longrightarrow> finite (kids h M q)"
  by (rule finite_subset [of _ "dom h"]) (auto simp: kids_def parent_of_def tree_ok_def split: bind_splits)

lemma parent_of_upd:
  "h p = Some n \<Longrightarrow> n_parent n' = n_parent n \<Longrightarrow> parent_of (h(p \<mapsto> n')) = parent_of h"
  by (auto simp: parent_of_def fun_eq_iff)

text \<open>The hash values depend on numbers, names and parents only.\<close>

lemma id_raw_upd: "h p = Some n \<Longrightarrow> n_id n' = n_id n \<Longrightarrow> id_raw (h(p \<mapsto> n')) = id_raw h"
  by (auto simp: id_raw_def fun_eq_iff)

lemma name_raw_upd:
  "h p = Some n \<Longrightarrow> n_id n' = n_id n \<Longrightarrow> n_parent n' = n_parent n \<Longrightarrow> n_name n' = n_name n \<Longrightarrow>
   name_raw (h(p \<mapsto> n')) = name_raw h"
  by (auto simp: name_raw_def fun_eq_iff split: bind_splits)

section \<open>Changing a node\<close>

lemma kids_upd: "h p = Some n \<Longrightarrow> n_parent n' = n_parent n \<Longrightarrow> kids (h(p \<mapsto> n')) = kids h"
  by (simp add: kids_def parent_of_upd fun_eq_iff)

text \<open>A change that keeps number, parent and name.\<close>

definition keeps_place :: "hl_node \<Rightarrow> hl_node \<Rightarrow> bool" where
  "keeps_place n n' \<longleftrightarrow> n_id n' = n_id n \<and> n_parent n' = n_parent n \<and> n_name n' = n_name n"

lemma keeps_place_simps [simp]:
  "keeps_place n n" "keeps_place n (n\<lparr>n_refctr := r\<rparr>)" "keeps_place n (n\<lparr>n_nlookup := k\<rparr>)"
  "keeps_place n (n\<lparr>n_refctr := r, n_nlookup := k\<rparr>)" "keeps_place n (n\<lparr>n_treelock := lk\<rparr>)"
  "keeps_place n (n\<lparr>n_forget_time := ft\<rparr>)" "keeps_place n (n\<lparr>n_is_hidden := b\<rparr>)" "keeps_place n (n\<lparr>n_open_count := oc\<rparr>)"
  "keeps_place n (n\<lparr>n_cache_valid := b\<rparr>)" "keeps_place n (n\<lparr>n_locks := ls\<rparr>)"
  by (simp_all add: keeps_place_def)

lemma tree_upd:
  assumes ok: "tree_ok rank h L X" and n: "h p = Some n" and place: "keeps_place n n'"
    and ref: "n_refctr n' = (if n_nlookup n' = 0 then 0 else 1) + int (card (kids h L p)) + X' p"
    and root: "is_root (n_id n) \<Longrightarrow> n_nlookup n' \<noteq> 0" and X': "\<And>q. q \<noteq> p \<Longrightarrow> X' q = X q"
  shows "tree_ok rank (h(p \<mapsto> n')) L X'"
proof -
  let ?h = "h(p \<mapsto> n')"
  have k: "kids ?h = kids h" using kids_upd [of h p n n'] n place by (simp add: keeps_place_def)
  have old: "\<exists>k. h q = Some k \<and> keeps_place k m" if "?h q = Some m" for q m
    using that n place by (cases "q = p") auto
  have "node_ok rank ?h L X' q m" if "?h q = Some m" for q m
  proof (cases "q = p")
    case True
    then show ?thesis using that tree_node [OF ok n] place ref root unfolding node_ok_def k
      by (auto simp: keeps_place_def split: option.splits)
  next
    case False
    then show ?thesis using that tree_node [OF ok, of q m] X' [OF False] unfolding node_ok_def k by (auto split: option.splits)
  qed
  then show ?thesis
  proof (rule tree_okI [rotated])
    obtain r m where "h r = Some m" "is_root (n_id m)" using tree_root [OF ok] by blast
    then show "\<exists>r m. ?h r = Some m \<and> is_root (n_id m)" using n place by (cases "r = p") (auto simp: keeps_place_def)
  next
    fix q m q' m' assume a: "?h q = Some m" "?h q' = Some m'" "n_id m = n_id m'"
    then show "q = q'" using old [OF a(1)] old [OF a(2)] tree_ids [OF ok] by (auto simp: keeps_place_def)
  next
    fix q m q' m' r assume a: "?h q = Some m" "?h q' = Some m'" "q \<notin> L" "q' \<notin> L" "n_parent m = Some r" "n_parent m' = Some r"
      "n_name m = n_name m'"
    obtain k k' where b: "h q = Some k" "keeps_place k m" "h q' = Some k'" "keeps_place k' m'"
      using old [OF a(1)] old [OF a(2)] by blast
    have "n_parent k = Some r" "n_parent k' = Some r" "n_name k = n_name k'" using a(5-7) b(2,4) unfolding keeps_place_def by metis+
    then show "q = q'" by (rule tree_keys [OF ok b(1,3) a(3,4)])
  next
    show "finite (dom ?h)" unfolding dom_fun_upd using tree_finite [OF ok] by simp
  qed
qed

lemma dom_upd: "h p = Some n \<Longrightarrow> dom (h(p \<mapsto> n')) = dom h"
  by auto

lemma hl_upd:
  assumes ok: "hl_ok rank L X s" and n: "hl_nodes s p = Some n" and place: "keeps_place n n'"
    and ref: "n_refctr n' = (if n_nlookup n' = 0 then 0 else 1) + int (card (kids (hl_nodes s) L p)) + X' p"
    and root: "is_root (n_id n) \<Longrightarrow> n_nlookup n' \<noteq> 0" and X': "\<And>q. q \<noteq> p \<Longrightarrow> X' q = X q"
    and lru: "p \<in> set (lru_table s) \<Longrightarrow> n_nlookup n' = 1"
  shows "hl_ok rank L X' (s\<lparr>hl_nodes := (hl_nodes s)(p \<mapsto> n')\<rparr>)"
proof -
  have ids: "id_raw ((hl_nodes s)(p \<mapsto> n')) = id_raw (hl_nodes s)"
    using id_raw_upd [of "hl_nodes s" p n n'] n place by (simp add: keeps_place_def)
  have names: "name_raw ((hl_nodes s)(p \<mapsto> n')) = name_raw (hl_nodes s)"
    using name_raw_upd [of "hl_nodes s" p n n'] n place by (simp add: keeps_place_def)
  have par: "parent_of ((hl_nodes s)(p \<mapsto> n')) = parent_of (hl_nodes s)"
    using parent_of_upd [of "hl_nodes s" p n n'] n place by (simp add: keeps_place_def)
  have tree: "tree_ok rank (hl_nodes s) L X" using ok by (simp add: hl_ok_def)
  have "tree_ok rank ((hl_nodes s)(p \<mapsto> n')) L X'" by (rule tree_upd [OF tree n place ref root X'])
  moreover have "lru_ok (s\<lparr>hl_nodes := (hl_nodes s)(p \<mapsto> n')\<rparr>)"
    using ok lru by (auto simp: hl_ok_def lru_ok_def lru_enabled_def)
  ultimately show ?thesis
    using ok n unfolding hl_ok_def ids_ok_def names_ok_def
    by (simp add: ids names par get_node_size_def lru_enabled_def dom_upd del: dom_fun_upd)
qed

text \<open>Dropping a reference that is ahead of the structure.\<close>

lemma hl_dec:
  assumes "hl_ok rank L X s" "hl_nodes s p = Some n"
  shows "hl_ok rank L (X(p := X p - 1)) (s\<lparr>hl_nodes := (hl_nodes s)(p \<mapsto> n\<lparr>n_refctr := n_refctr n - 1\<rparr>)\<rparr>)"
proof (rule hl_upd [OF assms])
  show "n_refctr (n\<lparr>n_refctr := n_refctr n - 1\<rparr>) = (if n_nlookup (n\<lparr>n_refctr := n_refctr n - 1\<rparr>) = 0 then 0 else 1) +
      int (card (kids (hl_nodes s) L p)) + (X(p := X p - 1)) p"
    using tree_refctr [of rank "hl_nodes s" L X p n] assms by (simp add: hl_ok_def)
  show "is_root (n_id n) \<Longrightarrow> n_nlookup (n\<lparr>n_refctr := n_refctr n - 1\<rparr>) \<noteq> 0"
    using tree_node [of rank "hl_nodes s" L X p n] assms by (simp add: hl_ok_def node_ok_def)
  show "p \<in> set (lru_table s) \<Longrightarrow> n_nlookup (n\<lparr>n_refctr := n_refctr n - 1\<rparr>) = 1"
    using assms by (auto simp: hl_ok_def lru_ok_def)
qed simp_all

section \<open>The steps of a deletion\<close>

lemma name_raw_parent:
  "h p = Some n \<Longrightarrow> n_parent n = Some q \<Longrightarrow> h q = Some m \<Longrightarrow> n_name n = Some nm \<Longrightarrow> name_raw h p = Some (name_key (n_id m) nm)"
  by (simp add: name_raw_def)

lemma kids_insert: "kids h (insert p L) q = kids h L q - {p}"
  by (auto simp: kids_def)

lemma detach_ok:
  assumes ok: "hl_ok rank L X s" and n: "hl_nodes s p = Some n" "p \<notin> L" "n_parent n = Some q"
  obtains t where "detach_name p s = Some (Some q, s\<lparr>name_table := t\<rparr>)"
    "hl_ok rank (insert p L) (X(q := X q + 1)) (s\<lparr>name_table := t\<rparr>)"
proof -
  let ?h = "hl_nodes s"
  have tree: "tree_ok rank ?h L X" and names: "names_ok ?h L (name_table s)" using ok by (simp_all add: hl_ok_def)
  obtain m nm where m: "?h q = Some m" "n_name n = Some nm" using tree_parent [OF tree n] by blast
  let ?k = "name_key (n_id m) nm" and ?t = "table_unlink (name_key (n_id m) nm) p (name_table s)"
  have raw: "name_raw ?h p = Some ?k" using name_raw_parent n(1,3) m by blast
  have tok: "table_ok (name_raw ?h) (name_table s)" "members (name_table s) = {p. parent_of ?h p \<noteq> None} - L"
    using names by (simp_all add: names_ok_def)
  have "p \<in> members (name_table s)" using n tok(2) by (simp add: parent_of_def)
  then have "p \<in> set (t_array (name_table s) (table_slot (name_table s) ?k))" using member_bucket [OF tok(1) raw] by simp
  then have d: "detach_name p s = Some (Some q, s\<lparr>name_table := ?t\<rparr>)" using n m by (simp add: detach_name_def)
  have names': "names_ok ?h (insert p L) ?t"
    using table_unlink_ok [OF tok(1) raw] tok(2) by (auto simp: names_ok_def)
  have pq: "p \<in> kids ?h L q" using n by (simp add: kids_def parent_of_def)
  have card: "int (card (kids ?h (insert p L) r)) + (X(q := X q + 1)) r = int (card (kids ?h L r)) + X r" for r
  proof (cases "r = q")
    case True
    then show ?thesis using card_Suc_Diff1 [OF kids_finite [OF tree] pq] by (simp add: kids_insert)
  next
    case False
    then have "p \<notin> kids ?h L r" using n by (simp add: kids_def parent_of_def)
    then show ?thesis using False by (simp add: kids_insert)
  qed
  have "node_ok rank ?h (insert p L) (X(q := X q + 1)) r k" if "?h r = Some k" for r k
    using tree_node [OF tree that] card [of r] by (auto simp: node_ok_def)
  then have "tree_ok rank ?h (insert p L) (X(q := X q + 1))"
    by (rule tree_okI [OF tree_finite [OF tree] _ tree_root [OF tree]]) (use tree_ids [OF tree] tree_keys [OF tree] in auto)
  then have "hl_ok rank (insert p L) (X(q := X q + 1)) (s\<lparr>name_table := ?t\<rparr>)"
    using ok names' by (simp add: hl_ok_def lru_ok_def lru_enabled_def get_node_size_def)
  with d show thesis by (rule that)
qed

text \<open>The parts of the state that no step of a deletion touches.\<close>

definition rest_same :: "('w, 'x) hl_scheme \<Rightarrow> ('w, 'x) hl_scheme \<Rightarrow> bool" where
  "rest_same s s' \<longleftrightarrow> mem s' = mem s \<and> brk s' = brk s \<and> hl_conf s' = hl_conf s \<and> hl_pagesize s' = hl_pagesize s \<and>
     hl_ctr s' = hl_ctr s \<and> hl_generation s' = hl_generation s \<and> hl_hidectr s' = hl_hidectr s \<and> hl_dirs s' = hl_dirs s \<and>
     hl.more s' = hl.more s"

lemma rest_same_refl [simp]: "rest_same s s"
  by (simp add: rest_same_def)

lemma rest_same_trans: "rest_same s s' \<Longrightarrow> rest_same s' s'' \<Longrightarrow> rest_same s s''"
  by (simp add: rest_same_def)

lemma rest_same_upd [simp]:
  "rest_same s (s\<lparr>hl_nodes := h\<rparr>)" "rest_same s (s\<lparr>name_table := t\<rparr>)" "rest_same s (s\<lparr>id_table := t\<rparr>)"
  "rest_same s (s\<lparr>lru_table := l\<rparr>)" "rest_same s (s\<lparr>hl_pool := sp\<rparr>)" "rest_same s (s\<lparr>hl_nodes := h, hl_pool := sp\<rparr>)"
  by (simp_all add: rest_same_def)

lemma alloc_only_hl:
  fixes s s' :: "('w, 'x) hl_scheme"
  assumes "alloc_only s s'"
  shows "rest_same s s'" "hl_nodes s' = hl_nodes s" "name_table s' = name_table s" "id_table s' = id_table s"
    "lru_table s' = lru_table s" "hl_pool s' = hl_pool s"
  using assms by (cases s; cases s'; simp add: alloc_only_def rest_same_def)+

lemma rest_same_size: "rest_same s s' \<Longrightarrow> get_node_size s' = get_node_size s" "rest_same s s' \<Longrightarrow> lru_enabled s' = lru_enabled s"
  by (simp_all add: rest_same_def get_node_size_def lru_enabled_def)

lemma hl_ok_cong:
  assumes "hl_ok rank L X s" "rest_same s s'" "hl_nodes s' = hl_nodes s" "name_table s' = name_table s" "id_table s' = id_table s"
    "lru_table s' = lru_table s" "hl_pool s' = hl_pool s"
  shows "hl_ok rank L X s'"
  using assms rest_same_size [OF assms(2)] by (simp add: hl_ok_def lru_ok_def rest_same_def)

lemma hl_okI:
  assumes "rest_same s s'" "tree_ok rank (hl_nodes s') L X" "ids_ok (hl_nodes s') (id_table s')"
    and "names_ok (hl_nodes s') L (name_table s')" "lru_ok s'"
    and "pool_ok (hl_pagesize s) (get_node_size s) (dom (hl_nodes s')) (brk s) (hl_pool s')"
  shows "hl_ok rank L X s'"
  using assms rest_same_size(1) [OF assms(1)] unfolding hl_ok_def rest_same_def by simp

lemma lru_ok_same:
  assumes "lru_ok s" "rest_same s s'" "lru_table s' = lru_table s"
    and "\<And>p n. p \<in> set (lru_table s) \<Longrightarrow> hl_nodes s p = Some n \<Longrightarrow> \<exists>n'. hl_nodes s' p = Some n' \<and> n_nlookup n' = n_nlookup n"
  shows "lru_ok s'"
  using assms rest_same_size(2) [OF assms(2)] unfolding lru_ok_def by metis

lemma clear_ok:
  assumes ok: "hl_ok rank (insert p L) X s" and n: "hl_nodes s p = Some n" "p \<notin> L" "\<not> is_root (n_id n)"
  obtains s' where "clear_name os p s = Some s'" "hl_ok rank L X s'" "rest_same s s'" "lru_table s' = lru_table s"
    "hl_nodes s' = (hl_nodes s)(p \<mapsto> n\<lparr>n_name := None, n_parent := None\<rparr>)"
proof -
  let ?n = "n\<lparr>n_name := None, n_parent := None\<rparr>"
  let ?h = "hl_nodes s" and ?h' = "(hl_nodes s)(p \<mapsto> n\<lparr>n_name := None, n_parent := None\<rparr>)"
  let ?s = "s\<lparr>hl_nodes := ?h'\<rparr>"
  have tree: "tree_ok rank ?h (insert p L) X" using ok by (simp add: hl_ok_def)
  have par: "parent_of ?h' = (parent_of ?h)(p := None)" using n by (auto simp: parent_of_def fun_eq_iff)
  have kids: "kids ?h' L = kids ?h (insert p L)" by (auto simp: kids_def par fun_eq_iff)
  have ids: "id_raw ?h' = id_raw ?h" using n by (intro id_raw_upd) simp_all
  have names: "name_raw ?h' q = name_raw ?h q" if "q \<noteq> p" for q
    using that n by (auto simp: name_raw_def split: bind_splits)
  obtain t s1 where t: "table_shrink os (name_table ?s) ?s = (t, s1)" by fastforce
  have tok: "table_ok (name_raw ?h) (name_table s)" "members (name_table s) = {p. parent_of ?h p \<noteq> None} - insert p L"
    using ok by (simp_all add: hl_ok_def names_ok_def)
  have "table_ok (name_raw ?h') (name_table s)" by (rule table_ok_raw [OF tok(1)]) (use tok(2) names in auto)
  then have names': "names_ok ?h' L t"
    using table_shrink_ok [OF _ t, of "name_raw ?h'"] tok(2) by (auto simp: names_ok_def par)
  note only = alloc_only_hl [OF table_shrink_only [OF t]]
  have tree': "tree_ok rank ?h' L X"
  proof (rule tree_okI)
    fix q m assume q: "?h' q = Some m"
    show "node_ok rank ?h' L X q m"
    proof (cases "q = p")
      case True
      then have m: "m = ?n" using q by simp
      show ?thesis using n tree_node [OF tree n(1)] unfolding m True node_ok_def kids by simp
    next
      case False
      then show ?thesis using q tree_node [OF tree, of q m] by (auto simp: node_ok_def kids split: option.splits)
    qed
  next
    obtain r m where "?h r = Some m" "is_root (n_id m)" using tree_root [OF tree] by blast
    then show "\<exists>r n. ?h' r = Some n \<and> is_root (n_id n)" using n by (intro exI [of _ r]) auto
  next
    fix q m q' m' assume a: "?h' q = Some m" "?h' q' = Some m'" "n_id m = n_id m'"
    have old: "\<exists>k. ?h q = Some k \<and> n_id k = n_id m" if "?h' q = Some m" for q m
      using that n by (cases "q = p") auto
    show "q = q'" using old [OF a(1)] old [OF a(2)] tree_ids [OF tree, of q _ q'] a(3) by auto
  next
    fix q m q' m' r assume a: "?h' q = Some m" "?h' q' = Some m'" "q \<notin> L" "q' \<notin> L" "n_parent m = Some r" "n_parent m' = Some r"
      "n_name m = n_name m'"
    have "q \<noteq> p" "q' \<noteq> p" using a(1,2,5,6) by auto
    then show "q = q'" using a by (intro tree_keys [OF tree _ _ _ _ a(5,6,7)]) auto
  next
    show "finite (dom ?h')" unfolding dom_fun_upd using tree_finite [OF tree] by simp
  qed
  have same: "rest_same s (s1\<lparr>name_table := t\<rparr>)"
    by (rule rest_same_trans [OF rest_same_trans [OF rest_same_upd(1) only(1)] rest_same_upd(2)])
  have dom: "dom ?h' = dom ?h" using n(1) by (simp add: insert_absorb domI)
  have "hl_ok rank L X (s1\<lparr>name_table := t\<rparr>)"
  proof (rule hl_okI [OF same])
    show "lru_ok (s1\<lparr>name_table := t\<rparr>)"
      by (rule lru_ok_same [OF _ same]) (use ok only n in \<open>auto simp: hl_ok_def\<close>)
    show "pool_ok (hl_pagesize s) (get_node_size s) (dom (hl_nodes (s1\<lparr>name_table := t\<rparr>))) (brk s) (hl_pool (s1\<lparr>name_table := t\<rparr>))"
      using ok only dom by (simp add: hl_ok_def)
    show "ids_ok (hl_nodes (s1\<lparr>name_table := t\<rparr>)) (id_table (s1\<lparr>name_table := t\<rparr>))"
      using ok only dom by (simp add: hl_ok_def ids_ok_def ids)
  qed (use only tree' names' in simp_all)
  moreover have "clear_name os p s = Some (s1\<lparr>name_table := t\<rparr>)" using n t by (simp add: clear_name_def upd_node_def)
  ultimately show thesis using only same by (intro that [of "s1\<lparr>name_table := t\<rparr>"]) simp_all
qed

lemma delete_rest_ok:
  assumes ok: "hl_ok rank L X s" and n: "hl_nodes s p = Some n" "p \<notin> L" "n_parent n = None" "n_nlookup n = 0"
    and kids: "kids (hl_nodes s) L p = {}"
  obtains s' where "delete_rest os p s = Some s'" "hl_ok rank L X s'" "hl_nodes s' = (hl_nodes s)(p := None)"
    "rest_same s s'" "lru_table s' = lru_table s"
proof -
  let ?h = "hl_nodes s" and ?h' = "(hl_nodes s)(p := None)" and ?k = "id_key (n_id n)"
  have tree: "tree_ok rank ?h L X" using ok by (simp add: hl_ok_def)
  have lru: "p \<notin> set (lru_table s)" using ok n by (auto simp: hl_ok_def lru_ok_def)
  have s1: "(if lru_enabled s then remove_node_lru p s else s) = s" using lru by (simp add: remove_node_lru_def remove1_idem)
  have par: "parent_of ?h' = parent_of ?h" using n by (auto simp: parent_of_def fun_eq_iff)
  have kids': "kids ?h' L = kids ?h L" by (simp add: kids_def par fun_eq_iff)
  have no_kid: "n_parent m \<noteq> Some p" if "?h q = Some m" "q \<notin> L" for q m
    using that kids by (auto simp: kids_def parent_of_def)
  have tok: "table_ok (id_raw ?h) (id_table s)" "members (id_table s) = dom ?h" using ok by (simp_all add: hl_ok_def ids_ok_def)
  have raw: "id_raw ?h p = Some ?k" using n by (simp add: id_raw_def)
  have bucket: "p \<in> set (t_array (id_table s) (id_hash s (n_id n)))"
    using member_bucket [OF tok(1) raw] tok(2) n by (auto simp: id_hash_def)
  obtain t s2 where t: "table_shrink os (table_unlink ?k p (id_table s)) s = (t, s2)" by fastforce
  note only = alloc_only_hl [OF table_shrink_only [OF t]]
  have ids: "ids_ok ?h' t"
  proof -
    have m: "table_ok (id_raw ?h) t" "members t = dom ?h - {p}"
      using table_shrink_ok [OF _ t, of "id_raw ?h"] table_unlink_ok [OF tok(1) raw] tok(2) by simp_all
    have "table_ok (id_raw ?h') t" by (rule table_ok_raw [OF m(1)]) (simp add: m(2) id_raw_def)
    then show ?thesis using m(2) by (simp add: ids_ok_def)
  qed
  have names: "names_ok ?h' L (name_table s)"
  proof -
    have m: "table_ok (name_raw ?h) (name_table s)" "members (name_table s) = {p. parent_of ?h p \<noteq> None} - L"
      using ok by (simp_all add: hl_ok_def names_ok_def)
    have "name_raw ?h' q = name_raw ?h q" if q: "parent_of ?h q \<noteq> None" "q \<notin> L" for q
    proof -
      obtain m r where m: "?h q = Some m" "n_parent m = Some r" using q(1) by (auto simp: parent_of_def split: bind_splits)
      moreover have "r \<noteq> p" "q \<noteq> p" using no_kid [OF m(1) q(2)] m n by auto
      ultimately show ?thesis by (simp add: name_raw_def)
    qed
    then have "table_ok (name_raw ?h') (name_table s)" by (intro table_ok_raw [OF m(1)]) (auto simp: m(2))
    then show ?thesis using m(2) by (simp add: names_ok_def par)
  qed
  have tree': "tree_ok rank ?h' L X"
  proof (rule tree_okI)
    fix q m assume q: "?h' q = Some m"
    then have "?h q = Some m" "q \<noteq> p" by (auto split: if_splits)
    then show "node_ok rank ?h' L X q m"
      using tree_node [OF tree, of q m] no_kid [of q m] unfolding node_ok_def kids' by (auto split: option.splits)
  next
    obtain r m where r: "?h r = Some m" "is_root (n_id m)" using tree_root [OF tree] by blast
    then have "r \<noteq> p" using n tree_node [OF tree r(1)] by (auto simp: node_ok_def)
    with r show "\<exists>r n. ?h' r = Some n \<and> is_root (n_id n)" by auto
  next
    show "q = q'" if "?h' q = Some m" "?h' q' = Some m'" "n_id m = n_id m'" for q m q' m'
      using that tree_ids [OF tree, of q m q' m'] by (auto split: if_splits)
  next
    show "q = q'" if "?h' q = Some m" "?h' q' = Some m'" "q \<notin> L" "q' \<notin> L" "n_parent m = Some r" "n_parent m' = Some r"
      "n_name m = n_name m'" for q m q' m' r
      using that tree_keys [OF tree, of q m q' m' r] by (auto split: if_splits)
  next
    show "finite (dom ?h')" using tree_finite [OF tree] by simp
  qed
  obtain pool where pool: "free_node_mem (hl_pagesize s) p (hl_pool s) = Some pool"
    "pool_ok (hl_pagesize s) (get_node_size s) (dom ?h - {p}) (brk s) pool"
    using free_node_mem_ok [of "hl_pagesize s" "get_node_size s" "dom ?h" "brk s" "hl_pool s" p] ok n
    by (auto simp: hl_ok_def)
  let ?s = "s2\<lparr>id_table := t, hl_nodes := ?h', hl_pool := pool\<rparr>"
  have "delete_rest os p s = Some ?s"
    using n bucket t only pool(1) s1 by (simp add: delete_rest_def unhash_id_def free_node_def rest_same_def)
  moreover have same: "rest_same s ?s" using only(1) by (simp add: rest_same_def)
  moreover have "hl_ok rank L X ?s"
  proof (rule hl_okI [OF same])
    show "lru_ok ?s"
      by (rule lru_ok_same [OF _ same]) (use ok only lru in \<open>auto simp: hl_ok_def\<close>)
  qed (use ids names tree' pool(2) only in \<open>simp_all add: dom_fun_upd\<close>)
  ultimately show thesis using only(5) by (intro that [of ?s]) simp_all
qed

section \<open>Giving back a reference\<close>

lemma pinned_mono:
  assumes "pinned h L q"
    and "\<And>q n. pinned h L q \<Longrightarrow> h q = Some n \<Longrightarrow> \<exists>n'. h' q = Some n' \<and> n_nlookup n' = n_nlookup n \<and> n_parent n' = n_parent n"
    and "\<And>q. pinned h L q \<Longrightarrow> q \<notin> L \<Longrightarrow> q \<notin> L'"
  shows "pinned h' L' q"
  using assms(1)
proof induction
  case (held p n)
  then obtain n' where "h' p = Some n'" "n_nlookup n' = n_nlookup n" using assms(2) [OF pinned.held] by blast
  then show ?case using held(2) by (intro pinned.held [of _ _ n']) simp_all
next
  case (below p q)
  obtain n where n: "h p = Some n" "n_parent n = Some q" using below(3) by (auto simp: parent_of_def split: bind_splits)
  then obtain n' where "h' p = Some n'" "n_parent n' = Some q" using assms(2) [OF below(1) n(1)] by auto
  then have "parent_of h' p = Some q" by (simp add: parent_of_def)
  then show ?case by (rule pinned.below [OF below.IH assms(3) [OF below(1,2)]])
qed

lemma pinned_upd:
  assumes "h p = Some n" "n_nlookup n' = n_nlookup n" "n_parent n' = n_parent n" "pinned h L q"
  shows "pinned (h(p \<mapsto> n')) L q"
  by (rule pinned_mono [OF assms(4)]) (use assms in auto)

lemma pinned_dom: "tree_ok rank h L X \<Longrightarrow> pinned h L q \<Longrightarrow> h q \<noteq> None"
  using tree_parent(1) [of rank h L X] by (erule_tac pinnedE) (auto simp: parent_of_def split: bind_splits)

lemma not_pinned: "h p = Some n \<Longrightarrow> n_nlookup n = 0 \<Longrightarrow> kids h L p = {} \<Longrightarrow> \<not> pinned h L p"
  by (rule notI, erule pinnedE) (auto simp: kids_def)

text \<open>
  What giving back a reference to \<open>p\<close> does to the heap: other nodes change in their counters only, none drops to
  zero, and a node that is pinned is not deleted.
\<close>

definition unref_frame :: "(addr \<Rightarrow> nat) \<Rightarrow> addr set \<Rightarrow> addr \<Rightarrow> ('w, 'x) hl_scheme \<Rightarrow> ('w, 'x) hl_scheme \<Rightarrow> bool" where
  "unref_frame rank L p s s' \<longleftrightarrow> rest_same s s' \<and> lru_table s' = lru_table s \<and>
     (\<forall>q. rank p < rank q \<longrightarrow> hl_nodes s' q = hl_nodes s q) \<and>
     (\<forall>q n'. hl_nodes s' q = Some n' \<longrightarrow> (\<exists>n. hl_nodes s q = Some n \<and> n' = n\<lparr>n_refctr := n_refctr n'\<rparr> \<and>
        (n_refctr n' > 0 \<or> n_refctr n' = n_refctr n))) \<and>
     (\<forall>q. pinned (hl_nodes s) L q \<longrightarrow> hl_nodes s' q \<noteq> None)"

lemma unref_ok:
  fixes s :: "('w, 'x) hl_scheme"
  assumes "hl_ok rank L X s" "hl_nodes s p = Some n" "\<And>c. c \<in> L \<Longrightarrow> rank p < rank c" "0 < n_refctr n"
    and "\<And>q. 0 \<le> X q" "1 \<le> X p" "locks_pinned (hl_nodes s) L"
  shows "\<exists>s'. unref_node os p s = Some s' \<and> hl_ok rank L (X(p := X p - 1)) s' \<and> unref_frame rank L p s s'"
  using assms
proof (induction "rank p" arbitrary: p n s L X rule: less_induct)
  case less
  let ?n = "n\<lparr>n_refctr := n_refctr n - 1\<rparr>" and ?X = "X(p := X p - 1)"
  let ?s = "s\<lparr>hl_nodes := (hl_nodes s)(p \<mapsto> ?n)\<rparr>"
  have dec: "hl_ok rank L ?X ?s" by (rule hl_dec [OF less.prems(1,2)])
  have upd: "upd_node p (\<lambda>n. n\<lparr>n_refctr := n_refctr n - 1\<rparr>) s = Some ?s" using less.prems(2) by (simp add: upd_node_def)
  have pin: "pinned (hl_nodes ?s) L q" if "pinned (hl_nodes s) L q" for q
    using pinned_upd [of "hl_nodes s" p n ?n L q] less.prems(2) that by simp
  show ?case
  proof (cases "n_refctr n - 1 = 0")
    case False
    have "unref_node os p s = Some ?s" by (subst unref_node.simps) (use less.prems(2,4) False upd in simp)
    moreover have "unref_frame rank L p s ?s"
      using less.prems(2,4) False pinned_dom [of rank "hl_nodes s" L X] less.prems(1)
      unfolding unref_frame_def by (simp add: hl_ok_def)
    ultimately show ?thesis using dec by blast
  next
    case True
    have tree: "tree_ok rank (hl_nodes ?s) L ?X" using dec by (simp add: hl_ok_def)
    have count: "0 = (if n_nlookup n = 0 then 0 else 1) + int (card (kids (hl_nodes ?s) L p)) + ?X p"
      using tree_refctr [OF tree, of p ?n] True by simp
    then have "card (kids (hl_nodes ?s) L p) = 0" "n_nlookup n = 0" "?X p = 0" using less.prems(6) by (simp_all split: if_splits)
    then have zero: "n_nlookup n = 0" "?X p = 0" "kids (hl_nodes ?s) L p = {}" using kids_finite [OF tree, of L p] by simp_all
    have unpinned: "\<not> pinned (hl_nodes ?s) L p" by (rule not_pinned [of _ _ ?n]) (use zero in simp_all)
    have live: "hl_nodes s q \<noteq> None \<and> q \<noteq> p" if "pinned (hl_nodes s) L q" for q
      using pinned_dom [of rank "hl_nodes s" L X q] less.prems(1) that pin [OF that] unpinned by (auto simp: hl_ok_def)
    have free: "n_treelock n = 0"
      using less.prems(7,2) unpinned pin unfolding locks_pinned_def by blast
    have unref: "unref_node os p s = do {
        (parent, s) \<leftarrow> detach_name p ?s;
        s \<leftarrow> (case parent of None \<Rightarrow> Some s | Some q \<Rightarrow> Option.bind (unref_node os q s) (clear_name os p));
        delete_rest os p s }"
      by (subst unref_node.simps) (use less.prems(2,4) True upd free in simp)
    have root: "\<not> is_root (n_id n)" using tree_node [OF tree, of p ?n] zero(1) by (auto simp: node_ok_def)
    have pL: "p \<notin> L" using less.prems(3) by blast
    show ?thesis
    proof (cases "n_parent n")
      case None
      then have "n_name n = None" using tree_node [OF tree, of p ?n] pL root by (auto simp: node_ok_def)
      then have d: "detach_name p ?s = Some (None, ?s)" by (simp add: detach_name_def)
      obtain s' where s': "delete_rest os p ?s = Some s'" "hl_ok rank L ?X s'" "hl_nodes s' = (hl_nodes ?s)(p := None)"
        "rest_same ?s s'" "lru_table s' = lru_table ?s"
        by (rule delete_rest_ok [OF dec _ pL _ _ zero(3), of ?n os]) (use None zero in simp_all)
      have "unref_frame rank L p s s'"
        using s'(3,5) rest_same_trans [OF rest_same_upd(1) s'(4)] live unfolding unref_frame_def by auto
      then show ?thesis using unref d s' by auto
    next
      case (Some q)
      let ?Y = "?X(q := ?X q + 1)"
      obtain t where t: "detach_name p ?s = Some (Some q, ?s\<lparr>name_table := t\<rparr>)"
        "hl_ok rank (insert p L) ?Y (?s\<lparr>name_table := t\<rparr>)"
        by (rule detach_ok [OF dec _ pL, of ?n q]) (use Some in simp_all)
      let ?s2 = "?s\<lparr>name_table := t\<rparr>"
      have tree2: "tree_ok rank (hl_nodes ?s2) (insert p L) ?Y" using t(2) by (simp add: hl_ok_def)
      obtain m where m: "hl_nodes ?s2 q = Some m" and rq: "rank q < rank p"
        using tree_parent [OF tree, of p ?n q] pL Some by auto
      have Y: "0 \<le> ?Y r" for r using less.prems(5) [of r] less.prems(5) [of q] less.prems(6) by auto
      have "0 < n_refctr m" using tree_refctr [OF tree2 m] less.prems(5) [of q] rq by (auto split: if_splits)
      moreover have "rank q < rank c" if "c \<in> insert p L" for c using that rq less.prems(3) [of c] by auto
      moreover have "1 \<le> ?Y q" using less.prems(5) [of q] rq by auto
      moreover have "pinned (hl_nodes ?s2) (insert p L) r" if "pinned (hl_nodes s) L r" for r
        by (rule pinned_mono [OF pin [OF that]]) (use unpinned in auto)
      then have "locks_pinned (hl_nodes ?s2) (insert p L)"
        using less.prems(7,2) unfolding locks_pinned_def by (auto split: if_splits)
      ultimately obtain s3 where s3: "unref_node os q ?s2 = Some s3" "hl_ok rank (insert p L) (?Y(q := ?Y q - 1)) s3"
        "unref_frame rank (insert p L) q ?s2 s3"
        using less.hyps [OF rq t(2) m] Y by blast
      have X: "?Y(q := ?Y q - 1) = ?X" by (simp add: fun_eq_iff)
      have F: "rest_same ?s2 s3" "lru_table s3 = lru_table s" "\<And>r. rank q < rank r \<Longrightarrow> hl_nodes s3 r = hl_nodes ?s2 r"
        "\<And>r n'. hl_nodes s3 r = Some n' \<Longrightarrow> \<exists>n. hl_nodes ?s2 r = Some n \<and> n' = n\<lparr>n_refctr := n_refctr n'\<rparr> \<and>
          (n_refctr n' > 0 \<or> n_refctr n' = n_refctr n)"
        "\<And>r. pinned (hl_nodes ?s2) (insert p L) r \<Longrightarrow> hl_nodes s3 r \<noteq> None"
        using s3(3) unfolding unref_frame_def by simp_all
      have p3: "hl_nodes s3 p = Some ?n" using F(3) [OF rq] by simp
      obtain s4 where s4: "clear_name os p s3 = Some s4" "hl_ok rank L ?X s4" "rest_same s3 s4" "lru_table s4 = lru_table s3"
        "hl_nodes s4 = (hl_nodes s3)(p \<mapsto> ?n\<lparr>n_name := None, n_parent := None\<rparr>)"
        by (rule clear_ok [OF s3(2) [unfolded X] p3 pL, of os]) (use root in simp)
      have tree4: "tree_ok rank (hl_nodes s4) L ?X" using s4(2) by (simp add: hl_ok_def)
      have p4: "hl_nodes s4 p = Some (?n\<lparr>n_name := None, n_parent := None\<rparr>)" using s4(5) by simp
      have "kids (hl_nodes s4) L p = {}"
        using tree_refctr [OF tree4 p4] True zero(1,2) kids_finite [OF tree4, of L p] by simp
      then obtain s5 where s5: "delete_rest os p s4 = Some s5" "hl_ok rank L ?X s5" "hl_nodes s5 = (hl_nodes s4)(p := None)"
        "rest_same s4 s5" "lru_table s5 = lru_table s4"
        using delete_rest_ok [OF s4(2) p4 pL, of os] zero(1) by auto
      have "unref_node os p s = Some s5" using unref t(1) s3(1) s4(1) s5(1) by simp
      moreover have "unref_frame rank L p s s5"
      proof -
        have h5: "hl_nodes s5 = (hl_nodes s3)(p := None)" using s4(5) s5(3) by (simp add: fun_eq_iff)
        have h2: "hl_nodes ?s2 r = hl_nodes s r" if "r \<noteq> p" for r using that by simp
        have "rest_same s ?s2" by (simp add: rest_same_def)
        then have "rest_same s s5" by (intro rest_same_trans [OF _ s5(4)] rest_same_trans [OF _ s4(3)] rest_same_trans [OF _ F(1)])
        moreover have "hl_nodes s5 r = hl_nodes s r" if "rank p < rank r" for r
          using F(3) [of r] rq that h2 [of r] by (cases "r = p") (auto simp: h5)
        moreover have "\<exists>k. hl_nodes s r = Some k \<and> k' = k\<lparr>n_refctr := n_refctr k'\<rparr> \<and> (n_refctr k' > 0 \<or> n_refctr k' = n_refctr k)"
          if "hl_nodes s5 r = Some k'" for r k'
          using that F(4) [of r k'] h2 [of r] by (cases "r = p") (simp_all add: h5)
        moreover have "hl_nodes s5 r \<noteq> None" if r: "pinned (hl_nodes s) L r" for r
          using F(5) [of r] live [OF r] pinned_mono [OF pin [OF r], of "hl_nodes ?s2" "insert p L"] unpinned by (auto simp: h5)
        ultimately show ?thesis using F(2) s4(4) s5(5) unfolding unref_frame_def by auto
      qed
      ultimately show ?thesis using s5(2) by blast
    qed
  qed
qed

section \<open>Searching\<close>

lemma get_node_found:
  assumes ok: "hl_ok rank L X s" and n: "hl_nodes s p = Some n"
  shows "get_node_nocheck (n_id n) s = Some (Some p)" "get_node (n_id n) s = Some p"
proof -
  have tree: "tree_ok rank (hl_nodes s) L X" and tok: "table_ok (id_raw (hl_nodes s)) (id_table s)" "members (id_table s) = dom (hl_nodes s)"
    using ok by (simp_all add: hl_ok_def ids_ok_def)
  let ?P = "\<lambda>p. do { n' \<leftarrow> hl_nodes s p; Some (n_id n' = n_id n) }" and ?ps = "t_array (id_table s) (id_hash s (n_id n))"
  have "id_raw (hl_nodes s) p = Some (id_key (n_id n))" using n by (simp add: id_raw_def)
  then have p: "p \<in> set ?ps" using member_bucket [OF tok(1)] tok(2) n by (auto simp: id_hash_def)
  have live: "\<exists>m. hl_nodes s q = Some m" if "q \<in> set ?ps" for q using membersI [OF that] tok(2) by auto
  have uniq: "q = p" if "?P q = Some True" for q
    using that n tree_ids [OF tree, of q _ p n] by (auto split: bind_splits)
  have "?P q = Some False" if "q \<in> set ?ps" "q \<noteq> p" for q using live [OF that(1)] uniq [of q] that(2) by auto
  then show "get_node_nocheck (n_id n) s = Some (Some p)"
    unfolding get_node_nocheck_def by (intro chain_find_hit [OF p]) (simp_all add: n)
  then show "get_node (n_id n) s = Some p" by (simp add: get_node_def)
qed

lemma get_node_missing:
  assumes ok: "hl_ok rank L X s" and none: "\<And>p n. hl_nodes s p = Some n \<Longrightarrow> n_id n \<noteq> ino"
  shows "get_node_nocheck ino s = Some None"
proof -
  have tok: "members (id_table s) = dom (hl_nodes s)" using ok by (simp add: hl_ok_def ids_ok_def)
  let ?P = "\<lambda>p. do { n' \<leftarrow> hl_nodes s p; Some (n_id n' = ino) }" and ?ps = "t_array (id_table s) (id_hash s ino)"
  have "?P q = Some False" if q: "q \<in> set ?ps" for q
  proof -
    obtain m where "hl_nodes s q = Some m" using membersI [OF q] tok by auto
    then show ?thesis using none by simp
  qed
  then show ?thesis unfolding get_node_nocheck_def by (rule chain_find_miss)
qed

text \<open>By name: the parent is the node at \<open>q\<close>.\<close>

lemma names_bucket:
  assumes ok: "hl_ok rank L X s" and r: "r \<in> set (t_array (name_table s) i)"
  obtains n q m nm where "hl_nodes s r = Some n" "r \<notin> L" "n_parent n = Some q" "hl_nodes s q = Some m" "n_name n = Some nm"
proof -
  have tree: "tree_ok rank (hl_nodes s) L X" and tok: "members (name_table s) = {p. parent_of (hl_nodes s) p \<noteq> None} - L"
    using ok by (simp_all add: hl_ok_def names_ok_def)
  obtain n q where n: "hl_nodes s r = Some n" "n_parent n = Some q" "r \<notin> L"
    using membersI [OF r] tok by (auto simp: parent_of_def split: bind_splits)
  then show thesis using tree_parent [OF tree n(1,3,2)] that by blast
qed

lemma lookup_node_found:
  assumes ok: "hl_ok rank L X s" and n: "hl_nodes s p = Some n" "p \<notin> L" "n_parent n = Some q" "hl_nodes s q = Some m"
  shows "lookup_node (n_id m) (the (n_name n)) s = Some (Some p)"
proof -
  have tree: "tree_ok rank (hl_nodes s) L X" and tok: "table_ok (name_raw (hl_nodes s)) (name_table s)"
    "members (name_table s) = {p. parent_of (hl_nodes s) p \<noteq> None} - L" using ok by (simp_all add: hl_ok_def names_ok_def)
  obtain nm where nm: "n_name n = Some nm" using tree_parent(3) [OF tree n(1,2,3)] by blast
  let ?P = "\<lambda>p. do { n \<leftarrow> hl_nodes s p; q \<leftarrow> n_parent n; qn \<leftarrow> hl_nodes s q;
      if n_id qn = n_id m then do { nm' \<leftarrow> n_name n; Some (nm' = nm) } else Some False }"
  let ?ps = "t_array (name_table s) (name_hash s (n_id m) nm)"
  have raw: "name_raw (hl_nodes s) p = Some (name_key (n_id m) nm)" using name_raw_parent n nm by blast
  have "p \<in> members (name_table s)" using tok(2) n by (simp add: parent_of_def)
  then have p: "p \<in> set ?ps" using member_bucket [OF tok(1) raw] by (simp add: name_hash_def)
  have "?P r = Some False" if r: "r \<in> set ?ps" "r \<noteq> p" for r
  proof (rule names_bucket [OF ok r(1)])
    fix k q' m' nm' assume k: "hl_nodes s r = Some k" "r \<notin> L" "n_parent k = Some q'" "hl_nodes s q' = Some m'" "n_name k = Some nm'"
    have "nm' \<noteq> nm" if "n_id m' = n_id m"
    proof
      assume "nm' = nm"
      moreover have "q' = q" using tree_ids [OF tree k(4) n(4) that] .
      ultimately show False using tree_keys [OF tree k(1) n(1) k(2) n(2), of q] k n nm r(2) by simp
    qed
    then show ?thesis using k by simp
  qed
  then have "chain_find ?P ?ps = Some (Some p)" by (intro chain_find_hit [OF p]) (simp_all add: n nm)
  then show ?thesis by (simp add: lookup_node_def nm)
qed

lemma lookup_node_missing:
  assumes ok: "hl_ok rank L X s"
    and none: "\<And>p n q m. hl_nodes s p = Some n \<Longrightarrow> p \<notin> L \<Longrightarrow> n_parent n = Some q \<Longrightarrow> hl_nodes s q = Some m \<Longrightarrow>
      n_id m = dir \<Longrightarrow> n_name n = Some name \<Longrightarrow> False"
  shows "lookup_node dir name s = Some None"
  unfolding lookup_node_def
proof (rule chain_find_miss)
  fix r assume r: "r \<in> set (t_array (name_table s) (name_hash s dir name))"
  show "(do { n \<leftarrow> hl_nodes s r; q \<leftarrow> n_parent n; qn \<leftarrow> hl_nodes s q;
      if n_id qn = dir then do { nm \<leftarrow> n_name n; Some (nm = name) } else Some False }) = Some False"
    by (rule names_bucket [OF ok r]) (use none in auto)
qed

text \<open>What a successful search means.\<close>

lemma lookup_node_cases:
  assumes ok: "hl_ok rank L X s"
  obtains (found) p n q m where "lookup_node dir name s = Some (Some p)" "hl_nodes s p = Some n" "p \<notin> L" "n_parent n = Some q"
      "hl_nodes s q = Some m" "n_id m = dir" "n_name n = Some name"
    | (missing) "lookup_node dir name s = Some None"
      "\<And>p n q m. hl_nodes s p = Some n \<Longrightarrow> p \<notin> L \<Longrightarrow> n_parent n = Some q \<Longrightarrow> hl_nodes s q = Some m \<Longrightarrow>
        n_id m = dir \<Longrightarrow> n_name n = Some name \<Longrightarrow> False"
proof (cases "\<exists>p n q m. hl_nodes s p = Some n \<and> p \<notin> L \<and> n_parent n = Some q \<and> hl_nodes s q = Some m \<and> n_id m = dir \<and> n_name n = Some name")
  case True
  then obtain p n q m where *: "hl_nodes s p = Some n" "p \<notin> L" "n_parent n = Some q" "hl_nodes s q = Some m" "n_id m = dir"
    "n_name n = Some name" by blast
  then show thesis using lookup_node_found [OF ok *(1-4)] by (intro found [OF _ *]) simp
next
  case False
  then show thesis using lookup_node_missing [OF ok, of dir name] missing by blast
qed

section \<open>Well-formed states\<close>

lemma all_pinned:
  assumes "tree_ok rank h {} X" "\<And>q. X q = 0" "\<And>q n. h q = Some n \<Longrightarrow> 0 < n_refctr n" "h p = Some n"
  shows "pinned h {} p"
  using assms(4)
proof (induction "card {q \<in> dom h. rank p < rank q}" arbitrary: p n rule: less_induct)
  case less
  have fin: "finite {q \<in> dom h. rank r < rank q}" for r using tree_finite [OF assms(1)] by simp
  show ?case
  proof (cases "n_nlookup n = 0")
    case True
    then have "kids h {} p \<noteq> {}" using tree_refctr [OF assms(1) less.prems] assms(2,3) less.prems by force
    then obtain c m where c: "h c = Some m" "n_parent m = Some p" "parent_of h c = Some p"
      by (auto simp: kids_def parent_of_def split: bind_splits)
    have "rank p < rank c" using tree_parent(2) [OF assms(1) c(1) _ c(2)] by simp
    then have "{q \<in> dom h. rank c < rank q} \<subset> {q \<in> dom h. rank p < rank q}" using c(1) by auto
    then have "pinned h {} c" using less.hyps [OF psubset_card_mono [OF fin] c(1)] by blast
    then show ?thesis by (rule pinned.below [OF _ _ c(3)]) simp
  qed (use less.prems in \<open>auto intro: pinned.held\<close>)
qed

end
