(* ===== verification/Spec2Isabelle.thy ===== *)
theory Spec2Isabelle
  imports F3_Lowlevel_Spec Fuse_Opt_Spec Hl_Nodes_Inv
begin

text \<open>
  \<^bold>\<open>The F3 file system driver, verified.\<close>

  F3 keeps intermediate data of serverless workflows on the node that produced it. Its FUSE driver
  \<^verbatim>\<open>src/f3/fuse/f3.cc\<close> mirrors a source tree (a shared file system) and a local ID tree; files whose name
  ends in \<^verbatim>\<open>.id\<close> live in the ID tree and are fetched from other nodes on demand.

  \<^bold>\<open>Modelling.\<close> The operating system is a parameter: a record of functions over an abstract world
  (theory \<open>Posix\<close>). Every handler is a function from the driver's state to an optional new state;
  \<open>None\<close> is \<^verbatim>\<open>abort()\<close>, undefined behaviour or a loop that does not end. The trace in the state records
  system calls with their results, mutex operations and replies. Requests are served one at a time.
\<close>

end
